(* ===== verification/Prelude.thy ===== *)
theory Prelude
  imports Complex_Main "HOL-Library.AList" "HOL-Library.Word" "HOL-Library.List_Lexorder"
    "HOL-Library.Product_Lexorder" "HOL-Library.Code_Target_Nat"
begin

text \<open>
  The vocabulary every component shares. A Python \<open>str\<close> is the list of its code points
  (\<open>pystr\<close>), so that \<open>len\<close>, slicing, comparison and concatenation are those of
  Python also outside ASCII; \<open>u\<close> reads an ASCII literal. A JSON value (a JSONB column, an
  outbox payload, the claims of a token) is a \<open>json\<close>, a dict an association list in
  insertion order (\<open>jdict\<close>). A fallible call returns \<open>exn + 'a\<close>. Floats are exact
  rationals, instants are microseconds (\<open>int\<close>). \<open>pyrt\<close> collects the data of the
  interpreter that no source file fixes: the Unicode tables behind \<open>\\w\<close> and
  \<open>str.lower\<close>, and the \<open>repr\<close> of floats and containers.
\<close>

named_theorems frame_simps \<open>which parts of the state an operation leaves alone\<close>
named_theorems inv_intros \<open>operations preserve the invariants\<close>

section \<open>Python strings\<close>

type_synonym pystr = "nat list"

definition u :: "string \<Rightarrow> pystr" where
  "u s = map of_char s"

lemma u_eq_iff [simp]: "u s = u t \<longleftrightarrow> s = t"
  by (simp add: u_def inj_map_eq_map inj_on_def)

lemma u_Nil_iff [simp]: "u s = [] \<longleftrightarrow> s = []" "[] = u s \<longleftrightarrow> s = []"
  by (auto simp: u_def)

lemma length_u [simp]: "length (u s) = length s"
  by (simp add: u_def)

lemma u_append: "u (s @ t) = u s @ u t"
  by (simp add: u_def)

text \<open>\<open>str.isspace\<close> of one code point, and \<open>str.strip\<close>.\<close>

definition py_isspace :: "nat \<Rightarrow> bool" where
  "py_isspace c \<longleftrightarrow> c \<in> {9, 10, 11, 12, 13, 28, 29, 30, 31, 32, 133, 160, 5760, 8192, 8193,
     8194, 8195, 8196, 8197, 8198, 8199, 8200, 8201, 8202, 8232, 8233, 8239, 8287, 12288}"

definition lstrip_by :: "('a \<Rightarrow> bool) \<Rightarrow> 'a list \<Rightarrow> 'a list" where
  "lstrip_by p s = dropWhile p s"

definition rstrip_by :: "('a \<Rightarrow> bool) \<Rightarrow> 'a list \<Rightarrow> 'a list" where
  "rstrip_by p s = rev (dropWhile p (rev s))"

definition strip_by :: "('a \<Rightarrow> bool) \<Rightarrow> 'a list \<Rightarrow> 'a list" where
  "strip_by p s = rstrip_by p (lstrip_by p s)"

definition py_strip :: "pystr \<Rightarrow> pystr" where
  "py_strip s = strip_by py_isspace s"

text \<open>\<open>str.split()\<close> without arguments: the maximal runs of non-blanks.\<close>

fun py_split_aux :: "pystr \<Rightarrow> pystr \<Rightarrow> pystr list" where
  "py_split_aux acc [] = (if acc = [] then [] else [rev acc])"
| "py_split_aux acc (c # cs) =
     (if py_isspace c
      then (if acc = [] then py_split_aux [] cs else rev acc # py_split_aux [] cs)
      else py_split_aux (c # acc) cs)"

definition py_split :: "pystr \<Rightarrow> pystr list" where
  "py_split s = py_split_aux [] s"

text \<open>\<open>x or y\<close> and \<open>bool(x)\<close> on optional strings: None and the empty string are false.\<close>

definition truthy :: "pystr option \<Rightarrow> bool" where
  "truthy x \<longleftrightarrow> (case x of None \<Rightarrow> False | Some s \<Rightarrow> s \<noteq> [])"

definition or_empty :: "pystr option \<Rightarrow> pystr" where
  "or_empty x = (case x of None \<Rightarrow> [] | Some s \<Rightarrow> s)"

lemma truthy_simps [simp]:
  "truthy None = False" "truthy (Some s) = (s \<noteq> [])"
  "or_empty None = []" "or_empty (Some s) = s"
  by (simp_all add: truthy_def or_empty_def)

text \<open>\<open>str.replace(old, new)\<close> and \<open>str.count\<close> scan from the left without overlaps.\<close>

fun is_prefix :: "'a list \<Rightarrow> 'a list \<Rightarrow> bool" where
  "is_prefix [] ys = True"
| "is_prefix (x # xs) [] = False"
| "is_prefix (x # xs) (y # ys) = (x = y \<and> is_prefix xs ys)"

fun remove_all_aux :: "'a list \<Rightarrow> nat \<Rightarrow> 'a list \<Rightarrow> 'a list" where
  "remove_all_aux old k [] = []"
| "remove_all_aux old (Suc k) (c # cs) = remove_all_aux old k cs"
| "remove_all_aux old 0 (c # cs) =
     (if old \<noteq> [] \<and> is_prefix old (c # cs) then remove_all_aux old (length old - 1) cs
      else c # remove_all_aux old 0 cs)"

definition remove_all :: "'a list \<Rightarrow> 'a list \<Rightarrow> 'a list" where
  "remove_all old s = remove_all_aux old 0 s"

fun count_sub_aux :: "'a list \<Rightarrow> nat \<Rightarrow> 'a list \<Rightarrow> nat" where
  "count_sub_aux w k [] = 0"
| "count_sub_aux w (Suc k) (c # cs) = count_sub_aux w k cs"
| "count_sub_aux w 0 (c # cs) =
     (if w \<noteq> [] \<and> is_prefix w (c # cs) then Suc (count_sub_aux w (length w - 1) cs)
      else count_sub_aux w 0 cs)"

text \<open>Only non-empty needles occur in the source.\<close>

definition count_sub :: "'a list \<Rightarrow> 'a list \<Rightarrow> nat" where
  "count_sub s w = count_sub_aux w 0 s"

fun contains_sub :: "'a list \<Rightarrow> 'a list \<Rightarrow> bool" where
  "contains_sub w [] = (w = [])"
| "contains_sub w (c # cs) = (is_prefix w (c # cs) \<or> contains_sub w cs)"

lemma is_prefix_append: "is_prefix xs ys \<longleftrightarrow> (\<exists>zs. ys = xs @ zs)"
  by (induction xs ys rule: is_prefix.induct) auto

lemma contains_sub_append: "is_prefix w t \<Longrightarrow> contains_sub w (a @ t)"
proof (induction a)
  case Nil
  then show ?case by (cases t) (cases w; simp)+
qed simp

lemma contains_sub_split: "contains_sub w s \<Longrightarrow> \<exists>a b. s = a @ w @ b"
proof (induction s)
  case (Cons c cs)
  show ?case
  proof (cases "is_prefix w (c # cs)")
    case True
    then obtain zs where "c # cs = w @ zs" by (auto simp: is_prefix_append)
    then have "c # cs = [] @ w @ zs" by simp
    then show ?thesis by blast
  next
    case False
    with Cons obtain a b where "cs = a @ w @ b" by auto
    then have "c # cs = (c # a) @ w @ b" by simp
    then show ?thesis by blast
  qed
qed simp

lemma contains_sub_iff: "contains_sub w s \<longleftrightarrow> (\<exists>a b. s = a @ w @ b)"
  using contains_sub_split contains_sub_append [of w "w @ _"] is_prefix_append by metis

lemma count_sub_aux_0: "count_sub_aux w 0 s > 0 \<longleftrightarrow> w \<noteq> [] \<and> contains_sub w s"
  by (induction s) (auto split: if_splits)

lemma count_sub_pos: "w \<noteq> [] \<Longrightarrow> count_sub s w > 0 \<longleftrightarrow> contains_sub w s"
  by (simp add: count_sub_def count_sub_aux_0)

section \<open>Decimal digits\<close>

text \<open>The zeros of the decimal digit blocks of Unicode 15 (\<open>str.isdecimal\<close>, \<open>\\d\<close>).\<close>

definition decimal_zeros :: "nat list" where
  "decimal_zeros = [48, 1632, 1776, 1984, 2406, 2534, 2662, 2790, 2918, 3046, 3174, 3302, 3430,
     3558, 3664, 3792, 3872, 4160, 4240, 6112, 6160, 6470, 6608, 6784, 6800, 6992, 7088, 7232,
     7248, 42528, 43216, 43264, 43472, 43504, 43600, 44016, 65296, 66720, 68912, 69734, 69872,
     69942, 70096, 70384, 70736, 70864, 71248, 71360, 71472, 71904, 72016, 72784, 73040, 73120,
     73552, 92768, 92864, 93008, 120782, 120792, 120802, 120812, 120822, 123200, 123632, 124144,
     125264, 130032]"

definition digit_val :: "nat \<Rightarrow> nat option" where
  "digit_val c = (case find (\<lambda>z. z \<le> c \<and> c < z + 10) decimal_zeros of
     None \<Rightarrow> None | Some z \<Rightarrow> Some (c - z))"

definition py_isdigit :: "nat \<Rightarrow> bool" where
  "py_isdigit c \<longleftrightarrow> digit_val c \<noteq> None"

text \<open>Decimal notation, and the zero-padded form of the \<open>:0kd\<close> format.\<close>

fun dec_digits :: "nat \<Rightarrow> pystr" where
  "dec_digits n = (if n < 10 then [48 + n] else dec_digits (n div 10) @ [48 + n mod 10])"

declare dec_digits.simps [simp del]

definition zpad :: "nat \<Rightarrow> pystr \<Rightarrow> pystr" where
  "zpad k s = replicate (k - length s) 48 @ s"

definition dec_str :: "int \<Rightarrow> pystr" where
  "dec_str i = (if i < 0 then 45 # dec_digits (nat (- i)) else dec_digits (nat i))"

fun undec :: "nat \<Rightarrow> pystr \<Rightarrow> nat" where
  "undec acc [] = acc"
| "undec acc (c # cs) = undec (acc * 10 + (c - 48)) cs"

lemma undec_append: "undec acc (xs @ ys) = undec (undec acc xs) ys"
  by (induction xs arbitrary: acc) auto

lemma undec_dec_digits: "undec 0 (dec_digits n) = n"
proof (induction n rule: dec_digits.induct)
  case (1 n)
  show ?case
  proof (cases "n < 10")
    case True
    then show ?thesis by (subst dec_digits.simps) simp
  next
    case False
    with 1 have "undec 0 (dec_digits (n div 10)) = n div 10" by simp
    with False show ?thesis by (subst dec_digits.simps) (simp add: undec_append)
  qed
qed

lemma undec_replicate_zero: "undec 0 (replicate k 48 @ s) = undec 0 s"
  by (induction k) auto

lemma zpad_dec_inj: "zpad k (dec_digits m) = zpad k (dec_digits n) \<Longrightarrow> m = n"
  by (metis undec_dec_digits undec_replicate_zero zpad_def)

lemma dec_digits_inj: "dec_digits m = dec_digits n \<Longrightarrow> m = n"
  by (metis undec_dec_digits)

section \<open>Durations\<close>

type_synonym instant = int

definition us_per_second :: int where "us_per_second = 1000000"
definition us_per_hour :: int where "us_per_hour = 3600000000"
definition us_per_day :: int where "us_per_day = 86400000000"

lemmas us_units = us_per_second_def us_per_hour_def us_per_day_def

text \<open>\<open>timedelta(seconds=x)\<close>: microseconds, rounded half to even.\<close>

definition round_half_even :: "rat \<Rightarrow> int" where
  "round_half_even x =
     (let f = \<lfloor>x\<rfloor>; r = x - of_int f
      in if r < 1/2 then f else if 1/2 < r then f + 1 else if even f then f else f + 1)"

definition timedelta_us :: "rat \<Rightarrow> int" where
  "timedelta_us secs = round_half_even (secs * 1000000)"

lemma round_half_even_bounds:
  "of_int (round_half_even x) \<le> x + 1/2" "x - 1/2 \<le> of_int (round_half_even x)"
  unfolding round_half_even_def Let_def
  by (auto; linarith)+

lemma round_half_even_of_int [simp]: "round_half_even (of_int n) = n"
  by (simp add: round_half_even_def)

lemma round_half_even_mono: assumes "x \<le> y" shows "round_half_even x \<le> round_half_even y"
proof (cases "\<lfloor>x\<rfloor> = \<lfloor>y\<rfloor>")
  case True
  then show ?thesis using assms by (auto simp: round_half_even_def Let_def)
next
  case False
  then have "\<lfloor>x\<rfloor> + 1 \<le> \<lfloor>y\<rfloor>" using floor_mono [OF assms] by linarith
  moreover have "round_half_even x \<le> \<lfloor>x\<rfloor> + 1" "\<lfloor>y\<rfloor> \<le> round_half_even y"
    by (auto simp: round_half_even_def Let_def)
  ultimately show ?thesis by linarith
qed

lemma timedelta_us_mono: "x \<le> y \<Longrightarrow> timedelta_us x \<le> timedelta_us y"
  by (simp add: timedelta_us_def round_half_even_mono)

lemma timedelta_us_nonneg: "0 \<le> x \<Longrightarrow> 0 \<le> timedelta_us x"
  using round_half_even_mono [of 0 "x * 1000000"] round_half_even_of_int [of 0]
  by (simp add: timedelta_us_def)

section \<open>JSON values and dicts\<close>

datatype json =
    JNull
  | JBool bool
  | JInt int
  | JNum rat
  | JStr pystr
  | JArr "json list"
  | JObj "(pystr \<times> json) list"

type_synonym jdict = "(pystr \<times> json) list"

definition dict_get :: "jdict \<Rightarrow> pystr \<Rightarrow> json option" where
  "dict_get d k = map_of d k"

definition dict_set :: "pystr \<Rightarrow> json \<Rightarrow> jdict \<Rightarrow> jdict" where
  "dict_set k v d = AList.update k v d"

definition dict_setdefault :: "pystr \<Rightarrow> json \<Rightarrow> jdict \<Rightarrow> jdict" where
  "dict_setdefault k v d = (case dict_get d k of None \<Rightarrow> dict_set k v d | Some _ \<Rightarrow> d)"

definition dict_pop :: "pystr \<Rightarrow> jdict \<Rightarrow> jdict" where
  "dict_pop k d = AList.delete k d"

text \<open>The dict display with two unpackings: keys of the second win.\<close>

definition dict_merge :: "jdict \<Rightarrow> jdict \<Rightarrow> jdict" where
  "dict_merge d e = foldl (\<lambda>acc (k, v). dict_set k v acc) d e"

lemma dict_get_set [simp]:
  "dict_get (dict_set k v d) k' = (if k' = k then Some v else dict_get d k')"
  by (simp add: dict_get_def dict_set_def update_conv')

lemma dict_get_Nil [simp]: "dict_get [] k = None"
  by (simp add: dict_get_def)

lemma dict_get_Cons [simp]:
  "dict_get ((k, v) # d) k' = (if k' = k then Some v else dict_get d k')"
  by (simp add: dict_get_def)

lemma dict_get_setdefault [simp]:
  "dict_get (dict_setdefault k v d) k' =
     (if k' = k then Some (case dict_get d k of None \<Rightarrow> v | Some w \<Rightarrow> w) else dict_get d k')"
  by (auto simp: dict_setdefault_def split: option.splits)

lemma dict_get_pop [simp]:
  "dict_get (dict_pop k d) k' = (if k' = k then None else dict_get d k')"
  by (simp add: dict_get_def dict_pop_def delete_conv')

lemma dict_set_neq_Nil [simp]: "dict_set k v d \<noteq> []"
  by (cases d) (auto simp: dict_set_def)

definition opt_json :: "pystr option \<Rightarrow> json" where
  "opt_json x = (case x of None \<Rightarrow> JNull | Some s \<Rightarrow> JStr s)"

text \<open>Interpreter data and \<open>str()\<close> of a JSON value.\<close>

record pyrt =
  rt_is_word :: "nat \<Rightarrow> bool"
  rt_lower :: "pystr \<Rightarrow> pystr"
  rt_repr :: "json \<Rightarrow> pystr"

fun py_str :: "pyrt \<Rightarrow> json \<Rightarrow> pystr" where
  "py_str rt JNull = u ''None''"
| "py_str rt (JBool b) = (if b then u ''True'' else u ''False'')"
| "py_str rt (JInt i) = dec_str i"
| "py_str rt (JStr s) = s"
| "py_str rt j = rt_repr rt j"

section \<open>Keyed rows of a table\<close>

definition row_find :: "('r \<Rightarrow> 'k) \<Rightarrow> 'k \<Rightarrow> 'r list \<Rightarrow> 'r option" where
  "row_find key k rows = find (\<lambda>r. key r = k) rows"

definition row_put :: "('r \<Rightarrow> 'k) \<Rightarrow> 'r \<Rightarrow> 'r list \<Rightarrow> 'r list" where
  "row_put key r rows = map (\<lambda>x. if key x = key r then r else x) rows"

lemma row_find_Some: "row_find key k rows = Some r \<Longrightarrow> r \<in> set rows \<and> key r = k"
  by (auto simp: row_find_def find_Some_iff)

lemma row_find_None: "row_find key k rows = None \<longleftrightarrow> k \<notin> key ` set rows"
  by (auto simp: row_find_def find_None_iff)

lemma row_find_distinct:
  "distinct (map key rows) \<Longrightarrow> r \<in> set rows \<Longrightarrow> row_find key (key r) rows = Some r"
  by (induction rows) (auto simp: row_find_def)

lemma row_find_put:
  "row_find key k (row_put key r rows) =
     (if k = key r then (if k \<in> key ` set rows then Some r else None) else row_find key k rows)"
  by (induction rows) (auto simp: row_find_def row_put_def)

lemma row_keys_put [simp]: "map key (row_put key r rows) = map key rows"
  by (induction rows) (auto simp: row_put_def)

lemma row_find_app:
  "row_find key k (rows @ [r]) =
     (case row_find key k rows of Some x \<Rightarrow> Some x | None \<Rightarrow> if key r = k then Some r else None)"
  by (induction rows) (auto simp: row_find_def)

lemma set_row_put: "set (row_put key r rows) \<subseteq> insert r (set rows)"
  by (auto simp: row_put_def)

lemma mem_row_put:
  "x \<in> set (row_put key r rows) \<Longrightarrow> x = r \<or> (x \<in> set rows \<and> key x \<noteq> key r)"
  by (auto simp: row_put_def split: if_splits)

lemma find_app: "find P (xs @ ys) = (case find P xs of None \<Rightarrow> find P ys | Some x \<Rightarrow> Some x)"
  by (induction xs) auto

lemma filter_changed:
  "(\<And>x. x \<in> R \<Longrightarrow> \<not> P (g x)) \<Longrightarrow> filter P (map (\<lambda>x. if x \<in> R then g x else x) xs) = filter (\<lambda>x. x \<notin> R) (filter P xs)"
  by (induction xs) auto

lemma length_filter_not_in:
  assumes "distinct xs" "distinct ys" "set ys \<subseteq> set xs"
  shows "length (filter (\<lambda>x. x \<notin> set ys) xs) = length xs - length ys"
proof -
  have "length (filter (\<lambda>x. x \<notin> set ys) xs) = card (set xs - set ys)"
    using assms(1) by (simp add: distinct_card [symmetric] set_diff_eq)
  also have "\<dots> = length xs - length ys"
    using assms by (simp add: card_Diff_subset distinct_card)
  finally show ?thesis .
qed

lemma row_put_where: "row_put key (f r) rows = map (\<lambda>x. if key x = key r then f x else x) rows"
  if "distinct (map key rows)" "r \<in> set rows" "\<And>x. key (f x) = key x"
  using that unfolding row_put_def by (intro map_cong) (auto simp: distinct_map inj_on_def)

end
