(* ===== verification/Schema.thy ===== *)
theory Schema
  imports Prelude
begin

text \<open>
  The schema of the database: the tables the ORM models declare (\<open>requests/models.py\<close>,
  \<open>channels/models.py\<close>, \<open>outbox/models.py\<close>, \<open>push/models.py\<close>) and the migrations of
  \<open>alembic/versions\<close> that build them. A migration is the list of the statements it issues; a
  statement changes a catalogue of tables or is refused by it. What is compared is the type,
  nullability and server default of every column, the unique and foreign keys and the indexes;
  names of constraints and the order of the columns are not part of the contract of the models.
\<close>

section \<open>Catalogues\<close>

datatype col_type = Uuid | Varchar nat | Text_type | Jsonb | Boolean | Integer | Timestamptz | Numeric nat nat

record column =
  co_name :: string
  co_type :: col_type
  co_primary :: bool
  co_nullable :: bool
  co_default :: "string option"

record index_def =
  ix_name :: string
  ix_columns :: "string list"
  ix_unique :: bool
  ix_where :: "string option"

record foreign_key =
  fk_column :: string
  fk_table :: string
  fk_target :: string

record table =
  tb_name :: string
  tb_columns :: "column list"
  tb_uniques :: "string list list"
  tb_foreign :: "foreign_key list"
  tb_indexes :: "index_def list"

record catalogue =
  ct_tables :: "table list"
  ct_sequences :: "string list"

definition empty_catalogue :: catalogue where
  "empty_catalogue = \<lparr>ct_tables = [], ct_sequences = []\<rparr>"

definition find_table :: "string \<Rightarrow> catalogue \<Rightarrow> table option" where
  "find_table n c = find (\<lambda>t. tb_name t = n) (ct_tables c)"

definition has_column :: "table \<Rightarrow> string \<Rightarrow> bool" where
  "has_column t n \<longleftrightarrow> n \<in> set (map co_name (tb_columns t))"

section \<open>The tables of the models\<close>

definition Column :: "string \<Rightarrow> col_type \<Rightarrow> bool \<Rightarrow> string option \<Rightarrow> column" where
  "Column n ty nullable server_default = \<lparr>co_name = n, co_type = ty, co_primary = False, co_nullable = nullable,
     co_default = server_default\<rparr>"

definition uuid_pk :: column where
  "uuid_pk = \<lparr>co_name = ''id'', co_type = Uuid, co_primary = True, co_nullable = False, co_default = None\<rparr>"

definition plain_index :: "string \<Rightarrow> string list \<Rightarrow> index_def" where
  "plain_index n cs = \<lparr>ix_name = n, ix_columns = cs, ix_unique = False, ix_where = None\<rparr>"

definition unique_index :: "string \<Rightarrow> string list \<Rightarrow> index_def" where
  "unique_index n cs = \<lparr>ix_name = n, ix_columns = cs, ix_unique = True, ix_where = None\<rparr>"

definition enum_len :: nat where "enum_len = 32"

text \<open>A column with \<open>index=True\<close> gets the index \<open>ix_table_column\<close>.\<close>

definition mapped_table ::
    "string \<Rightarrow> column list \<Rightarrow> string list \<Rightarrow> string list list \<Rightarrow> foreign_key list \<Rightarrow> index_def list \<Rightarrow> table" where
  "mapped_table n cols indexed uniques foreign args = \<lparr>tb_name = n, tb_columns = cols, tb_uniques = uniques,
     tb_foreign = foreign,
     tb_indexes = map (\<lambda>c. plain_index (''ix_'' @ n @ ''_'' @ c) [c]) indexed @ args\<rparr>"

definition timestamp_mixin :: "column list" where
  "timestamp_mixin = [Column ''created_at'' Timestamptz False (Some ''now()''),
     Column ''updated_at'' Timestamptz False (Some ''now()'')]"

definition to_request :: foreign_key where
  "to_request = \<lparr>fk_column = ''request_id'', fk_table = ''service_requests'', fk_target = ''id''\<rparr>"

definition service_requests_model :: table where
  "service_requests_model = mapped_table ''service_requests''
     ([uuid_pk,
       Column ''number'' (Varchar 32) False None,
       Column ''requester_id'' (Varchar 255) False None,
       Column ''booking_id'' (Varchar 255) True None,
       Column ''premises_id'' (Varchar 255) True None,
       Column ''channel_in'' (Varchar enum_len) False None,
       Column ''source_ref'' Jsonb True None,
       Column ''raw_input'' Text_type False None,
       Column ''raw_input_masked'' Text_type False None,
       Column ''category'' (Varchar enum_len) True None,
       Column ''product_code'' (Varchar 64) True None,
       Column ''classification'' Jsonb True None,
       Column ''partner_id'' (Varchar 255) True None,
       Column ''match_trace'' Jsonb True None,
       Column ''fallback_chain'' Jsonb True None,
       Column ''delivery_channel'' (Varchar enum_len) True None,
       Column ''service_order_id'' (Varchar 255) True None,
       Column ''status'' (Varchar enum_len) False None,
       Column ''sla'' Jsonb True None,
       Column ''amount_ref'' (Varchar 255) True None,
       Column ''escrow_ref'' (Varchar 255) True None,
       Column ''dispute_id'' (Varchar 255) True None,
       Column ''claim_ref'' (Varchar 255) True None,
       Column ''rating_ref'' (Varchar 255) True None,
       Column ''custom_fields'' Jsonb False (Some ''{}''),
       Column ''access_level'' (Varchar enum_len) False None,
       Column ''idempotency_key'' (Varchar 255) True None,
       Column ''dispatched_at'' Timestamptz True None,
       Column ''accepted_at'' Timestamptz True None,
       Column ''done_at'' Timestamptz True None,
       Column ''accepted_by_user_at'' Timestamptz True None,
       Column ''paid_at'' Timestamptz True None,
       Column ''scheduled_at'' Timestamptz True None] @ timestamp_mixin)
     [''requester_id'', ''partner_id'', ''status'', ''scheduled_at'']
     [[''number'']] []
     [\<lparr>ix_name = ''uq_service_requests_idempotency_key'', ix_columns = [''idempotency_key''],
        ix_unique = True, ix_where = Some ''idempotency_key IS NOT NULL''\<rparr>,
      plain_index ''ix_service_requests_category'' [''category''],
      plain_index ''ix_service_requests_created_at'' [''created_at'']]"

definition request_estimates_model :: table where
  "request_estimates_model = mapped_table ''request_estimates''
     [uuid_pk,
      Column ''request_id'' Uuid False None,
      Column ''kind'' (Varchar 32) False None,
      Column ''amount_rub'' (Numeric 12 2) True None,
      Column ''eta_text'' (Varchar 255) True None,
      Column ''comment'' Text_type True None,
      Column ''author_id'' (Varchar 255) False None,
      Column ''created_at'' Timestamptz False (Some ''now()'')]
     [''request_id''] [] [to_request]
     [plain_index ''ix_request_estimates_request_created'' [''request_id'', ''created_at'']]"

definition request_messages_model :: table where
  "request_messages_model = mapped_table ''request_messages''
     [uuid_pk,
      Column ''request_id'' Uuid False None,
      Column ''author_type'' (Varchar enum_len) False None,
      Column ''author_id'' (Varchar 255) True None,
      Column ''is_internal'' Boolean False (Some ''false''),
      Column ''text'' Text_type False None,
      Column ''attachments'' Jsonb False (Some ''[]''),
      Column ''created_at'' Timestamptz False (Some ''now()'')]
     [''request_id''] [] [to_request] []"

definition request_history_model :: table where
  "request_history_model = mapped_table ''request_history''
     [uuid_pk,
      Column ''request_id'' Uuid False None,
      Column ''actor_id'' Uuid False None,
      Column ''action'' (Varchar enum_len) False None,
      Column ''from_value'' (Varchar 255) True None,
      Column ''to_value'' (Varchar 255) True None,
      Column ''ts'' Timestamptz False (Some ''now()'')]
     [''request_id'', ''ts''] [] [to_request] []"

definition partner_channel_configs_model :: table where
  "partner_channel_configs_model = mapped_table ''partner_channel_configs''
     ([uuid_pk,
       Column ''collaborator_id'' (Varchar 255) False None,
       Column ''channel_type'' (Varchar enum_len) False None,
       Column ''priority'' Integer False None,
       Column ''config'' Jsonb False (Some ''{}''),
       Column ''inbound_token'' (Varchar 255) True None,
       Column ''is_active'' Boolean False (Some ''true''),
       Column ''health'' Jsonb True None] @ timestamp_mixin)
     [''collaborator_id''] [[''collaborator_id'', ''channel_type'']] [] []"

definition dispatch_attempts_model :: table where
  "dispatch_attempts_model = mapped_table ''dispatch_attempts''
     [uuid_pk,
      Column ''request_id'' Uuid False None,
      Column ''channel_type'' (Varchar enum_len) False None,
      Column ''attempt_no'' Integer False None,
      Column ''status'' (Varchar enum_len) False None,
      Column ''provider_response'' Jsonb True None,
      Column ''idempotency_key'' (Varchar 255) False None,
      Column ''outbox_ref'' (Varchar 255) True None,
      Column ''ts'' Timestamptz False (Some ''now()'')]
     [''request_id'', ''ts''] [] [to_request]
     [unique_index ''uq_dispatch_attempts_idempotency_key'' [''idempotency_key'']]"

definition inbound_events_model :: table where
  "inbound_events_model = mapped_table ''inbound_events''
     [uuid_pk,
      Column ''channel_config_id'' Uuid False None,
      Column ''nonce'' (Varchar 255) False None,
      Column ''request_id'' Uuid True None,
      Column ''received_at'' Timestamptz False (Some ''now()'')]
     [] [[''channel_config_id'', ''nonce'']]
     [\<lparr>fk_column = ''channel_config_id'', fk_table = ''partner_channel_configs'', fk_target = ''id''\<rparr>] []"

definition outbox_messages_model :: table where
  "outbox_messages_model = mapped_table ''outbox_messages''
     [uuid_pk,
      Column ''kind'' (Varchar 64) False None,
      Column ''payload'' Jsonb False (Some ''{}''),
      Column ''status'' (Varchar enum_len) False None,
      Column ''attempts'' Integer False (Some ''0''),
      Column ''available_at'' Timestamptz False (Some ''now()''),
      Column ''last_error'' Text_type True None,
      Column ''created_at'' Timestamptz False (Some ''now()''),
      Column ''processed_at'' Timestamptz True None]
     [''kind'', ''status'', ''available_at''] [] [] []"

definition push_subscriptions_model :: table where
  "push_subscriptions_model = mapped_table ''push_subscriptions''
     [uuid_pk,
      Column ''owner_id'' (Varchar 255) False None,
      Column ''audience'' (Varchar 32) False None,
      Column ''endpoint'' Text_type False None,
      Column ''p256dh'' Text_type False None,
      Column ''auth'' Text_type False None,
      Column ''created_at'' Timestamptz False (Some ''now()'')]
     [''owner_id''] [] []
     [unique_index ''uq_push_subscriptions_owner_endpoint'' [''owner_id'', ''endpoint'']]"

text \<open>The metadata \<open>alembic/env.py\<close> compares with: the tables of the models it imports.\<close>

definition target_metadata :: "table list" where
  "target_metadata = [partner_channel_configs_model, dispatch_attempts_model, inbound_events_model,
     outbox_messages_model, push_subscriptions_model, service_requests_model, request_estimates_model,
     request_messages_model, request_history_model]"

section \<open>Statements\<close>

datatype ddl =
    Create_sequence string
  | Drop_sequence string
  | Create_table table
  | Drop_table string
  | Create_index string index_def
  | Drop_index string string
  | Add_column string column
  | Drop_column string string

definition refers :: "string \<Rightarrow> table \<Rightarrow> bool" where
  "refers n t \<longleftrightarrow> tb_name t \<noteq> n \<and> n \<in> set (map fk_table (tb_foreign t))"

definition foreign_ok :: "catalogue \<Rightarrow> table \<Rightarrow> foreign_key \<Rightarrow> bool" where
  "foreign_ok c t k \<longleftrightarrow> has_column t (fk_column k)
     \<and> (case find_table (fk_table k) c of None \<Rightarrow> False | Some t' \<Rightarrow> has_column t' (fk_target k))"

definition put_table :: "table \<Rightarrow> catalogue \<Rightarrow> catalogue" where
  "put_table t c = c\<lparr>ct_tables := row_put tb_name t (ct_tables c)\<rparr>"

definition index_names :: "catalogue \<Rightarrow> string list" where
  "index_names c = concat (map (\<lambda>t. map ix_name (tb_indexes t)) (ct_tables c))"

text \<open>
  What the database does with a statement, \<open>None\<close> when it refuses it: names must be new, the tables
  and columns referred to must be there, a table others refer to is not dropped, a table goes with
  its indexes and so does a column.
\<close>

fun run_ddl :: "ddl \<Rightarrow> catalogue \<Rightarrow> catalogue option" where
  "run_ddl (Create_sequence n) c =
     (if n \<in> set (ct_sequences c) then None else Some (c\<lparr>ct_sequences := ct_sequences c @ [n]\<rparr>))"
| "run_ddl (Drop_sequence n) c =
     (if n \<in> set (ct_sequences c) then Some (c\<lparr>ct_sequences := filter (\<lambda>x. x \<noteq> n) (ct_sequences c)\<rparr>) else None)"
| "run_ddl (Create_table t) c =
     (if find_table (tb_name t) c = None \<and> list_all (foreign_ok c t) (tb_foreign t)
         \<and> list_all (list_all (has_column t)) (tb_uniques t) \<and> distinct (map co_name (tb_columns t))
      then Some (c\<lparr>ct_tables := ct_tables c @ [t]\<rparr>) else None)"
| "run_ddl (Drop_table n) c =
     (if find_table n c = None \<or> list_ex (refers n) (ct_tables c) then None
      else Some (c\<lparr>ct_tables := filter (\<lambda>t. tb_name t \<noteq> n) (ct_tables c)\<rparr>))"
| "run_ddl (Create_index n ix) c = (case find_table n c of
       None \<Rightarrow> None
     | Some t \<Rightarrow> if ix_name ix \<in> set (index_names c) \<or> \<not> list_all (has_column t) (ix_columns ix) then None
         else Some (put_table (t\<lparr>tb_indexes := tb_indexes t @ [ix]\<rparr>) c))"
| "run_ddl (Drop_index i n) c = (case find_table n c of
       None \<Rightarrow> None
     | Some t \<Rightarrow> if i \<in> set (map ix_name (tb_indexes t))
         then Some (put_table (t\<lparr>tb_indexes := filter (\<lambda>x. ix_name x \<noteq> i) (tb_indexes t)\<rparr>) c) else None)"
| "run_ddl (Add_column n col) c = (case find_table n c of
       None \<Rightarrow> None
     | Some t \<Rightarrow> if has_column t (co_name col) then None
         else Some (put_table (t\<lparr>tb_columns := tb_columns t @ [col]\<rparr>) c))"
| "run_ddl (Drop_column n col) c = (case find_table n c of
       None \<Rightarrow> None
     | Some t \<Rightarrow> if has_column t col
         then Some (put_table (t\<lparr>tb_columns := filter (\<lambda>x. co_name x \<noteq> col) (tb_columns t),
                tb_indexes := filter (\<lambda>x. col \<notin> set (ix_columns x)) (tb_indexes t)\<rparr>) c) else None)"

fun run_all :: "ddl list \<Rightarrow> catalogue \<Rightarrow> catalogue option" where
  "run_all [] c = Some c"
| "run_all (s # ss) c = Option.bind (run_ddl s c) (run_all ss)"

section \<open>The migrations\<close>

record migration =
  mg_revision :: string
  mg_down_revision :: "string option"
  mg_upgrade :: "ddl list"
  mg_downgrade :: "ddl list"

definition bare_table :: "string \<Rightarrow> column list \<Rightarrow> string list list \<Rightarrow> foreign_key list \<Rightarrow> table" where
  "bare_table n cols uniques foreign = \<lparr>tb_name = n, tb_columns = cols, tb_uniques = uniques,
     tb_foreign = foreign, tb_indexes = []\<rparr>"

definition init_migration :: migration where
  "init_migration = \<lparr>mg_revision = ''20260611_120000_init'', mg_down_revision = None, mg_upgrade = [],
     mg_downgrade = []\<rparr>"

definition service_requests_upgrade :: "ddl list" where
  "service_requests_upgrade =
    [Create_sequence ''service_request_number_seq'',
     Create_table (bare_table ''service_requests''
      [uuid_pk,
       Column ''number'' (Varchar 32) False None,
       Column ''requester_id'' (Varchar 255) False None,
       Column ''booking_id'' (Varchar 255) True None,
       Column ''premises_id'' (Varchar 255) True None,
       Column ''channel_in'' (Varchar enum_len) False None,
       Column ''source_ref'' Jsonb True None,
       Column ''raw_input'' Text_type False None,
       Column ''raw_input_masked'' Text_type False None,
       Column ''category'' (Varchar enum_len) True None,
       Column ''product_code'' (Varchar 64) True None,
       Column ''classification'' Jsonb True None,
       Column ''partner_id'' (Varchar 255) True None,
       Column ''match_trace'' Jsonb True None,
       Column ''fallback_chain'' Jsonb True None,
       Column ''delivery_channel'' (Varchar enum_len) True None,
       Column ''service_order_id'' (Varchar 255) True None,
       Column ''status'' (Varchar enum_len) False None,
       Column ''sla'' Jsonb True None,
       Column ''amount_ref'' (Varchar 255) True None,
       Column ''escrow_ref'' (Varchar 255) True None,
       Column ''dispute_id'' (Varchar 255) True None,
       Column ''claim_ref'' (Varchar 255) True None,
       Column ''rating_ref'' (Varchar 255) True None,
       Column ''custom_fields'' Jsonb False (Some ''{}''),
       Column ''access_level'' (Varchar enum_len) False None,
       Column ''idempotency_key'' (Varchar 255) True None,
       Column ''dispatched_at'' Timestamptz True None,
       Column ''accepted_at'' Timestamptz True None,
       Column ''done_at'' Timestamptz True None,
       Column ''accepted_by_user_at'' Timestamptz True None,
       Column ''paid_at'' Timestamptz True None,
       Column ''created_at'' Timestamptz False (Some ''now()''),
       Column ''updated_at'' Timestamptz False (Some ''now()'')]
      [[''number'']] []),
     Create_index ''service_requests'' (plain_index ''ix_service_requests_requester_id'' [''requester_id'']),
     Create_index ''service_requests'' (plain_index ''ix_service_requests_partner_id'' [''partner_id'']),
     Create_index ''service_requests'' (plain_index ''ix_service_requests_status'' [''status'']),
     Create_index ''service_requests'' (plain_index ''ix_service_requests_category'' [''category'']),
     Create_index ''service_requests'' (plain_index ''ix_service_requests_created_at'' [''created_at'']),
     Create_index ''service_requests'' \<lparr>ix_name = ''uq_service_requests_idempotency_key'',
       ix_columns = [''idempotency_key''], ix_unique = True, ix_where = Some ''idempotency_key IS NOT NULL''\<rparr>]"

definition request_messages_upgrade :: "ddl list" where
  "request_messages_upgrade =
    [Create_table (bare_table ''request_messages''
      [uuid_pk,
       Column ''request_id'' Uuid False None,
       Column ''author_type'' (Varchar enum_len) False None,
       Column ''author_id'' (Varchar 255) True None,
       Column ''is_internal'' Boolean False (Some ''false''),
       Column ''text'' Text_type False None,
       Column ''attachments'' Jsonb False (Some ''[]''),
       Column ''created_at'' Timestamptz False (Some ''now()'')]
      [] [to_request]),
     Create_index ''request_messages'' (plain_index ''ix_request_messages_request_id'' [''request_id'']),
     Create_table (bare_table ''request_history''
      [uuid_pk,
       Column ''request_id'' Uuid False None,
       Column ''actor_id'' Uuid False None,
       Column ''action'' (Varchar enum_len) False None,
       Column ''from_value'' (Varchar 255) True None,
       Column ''to_value'' (Varchar 255) True None,
       Column ''ts'' Timestamptz False (Some ''now()'')]
      [] [to_request]),
     Create_index ''request_history'' (plain_index ''ix_request_history_request_id'' [''request_id'']),
     Create_index ''request_history'' (plain_index ''ix_request_history_ts'' [''ts''])]"

definition service_requests_migration :: migration where
  "service_requests_migration = \<lparr>mg_revision = ''20260611_133000_service_requests'',
     mg_down_revision = Some ''20260611_120000_init'',
     mg_upgrade = service_requests_upgrade @ request_messages_upgrade,
     mg_downgrade = [Drop_table ''request_history'', Drop_table ''request_messages'',
       Drop_table ''service_requests'', Drop_sequence ''service_request_number_seq'']\<rparr>"

definition channels_migration :: migration where
  "channels_migration = \<lparr>mg_revision = ''20260611_160000_channels'',
     mg_down_revision = Some ''20260611_133000_service_requests'',
     mg_upgrade =
      [Create_table (bare_table ''partner_channel_configs''
        [uuid_pk,
         Column ''collaborator_id'' (Varchar 255) False None,
         Column ''channel_type'' (Varchar enum_len) False None,
         Column ''priority'' Integer False None,
         Column ''config'' Jsonb False (Some ''{}''),
         Column ''inbound_token'' (Varchar 255) True None,
         Column ''is_active'' Boolean False (Some ''true''),
         Column ''health'' Jsonb True None,
         Column ''created_at'' Timestamptz False (Some ''now()''),
         Column ''updated_at'' Timestamptz False (Some ''now()'')]
        [[''collaborator_id'', ''channel_type'']] []),
       Create_index ''partner_channel_configs''
         (plain_index ''ix_partner_channel_configs_collaborator_id'' [''collaborator_id'']),
       Create_table (bare_table ''dispatch_attempts''
        [uuid_pk,
         Column ''request_id'' Uuid False None,
         Column ''channel_type'' (Varchar enum_len) False None,
         Column ''attempt_no'' Integer False None,
         Column ''status'' (Varchar enum_len) False None,
         Column ''provider_response'' Jsonb True None,
         Column ''idempotency_key'' (Varchar 255) False None,
         Column ''outbox_ref'' (Varchar 255) True None,
         Column ''ts'' Timestamptz False (Some ''now()'')]
        [] [to_request]),
       Create_index ''dispatch_attempts'' (plain_index ''ix_dispatch_attempts_request_id'' [''request_id'']),
       Create_index ''dispatch_attempts'' (plain_index ''ix_dispatch_attempts_ts'' [''ts'']),
       Create_index ''dispatch_attempts''
         (unique_index ''uq_dispatch_attempts_idempotency_key'' [''idempotency_key''])],
     mg_downgrade = [Drop_table ''dispatch_attempts'', Drop_table ''partner_channel_configs'']\<rparr>"

definition inbound_events_migration :: migration where
  "inbound_events_migration = \<lparr>mg_revision = ''20260611_170000_inbound_events'',
     mg_down_revision = Some ''20260611_160000_channels'',
     mg_upgrade =
      [Create_table (bare_table ''inbound_events''
        [uuid_pk,
         Column ''channel_config_id'' Uuid False None,
         Column ''nonce'' (Varchar 255) False None,
         Column ''request_id'' Uuid True None,
         Column ''received_at'' Timestamptz False (Some ''now()'')]
        [[''channel_config_id'', ''nonce'']]
        [\<lparr>fk_column = ''channel_config_id'', fk_table = ''partner_channel_configs'', fk_target = ''id''\<rparr>])],
     mg_downgrade = [Drop_table ''inbound_events'']\<rparr>"

definition outbox_migration :: migration where
  "outbox_migration = \<lparr>mg_revision = ''20260611_180000_outbox'',
     mg_down_revision = Some ''20260611_170000_inbound_events'',
     mg_upgrade =
      [Create_table (bare_table ''outbox_messages''
        [uuid_pk,
         Column ''kind'' (Varchar 64) False None,
         Column ''payload'' Jsonb False (Some ''{}''),
         Column ''status'' (Varchar 32) False None,
         Column ''attempts'' Integer False (Some ''0''),
         Column ''available_at'' Timestamptz False (Some ''now()''),
         Column ''last_error'' Text_type True None,
         Column ''created_at'' Timestamptz False (Some ''now()''),
         Column ''processed_at'' Timestamptz True None]
        [] []),
       Create_index ''outbox_messages'' (plain_index ''ix_outbox_messages_kind'' [''kind'']),
       Create_index ''outbox_messages'' (plain_index ''ix_outbox_messages_status'' [''status'']),
       Create_index ''outbox_messages'' (plain_index ''ix_outbox_messages_available_at'' [''available_at''])],
     mg_downgrade = [Drop_table ''outbox_messages'']\<rparr>"

definition push_migration :: migration where
  "push_migration = \<lparr>mg_revision = ''20260611_190000_push'',
     mg_down_revision = Some ''20260611_180000_outbox'',
     mg_upgrade =
      [Create_table (bare_table ''push_subscriptions''
        [uuid_pk,
         Column ''owner_id'' (Varchar 255) False None,
         Column ''audience'' (Varchar 32) False None,
         Column ''endpoint'' Text_type False None,
         Column ''p256dh'' Text_type False None,
         Column ''auth'' Text_type False None,
         Column ''created_at'' Timestamptz False (Some ''now()'')]
        [] []),
       Create_index ''push_subscriptions'' (plain_index ''ix_push_subscriptions_owner_id'' [''owner_id'']),
       Create_index ''push_subscriptions''
         (unique_index ''uq_push_subscriptions_owner_endpoint'' [''owner_id'', ''endpoint''])],
     mg_downgrade = [Drop_table ''push_subscriptions'']\<rparr>"

definition scheduled_at_migration :: migration where
  "scheduled_at_migration = \<lparr>mg_revision = ''20260730_120000_scheduled_at'',
     mg_down_revision = Some ''20260611_190000_push'',
     mg_upgrade =
      [Add_column ''service_requests'' (Column ''scheduled_at'' Timestamptz True None),
       Create_index ''service_requests'' (plain_index ''ix_service_requests_scheduled_at'' [''scheduled_at''])],
     mg_downgrade =
      [Drop_index ''ix_service_requests_scheduled_at'' ''service_requests'',
       Drop_column ''service_requests'' ''scheduled_at'']\<rparr>"

definition estimates_migration :: migration where
  "estimates_migration = \<lparr>mg_revision = ''20260826_130000_estimates'',
     mg_down_revision = Some ''20260730_120000_scheduled_at'',
     mg_upgrade =
      [Create_table (bare_table ''request_estimates''
        [uuid_pk,
         Column ''request_id'' Uuid False None,
         Column ''kind'' (Varchar 32) False None,
         Column ''amount_rub'' (Numeric 12 2) True None,
         Column ''eta_text'' (Varchar 255) True None,
         Column ''comment'' Text_type True None,
         Column ''author_id'' (Varchar 255) False None,
         Column ''created_at'' Timestamptz False (Some ''now()'')]
        [] [to_request]),
       Create_index ''request_estimates'' (plain_index ''ix_request_estimates_request_id'' [''request_id'']),
       Create_index ''request_estimates''
         (plain_index ''ix_request_estimates_request_created'' [''request_id'', ''created_at''])],
     mg_downgrade =
      [Drop_index ''ix_request_estimates_request_created'' ''request_estimates'',
       Drop_index ''ix_request_estimates_request_id'' ''request_estimates'',
       Drop_table ''request_estimates'']\<rparr>"

text \<open>The scripts of the directory, in no order that matters: their revisions say what follows what.\<close>

definition scripts :: "migration list" where
  "scripts = [init_migration, service_requests_migration, channels_migration, inbound_events_migration,
     outbox_migration, push_migration, scheduled_at_migration, estimates_migration]"

text \<open>The path from the base to a revision; \<open>None\<close> when a revision is missing or they go in circles.\<close>

fun revisions :: "nat \<Rightarrow> migration list \<Rightarrow> string option \<Rightarrow> migration list option" where
  "revisions n ms None = Some []"
| "revisions 0 ms (Some r) = None"
| "revisions (Suc n) ms (Some r) = (case find (\<lambda>m. mg_revision m = r) ms of
       None \<Rightarrow> None
     | Some m \<Rightarrow> map_option (\<lambda>before. before @ [m]) (revisions n ms (mg_down_revision m)))"

definition heads :: "migration list \<Rightarrow> string list" where
  "heads ms = filter (\<lambda>r. list_all (\<lambda>m. mg_down_revision m \<noteq> Some r) ms) (map mg_revision ms)"

definition upgrade :: "migration list \<Rightarrow> catalogue \<Rightarrow> catalogue option" where
  "upgrade ms c = run_all (concat (map mg_upgrade ms)) c"

definition downgrade :: "migration list \<Rightarrow> catalogue \<Rightarrow> catalogue option" where
  "downgrade ms c = run_all (concat (map mg_downgrade (rev ms))) c"

section \<open>What the migrations build\<close>

definition same_rows :: "'r list \<Rightarrow> 'r list \<Rightarrow> bool" where
  "same_rows xs ys \<longleftrightarrow> length xs = length ys \<and> list_all (\<lambda>x. x \<in> set ys) xs \<and> list_all (\<lambda>y. y \<in> set xs) ys"

definition same_table :: "table \<Rightarrow> table \<Rightarrow> bool" where
  "same_table t t' \<longleftrightarrow> tb_name t = tb_name t' \<and> same_rows (tb_columns t) (tb_columns t')
     \<and> same_rows (tb_uniques t) (tb_uniques t') \<and> same_rows (tb_foreign t) (tb_foreign t')
     \<and> same_rows (tb_indexes t) (tb_indexes t')"

lemma run_all_append: "run_all (ss @ ts) c = Option.bind (run_all ss c) (run_all ts)"
  by (induction ss arbitrary: c) (auto simp: Option.bind_assoc cong: Option.bind_cong)

lemma upgrade_append: "upgrade (ms @ ms') c = Option.bind (upgrade ms c) (upgrade ms')"
proof -
  have "upgrade ms' = run_all (concat (map mg_upgrade ms'))" by (rule ext) (simp add: upgrade_def)
  then show ?thesis by (simp add: upgrade_def run_all_append)
qed

lemma downgrade_append: "downgrade (ms @ ms') c = Option.bind (downgrade ms' c) (downgrade ms)"
proof -
  have "downgrade ms = run_all (concat (map mg_downgrade (rev ms)))" by (rule ext) (simp add: downgrade_def)
  then show ?thesis by (simp add: downgrade_def run_all_append)
qed

text \<open>Every migration of a list is accepted after the ones before it, and its downgrade takes it back.\<close>

fun retraces :: "migration list \<Rightarrow> catalogue \<Rightarrow> bool" where
  "retraces [] c = True"
| "retraces (m # ms) c = (case upgrade [m] c of
       None \<Rightarrow> False
     | Some c' \<Rightarrow> downgrade [m] c' = Some c \<and> retraces ms c')"

lemma retraces_scripts: "retraces scripts empty_catalogue"
  by code_simp

lemma retraces_append:
  "retraces (ms @ ms') c \<Longrightarrow> \<exists>c'. upgrade ms c = Some c' \<and> downgrade ms c' = Some c \<and> retraces ms' c'"
proof (induction ms arbitrary: c)
  case Nil
  then show ?case by (simp add: upgrade_def downgrade_def)
next
  case (Cons m ms)
  then obtain c1 where c1: "upgrade [m] c = Some c1" "downgrade [m] c1 = Some c" "retraces (ms @ ms') c1"
    by (auto split: option.splits)
  from Cons.IH [OF c1(3)] obtain c' where "upgrade ms c1 = Some c'" "downgrade ms c' = Some c1" "retraces ms' c'"
    by blast
  then show ?case using c1 upgrade_append [of "[m]" ms c] downgrade_append [of "[m]" ms c'] by simp
qed


text \<open>The migrations can be undone: from any revision to any later one and back, every statement is
  accepted and the catalogue is the one there was before.
\<close>

theorem migrations_undo:
  assumes "i \<le> j" "upgrade (take i scripts) empty_catalogue = Some c"
  shows "\<exists>c'. upgrade (drop i (take j scripts)) c = Some c' \<and> downgrade (drop i (take j scripts)) c' = Some c"
proof -
  have "scripts = take i scripts @ drop i (take j scripts) @ drop j scripts"
    using assms(1) by (simp add: drop_take) (metis append.assoc append_take_drop_id drop_drop le_add_diff_inverse2)
  then have "retraces (take i scripts @ drop i (take j scripts) @ drop j scripts) empty_catalogue"
    using retraces_scripts by simp
  from retraces_append [OF this] have "retraces (drop i (take j scripts) @ drop j scripts) c"
    using assms(2) by auto
  from retraces_append [OF this] show ?thesis by blast
qed

lemma migrations_undo_witness:
  "\<exists>c c'. upgrade (take 2 scripts) empty_catalogue = Some c \<and> upgrade (drop 2 scripts) c = Some c'
     \<and> downgrade (drop 2 scripts) c' = Some c"
proof -
  have "(case upgrade (take 2 scripts) empty_catalogue of None \<Rightarrow> False | Some c \<Rightarrow> True)" by code_simp
  then obtain c where c: "upgrade (take 2 scripts) empty_catalogue = Some c"
    by (cases "upgrade (take 2 scripts) empty_catalogue") simp_all
  have "take 8 scripts = scripts" by (simp add: scripts_def)
  then show ?thesis
    using migrations_undo [of 2 8 c] c by auto
qed

end
