(* ===== verification/Errors.thy ===== *)
theory Errors
  imports Prelude
begin

text \<open>
  Errors as values. \<open>problem\<close> is \<open>ProblemException\<close> of \<open>errors.py\<close> with its seven
  constructors and its rendering as \<open>application/problem+json\<close>; \<open>exn\<close> is the sum of the
  exceptions the code raises or catches, the typed errors of \<open>clients/errors.py\<close> among them.
  A fallible operation returns \<open>exn + 'a\<close>; \<open>bindE\<close> sequences two of them.
\<close>

record problem =
  pb_status :: nat
  pb_title :: pystr
  pb_type :: pystr
  pb_detail :: "pystr option"
  pb_errors :: "(pystr \<times> pystr) list list option"

definition error_base :: pystr where
  "error_base = u ''https://api.rehome.one/errors''"

definition bad_request :: "pystr option \<Rightarrow> problem" where
  "bad_request detail = \<lparr>pb_status = 400, pb_title = u ''Bad Request'',
     pb_type = error_base @ u ''/bad-request'', pb_detail = detail, pb_errors = None\<rparr>"

definition unauthorized :: "pystr option \<Rightarrow> problem" where
  "unauthorized detail = \<lparr>pb_status = 401, pb_title = u ''Unauthorized'',
     pb_type = error_base @ u ''/unauthorized'', pb_detail = detail, pb_errors = None\<rparr>"

definition forbidden :: "pystr option \<Rightarrow> problem" where
  "forbidden detail = \<lparr>pb_status = 403, pb_title = u ''Forbidden'',
     pb_type = error_base @ u ''/forbidden'', pb_detail = detail, pb_errors = None\<rparr>"

definition not_found :: "pystr option \<Rightarrow> problem" where
  "not_found detail = \<lparr>pb_status = 404, pb_title = u ''Not Found'',
     pb_type = error_base @ u ''/not-found'', pb_detail = detail, pb_errors = None\<rparr>"

definition conflict :: "pystr option \<Rightarrow> problem" where
  "conflict detail = \<lparr>pb_status = 409, pb_title = u ''Conflict'',
     pb_type = error_base @ u ''/conflict'', pb_detail = detail, pb_errors = None\<rparr>"

definition unprocessable :: "pystr option \<Rightarrow> problem" where
  "unprocessable detail = \<lparr>pb_status = 422, pb_title = u ''Unprocessable Entity'',
     pb_type = error_base @ u ''/unprocessable-entity'', pb_detail = detail, pb_errors = None\<rparr>"

definition bad_gateway :: "pystr option \<Rightarrow> problem" where
  "bad_gateway detail = \<lparr>pb_status = 502, pb_title = u ''Bad Gateway'',
     pb_type = error_base @ u ''/bad-gateway'', pb_detail = detail, pb_errors = None\<rparr>"

text \<open>\<open>render_problem\<close>: the status code and the body.\<close>

definition render_problem :: "problem \<Rightarrow> nat \<times> json" where
  "render_problem e = (pb_status e, JObj
     ([(u ''type'', JStr (pb_type e)), (u ''title'', JStr (pb_title e)),
       (u ''status'', JInt (int (pb_status e)))]
      @ (case pb_detail e of None \<Rightarrow> [] | Some d \<Rightarrow> [(u ''detail'', JStr d)])
      @ (case pb_errors e of None \<Rightarrow> []
         | Some es \<Rightarrow> [(u ''errors'', JArr (map (\<lambda>kv. JObj (map (\<lambda>(k, v). (k, JStr v)) kv)) es))])))"

record ext_error =
  ee_client :: pystr
  ee_operation :: pystr
  ee_message :: pystr
  ee_open :: bool

definition external_error :: "pystr \<Rightarrow> pystr \<Rightarrow> pystr \<Rightarrow> ext_error" where
  "external_error client operation msg = \<lparr>ee_client = client, ee_operation = operation,
     ee_message = client @ u ''.'' @ operation @ u '': '' @ msg, ee_open = False\<rparr>"

definition circuit_open_error :: "pystr \<Rightarrow> pystr \<Rightarrow> ext_error" where
  "circuit_open_error client operation =
     (external_error client operation (u ''circuit breaker is open''))\<lparr>ee_open := True\<rparr>"

datatype exn =
    Problem problem
  | ExternalServiceError ext_error
  | ValueError pystr
  | TypeError
  | KeyError
  | AttributeError
  | AssertionError
  | NotImplementedError pystr
  | MultipleResultsFound
  | IntegrityError
  | SubscriptionExpired pystr
  | OtherError pystr pystr

text \<open>\<open>str(exc)\<close>, kept by the workers as \<open>last_error\<close>; \<open>str\<close> of a problem is its title.\<close>

fun exn_str :: "exn \<Rightarrow> pystr" where
  "exn_str (Problem e) = pb_title e"
| "exn_str (ExternalServiceError e) = ee_message e"
| "exn_str (ValueError t) = t"
| "exn_str (NotImplementedError t) = t"
| "exn_str (SubscriptionExpired t) = t"
| "exn_str (OtherError n t) = t"
| "exn_str _ = []"

fun exn_name :: "exn \<Rightarrow> pystr" where
  "exn_name (Problem e) = u ''ProblemException''"
| "exn_name (ExternalServiceError e) =
     (if ee_open e then u ''CircuitOpenError'' else u ''ExternalServiceError'')"
| "exn_name (ValueError t) = u ''ValueError''"
| "exn_name TypeError = u ''TypeError''"
| "exn_name KeyError = u ''KeyError''"
| "exn_name AttributeError = u ''AttributeError''"
| "exn_name AssertionError = u ''AssertionError''"
| "exn_name (NotImplementedError t) = u ''NotImplementedError''"
| "exn_name MultipleResultsFound = u ''MultipleResultsFound''"
| "exn_name IntegrityError = u ''IntegrityError''"
| "exn_name (SubscriptionExpired t) = u ''SubscriptionExpired''"
| "exn_name (OtherError n t) = n"

text \<open>What a worker stores as \<open>last_error\<close>.\<close>

definition exn_text :: "exn \<Rightarrow> pystr" where
  "exn_text e = exn_name e @ u '': '' @ exn_str e"

definition raise_problem :: "problem \<Rightarrow> exn + 'a" where
  "raise_problem e = Inl (Problem e)"

definition bindE :: "'e + 'a \<Rightarrow> ('a \<Rightarrow> 'e + 'b) \<Rightarrow> 'e + 'b" where
  "bindE m f = (case m of Inl e \<Rightarrow> Inl e | Inr a \<Rightarrow> f a)"

lemma bindE_simps [simp]: "bindE (Inl e) f = Inl e" "bindE (Inr a) f = f a"
  by (simp_all add: bindE_def)

lemma bindE_Inr_iff: "bindE m f = Inr b \<longleftrightarrow> (\<exists>a. m = Inr a \<and> f a = Inr b)"
  by (cases m) auto

definition is_ok :: "'e + 'a \<Rightarrow> bool" where
  "is_ok m = (case m of Inl _ \<Rightarrow> False | Inr _ \<Rightarrow> True)"

lemma is_ok_simps [simp]: "is_ok (Inl e) = False" "is_ok (Inr a) = True"
  by (simp_all add: is_ok_def)

lemmas problem_defs = bad_request_def unauthorized_def forbidden_def not_found_def conflict_def
  unprocessable_def bad_gateway_def

lemma problem_status [simp]:
  "pb_status (bad_request d) = 400" "pb_status (unauthorized d) = 401"
  "pb_status (forbidden d) = 403" "pb_status (not_found d) = 404" "pb_status (conflict d) = 409"
  "pb_status (unprocessable d) = 422" "pb_status (bad_gateway d) = 502"
  by (simp_all add: problem_defs)

end
