(* ===== verification/Resilience.thy ===== *)
theory Resilience
  imports Errors Config "HOL-Library.While_Combinator"
begin

text \<open>
  What every call to a neighbour goes through (\<open>clients/circuit_breaker.py\<close>, \<open>clients/retry.py\<close>,
  \<open>clients/cache.py\<close>, \<open>clients/base.py\<close>): the breaker, the retries and the cache. Clocks are
  arguments, the remote side is an arbitrary function of the number of the attempt.
\<close>

section \<open>The breaker\<close>

datatype circuit_state = CB_CLOSED | CB_OPEN | CB_HALF_OPEN

record breaker =
  br_threshold :: int
  br_reset_timeout :: rat
  br_state :: circuit_state
  br_failures :: int
  br_opened_at :: rat
  br_half_open_in_flight :: bool

definition make_breaker :: "int \<Rightarrow> rat \<Rightarrow> exn + breaker" where
  "make_breaker failure_threshold reset_timeout =
     (if failure_threshold < 1 then Inl (ValueError (u ''failure_threshold must be >= 1''))
      else Inr \<lparr>br_threshold = failure_threshold, br_reset_timeout = reset_timeout, br_state = CB_CLOSED,
        br_failures = 0, br_opened_at = 0, br_half_open_in_flight = False\<rparr>)"

definition acquire :: "rat \<Rightarrow> breaker \<Rightarrow> bool \<times> breaker" where
  "acquire now b = (case br_state b of
       CB_OPEN \<Rightarrow>
         if now - br_opened_at b \<ge> br_reset_timeout b
         then (True, b\<lparr>br_state := CB_HALF_OPEN, br_half_open_in_flight := True\<rparr>)
         else (False, b)
     | CB_HALF_OPEN \<Rightarrow>
         if br_half_open_in_flight b then (False, b)
         else (True, b\<lparr>br_half_open_in_flight := True\<rparr>)
     | CB_CLOSED \<Rightarrow> (True, b))"

definition record_success :: "breaker \<Rightarrow> breaker" where
  "record_success b = b\<lparr>br_failures := 0, br_half_open_in_flight := False, br_state := CB_CLOSED\<rparr>"

definition record_failure :: "rat \<Rightarrow> breaker \<Rightarrow> breaker" where
  "record_failure now b =
     (let b1 = b\<lparr>br_half_open_in_flight := False\<rparr>
      in if br_state b1 = CB_HALF_OPEN then b1\<lparr>br_state := CB_OPEN, br_opened_at := now\<rparr>
         else
           (let b2 = b1\<lparr>br_failures := br_failures b1 + 1\<rparr>
            in if br_failures b2 \<ge> br_threshold b2
               then b2\<lparr>br_state := CB_OPEN, br_opened_at := now\<rparr> else b2))"

section \<open>Retries\<close>

record retry_policy =
  rp_attempts :: nat
  rp_base_delay :: rat
  rp_max_delay :: rat

definition make_retry :: "int \<Rightarrow> rat \<Rightarrow> rat \<Rightarrow> exn + retry_policy" where
  "make_retry attempts base_delay max_delay =
     (if attempts < 1 then Inl (ValueError (u ''attempts must be >= 1''))
      else Inr \<lparr>rp_attempts = nat attempts, rp_base_delay = base_delay, rp_max_delay = max_delay\<rparr>)"

definition backoff :: "retry_policy \<Rightarrow> nat \<Rightarrow> rat" where
  "backoff p attempt = min (rp_base_delay p * 2 ^ (attempt - 1)) (rp_max_delay p)"

text \<open>The loop from attempt \<open>a\<close> with \<open>k\<close> more to go; the second component are the sleeps.\<close>

fun retry_from ::
    "retry_policy \<Rightarrow> ('e \<Rightarrow> bool) \<Rightarrow> (nat \<Rightarrow> 'e + 'a) \<Rightarrow> nat \<Rightarrow> nat \<Rightarrow> ('e + 'a) \<times> rat list" where
  "retry_from p retry_on fn a 0 = (fn a, [])"
| "retry_from p retry_on fn a (Suc k) = (case fn a of
       Inr x \<Rightarrow> (Inr x, [])
     | Inl e \<Rightarrow> if retry_on e
         then (let (res, sleeps) = retry_from p retry_on fn (Suc a) k in (res, backoff p a # sleeps))
         else (Inl e, []))"

definition retry_async ::
    "retry_policy \<Rightarrow> ('e \<Rightarrow> bool) \<Rightarrow> (nat \<Rightarrow> 'e + 'a) \<Rightarrow> ('e + 'a) \<times> rat list" where
  "retry_async p retry_on fn = retry_from p retry_on fn 1 (rp_attempts p - 1)"

section \<open>The client\<close>

definition is_external :: "exn \<Rightarrow> bool" where
  "is_external x = (case x of ExternalServiceError _ \<Rightarrow> True | _ \<Rightarrow> False)"

record response =
  hr_status :: int
  hr_body :: "json option"

text \<open>A call ends in a response, a transport error, or an exception of another kind.\<close>

datatype http_failure = Transport_error pystr | Server_error int | Unexpected exn

definition failure_text :: "http_failure \<Rightarrow> pystr" where
  "failure_text f = (case f of
       Transport_error t \<Rightarrow> t | Server_error n \<Rightarrow> u ''server error '' @ dec_str n | Unexpected x \<Rightarrow> exn_str x)"

definition retryable :: "http_failure \<Rightarrow> bool" where
  "retryable f = (case f of Unexpected _ \<Rightarrow> False | _ \<Rightarrow> True)"

definition checked :: "http_failure + response \<Rightarrow> http_failure + response" where
  "checked x = (case x of Inr r \<Rightarrow> if hr_status r \<ge> 500 then Inl (Server_error (hr_status r)) else Inr r | Inl e \<Rightarrow> Inl e)"

record http_client =
  hc_name :: pystr
  hc_retry :: retry_policy

definition request_http ::
    "http_client \<Rightarrow> rat \<Rightarrow> rat \<Rightarrow> (nat \<Rightarrow> http_failure + response) \<Rightarrow> pystr \<Rightarrow> breaker
     \<Rightarrow> (exn + response) \<times> breaker" where
  "request_http c now later remote operation b =
     (let (allowed, b1) = acquire now b
      in if \<not> allowed then (Inl (ExternalServiceError (circuit_open_error (hc_name c) operation)), b1)
         else (case fst (retry_async (hc_retry c) retryable (\<lambda>n. checked (remote n))) of
             Inr r \<Rightarrow> (Inr r, record_success b1)
           | Inl (Unexpected x) \<Rightarrow> (Inl x, b1)
           | Inl f \<Rightarrow> (Inl (ExternalServiceError (external_error (hc_name c) operation (failure_text f))),
               record_failure later b1)))"

text \<open>\<open>build_resilient_client\<close>: the two parts of a client from the settings.\<close>

definition build_resilient_client :: "pystr \<Rightarrow> settings \<Rightarrow> exn + (http_client \<times> breaker)" where
  "build_resilient_client name st =
     bindE (make_breaker (st_client_breaker_failure_threshold st) (st_client_breaker_reset_timeout st)) (\<lambda>b.
     bindE (make_retry (st_client_retry_attempts st) (st_client_retry_base_delay st)
       (st_client_retry_max_delay st)) (\<lambda>p.
     Inr (\<lparr>hc_name = name, hc_retry = p\<rparr>, b)))"

section \<open>Cached reads\<close>

type_synonym mem_cache = "(pystr \<times> rat \<times> pystr) list"

definition mem_get :: "rat \<Rightarrow> pystr \<Rightarrow> mem_cache \<Rightarrow> pystr option \<times> mem_cache" where
  "mem_get now k store = (case map_of store k of
       None \<Rightarrow> (None, store)
     | Some (expires_at, v) \<Rightarrow> if now \<ge> expires_at then (None, AList.delete k store) else (Some v, store))"

definition mem_set :: "rat \<Rightarrow> pystr \<Rightarrow> pystr \<Rightarrow> int \<Rightarrow> mem_cache \<Rightarrow> mem_cache" where
  "mem_set now k v ttl_seconds store = AList.update k (now + of_int ttl_seconds, v) store"

text \<open>
  \<open>Cache\<close>: the two operations a client uses. \<open>get_json\<close> reads the cache first and stores what a
  successful response carried; the text form of JSON is a parameter.
\<close>

record 'c cache_ops =
  ca_get :: "rat \<Rightarrow> pystr \<Rightarrow> 'c \<Rightarrow> pystr option \<times> 'c"
  ca_set :: "rat \<Rightarrow> pystr \<Rightarrow> pystr \<Rightarrow> int \<Rightarrow> 'c \<Rightarrow> 'c"

record json_text =
  jt_loads :: "pystr \<Rightarrow> exn + json"
  jt_dumps :: "json \<Rightarrow> pystr"

definition response_json :: "response \<Rightarrow> exn + json" where
  "response_json r = (case hr_body r of
       None \<Rightarrow> Inl (ValueError (u ''malformed JSON'')) | Some j \<Rightarrow> Inr j)"

definition get_json ::
    "json_text \<Rightarrow> 'c cache_ops \<Rightarrow> (breaker \<Rightarrow> (exn + response) \<times> breaker) \<Rightarrow> rat
     \<Rightarrow> (pystr \<times> int option) option \<Rightarrow> breaker \<Rightarrow> 'c \<Rightarrow> (exn + json) \<times> breaker \<times> 'c" where
  "get_json jt ops call now key b c =
     (let (cached, c1) = (case key of None \<Rightarrow> (None, c) | Some (k, _) \<Rightarrow> ca_get ops now k c)
      in case cached of
           Some text \<Rightarrow> (jt_loads jt text, b, c1)
         | None \<Rightarrow> (case call b of
             (Inl x, b1) \<Rightarrow> (Inl x, b1, c1)
           | (Inr r, b1) \<Rightarrow> (case response_json r of
               Inl x \<Rightarrow> (Inl x, b1, c1)
             | Inr payload \<Rightarrow> (Inr payload, b1,
                 (case key of
                    Some (k, ttl) \<Rightarrow> if hr_status r < 300
                      then ca_set ops now k (jt_dumps jt payload) (case ttl of None \<Rightarrow> 60 | Some t \<Rightarrow> t) c1
                      else c1
                  | None \<Rightarrow> c1)))))"

section \<open>The breaker as a state machine\<close>

datatype breaker_event = Ev_acquire rat | Ev_success | Ev_failure rat

fun breaker_step :: "breaker_event \<Rightarrow> breaker \<Rightarrow> breaker" where
  "breaker_step (Ev_acquire t) b = snd (acquire t b)"
| "breaker_step Ev_success b = record_success b"
| "breaker_step (Ev_failure t) b = record_failure t b"

inductive breaker_reachable :: "int \<Rightarrow> rat \<Rightarrow> breaker \<Rightarrow> bool" for n w where
  start: "make_breaker n w = Inr b \<Longrightarrow> breaker_reachable n w b"
| step: "breaker_reachable n w b \<Longrightarrow> breaker_reachable n w (breaker_step ev b)"

inductive_cases breaker_reachableE: "breaker_reachable n w b"

definition wf_breaker :: "breaker \<Rightarrow> bool" where
  "wf_breaker b \<longleftrightarrow> 1 \<le> br_threshold b \<and> 0 \<le> br_failures b
     \<and> (br_state b = CB_HALF_OPEN \<longleftrightarrow> br_half_open_in_flight b)
     \<and> (br_state b = CB_CLOSED \<longrightarrow> br_failures b < br_threshold b)"

lemmas breaker_defs = acquire_def record_success_def record_failure_def

lemma wf_breaker_step: "wf_breaker b \<Longrightarrow> wf_breaker (breaker_step ev b)"
  by (cases ev; cases "br_state b") (auto simp: wf_breaker_def breaker_defs Let_def)

text \<open>Whatever the callers do in which order: a half-open breaker always has exactly its one probe
  in flight, and a closed one has seen fewer failures in a row than the threshold.
\<close>

theorem breaker_invariant:
  assumes "breaker_reachable n w b"
  shows "(br_state b = CB_HALF_OPEN \<longleftrightarrow> br_half_open_in_flight b)
    \<and> (br_state b = CB_CLOSED \<longrightarrow> br_failures b < n) \<and> br_threshold b = n \<and> br_reset_timeout b = w"
proof -
  have "wf_breaker b \<and> br_threshold b = n \<and> br_reset_timeout b = w"
    using assms
  proof induction
    case (start b)
    then show ?case by (auto simp: make_breaker_def wf_breaker_def split: if_splits)
  next
    case (step b ev)
    then have "br_threshold (breaker_step ev b) = n" "br_reset_timeout (breaker_step ev b) = w"
      by (cases ev; cases "br_state b"; simp add: breaker_defs Let_def)+
    then show ?case using step wf_breaker_step by blast
  qed
  then show ?thesis by (auto simp: wf_breaker_def)
qed

definition demo_breaker :: breaker where
  "demo_breaker = \<lparr>br_threshold = 1, br_reset_timeout = 30, br_state = CB_CLOSED, br_failures = 0,
     br_opened_at = 0, br_half_open_in_flight = False\<rparr>"

lemma demo_reachable: "breaker_reachable 1 30 demo_breaker"
  by (rule breaker_reachable.start) (simp add: make_breaker_def demo_breaker_def)

definition demo_probing :: breaker where
  "demo_probing = breaker_step (Ev_acquire 40) (breaker_step (Ev_failure 5) demo_breaker)"

lemma demo_probing_reachable: "breaker_reachable 1 30 demo_probing"
  unfolding demo_probing_def by (intro breaker_reachable.step demo_reachable)

lemma breaker_invariant_witness: "br_state demo_probing = CB_HALF_OPEN \<and> br_half_open_in_flight demo_probing"
proof -
  have "br_state demo_probing = CB_HALF_OPEN" by code_simp
  with breaker_invariant [OF demo_probing_reachable] show ?thesis by simp
qed

text \<open>An open breaker refuses until the reset timeout is over, then admits one caller, and nobody
  else, whenever they ask, while the outcome of that probe is unknown.
\<close>

theorem breaker_single_probe:
  assumes "br_state b = CB_OPEN"
  shows "fst (acquire t b) = (br_reset_timeout b \<le> t - br_opened_at b)
    \<and> (fst (acquire t b) \<longrightarrow> (\<forall>t'. acquire t' (snd (acquire t b)) = (False, snd (acquire t b))))"
  using assms by (simp add: acquire_def)

definition demo_open :: breaker where
  "demo_open = breaker_step (Ev_failure 5) demo_breaker"

lemma demo_open_state: "br_state demo_open = CB_OPEN"
  by code_simp

lemma breaker_single_probe_witness:
  "fst (acquire 20 demo_open) = False \<and> fst (acquire 36 demo_open)
   \<and> acquire 1000 (snd (acquire 36 demo_open)) = (False, snd (acquire 36 demo_open))"
proof -
  have "br_reset_timeout demo_open = 30" "br_opened_at demo_open = 5" by code_simp+
  then show ?thesis
    using breaker_single_probe [OF demo_open_state, of 20] breaker_single_probe [OF demo_open_state, of 36]
    by simp
qed

section \<open>Retries: what the loop computes\<close>

definition decisive :: "('e \<Rightarrow> bool) \<Rightarrow> 'e + 'a \<Rightarrow> bool" where
  "decisive retry_on r = (case r of Inr _ \<Rightarrow> True | Inl e \<Rightarrow> \<not> retry_on e)"

definition last_attempt :: "('e \<Rightarrow> bool) \<Rightarrow> (nat \<Rightarrow> 'e + 'a) \<Rightarrow> nat \<Rightarrow> nat \<Rightarrow> nat" where
  "last_attempt retry_on fn a n = hd (filter (\<lambda>i. decisive retry_on (fn i)) [a..<n] @ [n])"

lemma last_attempt_Suc:
  "a < n \<Longrightarrow> last_attempt retry_on fn a n =
     (if decisive retry_on (fn a) then a else last_attempt retry_on fn (Suc a) n)"
  by (simp add: last_attempt_def upt_conv_Cons)

lemma last_attempt_ge: "a \<le> n \<Longrightarrow> a \<le> last_attempt retry_on fn a n \<and> last_attempt retry_on fn a n \<le> n"
proof -
  let ?xs = "filter (\<lambda>i. decisive retry_on (fn i)) [a..<n]"
  have "?xs \<noteq> [] \<Longrightarrow> hd ?xs \<in> set [a..<n]"
    using hd_in_set [of ?xs] filter_is_subset [of _ "[a..<n]"] by blast
  then show "a \<le> n \<Longrightarrow> ?thesis"
    by (cases "?xs = []") (auto simp: last_attempt_def)
qed

lemma retry_from_eq:
  "retry_from p retry_on fn a k =
     (fn (last_attempt retry_on fn a (a + k)),
      map (backoff p) [a..<last_attempt retry_on fn a (a + k)])"
proof (induction k arbitrary: a)
  case 0
  then show ?case by (simp add: last_attempt_def)
next
  case (Suc k)
  have "Suc a \<le> last_attempt retry_on fn (Suc a) (Suc (a + k))"
    using last_attempt_ge [of "Suc a" "Suc (a + k)" retry_on fn] by simp
  then show ?case
    by (auto simp: Suc.IH last_attempt_Suc decisive_def upt_conv_Cons split: sum.splits)
qed

text \<open>C32. The retry loop is the first decisive attempt: it returns the outcome of the first attempt that
  succeeded or failed for good, or that of the last one allowed, after sleeping once, at most the
  maximal delay, before each attempt but the first.
\<close>

theorem retry_is_first_decisive:
  assumes "make_retry attempts base cap = Inr p"
  shows "retry_async p retry_on fn =
      (let m = last_attempt retry_on fn 1 (nat attempts) in (fn m, map (backoff p) [1..<m]))
    \<and> length (snd (retry_async p retry_on fn)) < nat attempts
    \<and> Ball (set (snd (retry_async p retry_on fn))) (\<lambda>s. s \<le> cap)"
proof -
  have p: "1 \<le> attempts" "p = \<lparr>rp_attempts = nat attempts, rp_base_delay = base, rp_max_delay = cap\<rparr>"
    using assms by (auto simp: make_retry_def split: if_splits)
  have m: "last_attempt retry_on fn 1 (nat attempts) \<le> nat attempts"
    using last_attempt_ge [of 1 "nat attempts" retry_on fn] p by simp
  show ?thesis
    using p m by (auto simp: retry_async_def retry_from_eq backoff_def Let_def)
qed

definition demo_retry :: retry_policy where
  "demo_retry = \<lparr>rp_attempts = 3, rp_base_delay = 1, rp_max_delay = 5\<rparr>"

definition third_time :: "nat \<Rightarrow> http_failure + response" where
  "third_time n = (if n < 3 then Inl (Server_error 503) else Inr \<lparr>hr_status = 200, hr_body = None\<rparr>)"

lemma retry_is_first_decisive_witness:
  "retry_async demo_retry retryable third_time = (Inr \<lparr>hr_status = 200, hr_body = None\<rparr>, [1, 2])"
proof -
  have "make_retry 3 1 5 = Inr demo_retry" by (simp add: make_retry_def demo_retry_def)
  from retry_is_first_decisive [OF this, of retryable third_time]
  have "retry_async demo_retry retryable third_time =
      (let m = last_attempt retryable third_time 1 3 in (third_time m, map (backoff demo_retry) [1..<m]))"
    by simp
  also have "\<dots> = (Inr \<lparr>hr_status = 200, hr_body = None\<rparr>, [1, 2])" by code_simp
  finally show ?thesis .
qed

text \<open>A probe that ends in an exception of another kind than a transport error or a 5xx leaves the
  breaker half open with its probe slot taken: from then on every call is refused, at any time.
\<close>

theorem probe_exception_sticks:
  assumes "br_state b = CB_OPEN" "br_reset_timeout b \<le> now - br_opened_at b"
    and "remote 1 = Inl (Unexpected x)"
  shows "fst (request_http c now later remote op b) = Inl x
    \<and> (\<forall>t t' r op'. request_http c t t' r op' (snd (request_http c now later remote op b)) =
         (Inl (ExternalServiceError (circuit_open_error (hc_name c) op')),
          snd (request_http c now later remote op b)))"
proof -
  let ?fn = "\<lambda>n. checked (remote n)"
  have x: "?fn 1 = Inl (Unexpected x)" using assms(3) by (simp add: checked_def)
  have "fst (retry_async (hc_retry c) retryable ?fn) = Inl (Unexpected x)"
    using x by (cases "rp_attempts (hc_retry c) - 1") (simp_all add: retry_async_def retryable_def)
  moreover have "acquire now b = (True, b\<lparr>br_state := CB_HALF_OPEN, br_half_open_in_flight := True\<rparr>)"
    using assms by (simp add: acquire_def)
  ultimately have "request_http c now later remote op b =
      (Inl x, b\<lparr>br_state := CB_HALF_OPEN, br_half_open_in_flight := True\<rparr>)"
    by (simp add: request_http_def)
  then show ?thesis by (simp add: request_http_def acquire_def)
qed

definition demo_http :: http_client where
  "demo_http = \<lparr>hc_name = u ''rehome'', hc_retry = demo_retry\<rparr>"

lemma probe_exception_sticks_witness:
  "fst (request_http demo_http 40 41 (\<lambda>_. Inl (Unexpected TypeError)) (u ''get'') demo_open) = Inl TypeError
   \<and> fst (request_http demo_http 9000 9001 third_time (u ''get'')
       (snd (request_http demo_http 40 41 (\<lambda>_. Inl (Unexpected TypeError)) (u ''get'') demo_open)))
     = Inl (ExternalServiceError (circuit_open_error (u ''rehome'') (u ''get'')))"
proof -
  have "br_reset_timeout demo_open \<le> 40 - br_opened_at demo_open" by code_simp
  from probe_exception_sticks [OF demo_open_state this,
      where remote = "\<lambda>_. Inl (Unexpected TypeError)" and x = TypeError and c = demo_http
        and later = 41 and op = "u ''get''"]
  show ?thesis by (simp add: demo_http_def)
qed

section \<open>The contract of a cache\<close>

text \<open>
  What \<open>get_json\<close> relies on: within its time to live, a value that was set is what a read
  returns, and reading it changes nothing.
\<close>

locale read_cache =
  fixes get :: "rat \<Rightarrow> pystr \<Rightarrow> 'c \<Rightarrow> pystr option \<times> 'c"
    and set :: "rat \<Rightarrow> pystr \<Rightarrow> pystr \<Rightarrow> int \<Rightarrow> 'c \<Rightarrow> 'c"
  assumes get_set: "t' < t + of_int ttl \<Longrightarrow> get t' k (set t k v ttl c) = (Some v, set t k v ttl c)"
    and get_other: "k' \<noteq> k \<Longrightarrow> fst (get t' k' (set t k v ttl c)) = fst (get t' k' c)"
begin

definition ops :: "'c cache_ops" where
  "ops = \<lparr>ca_get = get, ca_set = set\<rparr>"

lemma second_read:
  assumes "get_json jt ops call now (Some (k, Some ttl)) b c = (Inr payload, b1, c1)"
    and "fst (get now k c) = None" "\<And>r b'. call b = (Inr r, b') \<Longrightarrow> hr_status r < 300"
    and "jt_loads jt (jt_dumps jt payload) = Inr payload" "now' < now + of_int ttl"
  shows "get_json jt ops call' now' (Some (k, Some ttl)) b2 c1 = (Inr payload, b2, c1)"
proof -
  obtain c0 where c0: "get now k c = (None, c0)" using assms(2) by (metis prod.collapse)
  have "c1 = set now k (jt_dumps jt payload) ttl c0"
    using assms(1,3) c0
    by (auto simp: get_json_def ops_def split: sum.splits prod.splits if_splits)
  then show ?thesis
    using get_set [OF assms(5)] assms(4) by (simp add: get_json_def ops_def)
qed

end

lemma map_of_update: "map_of (AList.update k v xs) k' = (if k' = k then Some v else map_of xs k')"
  by (simp add: update_conv')

interpretation mem: read_cache mem_get mem_set
proof unfold_locales
  fix t t' :: rat and k v ttl and c :: mem_cache
  assume "t' < t + of_int ttl"
  then show "mem_get t' k (mem_set t k v ttl c) = (Some v, mem_set t k v ttl c)"
    by (simp add: mem_get_def mem_set_def map_of_update)
next
  fix t t' :: rat and k k' v :: pystr and ttl and c :: mem_cache
  assume "k' \<noteq> k"
  then show "fst (mem_get t' k' (mem_set t k v ttl c)) = fst (mem_get t' k' c)"
    by (simp add: mem_get_def mem_set_def map_of_update split: option.splits prod.splits)
qed

definition mem_ops :: "mem_cache cache_ops" where
  "mem_ops = \<lparr>ca_get = mem_get, ca_set = mem_set\<rparr>"

lemma mem_ops_eq: "mem.ops = mem_ops"
  by (simp add: mem.ops_def mem_ops_def)

text \<open>A cached read spares the neighbour: after a successful read of a key, a second one before its
  time to live is over returns the same value whatever the neighbour would answer, without touching
  the breaker.
\<close>

theorem cached_read_spares_neighbour:
  assumes "get_json jt mem_ops call now (Some (k, Some ttl)) b c = (Inr payload, b1, c1)"
    and "fst (mem_get now k c) = None" "\<And>r b'. call b = (Inr r, b') \<Longrightarrow> hr_status r < 300"
    and "jt_loads jt (jt_dumps jt payload) = Inr payload" "now' < now + of_int ttl"
  shows "get_json jt mem_ops call' now' (Some (k, Some ttl)) b2 c1 = (Inr payload, b2, c1)"
  using mem.second_read [unfolded mem_ops_eq, OF assms] .

definition demo_jt :: json_text where
  "demo_jt = \<lparr>jt_loads = (\<lambda>s. if s = u ''true'' then Inr (JBool True) else Inl (ValueError [])),
     jt_dumps = (\<lambda>_. u ''true'')\<rparr>"

definition ok_call :: "breaker \<Rightarrow> (exn + response) \<times> breaker" where
  "ok_call b = (Inr \<lparr>hr_status = 200, hr_body = Some (JBool True)\<rparr>, b)"

lemma cached_read_spares_neighbour_witness:
  "get_json demo_jt mem_ops (\<lambda>b. (Inl TypeError, b)) 59 (Some (u ''k'', Some 60)) demo_open
     (snd (snd (get_json demo_jt mem_ops ok_call 0 (Some (u ''k'', Some 60)) demo_breaker [])))
   = (Inr (JBool True), demo_open, snd (snd (get_json demo_jt mem_ops ok_call 0 (Some (u ''k'', Some 60)) demo_breaker [])))"
proof -
  let ?r = "get_json demo_jt mem_ops ok_call 0 (Some (u ''k'', Some 60)) demo_breaker []"
  have r: "?r = (Inr (JBool True), demo_breaker, snd (snd ?r))"
    by (simp add: get_json_def mem_ops_def mem_get_def ok_call_def response_json_def)
  show ?thesis
    by (rule cached_read_spares_neighbour [OF r]) (auto simp: mem_get_def ok_call_def demo_jt_def)
qed

end
