(* ===== verification/Enums.thy ===== *)
theory Enums
  imports Prelude
begin

text \<open>
  The domain enumerations of \<open>requests/enums.py\<close>, one \<open>datatype\<close> per Python class,
  the constructor prefixed with a letter of its class. The members are \<open>(str, Enum)\<close>:
  \<open>status_value\<close>, \<open>category_value\<close>, ... are the \<open>.value\<close> that the database, the API and
  the outbox payloads carry, \<open>status_of_value\<close>, ... the call \<open>RequestStatus(text)\<close>, which
  raises \<open>ValueError\<close> (\<open>None\<close>) on an unknown text.
\<close>

datatype request_status =
    S_NEW
  | S_CLASSIFYING
  | S_CLASSIFIED
  | S_NEEDS_REVIEW
  | S_MATCHING
  | S_ASSIGNED
  | S_DISPATCHED
  | S_FAILED_DISPATCH
  | S_ACCEPTED
  | S_IN_PROGRESS
  | S_DONE
  | S_ACCEPTED_BY_USER
  | S_DISPUTE
  | S_PAID
  | S_CANCELLED
  | S_REJECTED

fun status_value :: "request_status \<Rightarrow> pystr" where
  "status_value S_NEW = u ''NEW''"
| "status_value S_CLASSIFYING = u ''CLASSIFYING''"
| "status_value S_CLASSIFIED = u ''CLASSIFIED''"
| "status_value S_NEEDS_REVIEW = u ''NEEDS_REVIEW''"
| "status_value S_MATCHING = u ''MATCHING''"
| "status_value S_ASSIGNED = u ''ASSIGNED''"
| "status_value S_DISPATCHED = u ''DISPATCHED''"
| "status_value S_FAILED_DISPATCH = u ''FAILED_DISPATCH''"
| "status_value S_ACCEPTED = u ''ACCEPTED''"
| "status_value S_IN_PROGRESS = u ''IN_PROGRESS''"
| "status_value S_DONE = u ''DONE''"
| "status_value S_ACCEPTED_BY_USER = u ''ACCEPTED_BY_USER''"
| "status_value S_DISPUTE = u ''DISPUTE''"
| "status_value S_PAID = u ''PAID''"
| "status_value S_CANCELLED = u ''CANCELLED''"
| "status_value S_REJECTED = u ''REJECTED''"

definition status_members :: "request_status list" where
  "status_members = [S_NEW, S_CLASSIFYING, S_CLASSIFIED, S_NEEDS_REVIEW, S_MATCHING, S_ASSIGNED, S_DISPATCHED, S_FAILED_DISPATCH, S_ACCEPTED, S_IN_PROGRESS, S_DONE, S_ACCEPTED_BY_USER, S_DISPUTE, S_PAID, S_CANCELLED, S_REJECTED]"

definition status_of_value :: "pystr \<Rightarrow> request_status option" where
  "status_of_value t = find (\<lambda>m. status_value m = t) status_members"

lemma status_members_all: "m \<in> set status_members"
  by (cases m) (simp_all add: status_members_def)

lemma status_of_value_value [simp]: "status_of_value (status_value m) = Some m"
  by (cases m) (simp_all add: status_of_value_def status_members_def)

lemma status_value_inject [simp]: "status_value a = status_value b \<longleftrightarrow> a = b"
  by (metis status_of_value_value option.inject)

datatype channel_in =
    In_WEB_FORM
  | In_AI_CHAT
  | In_SUPPORT_TICKET
  | In_API
  | In_MESSENGER_INBOUND

fun channel_in_value :: "channel_in \<Rightarrow> pystr" where
  "channel_in_value In_WEB_FORM = u ''WEB_FORM''"
| "channel_in_value In_AI_CHAT = u ''AI_CHAT''"
| "channel_in_value In_SUPPORT_TICKET = u ''SUPPORT_TICKET''"
| "channel_in_value In_API = u ''API''"
| "channel_in_value In_MESSENGER_INBOUND = u ''MESSENGER_INBOUND''"

definition channel_in_members :: "channel_in list" where
  "channel_in_members = [In_WEB_FORM, In_AI_CHAT, In_SUPPORT_TICKET, In_API, In_MESSENGER_INBOUND]"

definition channel_in_of_value :: "pystr \<Rightarrow> channel_in option" where
  "channel_in_of_value t = find (\<lambda>m. channel_in_value m = t) channel_in_members"

lemma channel_in_members_all: "m \<in> set channel_in_members"
  by (cases m) (simp_all add: channel_in_members_def)

lemma channel_in_of_value_value [simp]: "channel_in_of_value (channel_in_value m) = Some m"
  by (cases m) (simp_all add: channel_in_of_value_def channel_in_members_def)

lemma channel_in_value_inject [simp]: "channel_in_value a = channel_in_value b \<longleftrightarrow> a = b"
  by (metis channel_in_of_value_value option.inject)

datatype category =
    C_CLEANING
  | C_MOVING
  | C_REPAIR
  | C_KEY_DELIVERY
  | C_OTHER

fun category_value :: "category \<Rightarrow> pystr" where
  "category_value C_CLEANING = u ''CLEANING''"
| "category_value C_MOVING = u ''MOVING''"
| "category_value C_REPAIR = u ''REPAIR''"
| "category_value C_KEY_DELIVERY = u ''KEY_DELIVERY''"
| "category_value C_OTHER = u ''OTHER''"

definition category_members :: "category list" where
  "category_members = [C_CLEANING, C_MOVING, C_REPAIR, C_KEY_DELIVERY, C_OTHER]"

definition category_of_value :: "pystr \<Rightarrow> category option" where
  "category_of_value t = find (\<lambda>m. category_value m = t) category_members"

lemma category_members_all: "m \<in> set category_members"
  by (cases m) (simp_all add: category_members_def)

lemma category_of_value_value [simp]: "category_of_value (category_value m) = Some m"
  by (cases m) (simp_all add: category_of_value_def category_members_def)

lemma category_value_inject [simp]: "category_value a = category_value b \<longleftrightarrow> a = b"
  by (metis category_of_value_value option.inject)

datatype access_level =
    L_PUBLIC
  | L_LOGGED
  | L_AGENT
  | L_STAFF
  | L_LEGAL
  | L_HR_RESTRICTED

fun access_level_value :: "access_level \<Rightarrow> pystr" where
  "access_level_value L_PUBLIC = u ''PUBLIC''"
| "access_level_value L_LOGGED = u ''LOGGED''"
| "access_level_value L_AGENT = u ''AGENT''"
| "access_level_value L_STAFF = u ''STAFF''"
| "access_level_value L_LEGAL = u ''LEGAL''"
| "access_level_value L_HR_RESTRICTED = u ''HR_RESTRICTED''"

definition access_level_members :: "access_level list" where
  "access_level_members = [L_PUBLIC, L_LOGGED, L_AGENT, L_STAFF, L_LEGAL, L_HR_RESTRICTED]"

definition access_level_of_value :: "pystr \<Rightarrow> access_level option" where
  "access_level_of_value t = find (\<lambda>m. access_level_value m = t) access_level_members"

lemma access_level_members_all: "m \<in> set access_level_members"
  by (cases m) (simp_all add: access_level_members_def)

lemma access_level_of_value_value [simp]: "access_level_of_value (access_level_value m) = Some m"
  by (cases m) (simp_all add: access_level_of_value_def access_level_members_def)

lemma access_level_value_inject [simp]: "access_level_value a = access_level_value b \<longleftrightarrow> a = b"
  by (metis access_level_of_value_value option.inject)

datatype author_type =
    A_REQUESTER
  | A_OPERATOR
  | A_PARTNER
  | A_SYSTEM
  | A_AI

fun author_type_value :: "author_type \<Rightarrow> pystr" where
  "author_type_value A_REQUESTER = u ''REQUESTER''"
| "author_type_value A_OPERATOR = u ''OPERATOR''"
| "author_type_value A_PARTNER = u ''PARTNER''"
| "author_type_value A_SYSTEM = u ''SYSTEM''"
| "author_type_value A_AI = u ''AI''"

definition author_type_members :: "author_type list" where
  "author_type_members = [A_REQUESTER, A_OPERATOR, A_PARTNER, A_SYSTEM, A_AI]"

definition author_type_of_value :: "pystr \<Rightarrow> author_type option" where
  "author_type_of_value t = find (\<lambda>m. author_type_value m = t) author_type_members"

lemma author_type_members_all: "m \<in> set author_type_members"
  by (cases m) (simp_all add: author_type_members_def)

lemma author_type_of_value_value [simp]: "author_type_of_value (author_type_value m) = Some m"
  by (cases m) (simp_all add: author_type_of_value_def author_type_members_def)

lemma author_type_value_inject [simp]: "author_type_value a = author_type_value b \<longleftrightarrow> a = b"
  by (metis author_type_of_value_value option.inject)

datatype history_action =
    H_CREATED
  | H_STATUS_CHANGED
  | H_MESSAGE_ADDED
  | H_CLASSIFIED
  | H_ASSIGNED
  | H_RESCHEDULED
  | H_ANONYMIZED

fun history_action_value :: "history_action \<Rightarrow> pystr" where
  "history_action_value H_CREATED = u ''CREATED''"
| "history_action_value H_STATUS_CHANGED = u ''STATUS_CHANGED''"
| "history_action_value H_MESSAGE_ADDED = u ''MESSAGE_ADDED''"
| "history_action_value H_CLASSIFIED = u ''CLASSIFIED''"
| "history_action_value H_ASSIGNED = u ''ASSIGNED''"
| "history_action_value H_RESCHEDULED = u ''RESCHEDULED''"
| "history_action_value H_ANONYMIZED = u ''ANONYMIZED''"

definition history_action_members :: "history_action list" where
  "history_action_members = [H_CREATED, H_STATUS_CHANGED, H_MESSAGE_ADDED, H_CLASSIFIED, H_ASSIGNED, H_RESCHEDULED, H_ANONYMIZED]"

definition history_action_of_value :: "pystr \<Rightarrow> history_action option" where
  "history_action_of_value t = find (\<lambda>m. history_action_value m = t) history_action_members"

lemma history_action_members_all: "m \<in> set history_action_members"
  by (cases m) (simp_all add: history_action_members_def)

lemma history_action_of_value_value [simp]: "history_action_of_value (history_action_value m) = Some m"
  by (cases m) (simp_all add: history_action_of_value_def history_action_members_def)

lemma history_action_value_inject [simp]: "history_action_value a = history_action_value b \<longleftrightarrow> a = b"
  by (metis history_action_of_value_value option.inject)

datatype estimate_kind =
    E_PRELIMINARY
  | E_FINAL

fun estimate_kind_value :: "estimate_kind \<Rightarrow> pystr" where
  "estimate_kind_value E_PRELIMINARY = u ''PRELIMINARY''"
| "estimate_kind_value E_FINAL = u ''FINAL''"

definition estimate_kind_members :: "estimate_kind list" where
  "estimate_kind_members = [E_PRELIMINARY, E_FINAL]"

definition estimate_kind_of_value :: "pystr \<Rightarrow> estimate_kind option" where
  "estimate_kind_of_value t = find (\<lambda>m. estimate_kind_value m = t) estimate_kind_members"

lemma estimate_kind_members_all: "m \<in> set estimate_kind_members"
  by (cases m) (simp_all add: estimate_kind_members_def)

lemma estimate_kind_of_value_value [simp]: "estimate_kind_of_value (estimate_kind_value m) = Some m"
  by (cases m) (simp_all add: estimate_kind_of_value_def estimate_kind_members_def)

lemma estimate_kind_value_inject [simp]: "estimate_kind_value a = estimate_kind_value b \<longleftrightarrow> a = b"
  by (metis estimate_kind_of_value_value option.inject)


section \<open>Statuses as a finite, ordered type\<close>

text \<open>
  The card of a request lists its transitions with \<open>sorted(..., key=lambda s: s.value)\<close>: the
  order of the type is that of the values.
\<close>

instantiation request_status :: linorder
begin

definition less_eq_request_status :: "request_status \<Rightarrow> request_status \<Rightarrow> bool" where
  "less_eq_request_status a b \<longleftrightarrow> status_value a \<le> status_value b"

definition less_request_status :: "request_status \<Rightarrow> request_status \<Rightarrow> bool" where
  "less_request_status a b \<longleftrightarrow> status_value a < status_value b"

instance
  by standard (auto simp: less_eq_request_status_def less_request_status_def
      simp flip: status_value_inject)

end

instantiation request_status :: enum
begin

definition enum_request_status :: "request_status list" where
  "enum_request_status = status_members"

definition enum_all_request_status :: "(request_status \<Rightarrow> bool) \<Rightarrow> bool" where
  "enum_all_request_status P \<longleftrightarrow> list_all P status_members"

definition enum_ex_request_status :: "(request_status \<Rightarrow> bool) \<Rightarrow> bool" where
  "enum_ex_request_status P \<longleftrightarrow> list_ex P status_members"

instance
proof
  show "(UNIV :: request_status set) = set enum_class.enum"
    using status_members_all by (auto simp: enum_request_status_def)
  show "distinct (enum_class.enum :: request_status list)"
    by (simp add: enum_request_status_def status_members_def)
  show "enum_class.enum_all P \<longleftrightarrow> Ball UNIV P" for P :: "request_status \<Rightarrow> bool"
    using status_members_all by (auto simp: enum_all_request_status_def list_all_iff)
  show "enum_class.enum_ex P \<longleftrightarrow> Bex UNIV P" for P :: "request_status \<Rightarrow> bool"
    using status_members_all by (auto simp: enum_ex_request_status_def list_ex_iff)
qed

end

end
