(* ===== verification/Datetime.thy ===== *)
theory Datetime
  imports Prelude
begin

text \<open>
  The part of \<open>datetime\<close> the code uses: the proleptic Gregorian calendar, the aware and naive
  \<open>datetime\<close> with its \<open>isoformat\<close> and \<open>fromisoformat\<close> (Python 3.12), and comparison. A
  column of the database is always an \<open>instant\<close>: the microseconds since 0001-01-01 UTC. A
  \<open>datetime\<close> is the wall-clock reading on the same scale with the UTC offset when there is
  one. The ISO week dates that \<open>fromisoformat\<close> also knows are refused: nothing in the code
  writes them.
\<close>

section \<open>Calendar dates\<close>

definition is_leap :: "int \<Rightarrow> bool" where
  "is_leap y \<longleftrightarrow> y mod 4 = 0 \<and> (y mod 100 \<noteq> 0 \<or> y mod 400 = 0)"

definition days_before_year :: "int \<Rightarrow> int" where
  "days_before_year y = (let z = y - 1 in z * 365 + z div 4 - z div 100 + z div 400)"

definition month_starts :: "bool \<Rightarrow> int list" where
  "month_starts leap = (if leap
     then [0, 31, 60, 91, 121, 152, 182, 213, 244, 274, 305, 335, 366]
     else [0, 31, 59, 90, 120, 151, 181, 212, 243, 273, 304, 334, 365])"

definition days_in_month :: "bool \<Rightarrow> nat \<Rightarrow> int" where
  "days_in_month leap m = month_starts leap ! m - month_starts leap ! (m - 1)"

text \<open>Days since 0001-01-01 (\<open>toordinal() - 1\<close>) and back.\<close>

definition ymd_days :: "int \<Rightarrow> nat \<Rightarrow> nat \<Rightarrow> int" where
  "ymd_days y m d = days_before_year y + month_starts (is_leap y) ! (m - 1) + (int d - 1)"

fun month_of :: "bool \<Rightarrow> int \<Rightarrow> nat \<Rightarrow> nat \<times> nat" where
  "month_of leap n 0 = (1, nat n + 1)"
| "month_of leap n (Suc k) =
     (if month_starts leap ! k \<le> n then (Suc k, nat (n - month_starts leap ! k) + 1)
      else month_of leap n k)"

definition days_ymd :: "int \<Rightarrow> int \<times> nat \<times> nat" where
  "days_ymd n =
     (let n400 = n div 146097; a = n mod 146097;
          n100 = a div 36524; b = a mod 36524;
          n4 = b div 1461; c = b mod 1461;
          n1 = c div 365; e = c mod 365;
          y = n400 * 400 + n100 * 100 + n4 * 4 + n1 + 1
      in if n1 = 4 \<or> n100 = 4 then (y - 1, 12, 31)
         else (y, month_of (n1 = 3 \<and> (n4 \<noteq> 24 \<or> n100 = 3)) e 12))"

definition max_days :: int where "max_days = 3652059"

definition valid_ymd :: "int \<Rightarrow> nat \<Rightarrow> nat \<Rightarrow> bool" where
  "valid_ymd y m d \<longleftrightarrow> 1 \<le> y \<and> y \<le> 9999 \<and> 1 \<le> m \<and> m \<le> 12 \<and> 1 \<le> d
     \<and> int d \<le> days_in_month (is_leap y) m"

definition month_ok :: "bool \<Rightarrow> int \<Rightarrow> bool" where
  "month_ok leap n \<longleftrightarrow> (case month_of leap n 12 of (m, d) \<Rightarrow> 1 \<le> m \<and> m \<le> 12 \<and> 1 \<le> d
     \<and> int d \<le> days_in_month leap m \<and> month_starts leap ! (m - 1) + (int d - 1) = n)"

lemma month_of_spec:
  assumes "0 \<le> n" "0 < k" "month_of leap n k = (m, d)"
  shows "1 \<le> m \<and> m \<le> k \<and> month_starts leap ! (m - 1) \<le> n
    \<and> d = nat (n - month_starts leap ! (m - 1)) + 1 \<and> (m = k \<or> n < month_starts leap ! m)"
  using assms(2,3)
proof (induction k)
  case (Suc k)
  show ?case
  proof (cases "month_starts leap ! k \<le> n")
    case True
    then show ?thesis using Suc.prems by auto
  next
    case False
    then have "0 < k" using assms(1) by (cases k) (auto simp: month_starts_def split: if_splits)
    then show ?thesis using Suc False by (auto split: if_splits)
  qed
qed simp

lemma month_ok:
  assumes "0 \<le> n" "n < (if leap then 366 else 365)"
  shows "month_ok leap n"
proof (cases "month_of leap n 12")
  case (Pair m d)
  note spec = month_of_spec [OF assms(1) _ Pair]
  have "month_starts leap ! 12 = (if leap then 366 else 365)" by (simp add: month_starts_def)
  then have "n < month_starts leap ! m" using spec assms(2) by auto
  then show ?thesis using spec by (simp add: month_ok_def Pair days_in_month_def)
qed

lemma mod_zero_upto: "0 < r \<Longrightarrow> r \<le> b \<Longrightarrow> (b * q + r) mod b = 0 \<longleftrightarrow> r = (b :: int)"
  by (cases "r = b") (simp_all add: zmod_trivial_iff)

lemma div_eqI: "b * q \<le> a \<Longrightarrow> a < b * q + b \<Longrightarrow> a div b = (q :: int)"
  by (rule int_div_pos_eq [of _ _ _ "a - b * q"]) auto

lemma days_before_year_split:
  assumes "z = 400 * q400 + 100 * q100 + 4 * q4 + q1"
    "0 \<le> q100" "q100 \<le> 3" "0 \<le> q4" "q4 \<le> 24" "0 \<le> q1" "q1 \<le> 3"
  shows "days_before_year (z + 1) = q400 * 146097 + q100 * 36524 + q4 * 1461 + q1 * 365"
    "is_leap (z + 1) \<longleftrightarrow> q1 = 3 \<and> (q4 \<noteq> 24 \<or> q100 = 3)"
proof -
  have "z div 4 = 100 * q400 + 25 * q100 + q4" "z div 100 = 4 * q400 + q100" "z div 400 = q400"
    using assms by (intro div_eqI; simp)+
  then show "days_before_year (z + 1) = q400 * 146097 + q100 * 36524 + q4 * 1461 + q1 * 365"
    using assms(1) by (simp add: days_before_year_def Let_def)
  have "(z + 1) mod 4 = 0 \<longleftrightarrow> q1 + 1 = 4"
    using mod_zero_upto [of "q1 + 1" 4 "100 * q400 + 25 * q100 + q4"] assms
    by (simp add: algebra_simps)
  moreover have "(z + 1) mod 100 = 0 \<longleftrightarrow> 4 * q4 + q1 + 1 = 100"
    using mod_zero_upto [of "4 * q4 + q1 + 1" 100 "4 * q400 + q100"] assms
    by (simp add: algebra_simps)
  moreover have "(z + 1) mod 400 = 0 \<longleftrightarrow> 100 * q100 + 4 * q4 + q1 + 1 = 400"
    using mod_zero_upto [of "100 * q100 + 4 * q4 + q1 + 1" 400 q400] assms
    by (simp add: algebra_simps)
  moreover have "q1 + 1 = 4 \<longleftrightarrow> q1 = 3" "4 * q4 + q1 + 1 = 100 \<longleftrightarrow> q4 = 24 \<and> q1 = 3"
    "100 * q100 + 4 * q4 + q1 + 1 = 400 \<longleftrightarrow> q100 = 3 \<and> q4 = 24 \<and> q1 = 3"
    using assms(2-7) by linarith+
  ultimately show "is_leap (z + 1) \<longleftrightarrow> q1 = 3 \<and> (q4 \<noteq> 24 \<or> q100 = 3)"
    by (auto simp only: is_leap_def)
qed

lemma last_day:
  assumes "is_leap y" "1 \<le> y" "y \<le> 9999"
  shows "valid_ymd y 12 31" "ymd_days y 12 31 = days_before_year y + 365"
  using assms by (simp_all add: valid_ymd_def ymd_days_def days_in_month_def month_starts_def)

lemma days_ymd_ok:
  assumes "0 \<le> n" "n < max_days"
  shows "case days_ymd n of (y, m, d) \<Rightarrow> valid_ymd y m d \<and> ymd_days y m d = n"
proof -
  define n400 a n100 b n4 c n1 e y where
    "n400 = n div 146097" and "a = n mod 146097" and "n100 = a div 36524" and "b = a mod 36524"
    and "n4 = b div 1461" and "c = b mod 1461" and "n1 = c div 365" and "e = c mod 365"
    and "y = n400 * 400 + n100 * 100 + n4 * 4 + n1 + 1"
  note ds = n400_def a_def n100_def b_def n4_def c_def n1_def e_def
  have eqs: "n = n400 * 146097 + a" "a = n100 * 36524 + b" "b = n4 * 1461 + c" "c = n1 * 365 + e"
    by (simp_all add: ds)
  have bounds: "0 \<le> a" "a < 146097" "0 \<le> b" "b < 36524" "0 \<le> c" "c < 1461" "0 \<le> e" "e < 365"
    by (simp_all add: ds)
  have q: "0 \<le> n400" "n400 \<le> 24" using assms by (simp_all add: n400_def max_days_def)
  have r: "0 \<le> n100" "n100 \<le> 4" "0 \<le> n4" "n4 \<le> 24" "0 \<le> n1" "n1 \<le> 4"
    using bounds eqs by linarith+
  have split: "days_ymd n = (if n1 = 4 \<or> n100 = 4 then (y - 1, 12, 31)
      else (y, month_of (n1 = 3 \<and> (n4 \<noteq> 24 \<or> n100 = 3)) e 12))"
    by (simp add: days_ymd_def Let_def ds y_def)
  consider "n100 = 4" | "n100 \<le> 3" "n1 = 4" | "n100 \<le> 3" "n1 \<le> 3" using r by linarith
  then show ?thesis
  proof cases
    case 1
    then have z: "b = 0" "n4 = 0" "n1 = 0" "c = 0" "e = 0" using bounds eqs r by linarith+
    with 1 have y: "y - 1 = (400 * n400 + 100 * 3 + 4 * 24 + 3) + 1" by (simp add: y_def)
    have "n400 \<le> 23" using assms eqs z 1 q by (simp add: max_days_def)
    then have "1 \<le> y - 1" "y - 1 \<le> 9999" using y q by linarith+
    moreover have "is_leap (y - 1)" "days_before_year (y - 1) + 365 = n"
      unfolding y using days_before_year_split [OF refl, of 3 24 3 n400] eqs z 1 by simp_all
    ultimately show ?thesis using 1 last_day [of "y - 1"] by (simp add: split)
  next
    case 2
    then have z: "e = 0" "n4 \<le> 23" using bounds eqs r by linarith+
    have y: "y - 1 = (400 * n400 + 100 * n100 + 4 * n4 + 3) + 1" using 2 by (simp add: y_def)
    then have "1 \<le> y - 1" "y - 1 \<le> 9999" using q r z 2 by linarith+
    moreover have "is_leap (y - 1)" "days_before_year (y - 1) + 365 = n"
      unfolding y using days_before_year_split [OF refl, of n100 n4 3 n400] eqs z 2 r by simp_all
    ultimately show ?thesis using 2 last_day [of "y - 1"] by (simp add: split)
  next
    case 3
    have y: "y = (400 * n400 + 100 * n100 + 4 * n4 + n1) + 1" by (simp add: y_def)
    have leap: "is_leap y \<longleftrightarrow> n1 = 3 \<and> (n4 \<noteq> 24 \<or> n100 = 3)"
      and before: "days_before_year y = n - e"
      unfolding y using days_before_year_split [OF refl, of n100 n4 n1 n400] eqs 3 r by simp_all
    have range: "1 \<le> y" "y \<le> 9999" using assms eqs bounds q r 3 y by (simp_all add: max_days_def)
    have "e < (if is_leap y then 366 else 365)" using bounds by simp
    then have "month_ok (is_leap y) e" using bounds by (intro month_ok)
    moreover have "days_ymd n = (y, month_of (is_leap y) e 12)" using 3 by (simp add: split leap)
    ultimately show ?thesis using before range
      by (auto simp: month_ok_def valid_ymd_def ymd_days_def split: prod.splits)
  qed
qed

section \<open>isoformat\<close>

record datetime =
  dt_local :: int
  dt_off :: "int option"

definition utc :: "instant \<Rightarrow> datetime" where
  "utc t = \<lparr>dt_local = t, dt_off = Some 0\<rparr>"

text \<open>The instant of an aware value (\<open>astimezone(UTC)\<close>).\<close>

definition dt_instant :: "datetime \<Rightarrow> instant option" where
  "dt_instant d = map_option (\<lambda>off. dt_local d - off) (dt_off d)"

definition dt_valid :: "datetime \<Rightarrow> bool" where
  "dt_valid d \<longleftrightarrow> 0 \<le> dt_local d \<and> dt_local d < max_days * us_per_day
     \<and> (case dt_off d of None \<Rightarrow> True | Some off \<Rightarrow> \<bar>off\<bar> < us_per_day)"

fun fixed :: "nat \<Rightarrow> nat \<Rightarrow> pystr" where
  "fixed 0 n = []"
| "fixed (Suc k) n = fixed k (n div 10) @ [48 + n mod 10]"

text \<open>Hours, minutes, seconds and microseconds of a non-negative count of microseconds.\<close>

definition hmsf :: "int \<Rightarrow> nat \<times> nat \<times> nat \<times> nat" where
  "hmsf t = (nat (t div us_per_hour), nat (t div 60000000 mod 60),
     nat (t div us_per_second mod 60), nat (t mod us_per_second))"

definition us_suffix :: "nat \<Rightarrow> pystr" where
  "us_suffix f = (if f = 0 then [] else [46] @ fixed 6 f)"

definition clock_str :: "int \<Rightarrow> pystr" where
  "clock_str t = (case hmsf t of (h, mi, se, f) \<Rightarrow>
     fixed 2 h @ [58] @ fixed 2 mi @ [58] @ fixed 2 se @ us_suffix f)"

definition offset_str :: "int \<Rightarrow> pystr" where
  "offset_str off = (if off < 0 then 45 else 43) # (case hmsf \<bar>off\<bar> of (h, mi, se, f) \<Rightarrow>
     fixed 2 h @ [58] @ fixed 2 mi
     @ (if se = 0 \<and> f = 0 then [] else [58] @ fixed 2 se @ us_suffix f))"

definition isoformat :: "datetime \<Rightarrow> pystr" where
  "isoformat d = (case days_ymd (dt_local d div us_per_day) of (y, m, dd) \<Rightarrow>
     fixed 4 (nat y) @ [45] @ fixed 2 m @ [45] @ fixed 2 dd @ [84]
     @ clock_str (dt_local d mod us_per_day)
     @ (case dt_off d of None \<Rightarrow> [] | Some off \<Rightarrow> offset_str off))"

definition iso_utc :: "instant \<Rightarrow> pystr" where
  "iso_utc t = isoformat (utc t)"

section \<open>fromisoformat\<close>

definition ascii_digit :: "nat \<Rightarrow> bool" where
  "ascii_digit c \<longleftrightarrow> 48 \<le> c \<and> c \<le> 57"

definition take_digits :: "nat \<Rightarrow> pystr \<Rightarrow> (nat \<times> pystr) option" where
  "take_digits k s = (if length (take k s) = k \<and> list_all ascii_digit (take k s)
     then Some (undec 0 (take k s), drop k s) else None)"

text \<open>A fraction: one digit at least, those after the sixth are dropped.\<close>

definition parse_frac :: "pystr \<Rightarrow> nat option" where
  "parse_frac s = (if s \<noteq> [] \<and> list_all ascii_digit s
     then Some (undec 0 (take 6 s) * 10 ^ (6 - min 6 (length s))) else None)"

text \<open>\<open>HH[:MM[:SS[.f]]]\<close>, or the same without colons: the character after the hour decides.\<close>

fun clock_fields :: "nat \<Rightarrow> bool option \<Rightarrow> pystr \<Rightarrow> (nat list \<times> nat) option" where
  "clock_fields k sep s = (case take_digits 2 s of
     None \<Rightarrow> None
   | Some (v, []) \<Rightarrow> Some ([v], 0)
   | Some (v, c # r) \<Rightarrow>
       if c = 46 \<or> c = 44 then map_option (\<lambda>f. ([v], f)) (parse_frac r)
       else (case k of
           0 \<Rightarrow> if sep = Some False then map_option (\<lambda>f. ([v], f)) (parse_frac (c # r)) else None
         | Suc k' \<Rightarrow>
             let colon = (case sep of None \<Rightarrow> c = 58 | Some b \<Rightarrow> b)
             in if colon \<and> c \<noteq> 58 then None
                else map_option (\<lambda>(vs, f). (v # vs, f))
                       (clock_fields k' (Some colon) (if colon then r else c # r))))"

declare clock_fields.simps [simp del]

definition parse_clock :: "pystr \<Rightarrow> (nat \<times> nat \<times> nat \<times> nat) option" where
  "parse_clock s = (case clock_fields 2 None s of
     Some ([h], f) \<Rightarrow> Some (h, 0, 0, f)
   | Some ([h, mi], f) \<Rightarrow> Some (h, mi, 0, f)
   | Some ([h, mi, se], f) \<Rightarrow> Some (h, mi, se, f)
   | _ \<Rightarrow> None)"

definition hmsf_us :: "nat \<Rightarrow> nat \<Rightarrow> nat \<Rightarrow> nat \<Rightarrow> int" where
  "hmsf_us h mi se f =
     int h * us_per_hour + int mi * 60000000 + int se * us_per_second + int f"

definition zone_start :: "nat \<Rightarrow> bool" where
  "zone_start c \<longleftrightarrow> c = 43 \<or> c = 45 \<or> c = 90"

definition parse_zone :: "pystr \<Rightarrow> int option option" where
  "parse_zone s = (case s of
     [] \<Rightarrow> Some None
   | c # r \<Rightarrow>
       if c = 90 then (if r = [] then Some (Some 0) else None)
       else (case parse_clock r of
           None \<Rightarrow> None
         | Some (h, mi, se, f) \<Rightarrow>
             let off = hmsf_us h mi se f
             in if off < us_per_day then Some (Some (if c = 45 then - off else off)) else None))"

definition parse_time :: "pystr \<Rightarrow> (int \<times> int option) option" where
  "parse_time s = (case (parse_clock (takeWhile (\<lambda>c. \<not> zone_start c) s),
                         parse_zone (dropWhile (\<lambda>c. \<not> zone_start c) s)) of
     (Some (h, mi, se, f), Some z) \<Rightarrow>
       if h < 24 \<and> mi < 60 \<and> se < 60 then Some (hmsf_us h mi se f, z) else None
   | _ \<Rightarrow> None)"

definition parse_date :: "pystr \<Rightarrow> (int \<times> nat \<times> nat \<times> pystr) option" where
  "parse_date s = (case take_digits 4 s of
     Some (y, c # r) \<Rightarrow>
       (if c = 45
        then (case take_digits 2 r of
            Some (m, c' # r') \<Rightarrow>
              if c' = 45 then map_option (\<lambda>(d, t). (int y, m, d, t)) (take_digits 2 r') else None
          | _ \<Rightarrow> None)
        else (case take_digits 2 (c # r) of
            Some (m, r') \<Rightarrow> map_option (\<lambda>(d, t). (int y, m, d, t)) (take_digits 2 r')
          | None \<Rightarrow> None))
   | _ \<Rightarrow> None)"

definition fromisoformat :: "pystr \<Rightarrow> datetime option" where
  "fromisoformat s = (case parse_date s of
     None \<Rightarrow> None
   | Some (y, m, d, t) \<Rightarrow>
       if \<not> valid_ymd y m d then None
       else if length t \<le> 1 then Some \<lparr>dt_local = ymd_days y m d * us_per_day, dt_off = None\<rparr>
       else map_option (\<lambda>(us, z). \<lparr>dt_local = ymd_days y m d * us_per_day + us, dt_off = z\<rparr>)
              (parse_time (tl t)))"

section \<open>fromisoformat inverts isoformat\<close>

lemma length_fixed [simp]: "length (fixed k n) = k"
  by (induction k arbitrary: n) auto

lemma fixed_digits: "c \<in> set (fixed k n) \<Longrightarrow> ascii_digit c"
  by (induction k arbitrary: n) (auto simp: ascii_digit_def)

lemma undec_fixed: "undec 0 (fixed k n) = n mod 10 ^ k"
proof (induction k arbitrary: n)
  case (Suc k)
  then show ?case by (simp add: undec_append mod_mult2_eq)
qed simp

lemma take_digits_fixed [simp]:
  "n < 10 ^ k \<Longrightarrow> take_digits k (fixed k n @ r) = Some (n, r)"
  by (simp add: take_digits_def undec_fixed list_all_iff fixed_digits del: fixed.simps)

lemma take_digits_fixed_end [simp]: "n < 10 ^ k \<Longrightarrow> take_digits k (fixed k n) = Some (n, [])"
  using take_digits_fixed [of n k "[]"] by (simp del: take_digits_fixed)

lemma parse_frac_fixed [simp]: "n < 1000000 \<Longrightarrow> parse_frac (fixed 6 n) = Some n"
  by (simp add: parse_frac_def undec_fixed list_all_iff fixed_digits del: fixed.simps)
    (metis length_fixed length_0_conv zero_neq_numeral)

lemma clock_fields_seconds:
  "se < 100 \<Longrightarrow> f < 1000000 \<Longrightarrow>
   clock_fields k sep (fixed 2 se @ us_suffix f) = Some ([se], f)"
  by (subst clock_fields.simps) (simp add: us_suffix_def del: fixed.simps)

lemma clock_fields_colon:
  "v < 100 \<Longrightarrow> sep \<noteq> Some False \<Longrightarrow> 0 < k \<Longrightarrow> clock_fields k sep (fixed 2 v @ 58 # r) =
     map_option (\<lambda>(vs, f). (v # vs, f)) (clock_fields (k - 1) (Some True) r)"
  by (cases k; subst clock_fields.simps) (auto simp del: fixed.simps split: option.splits)

lemma clock_fields_end: "v < 100 \<Longrightarrow> clock_fields k sep (fixed 2 v) = Some ([v], 0)"
  by (subst clock_fields.simps) (simp del: fixed.simps)

lemma parse_clock_full:
  assumes "h < 100" "mi < 100" "se < 100" "f < 1000000"
  shows "parse_clock (fixed 2 h @ 58 # fixed 2 mi @ 58 # fixed 2 se @ us_suffix f)
    = Some (h, mi, se, f)"
  using assms
  by (simp add: parse_clock_def clock_fields_colon clock_fields_seconds del: fixed.simps)

lemma parse_clock_short:
  assumes "h < 100" "mi < 100"
  shows "parse_clock (fixed 2 h @ 58 # fixed 2 mi) = Some (h, mi, 0, 0)"
  using assms
  by (simp add: parse_clock_def clock_fields_colon clock_fields_end del: fixed.simps)

lemma hmsf_ok:
  assumes "0 \<le> t" "t < us_per_day" "hmsf t = (h, mi, se, f)"
  shows "h < 24" "mi < 60" "se < 60" "f < 1000000" "hmsf_us h mi se f = t"
proof -
  have eqs: "h = nat (t div 3600000000)" "mi = nat (t div 60000000 mod 60)"
    "se = nat (t div 1000000 mod 60)" "f = nat (t mod 1000000)"
    using assms(3) by (simp_all add: hmsf_def us_units)
  show "h < 24" "mi < 60" "se < 60" "f < 1000000"
    using assms(1,2) by (auto simp: eqs us_units nat_less_iff)
  define a b c where "a = t div 1000000" and "b = a div 60" and "c = b div 60"
  have divs: "t div 60000000 = b" "t div 3600000000 = c"
    by (simp_all add: a_def b_def c_def zdiv_zmult2_eq [symmetric])
  define r1 r2 r3 where "r1 = t mod 1000000" and "r2 = a mod 60" and "r3 = b mod 60"
  have nonneg: "0 \<le> r1" "0 \<le> r2" "0 \<le> r3" "0 \<le> c"
    using assms(1) by (simp_all add: r1_def r2_def r3_def c_def b_def a_def)
  have "int h = c" "int mi = r3" "int se = r2" "int f = r1"
    using nonneg by (simp_all add: eqs divs r1_def r2_def r3_def a_def)
  moreover have "t = a * 1000000 + r1" "a = b * 60 + r2" "b = c * 60 + r3"
    by (simp_all add: a_def b_def c_def r1_def r2_def r3_def)
  ultimately show "hmsf_us h mi se f = t"
    by (simp add: hmsf_us_def us_units)
qed

lemma clock_str_no_zone: "c \<in> set (clock_str t) \<Longrightarrow> \<not> zone_start c"
  by (auto simp: clock_str_def us_suffix_def zone_start_def ascii_digit_def dest!: fixed_digits
      split: prod.splits if_splits simp del: fixed.simps)

lemma parse_clock_str:
  assumes "0 \<le> t" "t < us_per_day"
  shows "\<exists>h mi se f. parse_clock (clock_str t) = Some (h, mi, se, f) \<and> h < 24 \<and> mi < 60 \<and> se < 60
    \<and> hmsf_us h mi se f = t"
proof (cases "hmsf t")
  case (fields h mi se f)
  note ok = hmsf_ok [OF assms fields]
  have "parse_clock (clock_str t) = Some (h, mi, se, f)"
    using ok parse_clock_full [of h mi se f] by (simp add: clock_str_def fields del: fixed.simps)
  with ok show ?thesis by blast
qed

lemma parse_zone_offset:
  assumes "\<bar>off\<bar> < us_per_day"
  shows "parse_zone (offset_str off) = Some (Some off)"
proof (cases "hmsf \<bar>off\<bar>")
  case (fields h mi se f)
  have ok: "h < 24" "mi < 60" "se < 60" "f < 1000000" "hmsf_us h mi se f = \<bar>off\<bar>"
    using hmsf_ok [OF abs_ge_zero assms fields] by blast+
  have "parse_clock (tl (offset_str off)) = Some (h, mi, se, f)"
    using ok parse_clock_full [of h mi se f] parse_clock_short [of h mi]
    by (auto simp: offset_str_def fields simp del: fixed.simps)
  moreover have "offset_str off = (if off < 0 then 45 else 43) # tl (offset_str off)"
    by (simp add: offset_str_def)
  ultimately show ?thesis using ok assms
    by (cases "off < 0") (auto simp: parse_zone_def Let_def split: list.splits)
qed

lemma parse_time_str:
  assumes "0 \<le> t" "t < us_per_day" "case z of None \<Rightarrow> True | Some off \<Rightarrow> \<bar>off\<bar> < us_per_day"
  shows "parse_time (clock_str t @ (case z of None \<Rightarrow> [] | Some off \<Rightarrow> offset_str off)) = Some (t, z)"
proof -
  let ?z = "case z of None \<Rightarrow> [] | Some off \<Rightarrow> offset_str off"
  have start: "?z = [] \<or> zone_start (hd ?z)"
    by (auto simp: offset_str_def zone_start_def split: option.splits)
  have "takeWhile (\<lambda>c. \<not> zone_start c) (clock_str t @ ?z) = clock_str t"
    "dropWhile (\<lambda>c. \<not> zone_start c) (clock_str t @ ?z) = ?z"
    using clock_str_no_zone start
    by (cases ?z; simp add: takeWhile_append2 dropWhile_append2)+
  moreover have "parse_zone ?z = Some z"
    using assms(3) by (cases z) (simp_all add: parse_zone_offset, simp add: parse_zone_def)
  ultimately show ?thesis using parse_clock_str [OF assms(1,2)] by (auto simp: parse_time_def)
qed

lemma fromisoformat_isoformat:
  assumes "dt_valid d" shows "fromisoformat (isoformat d) = Some d"
proof -
  define t where "t = dt_local d mod us_per_day"
  define n where "n = dt_local d div us_per_day"
  have t: "0 \<le> t" "t < us_per_day" by (simp_all add: t_def us_units)
  have n: "0 \<le> n" "n < max_days" and z: "case dt_off d of None \<Rightarrow> True | Some off \<Rightarrow> \<bar>off\<bar> < us_per_day"
    using assms by (auto simp: dt_valid_def n_def us_units max_days_def)
  obtain y m dd where ymd: "days_ymd n = (y, m, dd)" by (cases "days_ymd n") auto
  then have ok: "valid_ymd y m dd" "ymd_days y m dd = n" using days_ymd_ok [OF n] by auto
  have dd: "dd < 100" "m < 100" "0 \<le> y" "nat y < 10000"
  proof -
    have "days_in_month l k \<le> 31" if "k \<in> {1, 2, 3, 4, 5, 6, 7, 8, 9, 10, 11, 12}" for l and k :: nat
      using that by (cases l) (auto simp: days_in_month_def month_starts_def)
    moreover have "m \<in> {1, 2, 3, 4, 5, 6, 7, 8, 9, 10, 11, 12}"
      using ok(1) by (simp add: valid_ymd_def) presburger
    ultimately have "days_in_month (is_leap y) m \<le> 31" by blast
    with ok(1) show "dd < 100" "m < 100" "0 \<le> y" "nat y < 10000" by (auto simp: valid_ymd_def)
  qed
  let ?rest = "clock_str t @ (case dt_off d of None \<Rightarrow> [] | Some off \<Rightarrow> offset_str off)"
  have "parse_date (isoformat d) = Some (y, m, dd, 84 # ?rest)"
    using dd take_digits_fixed [of "nat y" 4]
    by (simp add: isoformat_def ymd parse_date_def flip: n_def t_def del: fixed.simps)
  moreover have "clock_str t \<noteq> []" by (cases "hmsf t") (simp add: clock_str_def)
  moreover have "n * us_per_day + t = dt_local d" by (simp add: n_def t_def)
  ultimately show ?thesis
    using ok parse_time_str [OF t z] by (simp add: fromisoformat_def Suc_le_eq not_le)
qed

lemma iso_utc_parse:
  "0 \<le> t \<Longrightarrow> t < max_days * us_per_day \<Longrightarrow> fromisoformat (iso_utc t) = Some (utc t)"
  unfolding iso_utc_def by (rule fromisoformat_isoformat) (simp add: dt_valid_def utc_def us_units)

lemma utc_instant [simp]: "dt_instant (utc t) = Some t"
  by (simp add: utc_def dt_instant_def)

end
