(* ===== verification/Uuid.thy ===== *)
theory Uuid
  imports Prelude
begin

text \<open>
  \<open>uuid.UUID\<close> of the standard library: a 128-bit word, its canonical text (\<open>str\<close>) and the
  constructor from a text, which drops \<open>urn:\<close>, \<open>uuid:\<close>, braces and dashes, wants 32
  characters and reads them with \<open>int(hex, 16)\<close> (blanks around, a sign, \<open>0x\<close> and single
  underscores included).
\<close>

type_synonym uuid = "128 word"

definition hex_digit :: "nat \<Rightarrow> nat" where
  "hex_digit d = (if d < 10 then 48 + d else 87 + d)"

fun hex_fixed :: "nat \<Rightarrow> nat \<Rightarrow> pystr" where
  "hex_fixed 0 n = []"
| "hex_fixed (Suc k) n = hex_fixed k (n div 16) @ [hex_digit (n mod 16)]"

definition uuid_str :: "uuid \<Rightarrow> pystr" where
  "uuid_str w = (let h = hex_fixed 32 (unat w)
     in take 8 h @ [45] @ take 4 (drop 8 h) @ [45] @ take 4 (drop 12 h) @ [45]
        @ take 4 (drop 16 h) @ [45] @ drop 20 h)"

text \<open>\<open>int(s, 16)\<close>.\<close>

definition hex_val :: "nat \<Rightarrow> nat option" where
  "hex_val c = (if 97 \<le> c \<and> c \<le> 102 then Some (c - 87)
     else if 65 \<le> c \<and> c \<le> 70 then Some (c - 55) else digit_val c)"

definition int_space :: "nat \<Rightarrow> bool" where
  "int_space c \<longleftrightarrow> c \<in> {9, 10, 11, 12, 13, 32} \<or> (127 \<le> c \<and> py_isspace c)"

fun hex_run :: "nat \<Rightarrow> bool \<Rightarrow> pystr \<Rightarrow> nat option" where
  "hex_run acc seen [] = (if seen then Some acc else None)"
| "hex_run acc seen (c # cs) =
     (if c = 95 then (if seen \<and> cs \<noteq> [] then hex_run acc False cs else None)
      else case hex_val c of None \<Rightarrow> None | Some d \<Rightarrow> hex_run (acc * 16 + d) True cs)"

definition hex_unsigned :: "pystr \<Rightarrow> nat option" where
  "hex_unsigned s = (case s of
       z # x # rest \<Rightarrow>
         if digit_val z = Some 0 \<and> (x = 120 \<or> x = 88)
         then (case rest of c # cs \<Rightarrow> if c = 95 then hex_run 0 False cs else hex_run 0 False rest
               | [] \<Rightarrow> None)
         else hex_run 0 False s
     | _ \<Rightarrow> hex_run 0 False s)"

definition py_int16 :: "pystr \<Rightarrow> int option" where
  "py_int16 s = (case strip_by int_space s of
       [] \<Rightarrow> None
     | c # cs \<Rightarrow>
         if c = 45 then map_option (\<lambda>n. - int n) (hex_unsigned cs)
         else if c = 43 then map_option int (hex_unsigned cs)
         else map_option int (hex_unsigned (c # cs)))"

definition uuid_parse :: "pystr \<Rightarrow> uuid option" where
  "uuid_parse s =
     (let h = remove_all (u ''-'') (strip_by (\<lambda>c. c = 123 \<or> c = 125)
                (remove_all (u ''uuid:'') (remove_all (u ''urn:'') s)))
      in if length h \<noteq> 32 then None
         else case py_int16 h of
           None \<Rightarrow> None
         | Some i \<Rightarrow> if 0 \<le> i \<and> i < 2 ^ 128 then Some (word_of_int i) else None)"

section \<open>Parsing inverts printing\<close>

lemma length_hex_fixed [simp]: "length (hex_fixed k n) = k"
  by (induction k arbitrary: n) auto

lemma hex_digit_range: "d < 16 \<Longrightarrow>
    hex_digit d \<in> {48, 49, 50, 51, 52, 53, 54, 55, 56, 57, 97, 98, 99, 100, 101, 102}"
  by (auto simp: hex_digit_def)

lemma set_hex_fixed: "c \<in> set (hex_fixed k n) \<Longrightarrow>
    c \<in> {48, 49, 50, 51, 52, 53, 54, 55, 56, 57, 97, 98, 99, 100, 101, 102}"
proof (induction k arbitrary: n)
  case (Suc k)
  then show ?case using hex_digit_range [of "n mod 16"] by auto
qed simp

lemma digit_val_ascii: "48 \<le> c \<Longrightarrow> c \<le> 57 \<Longrightarrow> digit_val c = Some (c - 48)"
  by (simp add: digit_val_def decimal_zeros_def)

lemma hex_val_digit: "d < 16 \<Longrightarrow> hex_val (hex_digit d) = Some d"
  by (auto simp: hex_val_def hex_digit_def digit_val_ascii)

lemma hex_run_append: assumes "\<forall>c\<in>set xs. c \<noteq> 95 \<and> hex_val c \<noteq> None"
  shows "hex_run acc seen (xs @ ys) =
    (if xs = [] then hex_run acc seen ys
     else hex_run (foldl (\<lambda>a c. a * 16 + the (hex_val c)) acc xs) True ys)"
  using assms by (induction xs arbitrary: acc seen) auto

lemma foldl_hex_fixed:
  "foldl (\<lambda>a c. a * 16 + the (hex_val c)) 0 (hex_fixed k n) = n mod 16 ^ k"
proof (induction k arbitrary: n)
  case (Suc k)
  then show ?case by (simp add: hex_val_digit mod_mult2_eq)
qed simp

lemma hex_run_fixed:
  assumes "k > 0" shows "hex_run 0 False (hex_fixed k n) = Some (n mod 16 ^ k)"
proof -
  have "\<forall>c\<in>set (hex_fixed k n). c \<noteq> 95 \<and> hex_val c \<noteq> None"
  proof
    fix c assume "c \<in> set (hex_fixed k n)"
    from set_hex_fixed [OF this] show "c \<noteq> 95 \<and> hex_val c \<noteq> None"
      by (auto simp: hex_val_def digit_val_ascii)
  qed
  moreover have "hex_fixed k n \<noteq> []" using assms by (metis length_hex_fixed length_0_conv neq0_conv)
  ultimately show ?thesis
    using hex_run_append [of "hex_fixed k n" 0 False "[]"] by (simp add: foldl_hex_fixed)
qed

lemma remove_all_absent: "old \<noteq> [] \<Longrightarrow> hd old \<notin> set s \<Longrightarrow> remove_all old s = s"
proof -
  assume old: "old \<noteq> []"
  have "hd old \<notin> set s \<Longrightarrow> remove_all_aux old 0 s = s" for s
    using old by (induction s) (auto simp: neq_Nil_conv)
  then show "hd old \<notin> set s \<Longrightarrow> remove_all old s = s" by (simp add: remove_all_def)
qed

lemma remove_char: "remove_all [x] s = filter (\<lambda>c. c \<noteq> x) s"
proof -
  have "remove_all_aux [x] 0 s = filter (\<lambda>c. c \<noteq> x) s" for s by (induction s) auto
  then show ?thesis by (simp add: remove_all_def)
qed

lemma dropWhile_none: "\<forall>c\<in>set s. \<not> p c \<Longrightarrow> dropWhile p s = s"
  by (cases s) auto

lemma strip_by_none: "\<forall>c\<in>set s. \<not> p c \<Longrightarrow> strip_by p s = s"
  by (simp add: strip_by_def rstrip_by_def lstrip_by_def dropWhile_none)

lemma set_uuid_str: "c \<in> set (uuid_str w) \<Longrightarrow> c = 45 \<or> c \<in> set (hex_fixed 32 (unat w))"
  by (auto simp: uuid_str_def Let_def dest: in_set_takeD in_set_dropD)

lemma filter_uuid_str: "filter (\<lambda>c. c \<noteq> 45) (uuid_str w) = hex_fixed 32 (unat w)"
proof -
  define h where "h = hex_fixed 32 (unat w)"
  have "filter (\<lambda>c. c \<noteq> 45) t = t" if "set t \<subseteq> set h" for t
    using that set_hex_fixed [of 45] by (auto simp: h_def intro!: filter_True)
  moreover have "set (take 4 (drop i h)) \<subseteq> set h" "set (take 8 h) \<subseteq> set h"
    "set (drop i h) \<subseteq> set h" for i
    by (auto dest: in_set_takeD in_set_dropD)
  ultimately have "filter (\<lambda>c. c \<noteq> 45) (uuid_str w) =
      take 8 h @ take 4 (drop 8 h) @ take 4 (drop 12 h) @ take 4 (drop 16 h) @ drop 20 h"
    by (simp add: uuid_str_def Let_def flip: h_def)
  also have "\<dots> = h"
    using append_take_drop_id [of 8 h] append_take_drop_id [of 4 "drop 8 h"]
      append_take_drop_id [of 4 "drop 12 h"] append_take_drop_id [of 4 "drop 16 h"]
    by simp
  finally show ?thesis by (simp add: h_def)
qed

lemma hex_unsigned_fixed: "hex_unsigned (hex_fixed 32 n) = Some (n mod 16 ^ 32)"
proof -
  have x: "120 \<notin> set (hex_fixed 32 n)" "88 \<notin> set (hex_fixed 32 n)"
    using set_hex_fixed [of 120 32 n] set_hex_fixed [of 88 32 n] by auto
  have "2 \<le> length (hex_fixed 32 n)" by (simp only: length_hex_fixed)
  then obtain a b rest where h: "hex_fixed 32 n = a # b # rest"
    by (metis Suc_le_length_iff numeral_2_eq_2)
  with x have "b \<noteq> 120" "b \<noteq> 88" by auto
  then have "hex_unsigned (hex_fixed 32 n) = hex_run 0 False (hex_fixed 32 n)"
    by (simp add: hex_unsigned_def h)
  then show ?thesis by (simp add: hex_run_fixed)
qed

lemma py_int16_fixed: "py_int16 (hex_fixed 32 n) = Some (int (n mod 16 ^ 32))"
proof -
  have "strip_by int_space (hex_fixed 32 n) = hex_fixed 32 n"
    by (rule strip_by_none) (auto dest!: set_hex_fixed simp: int_space_def)
  moreover obtain a rest where h: "hex_fixed 32 n = a # rest"
    by (metis length_hex_fixed length_0_conv neq_Nil_conv zero_neq_numeral)
  moreover have "a \<noteq> 45" "a \<noteq> 43"
    using set_hex_fixed [of a 32 n] h by auto
  ultimately show ?thesis using hex_unsigned_fixed [of n] by (simp add: py_int16_def)
qed

lemma uuid_parse_str [simp]: "uuid_parse (uuid_str w) = Some w"
proof -
  let ?s = "uuid_str w"
  have chars: "c \<notin> set ?s" if "c \<in> {117, 123, 125}" for c
    using that set_uuid_str [of c w] set_hex_fixed [of c 32 "unat w"] by auto
  have "remove_all (u ''urn:'') ?s = ?s" "remove_all (u ''uuid:'') ?s = ?s"
    by (rule remove_all_absent; simp add: u_def chars)+
  moreover have "strip_by (\<lambda>c. c = 123 \<or> c = 125) ?s = ?s"
    by (rule strip_by_none) (use chars in auto)
  moreover have "remove_all (u ''-'') ?s = hex_fixed 32 (unat w)"
    by (simp add: u_def remove_char filter_uuid_str)
  moreover have "uint w < 2 ^ 128" using uint_lt2p [of w] by simp
  moreover from this have "int (unat w mod 16 ^ 32) = uint w"
    by (simp add: zmod_int)
  ultimately show ?thesis
    by (simp add: uuid_parse_def py_int16_fixed)
qed

lemma uuid_str_inject [simp]: "uuid_str a = uuid_str b \<longleftrightarrow> a = b"
  by (metis uuid_parse_str option.inject)

end
