(* ===== verification/Principal.thy ===== *)
theory Principal
  imports Uuid Errors
begin

text \<open>
  The authenticated subject (\<open>auth/principal.py\<close>, \<open>auth/scopes.py\<close>,
  \<open>auth/system_actors.py\<close>) and how the verified claims of a token become one
  (\<open>auth/jwt_verifier.py\<close>), with the JWKS cache in front of the signature check
  (\<open>auth/jwks.py\<close>). Fetching the key set, building a key from it and the checks of PyJWT are
  third-party code: arguments of the definitions that use them.
\<close>

section \<open>Principals\<close>

datatype principal_kind = K_REQUESTER | K_OPERATOR | K_PARTNER | K_SERVICE | K_AGENT

fun kind_value :: "principal_kind \<Rightarrow> pystr" where
  "kind_value K_REQUESTER = u ''requester''"
| "kind_value K_OPERATOR = u ''operator''"
| "kind_value K_PARTNER = u ''partner''"
| "kind_value K_SERVICE = u ''service''"
| "kind_value K_AGENT = u ''agent''"

definition staff_admin_scope :: pystr where "staff_admin_scope = u ''staff_admin''"
definition operator_scope :: pystr where "operator_scope = u ''operator''"
definition partner_scope :: pystr where "partner_scope = u ''partner''"
definition agent_scope :: pystr where "agent_scope = u ''agent''"

lemmas scope_defs = staff_admin_scope_def operator_scope_def partner_scope_def agent_scope_def

record principal =
  p_user_id :: uuid
  p_kind :: principal_kind
  p_scopes :: "pystr set"
  p_partner_id :: "pystr option"
  p_on_behalf_of :: "uuid option"
  p_acting_agent :: "pystr option"

definition is_operator :: "principal \<Rightarrow> bool" where
  "is_operator p \<longleftrightarrow> p_kind p = K_OPERATOR \<or> operator_scope \<in> p_scopes p"

definition is_partner :: "principal \<Rightarrow> bool" where
  "is_partner p \<longleftrightarrow> p_kind p = K_PARTNER \<or> partner_scope \<in> p_scopes p"

definition is_agent :: "principal \<Rightarrow> bool" where
  "is_agent p \<longleftrightarrow> p_kind p = K_AGENT \<or> p_acting_agent p \<noteq> None \<or> agent_scope \<in> p_scopes p"

definition is_staff_admin :: "principal \<Rightarrow> bool" where
  "is_staff_admin p \<longleftrightarrow> staff_admin_scope \<in> p_scopes p"

lemmas role_defs = is_operator_def is_partner_def is_agent_def is_staff_admin_def scope_defs

section \<open>System actors\<close>

definition automation_actor_id :: uuid where "automation_actor_id = 0xa0"
definition sla_actor_id :: uuid where "sla_actor_id = 0xa1"
definition retention_actor_id :: uuid where "retention_actor_id = 0xa2"
definition dispatch_actor_id :: uuid where "dispatch_actor_id = 0xd0"
definition agent_actor_id :: uuid where "agent_actor_id = 0xc1"

lemmas actor_defs = automation_actor_id_def sla_actor_id_def retention_actor_id_def
  dispatch_actor_id_def agent_actor_id_def

section \<open>From claims to a principal\<close>

definition parse_kind :: "json option \<Rightarrow> principal_kind" where
  "parse_kind v = (case v of
     Some (JStr s) \<Rightarrow>
       (case find (\<lambda>k. kind_value k = s) [K_REQUESTER, K_OPERATOR, K_PARTNER, K_SERVICE, K_AGENT] of
          Some k \<Rightarrow> k | None \<Rightarrow> K_REQUESTER)
   | _ \<Rightarrow> K_REQUESTER)"

definition parse_act_sub :: "json option \<Rightarrow> uuid option" where
  "parse_act_sub v = (case v of Some (JStr s) \<Rightarrow> uuid_parse s | _ \<Rightarrow> None)"

definition parse_acting_agent :: "json option \<Rightarrow> pystr option" where
  "parse_acting_agent v = (case v of
     Some (JObj d) \<Rightarrow> (case dict_get d (u ''sub'') of
         Some (JStr s) \<Rightarrow> if s \<noteq> [] then Some s else None
       | _ \<Rightarrow> None)
   | _ \<Rightarrow> None)"

text \<open>\<open>claims.get(k) is not None\<close>.\<close>

definition claim_present :: "jdict \<Rightarrow> pystr \<Rightarrow> bool" where
  "claim_present claims k \<longleftrightarrow> (case dict_get claims k of None \<Rightarrow> False | Some v \<Rightarrow> v \<noteq> JNull)"

definition claims_to_principal :: "pyrt \<Rightarrow> jdict \<Rightarrow> exn + principal" where
  "claims_to_principal rt claims =
     (case (case dict_get claims (u ''sub'') of None \<Rightarrow> None | Some v \<Rightarrow> uuid_parse (py_str rt v)) of
        None \<Rightarrow> raise_problem (unauthorized (Some (u ''Token sub is not a valid uuid'')))
      | Some user_id \<Rightarrow>
          let scopes = set (py_split (case dict_get claims (u ''scope'') of
                          None \<Rightarrow> [] | Some v \<Rightarrow> py_str rt v));
              acting = parse_acting_agent (dict_get claims (u ''act''))
          in if acting \<noteq> None \<and> claim_present claims (u ''kbp_act_sub'')
             then raise_problem (unauthorized
               (Some (u ''Ambiguous delegation: both act.sub and kbp_act_sub present'')))
             else if acting \<noteq> None \<and> claim_present claims (u ''azp'')
                     \<and> dict_get claims (u ''azp'') \<noteq> map_option JStr acting
             then raise_problem (unauthorized (Some (u ''act.sub does not match azp'')))
             else Inr \<lparr>p_user_id = user_id,
                       p_kind = parse_kind (dict_get claims (u ''kbp_kind'')),
                       p_scopes = scopes,
                       p_partner_id = (case dict_get claims (u ''kbp_partner_id'') of
                           Some (JStr s) \<Rightarrow> Some s | _ \<Rightarrow> None),
                       p_on_behalf_of = parse_act_sub (dict_get claims (u ''kbp_act_sub'')),
                       p_acting_agent = acting\<rparr>)"

section \<open>The key cache and the verifier\<close>

record 'k jwks_cache =
  jw_ttl :: rat
  jw_keys :: "(pystr \<times> 'k) list"
  jw_fetched_at :: "rat option"

definition jwks_expired :: "rat \<Rightarrow> 'k jwks_cache \<Rightarrow> bool" where
  "jwks_expired clk c \<longleftrightarrow> (case jw_fetched_at c of None \<Rightarrow> True | Some t \<Rightarrow> clk - t \<ge> jw_ttl c)"

text \<open>
  \<open>fetch\<close> is the fetcher with the RSA parser applied: the keys of the document that carry a
  \<open>kid\<close>, in order; the dict comprehension keeps the last of equal ones.
\<close>

definition jwks_refresh ::
    "(exn + (pystr \<times> 'k) list) \<Rightarrow> rat \<Rightarrow> 'k jwks_cache \<Rightarrow> exn + 'k jwks_cache" where
  "jwks_refresh fetch clk c =
     bindE fetch (\<lambda>ks. Inr (c\<lparr>jw_keys := foldl (\<lambda>m (k, v). AList.update k v m) [] ks,
                                jw_fetched_at := Some clk\<rparr>))"

text \<open>The lookup: the key, or \<open>JwksUnknownKeyError\<close> as \<open>None\<close>, and the cache afterwards.\<close>

definition jwks_get_key ::
    "(exn + (pystr \<times> 'k) list) \<Rightarrow> rat \<Rightarrow> pystr \<Rightarrow> 'k jwks_cache
     \<Rightarrow> (exn + 'k option) \<times> 'k jwks_cache" where
  "jwks_get_key fetch clk kid c =
     (case (if jwks_expired clk c \<or> map_of (jw_keys c) kid = None
            then jwks_refresh fetch clk c else Inr c) of
        Inl e \<Rightarrow> (Inl e, c)
      | Inr c' \<Rightarrow> (Inr (map_of (jw_keys c') kid), c'))"

record jwt_checks =
  jc_audience :: "pystr option"
  jc_issuer :: "pystr option"
  jc_algorithms :: "pystr list"
  jc_leeway :: int
  jc_verify_aud :: bool

text \<open>
  \<open>JwtVerifier.verify\<close>: \<open>header\<close> is \<open>jwt.get_unverified_header\<close> (its \<open>kid\<close>), \<open>decode\<close> is
  \<open>jwt.decode\<close>; \<open>None\<close> stands for a \<open>PyJWTError\<close>.
\<close>

definition verify_token ::
    "pyrt \<Rightarrow> (pystr \<Rightarrow> pystr option option) \<Rightarrow> (pystr \<Rightarrow> 'k \<Rightarrow> jwt_checks \<Rightarrow> jdict option)
     \<Rightarrow> (exn + (pystr \<times> 'k) list) \<Rightarrow> rat \<Rightarrow> jwt_checks \<Rightarrow> pystr \<Rightarrow> 'k jwks_cache
     \<Rightarrow> (exn + principal) \<times> 'k jwks_cache" where
  "verify_token rt header decode fetch clk checks token c =
     (let invalid = raise_problem (unauthorized (Some (u ''Invalid bearer token'')))
      in case header token of
           None \<Rightarrow> (invalid, c)
         | Some kid \<Rightarrow>
             if \<not> truthy kid then (invalid, c)
             else case jwks_get_key fetch clk (or_empty kid) c of
                 (Inl e, c') \<Rightarrow> (Inl e, c')
               | (Inr None, c') \<Rightarrow> (invalid, c')
               | (Inr (Some k), c') \<Rightarrow>
                   (case decode token k checks of
                      None \<Rightarrow> (invalid, c')
                    | Some claims \<Rightarrow> (claims_to_principal rt claims, c')))"

section \<open>What the mapping guarantees\<close>

lemma claims_to_principal_ok:
  assumes "claims_to_principal rt claims = Inr p"
  shows "p_acting_agent p = parse_acting_agent (dict_get claims (u ''act''))"
    "p_on_behalf_of p = parse_act_sub (dict_get claims (u ''kbp_act_sub''))"
    "p_acting_agent p \<noteq> None \<Longrightarrow> \<not> claim_present claims (u ''kbp_act_sub'')"
    "p_acting_agent p \<noteq> None \<Longrightarrow> claim_present claims (u ''azp'')
       \<Longrightarrow> dict_get claims (u ''azp'') = map_option JStr (p_acting_agent p)"
  using assms
  by (auto simp: claims_to_principal_def raise_problem_def Let_def
      split: option.splits if_splits)

lemma parse_act_sub_present: "parse_act_sub (dict_get claims k) \<noteq> None \<Longrightarrow> claim_present claims k"
  by (auto simp: parse_act_sub_def claim_present_def split: option.splits json.splits)

lemma jwks_get_key_fresh:
  assumes "jwks_get_key fetch clk kid c = (Inr (Some k), c')" "0 < jw_ttl c"
  shows "\<not> jwks_expired clk c' \<and> map_of (jw_keys c') kid = Some k"
  using assms
  by (auto simp: jwks_get_key_def jwks_refresh_def jwks_expired_def bindE_Inr_iff
      split: if_splits option.splits sum.splits)

lemma verify_token_claims:
  assumes "verify_token rt header decode fetch clk checks token c = (Inr p, c')"
  shows "\<exists>kid key claims. header token = Some (Some kid) \<and> kid \<noteq> [] \<and> map_of (jw_keys c') kid = Some key
    \<and> decode token key checks = Some claims \<and> claims_to_principal rt claims = Inr p"
  using assms
  by (auto simp: verify_token_def jwks_get_key_def raise_problem_def Let_def truthy_def
      split: option.splits if_splits sum.splits prod.splits)

lemma delegation_exclusive:
  assumes "claims_to_principal rt claims = Inr p" "p_acting_agent p = Some a"
  shows "p_on_behalf_of p = None"
    and "claim_present claims (u ''azp'') \<Longrightarrow> dict_get claims (u ''azp'') = Some (JStr a)"
  using claims_to_principal_ok [OF assms(1)] assms(2)
    parse_act_sub_present [of claims "u ''kbp_act_sub''"]
  by (cases "parse_act_sub (dict_get claims (u ''kbp_act_sub''))"; force)+

text \<open>C28. A bearer token yields a principal only after its signature and claims were checked with a
  key the cache now holds, and the principal never carries both delegation schemes: with an
  RFC 8693 acting agent there is no legacy on-behalf-of user, and the agent is the \<open>azp\<close> of
  the token whenever the token names one.
\<close>

theorem token_delegation:
  assumes "verify_token rt header decode fetch clk checks token c = (Inr p, c')"
  shows "\<exists>kid key claims. header token = Some (Some kid) \<and> map_of (jw_keys c') kid = Some key
    \<and> decode token key checks = Some claims
    \<and> (p_acting_agent p = None \<or> p_on_behalf_of p = None)
    \<and> (p_acting_agent p = None \<or> \<not> claim_present claims (u ''azp'')
        \<or> dict_get claims (u ''azp'') = map_option JStr (p_acting_agent p))"
proof -
  from verify_token_claims [OF assms] obtain kid key claims where
    found: "header token = Some (Some kid)" "map_of (jw_keys c') kid = Some key"
      "decode token key checks = Some claims" and cl: "claims_to_principal rt claims = Inr p"
    by blast
  have "p_acting_agent p = None \<or> p_on_behalf_of p = None"
    "p_acting_agent p = None \<or> \<not> claim_present claims (u ''azp'')
        \<or> dict_get claims (u ''azp'') = map_option JStr (p_acting_agent p)"
    using delegation_exclusive [OF cl] by (cases "p_acting_agent p"; simp; blast)+
  with found show ?thesis by blast
qed

definition demo_claims :: jdict where
  "demo_claims = [(u ''sub'', JStr (u ''00000000-0000-0000-0000-00000000000f'')),
     (u ''scope'', JStr (u ''partner agent'')), (u ''azp'', JStr (u ''kb'')),
     (u ''act'', JObj [(u ''sub'', JStr (u ''kb''))])]"

definition demo_checks :: jwt_checks where
  "demo_checks = \<lparr>jc_audience = None, jc_issuer = None, jc_algorithms = [u ''RS256''],
     jc_leeway = 30, jc_verify_aud = False\<rparr>"

definition demo_cache :: "nat jwks_cache" where
  "demo_cache = \<lparr>jw_ttl = 300, jw_keys = [], jw_fetched_at = None\<rparr>"

definition demo_rt :: pyrt where
  "demo_rt = \<lparr>rt_is_word = (\<lambda>c. (48 \<le> c \<and> c \<le> 57) \<or> (65 \<le> c \<and> c \<le> 90) \<or> (97 \<le> c \<and> c \<le> 122) \<or> c = 95),
     rt_lower = map (\<lambda>c. if 65 \<le> c \<and> c \<le> 90 then c + 32 else c), rt_repr = (\<lambda>j. [])\<rparr>"

definition demo_agent :: principal where
  "demo_agent = \<lparr>p_user_id = 15, p_kind = K_REQUESTER, p_scopes = {u ''partner'', u ''agent''},
     p_partner_id = None, p_on_behalf_of = None, p_acting_agent = Some (u ''kb'')\<rparr>"

lemma demo_verify:
  "verify_token demo_rt (\<lambda>t. Some (Some (u ''k1''))) (\<lambda>t k ch. Some demo_claims)
     (Inr [(u ''k1'', 7)]) 10 demo_checks [] demo_cache
   = (Inr demo_agent, demo_cache\<lparr>jw_keys := [(u ''k1'', 7)], jw_fetched_at := Some 10\<rparr>)"
  by code_simp

lemma token_delegation_witness:
  "p_acting_agent demo_agent = None \<or> p_on_behalf_of demo_agent = None"
  using token_delegation [OF demo_verify] by auto

end
