(* ===== verification/Store.thy ===== *)
theory Store
  imports Enums Datetime Principal
begin

text \<open>
  The database of the service: one record per ORM class of \<open>requests/models.py\<close>,
  \<open>channels/models.py\<close>, \<open>outbox/models.py\<close> and \<open>push/models.py\<close>, a table a list of rows in
  insertion order, and the session over it. A column of type \<open>JSONB\<close> is a \<open>jdict\<close> (or a list),
  a \<open>DateTime\<close> column an \<open>instant\<close>, \<open>Numeric(12, 2)\<close> a \<open>rat\<close>. Primary keys that no code reads
  back (history, attempts, inbound events) are left out; an outbox id is the position of its
  row. Column lengths, foreign keys and \<open>updated_at\<close> are not modelled.
\<close>

section \<open>Channel enumerations\<close>

datatype channel_type = CT_API | CT_CRM | CT_TELEGRAM | CT_MAX | CT_EMAIL | CT_MOCK

fun channel_type_value :: "channel_type \<Rightarrow> pystr" where
  "channel_type_value CT_API = u ''API''"
| "channel_type_value CT_CRM = u ''CRM''"
| "channel_type_value CT_TELEGRAM = u ''TELEGRAM''"
| "channel_type_value CT_MAX = u ''MAX''"
| "channel_type_value CT_EMAIL = u ''EMAIL''"
| "channel_type_value CT_MOCK = u ''MOCK''"

datatype delivery_outcome = DO_SENT | DO_DELIVERED | DO_FAILED | DO_ACK

fun outcome_value :: "delivery_outcome \<Rightarrow> pystr" where
  "outcome_value DO_SENT = u ''SENT''"
| "outcome_value DO_DELIVERED = u ''DELIVERED''"
| "outcome_value DO_FAILED = u ''FAILED''"
| "outcome_value DO_ACK = u ''ACK''"

definition outcome_of_value :: "pystr \<Rightarrow> delivery_outcome option" where
  "outcome_of_value t =
     find (\<lambda>m. outcome_value m = t) [DO_SENT, DO_DELIVERED, DO_FAILED, DO_ACK]"

datatype health_status = HS_HEALTHY | HS_DEGRADED | HS_UNHEALTHY

fun health_value :: "health_status \<Rightarrow> pystr" where
  "health_value HS_HEALTHY = u ''HEALTHY''"
| "health_value HS_DEGRADED = u ''DEGRADED''"
| "health_value HS_UNHEALTHY = u ''UNHEALTHY''"

datatype outbox_status = OB_PENDING | OB_PROCESSING | OB_DONE | OB_FAILED

section \<open>Rows\<close>

record service_request =
  sr_id :: uuid
  sr_number :: pystr
  sr_requester_id :: pystr
  sr_booking_id :: "pystr option"
  sr_premises_id :: "pystr option"
  sr_channel_in :: channel_in
  sr_source_ref :: "jdict option"
  sr_raw_input :: pystr
  sr_raw_input_masked :: pystr
  sr_category :: "category option"
  sr_product_code :: "pystr option"
  sr_classification :: "jdict option"
  sr_partner_id :: "pystr option"
  sr_match_trace :: "jdict option"
  sr_fallback_chain :: "pystr list option"
  sr_delivery_channel :: "pystr option"
  sr_service_order_id :: "pystr option"
  sr_status :: request_status
  sr_sla :: "jdict option"
  sr_amount_ref :: "pystr option"
  sr_escrow_ref :: "pystr option"
  sr_dispute_id :: "pystr option"
  sr_claim_ref :: "pystr option"
  sr_rating_ref :: "pystr option"
  sr_custom_fields :: jdict
  sr_access_level :: access_level
  sr_idempotency_key :: "pystr option"
  sr_dispatched_at :: "instant option"
  sr_accepted_at :: "instant option"
  sr_done_at :: "instant option"
  sr_accepted_by_user_at :: "instant option"
  sr_paid_at :: "instant option"
  sr_scheduled_at :: "instant option"
  sr_created_at :: instant

record request_estimate =
  re_id :: uuid
  re_request_id :: uuid
  re_kind :: estimate_kind
  re_amount_rub :: "rat option"
  re_eta_text :: "pystr option"
  re_comment :: "pystr option"
  re_author_id :: pystr
  re_created_at :: instant

record request_message =
  rm_id :: uuid
  rm_request_id :: uuid
  rm_author_type :: author_type
  rm_author_id :: "pystr option"
  rm_is_internal :: bool
  rm_text :: pystr
  rm_attachments :: "jdict list"
  rm_created_at :: instant

record request_history =
  rh_request_id :: uuid
  rh_actor_id :: uuid
  rh_action :: history_action
  rh_from :: "pystr option"
  rh_to :: "pystr option"
  rh_ts :: instant

record channel_config =
  pc_id :: uuid
  pc_collaborator_id :: pystr
  pc_channel_type :: channel_type
  pc_priority :: int
  pc_config :: jdict
  pc_inbound_token :: "pystr option"
  pc_is_active :: bool
  pc_health :: "jdict option"

record dispatch_attempt =
  da_request_id :: uuid
  da_channel_type :: channel_type
  da_attempt_no :: nat
  da_status :: delivery_outcome
  da_provider_response :: "jdict option"
  da_idempotency_key :: pystr
  da_outbox_ref :: "pystr option"
  da_ts :: instant

record inbound_event =
  ie_channel_config_id :: uuid
  ie_nonce :: pystr
  ie_request_id :: "uuid option"
  ie_received_at :: instant

record outbox_message =
  om_id :: nat
  om_kind :: pystr
  om_payload :: jdict
  om_status :: outbox_status
  om_attempts :: nat
  om_available_at :: instant
  om_last_error :: "pystr option"
  om_created_at :: instant
  om_processed_at :: "instant option"

record push_subscription =
  ps_id :: uuid
  ps_owner_id :: pystr
  ps_audience :: pystr
  ps_endpoint :: pystr
  ps_p256dh :: pystr
  ps_auth :: pystr
  ps_created_at :: instant

record db =
  db_requests :: "service_request list"
  db_history :: "request_history list"
  db_messages :: "request_message list"
  db_estimates :: "request_estimate list"
  db_attempts :: "dispatch_attempt list"
  db_events :: "inbound_event list"
  db_configs :: "channel_config list"
  db_outbox :: "outbox_message list"
  db_subscriptions :: "push_subscription list"
  db_number_seq :: nat

definition empty_db :: db where
  "empty_db = \<lparr>db_requests = [], db_history = [], db_messages = [], db_estimates = [],
     db_attempts = [], db_events = [], db_configs = [], db_outbox = [], db_subscriptions = [],
     db_number_seq = 0\<rparr>"

section \<open>Reading and writing rows\<close>

definition get_request :: "uuid \<Rightarrow> db \<Rightarrow> service_request option" where
  "get_request i d = row_find sr_id i (db_requests d)"

definition save_request :: "service_request \<Rightarrow> db \<Rightarrow> db" where
  "save_request r d = d\<lparr>db_requests := row_put sr_id r (db_requests d)\<rparr>"

definition add_request :: "service_request \<Rightarrow> db \<Rightarrow> db" where
  "add_request r d = d\<lparr>db_requests := db_requests d @ [r]\<rparr>"

definition add_history :: "request_history \<Rightarrow> db \<Rightarrow> db" where
  "add_history h d = d\<lparr>db_history := db_history d @ [h]\<rparr>"

definition add_message :: "request_message \<Rightarrow> db \<Rightarrow> db" where
  "add_message m d = d\<lparr>db_messages := db_messages d @ [m]\<rparr>"

definition add_estimate :: "request_estimate \<Rightarrow> db \<Rightarrow> db" where
  "add_estimate e d = d\<lparr>db_estimates := db_estimates d @ [e]\<rparr>"

definition history_of :: "uuid \<Rightarrow> db \<Rightarrow> request_history list" where
  "history_of i d = filter (\<lambda>h. rh_request_id h = i) (db_history d)"

lemma save_request_frame [frame_simps]:
  "db_history (save_request r d) = db_history d" "db_messages (save_request r d) = db_messages d"
  "db_estimates (save_request r d) = db_estimates d" "db_attempts (save_request r d) = db_attempts d"
  "db_events (save_request r d) = db_events d" "db_configs (save_request r d) = db_configs d"
  "db_outbox (save_request r d) = db_outbox d"
  "db_subscriptions (save_request r d) = db_subscriptions d"
  "db_number_seq (save_request r d) = db_number_seq d"
  "map sr_id (db_requests (save_request r d)) = map sr_id (db_requests d)"
  by (simp_all add: save_request_def)

lemma add_history_frame [frame_simps]:
  "db_requests (add_history h d) = db_requests d" "db_messages (add_history h d) = db_messages d"
  "db_estimates (add_history h d) = db_estimates d" "db_attempts (add_history h d) = db_attempts d"
  "db_events (add_history h d) = db_events d" "db_configs (add_history h d) = db_configs d"
  "db_outbox (add_history h d) = db_outbox d"
  "db_subscriptions (add_history h d) = db_subscriptions d"
  "db_number_seq (add_history h d) = db_number_seq d"
  "db_history (add_history h d) = db_history d @ [h]"
  by (simp_all add: add_history_def)

lemma add_message_frame [frame_simps]:
  "db_requests (add_message m d) = db_requests d" "db_history (add_message m d) = db_history d"
  "db_estimates (add_message m d) = db_estimates d" "db_outbox (add_message m d) = db_outbox d"
  "db_attempts (add_message m d) = db_attempts d" "db_events (add_message m d) = db_events d"
  "db_configs (add_message m d) = db_configs d"
  "db_messages (add_message m d) = db_messages d @ [m]"
  by (simp_all add: add_message_def)

lemma add_estimate_frame [frame_simps]:
  "db_requests (add_estimate e d) = db_requests d" "db_history (add_estimate e d) = db_history d"
  "db_messages (add_estimate e d) = db_messages d" "db_outbox (add_estimate e d) = db_outbox d"
  "db_attempts (add_estimate e d) = db_attempts d" "db_events (add_estimate e d) = db_events d"
  "db_configs (add_estimate e d) = db_configs d"
  "db_estimates (add_estimate e d) = db_estimates d @ [e]"
  by (simp_all add: add_estimate_def)

lemma get_request_Some: "get_request i d = Some r \<Longrightarrow> r \<in> set (db_requests d) \<and> sr_id r = i"
  unfolding get_request_def by (rule row_find_Some)

lemma get_save_request:
  "get_request i (save_request r d) =
     (if i = sr_id r then (if i \<in> sr_id ` set (db_requests d) then Some r else None)
      else get_request i d)"
  by (simp add: get_request_def save_request_def row_find_put)

lemma get_request_frame [frame_simps]:
  "get_request i (add_history h d) = get_request i d"
  "get_request i (add_message m d) = get_request i d"
  "get_request i (add_estimate e d) = get_request i d"
  by (simp_all add: get_request_def frame_simps)

lemma history_of_frame [frame_simps]:
  "history_of i (save_request r d) = history_of i d"
  "history_of i (add_message m d) = history_of i d"
  "history_of i (add_estimate e d) = history_of i d"
  "history_of i (add_history h d) = history_of i d @ (if rh_request_id h = i then [h] else [])"
  by (simp_all add: history_of_def frame_simps)

section \<open>The session\<close>

text \<open>
  \<open>get_session\<close>: a handler works on \<open>se_working\<close>; \<open>commit\<close> makes it durable, \<open>rollback\<close> drops
  it. An endpoint that raises is rolled back, one that returns without a commit leaves the
  durable state alone.
\<close>

record session =
  se_durable :: db
  se_working :: db

type_synonym 'a handler = "session \<Rightarrow> (exn + 'a) \<times> session"

definition open_session :: "db \<Rightarrow> session" where
  "open_session d = \<lparr>se_durable = d, se_working = d\<rparr>"

definition commit :: "session \<Rightarrow> session" where
  "commit s = s\<lparr>se_durable := se_working s\<rparr>"

definition rollback :: "session \<Rightarrow> session" where
  "rollback s = s\<lparr>se_working := se_durable s\<rparr>"

definition run_endpoint :: "'a handler \<Rightarrow> db \<Rightarrow> (exn + 'a) \<times> db" where
  "run_endpoint h d = (case h (open_session d) of
       (Inr a, s) \<Rightarrow> (Inr a, se_durable s)
     | (Inl e, s) \<Rightarrow> (Inl e, se_durable (rollback s)))"

text \<open>A service method that changes the working state and commits it at its end.\<close>

definition committing :: "(db \<Rightarrow> exn + ('a \<times> db)) \<Rightarrow> 'a handler" where
  "committing f s = (case f (se_working s) of
       Inl e \<Rightarrow> (Inl e, s)
     | Inr (a, d) \<Rightarrow> (Inr a, commit (s\<lparr>se_working := d\<rparr>)))"

lemma run_endpoint_committing:
  "run_endpoint (committing f) d = (case f d of Inl e \<Rightarrow> (Inl e, d) | Inr (a, d') \<Rightarrow> (Inr a, d'))"
  by (auto simp: run_endpoint_def committing_def open_session_def commit_def rollback_def
      split: sum.splits prod.splits)

end
