(* ===== verification/Access.thy ===== *)
theory Access
  imports Store
begin

text \<open>
  Who sees which request (\<open>requests/access.py\<close>) and the queries of \<open>requests/repository.py\<close>
  over the table of requests, where that policy is applied as a filter. \<open>None\<close> as ownership
  condition means no filter. The locks of \<open>FOR UPDATE [SKIP LOCKED]\<close> are not modelled: one
  operation runs at a time.
\<close>

section \<open>The policy\<close>

definition all_levels :: "access_level set" where
  "all_levels = set access_level_members"

definition agent_levels :: "access_level set" where
  "agent_levels = {L_PUBLIC, L_LOGGED, L_AGENT}"

definition base_levels :: "access_level set" where
  "base_levels = {L_PUBLIC, L_LOGGED}"

definition visible_access_levels :: "principal \<Rightarrow> access_level set" where
  "visible_access_levels p =
     (if is_operator p \<or> is_staff_admin p then all_levels
      else if is_agent p then agent_levels else base_levels)"

definition ownership_condition :: "principal \<Rightarrow> (service_request \<Rightarrow> bool) option" where
  "ownership_condition p =
     (if is_operator p \<or> is_staff_admin p then None
      else if is_partner p \<and> p_partner_id p \<noteq> None
        then Some (\<lambda>r. sr_partner_id r = p_partner_id p)
      else case (is_agent p, p_on_behalf_of p) of
          (True, Some o_id) \<Rightarrow> Some (\<lambda>r. sr_requester_id r = uuid_str o_id)
        | _ \<Rightarrow> Some (\<lambda>r. sr_requester_id r = uuid_str (p_user_id p)))"

definition can_view_internal :: "principal \<Rightarrow> bool" where
  "can_view_internal p \<longleftrightarrow> is_operator p \<or> is_staff_admin p"

definition can_see_raw_input :: "principal \<Rightarrow> service_request \<Rightarrow> bool" where
  "can_see_raw_input p r =
     (if is_operator p \<or> is_staff_admin p then True
      else if is_partner p then False
      else case (is_agent p, p_on_behalf_of p) of
          (True, Some o_id) \<Rightarrow> sr_requester_id r = uuid_str o_id
        | _ \<Rightarrow> sr_requester_id r = uuid_str (p_user_id p))"

definition can_drive_lifecycle :: "principal \<Rightarrow> bool" where
  "can_drive_lifecycle p \<longleftrightarrow> is_operator p \<or> is_staff_admin p \<or> is_agent p"

definition can_cancel :: "principal \<Rightarrow> bool" where
  "can_cancel p \<longleftrightarrow> \<not> is_partner p"

definition can_reschedule :: "principal \<Rightarrow> bool" where
  "can_reschedule p \<longleftrightarrow> \<not> is_partner p"

definition can_user_action :: "principal \<Rightarrow> bool" where
  "can_user_action p \<longleftrightarrow> \<not> is_partner p"

section \<open>Queries\<close>

text \<open>The two \<open>where\<close> clauses every query of a subject carries.\<close>

definition visible :: "principal \<Rightarrow> service_request \<Rightarrow> bool" where
  "visible p r \<longleftrightarrow> sr_access_level r \<in> visible_access_levels p
     \<and> (case ownership_condition p of None \<Rightarrow> True | Some c \<Rightarrow> c r)"

definition get_visible :: "principal \<Rightarrow> uuid \<Rightarrow> db \<Rightarrow> service_request option" where
  "get_visible p i d = find (\<lambda>r. sr_id r = i \<and> visible p r) (db_requests d)"

record request_filters =
  rf_status :: "request_status option"
  rf_category :: "category option"
  rf_partner_id :: "pystr option"
  rf_created_from :: "instant option"
  rf_created_to :: "instant option"

type_synonym cursor = "instant \<times> uuid"

definition filter_match :: "request_filters \<Rightarrow> service_request \<Rightarrow> bool" where
  "filter_match f r \<longleftrightarrow>
     (rf_status f = None \<or> rf_status f = Some (sr_status r))
     \<and> (rf_category f = None \<or> rf_category f = sr_category r)
     \<and> (rf_partner_id f = None \<or> rf_partner_id f = sr_partner_id r)
     \<and> (case rf_created_from f of None \<Rightarrow> True | Some t \<Rightarrow> t \<le> sr_created_at r)
     \<and> (case rf_created_to f of None \<Rightarrow> True | Some t \<Rightarrow> sr_created_at r \<le> t)"

text \<open>The sort key \<open>(created_at, id)\<close>, and the rows behind a cursor in descending order.\<close>

definition page_key :: "service_request \<Rightarrow> int \<times> int" where
  "page_key r = (sr_created_at r, uint (sr_id r))"

definition after_cursor :: "cursor option \<Rightarrow> service_request \<Rightarrow> bool" where
  "after_cursor c r \<longleftrightarrow> (case c of None \<Rightarrow> True
     | Some (ts, i) \<Rightarrow> sr_created_at r < ts \<or> (sr_created_at r = ts \<and> sr_id r < i))"

definition list_visible ::
    "principal \<Rightarrow> request_filters \<Rightarrow> cursor option \<Rightarrow> nat \<Rightarrow> db \<Rightarrow> service_request list" where
  "list_visible p f c limit d =
     take (limit + 1) (rev (sort_key page_key
       (filter (\<lambda>r. visible p r \<and> filter_match f r \<and> after_cursor c r) (db_requests d))))"

definition next_number :: "db \<Rightarrow> pystr \<times> db" where
  "next_number d = (let n = Suc (db_number_seq d)
     in (u ''RQ-'' @ zpad 8 (dec_digits n), d\<lparr>db_number_seq := n\<rparr>))"

definition get_by_idempotency_key :: "pystr \<Rightarrow> db \<Rightarrow> service_request option" where
  "get_by_idempotency_key k d = find (\<lambda>r. sr_idempotency_key r = Some k) (db_requests d)"

definition estimates_for :: "uuid \<Rightarrow> db \<Rightarrow> request_estimate list" where
  "estimates_for i d =
     rev (sort_key re_created_at (filter (\<lambda>e. re_request_id e = i) (db_estimates d)))"

definition list_messages :: "uuid \<Rightarrow> bool \<Rightarrow> db \<Rightarrow> request_message list" where
  "list_messages i include_internal d =
     sort_key (\<lambda>m. (rm_created_at m, uint (rm_id m)))
       (filter (\<lambda>m. rm_request_id m = i \<and> (include_internal \<or> \<not> rm_is_internal m)) (db_messages d))"

text \<open>A timestamp inside the JSON of a request's SLA (\<open>CAST(sla->>key AS timestamptz)\<close>).\<close>

definition sla_instant :: "jdict option \<Rightarrow> pystr \<Rightarrow> instant option" where
  "sla_instant sla k = (case sla of
     None \<Rightarrow> None
   | Some d \<Rightarrow> (case dict_get d k of
        Some (JStr s) \<Rightarrow> Option.bind (fromisoformat s) dt_instant
      | _ \<Rightarrow> None))"

definition list_accept_overdue :: "instant \<Rightarrow> nat \<Rightarrow> db \<Rightarrow> service_request list" where
  "list_accept_overdue now limit d =
     take limit (sort_key (\<lambda>r. the (sla_instant (sr_sla r) (u ''accept_deadline'')))
       (filter (\<lambda>r. sr_status r = S_DISPATCHED
          \<and> (case sla_instant (sr_sla r) (u ''accept_deadline'') of None \<Rightarrow> False | Some t \<Rightarrow> t < now))
         (db_requests d)))"

definition list_raw_input_expired :: "instant \<Rightarrow> nat \<Rightarrow> db \<Rightarrow> service_request list" where
  "list_raw_input_expired cutoff limit d =
     take limit (sort_key sr_created_at
       (filter (\<lambda>r. sr_created_at r < cutoff \<and> sr_raw_input r \<noteq> sr_raw_input_masked r) (db_requests d)))"

section \<open>Facts\<close>

lemma get_visible_Some:
  "get_visible p i d = Some r \<Longrightarrow> r \<in> set (db_requests d) \<and> sr_id r = i \<and> visible p r"
  by (auto simp: get_visible_def find_Some_iff)

lemma get_visible_None:
  "get_visible p i d = None \<longleftrightarrow> (\<forall>r\<in>set (db_requests d). sr_id r = i \<longrightarrow> \<not> visible p r)"
  by (auto simp: get_visible_def find_None_iff)

lemma get_visible_request:
  "distinct (map sr_id (db_requests d)) \<Longrightarrow> get_visible p i d = Some r \<Longrightarrow> get_request i d = Some r"
  using row_find_distinct [of sr_id "db_requests d" r] get_visible_Some [of p i d r]
  by (auto simp: get_request_def)

lemma list_visible_sub:
  "r \<in> set (list_visible p f c n d) \<Longrightarrow> r \<in> set (db_requests d) \<and> visible p r \<and> filter_match f r"
  by (auto simp: list_visible_def dest!: in_set_takeD)

lemma list_messages_public:
  "m \<in> set (list_messages i False d) \<Longrightarrow> \<not> rm_is_internal m \<and> rm_request_id m = i"
  by (auto simp: list_messages_def)

end
