(* ===== verification/Outbox.thy ===== *)
theory Outbox
  imports Access Config
begin

text \<open>
  The transactional outbox (\<open>outbox/repository.py\<close>): a producer enqueues in its own transaction,
  a worker claims a batch of due messages, and marks each one done, due again later, or failed.
\<close>

definition max_error_len :: nat where "max_error_len = 1000"

definition enqueue :: "instant \<Rightarrow> pystr \<Rightarrow> jdict \<Rightarrow> db \<Rightarrow> db" where
  "enqueue now kind payload d = d\<lparr>db_outbox := db_outbox d @ [\<lparr>om_id = length (db_outbox d),
     om_kind = kind, om_payload = payload, om_status = OB_PENDING, om_attempts = 0,
     om_available_at = now, om_last_error = None, om_created_at = now, om_processed_at = None\<rparr>]\<rparr>"

definition get_message :: "nat \<Rightarrow> db \<Rightarrow> outbox_message option" where
  "get_message i d = row_find om_id i (db_outbox d)"

definition save_message :: "outbox_message \<Rightarrow> db \<Rightarrow> db" where
  "save_message m d = d\<lparr>db_outbox := row_put om_id m (db_outbox d)\<rparr>"

definition claimable :: "pystr \<Rightarrow> instant \<Rightarrow> outbox_message \<Rightarrow> bool" where
  "claimable kind now m \<longleftrightarrow> om_kind m = kind \<and> om_status m \<in> {OB_PENDING, OB_PROCESSING}
     \<and> om_available_at m \<le> now"

definition claim_row :: "instant \<Rightarrow> outbox_message \<Rightarrow> outbox_message" where
  "claim_row reclaim_at m = m\<lparr>om_status := OB_PROCESSING, om_attempts := om_attempts m + 1,
     om_available_at := reclaim_at\<rparr>"

definition default_visibility :: rat where "default_visibility = 300"

definition claim_batch ::
    "pystr \<Rightarrow> instant \<Rightarrow> nat \<Rightarrow> rat \<Rightarrow> db \<Rightarrow> outbox_message list \<times> db" where
  "claim_batch kind now limit visibility d =
     (let rows = take limit (sort_key om_available_at (filter (claimable kind now) (db_outbox d)));
          reclaim_at = now + timedelta_us visibility;
          claimed = map (claim_row reclaim_at) rows
      in (claimed, foldl (\<lambda>d m. save_message m d) d claimed))"

definition mark_done :: "instant \<Rightarrow> outbox_message \<Rightarrow> outbox_message" where
  "mark_done now m = m\<lparr>om_status := OB_DONE, om_processed_at := Some now\<rparr>"

definition mark_failed_or_retry ::
    "pystr \<Rightarrow> instant \<Rightarrow> nat \<Rightarrow> instant \<Rightarrow> outbox_message \<Rightarrow> outbox_message" where
  "mark_failed_or_retry error now max_attempts retry_at m =
     (let m' = m\<lparr>om_last_error := Some (take max_error_len error)\<rparr>
      in if om_attempts m \<ge> max_attempts
         then m'\<lparr>om_status := OB_FAILED, om_processed_at := Some now\<rparr>
         else m'\<lparr>om_status := OB_PENDING, om_available_at := retry_at\<rparr>)"

section \<open>The table of messages\<close>

text \<open>The id of a message is its position, and its kind is one of those the service has a worker for.\<close>

definition outbox_kinds :: "pystr list" where
  "outbox_kinds = [u ''dispatch'', u ''automation_on_create'', u ''webhook'', u ''notification'',
     u ''concierge_status'', u ''partner_fallback'']"

definition known :: "outbox_message \<Rightarrow> bool" where
  "known m \<longleftrightarrow> om_kind m \<in> set outbox_kinds"

definition wf_outbox :: "db \<Rightarrow> bool" where
  "wf_outbox d \<longleftrightarrow> map om_id (db_outbox d) = [0..<length (db_outbox d)] \<and> list_all known (db_outbox d)"

named_theorems known_kinds \<open>the kinds the code enqueues\<close>

lemma wf_outbox_distinct: "wf_outbox d \<Longrightarrow> distinct (map om_id (db_outbox d))"
  by (simp add: wf_outbox_def)

lemma wf_outbox_enqueue [inv_intros]:
  "kind \<in> set outbox_kinds \<Longrightarrow> wf_outbox d \<Longrightarrow> wf_outbox (enqueue now kind payload d)"
  by (simp add: wf_outbox_def enqueue_def known_def)

lemma wf_outbox_known: "wf_outbox d \<Longrightarrow> m \<in> set (db_outbox d) \<Longrightarrow> known m"
  by (simp add: wf_outbox_def list_all_iff)

lemma wf_outbox_same: "db_outbox d' = db_outbox d \<Longrightarrow> wf_outbox d \<Longrightarrow> wf_outbox d'"
  by (simp add: wf_outbox_def)

lemma wf_outbox_save [inv_intros]: "known m \<Longrightarrow> wf_outbox d \<Longrightarrow> wf_outbox (save_message m d)"
proof -
  have "length (row_put om_id m (db_outbox d)) = length (db_outbox d)" by (simp add: row_put_def)
  moreover have "known m \<Longrightarrow> wf_outbox d \<Longrightarrow> x \<in> set (db_outbox (save_message m d)) \<Longrightarrow> known x" for x
    using set_row_put [of om_id m "db_outbox d"] by (auto simp: save_message_def wf_outbox_known)
  ultimately show "known m \<Longrightarrow> wf_outbox d \<Longrightarrow> wf_outbox (save_message m d)"
    by (simp add: wf_outbox_def save_message_def list_all_iff)
qed

lemma save_message_frame [frame_simps]:
  "db_requests (save_message m d) = db_requests d" "db_history (save_message m d) = db_history d"
  "db_messages (save_message m d) = db_messages d" "db_attempts (save_message m d) = db_attempts d"
  "db_estimates (save_message m d) = db_estimates d" "db_events (save_message m d) = db_events d"
  "db_configs (save_message m d) = db_configs d" "db_number_seq (save_message m d) = db_number_seq d"
  by (simp_all add: save_message_def)

lemma get_save_message:
  "get_message i (save_message m d) =
     (if i = om_id m then (if i \<in> om_id ` set (db_outbox d) then Some m else None)
      else get_message i d)"
  by (simp add: get_message_def save_message_def row_find_put)

lemma claim_row_simps [simp]:
  "om_id (claim_row t m) = om_id m" "om_kind (claim_row t m) = om_kind m"
  "om_payload (claim_row t m) = om_payload m" "om_status (claim_row t m) = OB_PROCESSING"
  "om_attempts (claim_row t m) = Suc (om_attempts m)" "om_available_at (claim_row t m) = t"
  by (simp_all add: claim_row_def)

lemma foldl_save_messages:
  assumes "distinct (map om_id ms)"
  shows "db_outbox (foldl (\<lambda>d m. save_message m d) d ms) =
    map (\<lambda>x. case row_find om_id (om_id x) ms of None \<Rightarrow> x | Some m \<Rightarrow> m) (db_outbox d)"
  using assms
proof (induction ms arbitrary: d)
  case Nil
  then show ?case by (simp add: row_find_def)
next
  case (Cons m ms)
  have "row_find om_id (om_id m) ms = None" using Cons.prems by (simp add: row_find_None)
  then show ?case using Cons
    by (auto simp: save_message_def row_put_def row_find_def split: option.splits)
qed

lemma claimed_rows:
  assumes "wf_outbox d" "claim_batch kind now limit vis d = (ms, d')"
  obtains rows where "ms = map (claim_row (now + timedelta_us vis)) rows"
    "distinct (map om_id rows)" "set rows \<subseteq> set (db_outbox d)" "\<forall>m\<in>set rows. claimable kind now m"
    "length rows \<le> limit"
    "db_outbox d' = map (\<lambda>x. if x \<in> set rows then claim_row (now + timedelta_us vis) x else x)
       (db_outbox d)"
proof -
  define rows where
    "rows = take limit (sort_key om_available_at (filter (claimable kind now) (db_outbox d)))"
  let ?claim = "claim_row (now + timedelta_us vis)"
  have ms: "ms = map ?claim rows" and d': "d' = foldl (\<lambda>d m. save_message m d) d ms"
    using assms(2) by (auto simp: claim_batch_def rows_def Let_def)
  have sub: "set rows \<subseteq> set (db_outbox d)" and ready: "\<forall>m\<in>set rows. claimable kind now m"
    by (auto simp: rows_def dest: in_set_takeD)
  have dist: "distinct (map om_id rows)"
  proof -
    have "inj_on om_id (set (db_outbox d))" "distinct (db_outbox d)"
      using wf_outbox_distinct [OF assms(1)] by (auto simp: distinct_map)
    then show ?thesis using sub
      by (auto simp: distinct_map rows_def intro: inj_on_subset distinct_filter)
  qed
  have find: "row_find om_id (om_id x) (map ?claim rows) =
      (if x \<in> set rows then Some (?claim x) else None)" if "x \<in> set (db_outbox d)" for x
  proof (cases "x \<in> set rows")
    case True
    then show ?thesis using row_find_distinct [of om_id "map ?claim rows" "?claim x"] dist
      by (simp add: comp_def)
  next
    case False
    have "om_id x \<notin> om_id ` set rows"
      using wf_outbox_distinct [OF assms(1)] sub that False by (auto simp: distinct_map inj_on_def)
    then show ?thesis using False by (auto simp: row_find_None)
  qed
  have "distinct (map om_id (map ?claim rows))" using dist by (simp add: comp_def)
  then have "db_outbox d' = map (\<lambda>x. if x \<in> set rows then ?claim x else x) (db_outbox d)"
    using find by (auto simp: d' ms foldl_save_messages)
  then show thesis using that [OF ms dist sub ready] by (simp add: rows_def)
qed

lemma wf_outbox_claim:
  assumes "wf_outbox d"
  shows "wf_outbox (snd (claim_batch kind now limit vis d))"
    and "m \<in> set (fst (claim_batch kind now limit vis d)) \<Longrightarrow> known m"
proof -
  obtain ms d' where claim: "claim_batch kind now limit vis d = (ms, d')" by fastforce
  obtain rows where r: "ms = map (claim_row (now + timedelta_us vis)) rows" "distinct (map om_id rows)"
    "set rows \<subseteq> set (db_outbox d)" "\<forall>m\<in>set rows. claimable kind now m" "length rows \<le> limit"
    "db_outbox d' = map (\<lambda>x. if x \<in> set rows then claim_row (now + timedelta_us vis) x else x) (db_outbox d)"
    by (rule claimed_rows [OF assms claim])
  have ids: "map om_id (db_outbox d') = map om_id (db_outbox d)" "length (db_outbox d') = length (db_outbox d)"
    by (simp_all add: r(6))
  have same: "known (claim_row t x) = known x" for t x by (simp add: known_def)
  have "known x" if "x \<in> set (db_outbox d')" for x
    using that wf_outbox_known [OF assms] by (auto simp: r(6) same)
  then show "wf_outbox (snd (claim_batch kind now limit vis d))"
    using assms ids by (simp add: claim wf_outbox_def list_all_iff)
  show "m \<in> set (fst (claim_batch kind now limit vis d)) \<Longrightarrow> known m"
    using r(3) wf_outbox_known [OF assms] by (auto simp: claim r(1) same)
qed


definition demo_outbox :: db where
  "demo_outbox = enqueue 5 (u ''dispatch'') [] (enqueue 0 (u ''webhook'') [] (enqueue 0 (u ''dispatch'') [] empty_db))"


section \<open>Retrying\<close>

text \<open>One delivery that fails: claimed, handled in vain, marked.\<close>

definition fail_once :: "nat \<Rightarrow> instant \<Rightarrow> outbox_message \<Rightarrow> outbox_message" where
  "fail_once max_attempts now m = mark_failed_or_retry [] now max_attempts now (claim_row now m)"

lemma mark_simps [simp]:
  "om_id (mark_done now m) = om_id m" "om_status (mark_done now m) = OB_DONE"
  "om_id (mark_failed_or_retry e now k r m) = om_id m"
  "om_status (mark_failed_or_retry e now k r m) =
     (if om_attempts m \<ge> k then OB_FAILED else OB_PENDING)"
  "om_attempts (mark_failed_or_retry e now k r m) = om_attempts m"
  by (simp_all add: mark_done_def mark_failed_or_retry_def Let_def)

lemma known_marks [simp]:
  "known (mark_done now m) = known m" "known (mark_failed_or_retry e now k r m) = known m"
  by (simp_all add: known_def mark_done_def mark_failed_or_retry_def Let_def)



end
