(* ===== verification/Emit.thy ===== *)
theory Emit
  imports Outbox
begin

text \<open>
  What a change of status puts into the outbox, in the transaction of the change: the domain
  event (\<open>webhooks/emitter.py\<close>), the notifications (\<open>notifications/events.py\<close> and
  \<open>notifications/emitter.py\<close>) and the callback to the chat agent (\<open>agent/callback.py\<close>). The
  Russian texts are code points; each emitter is silent while its setting is empty.
\<close>

section \<open>Domain events\<close>

definition webhook_kind :: pystr where "webhook_kind = u ''webhook''"

lemma known_webhook_kind [known_kinds, simp]: "webhook_kind \<in> set outbox_kinds"
  by (simp add: webhook_kind_def outbox_kinds_def)

fun status_event_name :: "request_status \<Rightarrow> pystr option" where
  "status_event_name S_CLASSIFIED = Some (u ''request.classified'')"
| "status_event_name S_NEEDS_REVIEW = Some (u ''request.needs_review'')"
| "status_event_name S_ASSIGNED = Some (u ''request.assigned'')"
| "status_event_name S_DISPATCHED = Some (u ''request.dispatched'')"
| "status_event_name S_FAILED_DISPATCH = Some (u ''request.dispatch_failed'')"
| "status_event_name S_ACCEPTED = Some (u ''request.accepted_by_partner'')"
| "status_event_name S_IN_PROGRESS = Some (u ''request.in_progress'')"
| "status_event_name S_DONE = Some (u ''request.done'')"
| "status_event_name S_ACCEPTED_BY_USER = Some (u ''request.accepted_by_user'')"
| "status_event_name S_DISPUTE = Some (u ''request.dispute_opened'')"
| "status_event_name S_PAID = Some (u ''request.paid'')"
| "status_event_name S_CANCELLED = Some (u ''request.cancelled'')"
| "status_event_name _ = None"

definition ascii_lower :: "pystr \<Rightarrow> pystr" where
  "ascii_lower s = map (\<lambda>c. if 65 \<le> c \<and> c \<le> 90 then c + 32 else c) s"

definition status_event :: "request_status \<Rightarrow> pystr" where
  "status_event s = (case status_event_name s of Some e \<Rightarrow> e
     | None \<Rightarrow> u ''request.'' @ ascii_lower (status_value s))"

definition emit_event ::
    "settings \<Rightarrow> instant \<Rightarrow> pystr \<Rightarrow> uuid \<Rightarrow> pystr \<Rightarrow> request_status \<Rightarrow> datetime option \<Rightarrow> db \<Rightarrow> db" where
  "emit_event st now event request_id number status scheduled_at d =
     (if st_webhook_url st = [] then d
      else enqueue now webhook_kind
        ([(u ''event'', JStr event), (u ''request_id'', JStr (uuid_str request_id)),
          (u ''number'', JStr number), (u ''status'', JStr (status_value status))]
         @ (case scheduled_at of None \<Rightarrow> []
            | Some t \<Rightarrow> [(u ''scheduled_at'', JStr (isoformat t))])) d)"

section \<open>Notifications\<close>

datatype notify_audience = N_USER | N_PARTNER | N_OPERATOR

fun audience_value :: "notify_audience \<Rightarrow> pystr" where
  "audience_value N_USER = u ''user''"
| "audience_value N_PARTNER = u ''partner''"
| "audience_value N_OPERATOR = u ''operator''"

record notification =
  nt_audience :: notify_audience
  nt_summary :: pystr

definition user_summaries :: "(request_status \<times> pystr) list" where
  "user_summaries = [
     (S_NEW,
      [1047, 1072, 1103, 1074, 1082, 1072, 32, 1087, 1088, 1080, 1085, 1103, 1090, 1072, 32,
      1074, 32, 1088, 1072, 1073, 1086, 1090, 1091]),
     (S_ASSIGNED,
      [1055, 1072, 1088, 1090, 1085, 1105, 1088, 32, 1085, 1072, 1079, 1085, 1072, 1095, 1077,
      1085]),
     (S_ACCEPTED,
      [1055, 1072, 1088, 1090, 1085, 1105, 1088, 32, 1087, 1088, 1080, 1085, 1103, 1083, 32,
      1079, 1072, 1103, 1074, 1082, 1091]),
     (S_IN_PROGRESS,
      [1048, 1089, 1087, 1086, 1083, 1085, 1080, 1090, 1077, 1083, 1100, 32, 1087, 1088, 1080,
      1089, 1090, 1091, 1087, 1080, 1083, 32, 1082, 32, 1088, 1072, 1073, 1086, 1090, 1077]),
     (S_DONE,
      [1056, 1072, 1073, 1086, 1090, 1072, 32, 1074, 1099, 1087, 1086, 1083, 1085, 1077, 1085,
      1072, 32, 8212, 32, 1087, 1086, 1076, 1090, 1074, 1077, 1088, 1076, 1080, 1090, 1077, 32,
      1087, 1088, 1080, 1105, 1084, 1082, 1091]),
     (S_CANCELLED,
      [1047, 1072, 1103, 1074, 1082, 1072, 32, 1086, 1090, 1084, 1077, 1085, 1077, 1085, 1072])]"

definition partner_summaries :: "(request_status \<times> pystr) list" where
  "partner_summaries = [
     (S_DISPATCHED,
      [1053, 1086, 1074, 1072, 1103, 32, 1079, 1072, 1103, 1074, 1082, 1072, 32, 1074, 1072,
      1084, 32, 1085, 1072, 1079, 1085, 1072, 1095, 1077, 1085, 1072]),
     (S_CANCELLED,
      [1047, 1072, 1103, 1074, 1082, 1072, 32, 1086, 1090, 1084, 1077, 1085, 1077, 1085, 1072])]"

definition operator_summaries :: "(request_status \<times> pystr) list" where
  "operator_summaries = [
     (S_NEEDS_REVIEW,
      [1047, 1072, 1103, 1074, 1082, 1072, 32, 1090, 1088, 1077, 1073, 1091, 1077, 1090, 32,
      1088, 1077, 1074, 1100, 1102, 32, 1086, 1087, 1077, 1088, 1072, 1090, 1086, 1088, 1072]),
     (S_FAILED_DISPATCH,
      [1053, 1077, 32, 1091, 1076, 1072, 1083, 1086, 1089, 1100, 32, 1085, 1072, 1079, 1085,
      1072, 1095, 1080, 1090, 1100, 32, 1087, 1072, 1088, 1090, 1085, 1105, 1088, 1072, 32,
      8212, 32, 1085, 1091, 1078, 1077, 1085, 32, 1086, 1087, 1077, 1088, 1072, 1090, 1086,
      1088])]"

definition notifications_for :: "request_status \<Rightarrow> notification list" where
  "notifications_for s = List.map_filter
     (\<lambda>(a, table). map_option (\<lambda>t. \<lparr>nt_audience = a, nt_summary = t\<rparr>) (map_of table s))
     [(N_USER, user_summaries), (N_PARTNER, partner_summaries), (N_OPERATOR, operator_summaries)]"

definition notification_kind :: pystr where "notification_kind = u ''notification''"

lemma known_notification_kind [known_kinds, simp]: "notification_kind \<in> set outbox_kinds"
  by (simp add: notification_kind_def outbox_kinds_def)

definition notification_payload ::
    "uuid \<Rightarrow> pystr \<Rightarrow> request_status \<Rightarrow> pystr \<Rightarrow> pystr option \<Rightarrow> notification \<Rightarrow> jdict" where
  "notification_payload request_id number status requester_id partner_id n =
     [(u ''audience'', JStr (audience_value (nt_audience n))),
      (u ''request_id'', JStr (uuid_str request_id)), (u ''number'', JStr number),
      (u ''status'', JStr (status_value status)), (u ''summary'', JStr (nt_summary n)),
      (u ''requester_id'', JStr requester_id), (u ''partner_id'', opt_json partner_id)]"

definition emit_notifications ::
    "settings \<Rightarrow> instant \<Rightarrow> uuid \<Rightarrow> pystr \<Rightarrow> request_status \<Rightarrow> pystr \<Rightarrow> pystr option \<Rightarrow> db \<Rightarrow> db" where
  "emit_notifications st now request_id number status requester_id partner_id d =
     (if \<not> st_notifications_enabled st then d
      else foldl (\<lambda>d n. if nt_audience n = N_PARTNER \<and> \<not> truthy partner_id then d
             else enqueue now notification_kind
               (notification_payload request_id number status requester_id partner_id n) d)
           d (notifications_for status))"

definition emit_operator_escalation ::
    "settings \<Rightarrow> instant \<Rightarrow> uuid \<Rightarrow> pystr \<Rightarrow> request_status \<Rightarrow> pystr \<Rightarrow> db \<Rightarrow> db" where
  "emit_operator_escalation st now request_id number status summary d =
     (if \<not> st_notifications_enabled st then d
      else enqueue now notification_kind
        [(u ''audience'', JStr (audience_value N_OPERATOR)),
         (u ''request_id'', JStr (uuid_str request_id)), (u ''number'', JStr number),
         (u ''status'', JStr (status_value status)), (u ''summary'', JStr summary)] d)"

section \<open>The callback of the chat agent\<close>

definition concierge_callback_kind :: pystr where "concierge_callback_kind = u ''concierge_status''"

lemma known_concierge_callback_kind [known_kinds, simp]: "concierge_callback_kind \<in> set outbox_kinds"
  by (simp add: concierge_callback_kind_def outbox_kinds_def)

text \<open>The templates, cut at their \<open>{number}\<close>.\<close>

definition status_templates :: "(request_status \<times> pystr \<times> pystr) list" where
  "status_templates = [
     (S_ASSIGNED,
      [1055, 1086, 32, 1079, 1072, 1103, 1074, 1082, 1077, 32],
      [32, 1085, 1072, 1079, 1085, 1072, 1095, 1077, 1085, 32, 1080, 1089, 1087, 1086, 1083,
      1085, 1080, 1090, 1077, 1083, 1100, 46]),
     (S_DISPATCHED,
      [1047, 1072, 1103, 1074, 1082, 1072, 32],
      [32, 1087, 1077, 1088, 1077, 1076, 1072, 1085, 1072, 32, 1080, 1089, 1087, 1086, 1083,
      1085, 1080, 1090, 1077, 1083, 1102, 46]),
     (S_FAILED_DISPATCH,
      [1047, 1072, 1103, 1074, 1082, 1091, 32],
      [32, 1085, 1077, 32, 1091, 1076, 1072, 1083, 1086, 1089, 1100, 32, 1087, 1077, 1088, 1077,
      1076, 1072, 1090, 1100, 32, 1080, 1089, 1087, 1086, 1083, 1085, 1080, 1090, 1077, 1083,
      1102, 32, 8212, 32, 1087, 1086, 1076, 1082, 1083, 1102, 1095, 1072, 1077, 1084, 32, 1086,
      1087, 1077, 1088, 1072, 1090, 1086, 1088, 1072, 46]),
     (S_ACCEPTED,
      [1048, 1089, 1087, 1086, 1083, 1085, 1080, 1090, 1077, 1083, 1100, 32, 1087, 1088, 1080,
      1085, 1103, 1083, 32, 1079, 1072, 1103, 1074, 1082, 1091, 32],
      [32, 1074, 32, 1088, 1072, 1073, 1086, 1090, 1091, 46]),
     (S_IN_PROGRESS,
      [1055, 1086, 32, 1079, 1072, 1103, 1074, 1082, 1077, 32],
      [32, 1085, 1072, 1095, 1072, 1090, 1099, 32, 1088, 1072, 1073, 1086, 1090, 1099, 46]),
     (S_DONE,
      [1056, 1072, 1073, 1086, 1090, 1099, 32, 1087, 1086, 32, 1079, 1072, 1103, 1074, 1082,
      1077, 32],
      [32, 1079, 1072, 1074, 1077, 1088, 1096, 1077, 1085, 1099, 32, 8212, 32, 1087, 1086, 1076,
      1090, 1074, 1077, 1088, 1076, 1080, 1090, 1077, 32, 1087, 1088, 1080, 1105, 1084, 1082,
      1091, 46]),
     (S_ACCEPTED_BY_USER,
      [1055, 1088, 1080, 1105, 1084, 1082, 1072, 32, 1087, 1086, 32, 1079, 1072, 1103, 1074,
      1082, 1077, 32],
      [32, 1087, 1086, 1076, 1090, 1074, 1077, 1088, 1078, 1076, 1077, 1085, 1072, 46]),
     (S_DISPUTE,
      [1055, 1086, 32, 1079, 1072, 1103, 1074, 1082, 1077, 32],
      [32, 1086, 1090, 1082, 1088, 1099, 1090, 32, 1089, 1087, 1086, 1088, 46]),
     (S_PAID,
      [1054, 1087, 1083, 1072, 1090, 1072, 32, 1087, 1086, 32, 1079, 1072, 1103, 1074, 1082,
      1077, 32],
      [32, 1087, 1088, 1086, 1074, 1077, 1076, 1077, 1085, 1072, 46]),
     (S_CANCELLED,
      [1047, 1072, 1103, 1074, 1082, 1072, 32],
      [32, 1086, 1090, 1084, 1077, 1085, 1077, 1085, 1072, 46]),
     (S_REJECTED,
      [1047, 1072, 1103, 1074, 1082, 1072, 32],
      [32, 1086, 1090, 1082, 1083, 1086, 1085, 1077, 1085, 1072, 46])]"

definition status_text :: "request_status \<Rightarrow> pystr \<Rightarrow> pystr option" where
  "status_text s number = map_option (\<lambda>(a, b). a @ number @ b) (map_of status_templates s)"

definition json_truthy :: "json \<Rightarrow> bool" where
  "json_truthy j = (case j of JNull \<Rightarrow> False | JBool b \<Rightarrow> b | JInt i \<Rightarrow> i \<noteq> 0 | JNum q \<Rightarrow> q \<noteq> 0
     | JStr s \<Rightarrow> s \<noteq> [] | JArr xs \<Rightarrow> xs \<noteq> [] | JObj kvs \<Rightarrow> kvs \<noteq> [])"

definition emit_concierge_status_update ::
    "pyrt \<Rightarrow> settings \<Rightarrow> instant \<Rightarrow> uuid \<Rightarrow> pystr \<Rightarrow> request_status \<Rightarrow> jdict option \<Rightarrow> db \<Rightarrow> db" where
  "emit_concierge_status_update rt st now request_id number status source_ref d =
     (if st_concierge_api_base_url st = [] then d
      else case dict_get (case source_ref of None \<Rightarrow> [] | Some r \<Rightarrow> r) (u ''chat_session_id'') of
          None \<Rightarrow> d
        | Some sid \<Rightarrow>
            if \<not> json_truthy sid then d
            else case status_text status number of
                None \<Rightarrow> d
              | Some text \<Rightarrow> enqueue now concierge_callback_kind
                  [(u ''session_id'', JStr (py_str rt sid)), (u ''text'', JStr text),
                   (u ''ref'', JStr number), (u ''status'', JStr (status_value status)),
                   (u ''request_id'', JStr (uuid_str request_id))] d)"

section \<open>Only the outbox grows\<close>

definition outbox_only :: "db \<Rightarrow> db \<Rightarrow> bool" where
  "outbox_only d d' \<longleftrightarrow> (\<exists>ms. d' = d\<lparr>db_outbox := db_outbox d @ ms\<rparr>)"

lemma outbox_only_refl [intro]: "outbox_only d d"
  unfolding outbox_only_def by (rule exI [of _ "[]"]) simp

lemma outbox_only_trans [trans]: "outbox_only d d' \<Longrightarrow> outbox_only d' d'' \<Longrightarrow> outbox_only d d''"
  by (auto simp: outbox_only_def)

lemma outbox_only_enqueue [intro]: "outbox_only d (enqueue now kind payload d)"
  by (auto simp: outbox_only_def enqueue_def)

lemma outbox_only_foldl:
  "(\<And>d x. outbox_only d (f d x)) \<Longrightarrow> outbox_only d (foldl f d xs)"
  by (induction xs arbitrary: d) (auto intro: outbox_only_trans)

lemma emit_outbox_only [intro]:
  "outbox_only d (emit_event st now event i number status sched d)"
  "outbox_only d (emit_notifications st now i number status requester partner d)"
  "outbox_only d (emit_operator_escalation st now i number status summary d)"
  "outbox_only d (emit_concierge_status_update rt st now i number status source_ref d)"
  by (auto simp: emit_event_def emit_notifications_def emit_operator_escalation_def
      emit_concierge_status_update_def intro!: outbox_only_foldl split: option.splits)

lemma outbox_only_frame [frame_simps]:
  assumes "outbox_only d d'"
  shows "db_requests d' = db_requests d" "db_history d' = db_history d"
    "db_messages d' = db_messages d" "db_estimates d' = db_estimates d"
    "db_attempts d' = db_attempts d" "db_events d' = db_events d" "db_configs d' = db_configs d"
    "db_subscriptions d' = db_subscriptions d" "db_number_seq d' = db_number_seq d"
  using assms by (auto simp: outbox_only_def)

end
