(* ===== verification/Fsm.thy ===== *)
theory Fsm
  imports Enums Errors
begin

text \<open>
  The state machine of a request (\<open>requests/fsm.py\<close>): the table of base transitions, the table
  the module builds from it by adding \<open>CANCELLED\<close> to every status that is not terminal, and the
  four functions over it. The facts collected here (\<open>fsm_facts\<close>) are what the services rely
  on.
\<close>

definition terminal_statuses :: "request_status set" where
  "terminal_statuses = {S_PAID, S_CANCELLED, S_REJECTED}"

definition base_transitions :: "request_status \<Rightarrow> request_status set option" where
  "base_transitions s = map_of
     [(S_NEW, {S_CLASSIFYING}),
      (S_CLASSIFYING, {S_CLASSIFIED}),
      (S_CLASSIFIED, {S_MATCHING, S_NEEDS_REVIEW}),
      (S_NEEDS_REVIEW, {S_MATCHING}),
      (S_MATCHING, {S_ASSIGNED}),
      (S_ASSIGNED, {S_DISPATCHED}),
      (S_DISPATCHED, {S_ACCEPTED, S_MATCHING, S_FAILED_DISPATCH}),
      (S_FAILED_DISPATCH, {S_MATCHING}),
      (S_ACCEPTED, {S_IN_PROGRESS}),
      (S_IN_PROGRESS, {S_DONE}),
      (S_DONE, {S_ACCEPTED_BY_USER, S_DISPUTE}),
      (S_ACCEPTED_BY_USER, {S_PAID, S_DISPUTE}),
      (S_DISPUTE, {S_REJECTED})] s"

definition build_allowed :: "(request_status \<times> request_status set) list" where
  "build_allowed = map (\<lambda>s.
     let targets = (case base_transitions s of None \<Rightarrow> {} | Some t \<Rightarrow> t)
     in (s, if s \<notin> terminal_statuses then targets \<union> {S_CANCELLED} else targets)) status_members"

text \<open>\<open>ALLOWED_TRANSITIONS[status]\<close>; a missing key (\<open>None\<close>) would be a \<open>KeyError\<close>.\<close>

definition allowed_lookup :: "request_status \<Rightarrow> request_status set option" where
  "allowed_lookup s = map_of build_allowed s"

definition allowed_transitions :: "request_status \<Rightarrow> request_status set" where
  "allowed_transitions s = the (allowed_lookup s)"

definition is_terminal :: "request_status \<Rightarrow> bool" where
  "is_terminal s \<longleftrightarrow> s \<in> terminal_statuses"

definition can_transition :: "request_status \<Rightarrow> request_status \<Rightarrow> bool" where
  "can_transition source target \<longleftrightarrow> target \<in> allowed_transitions source"

definition ensure_transition :: "request_status \<Rightarrow> request_status \<Rightarrow> exn + unit" where
  "ensure_transition source target =
     (if can_transition source target then Inr ()
      else raise_problem (conflict (Some (u ''Transition '' @ status_value source @ u '' -> ''
             @ status_value target @ u '' is not allowed''))))"

section \<open>The table\<close>

lemma allowed_lookup_eq:
  "allowed_lookup s = Some ((case base_transitions s of None \<Rightarrow> {} | Some t \<Rightarrow> t)
     \<union> (if s \<in> terminal_statuses then {} else {S_CANCELLED}))"
  by (cases s) (simp_all add: allowed_lookup_def build_allowed_def status_members_def
      terminal_statuses_def Let_def)

lemma allowed_transitions_eq:
  "allowed_transitions s = (case base_transitions s of None \<Rightarrow> {} | Some t \<Rightarrow> t)
     \<union> (if s \<in> terminal_statuses then {} else {S_CANCELLED})"
  by (simp add: allowed_transitions_def allowed_lookup_eq)

lemma can_transition_simps [simp]:
  "can_transition S_NEW t \<longleftrightarrow> t \<in> {S_CLASSIFYING, S_CANCELLED}"
  "can_transition S_CLASSIFYING t \<longleftrightarrow> t \<in> {S_CLASSIFIED, S_CANCELLED}"
  "can_transition S_CLASSIFIED t \<longleftrightarrow> t \<in> {S_MATCHING, S_NEEDS_REVIEW, S_CANCELLED}"
  "can_transition S_NEEDS_REVIEW t \<longleftrightarrow> t \<in> {S_MATCHING, S_CANCELLED}"
  "can_transition S_MATCHING t \<longleftrightarrow> t \<in> {S_ASSIGNED, S_CANCELLED}"
  "can_transition S_ASSIGNED t \<longleftrightarrow> t \<in> {S_DISPATCHED, S_CANCELLED}"
  "can_transition S_DISPATCHED t \<longleftrightarrow> t \<in> {S_ACCEPTED, S_MATCHING, S_FAILED_DISPATCH, S_CANCELLED}"
  "can_transition S_FAILED_DISPATCH t \<longleftrightarrow> t \<in> {S_MATCHING, S_CANCELLED}"
  "can_transition S_ACCEPTED t \<longleftrightarrow> t \<in> {S_IN_PROGRESS, S_CANCELLED}"
  "can_transition S_IN_PROGRESS t \<longleftrightarrow> t \<in> {S_DONE, S_CANCELLED}"
  "can_transition S_DONE t \<longleftrightarrow> t \<in> {S_ACCEPTED_BY_USER, S_DISPUTE, S_CANCELLED}"
  "can_transition S_ACCEPTED_BY_USER t \<longleftrightarrow> t \<in> {S_PAID, S_DISPUTE, S_CANCELLED}"
  "can_transition S_DISPUTE t \<longleftrightarrow> t \<in> {S_REJECTED, S_CANCELLED}"
  "can_transition S_PAID t \<longleftrightarrow> False"
  "can_transition S_CANCELLED t \<longleftrightarrow> False"
  "can_transition S_REJECTED t \<longleftrightarrow> False"
  by (auto simp: can_transition_def allowed_transitions_eq base_transitions_def
      terminal_statuses_def)

lemma is_terminal_simps [simp]:
  "is_terminal s \<longleftrightarrow> s = S_PAID \<or> s = S_CANCELLED \<or> s = S_REJECTED"
  by (auto simp: is_terminal_def terminal_statuses_def)

lemma ensure_transition_ok [simp]: "ensure_transition a b = Inr v \<longleftrightarrow> can_transition a b"
  by (simp add: ensure_transition_def raise_problem_def)

lemma ensure_transition_conflict:
  "\<not> can_transition a b \<Longrightarrow> \<exists>e. ensure_transition a b = Inl (Problem e) \<and> pb_status e = 409"
  by (simp add: ensure_transition_def raise_problem_def)

section \<open>Paths\<close>

text \<open>The successive statuses of a request.\<close>

fun fsm_path :: "request_status \<Rightarrow> request_status list \<Rightarrow> bool" where
  "fsm_path s [] = True"
| "fsm_path s (t # ts) = (can_transition s t \<and> fsm_path t ts)"

lemma fsm_path_append: "fsm_path s (xs @ ys) \<longleftrightarrow> fsm_path s xs \<and> fsm_path (last (s # xs)) ys"
  by (induction xs arbitrary: s) auto

lemma fsm_path_snoc [simp]: "fsm_path s (xs @ [t]) \<longleftrightarrow> fsm_path s xs \<and> can_transition (last (s # xs)) t"
  by (simp add: fsm_path_append)

lemma fsm_path_terminal: "is_terminal s \<Longrightarrow> fsm_path s ts \<Longrightarrow> ts = []"
  by (cases ts; cases s) auto

text \<open>A status with a single predecessor drags the predecessor into the path.\<close>

lemma path_pred:
  assumes "fsm_path s xs" "t \<in> set xs" "t \<noteq> s" "\<And>q. can_transition q t \<Longrightarrow> q = p" "p \<noteq> s"
  shows "p \<in> set xs"
proof -
  from split_list [OF assms(2)] obtain ys zs where xs: "xs = ys @ t # zs" by blast
  with assms(1) have "can_transition (last (s # ys)) t" by (simp add: fsm_path_append)
  then have "last (s # ys) = p" by (rule assms(4))
  with assms(5) have "ys \<noteq> [] \<and> last ys = p" by (auto split: if_splits)
  then show ?thesis using xs by auto
qed

lemma pred_unique:
  "can_transition q S_PAID \<Longrightarrow> q = S_ACCEPTED_BY_USER" "can_transition q S_ACCEPTED_BY_USER \<Longrightarrow> q = S_DONE"
  "can_transition q S_DONE \<Longrightarrow> q = S_IN_PROGRESS" "can_transition q S_IN_PROGRESS \<Longrightarrow> q = S_ACCEPTED"
  "can_transition q S_ACCEPTED \<Longrightarrow> q = S_DISPATCHED" "can_transition q S_DISPATCHED \<Longrightarrow> q = S_ASSIGNED"
  "can_transition q S_ASSIGNED \<Longrightarrow> q = S_MATCHING" "can_transition q S_CLASSIFIED \<Longrightarrow> q = S_CLASSIFYING"
  "can_transition q S_CLASSIFYING \<Longrightarrow> q = S_NEW" "can_transition q S_REJECTED \<Longrightarrow> q = S_DISPUTE"
  by (cases q; simp)+

text \<open>The table of transitions is total (no status raises a \<open>KeyError\<close>), a status has no exits
  exactly when it is terminal, and \<open>CANCELLED\<close> is offered from exactly the statuses that are
  not terminal.
\<close>

theorem fsm_table:
  "allowed_lookup s = Some (allowed_transitions s)
   \<and> (allowed_transitions s = {} \<longleftrightarrow> is_terminal s)
   \<and> (can_transition s S_CANCELLED \<longleftrightarrow> \<not> is_terminal s)"
  by (cases s) (simp_all add: allowed_transitions_eq allowed_lookup_eq base_transitions_def
      terminal_statuses_def)

text \<open>No request is paid for work that was not done and approved: a sequence of transitions from
  \<open>NEW\<close> that visits \<open>PAID\<close> has visited every stage of the delivery before, in particular the
  partner's acceptance, the completion and the requester's approval.
\<close>

theorem paid_needs_delivery:
  assumes "fsm_path S_NEW ts" "S_PAID \<in> set ts"
  shows "{S_MATCHING, S_ASSIGNED, S_DISPATCHED, S_ACCEPTED, S_IN_PROGRESS, S_DONE,
      S_ACCEPTED_BY_USER} \<subseteq> set ts"
proof -
  note via = path_pred [OF assms(1)]
  have "S_ACCEPTED_BY_USER \<in> set ts" by (rule via [OF assms(2) _ pred_unique(1)]) auto
  moreover from this have "S_DONE \<in> set ts" by (rule via [OF _ _ pred_unique(2)]) auto
  moreover from this have "S_IN_PROGRESS \<in> set ts" by (rule via [OF _ _ pred_unique(3)]) auto
  moreover from this have "S_ACCEPTED \<in> set ts" by (rule via [OF _ _ pred_unique(4)]) auto
  moreover from this have "S_DISPATCHED \<in> set ts" by (rule via [OF _ _ pred_unique(5)]) auto
  moreover from this have "S_ASSIGNED \<in> set ts" by (rule via [OF _ _ pred_unique(6)]) auto
  moreover from this have "S_MATCHING \<in> set ts" by (rule via [OF _ _ pred_unique(7)]) auto
  ultimately show ?thesis by simp
qed

end
