(* ===== verification/Sla.thy ===== *)
theory Sla
  imports Config Errors Datetime Principal
begin

text \<open>
  The SLA engine (\<open>sla/calendar.py\<close>, \<open>sla/engine.py\<close>): deadlines in business hours, stored as
  ISO texts in the \<open>sla\<close> JSON of a request, and the state of a stage computed when it is read.
  The time zone database is an argument: \<open>tz_to_local\<close> gives the wall clock of an instant,
  \<open>tz_of_local\<close> the instant of a wall clock reading (with \<open>fold = 0\<close>, which every sum with a
  \<open>timedelta\<close> has). Two readings of one zone are subtracted and compared as wall clocks, as
  Python does.
\<close>

section \<open>The business calendar\<close>

record tzone =
  tz_to_local :: "instant \<Rightarrow> int"
  tz_of_local :: "int \<Rightarrow> instant"

record calendar =
  bc_timezone :: pystr
  bc_open_hour :: int
  bc_close_hour :: int
  bc_business_days :: "int list"

definition make_calendar :: "pystr \<Rightarrow> int \<Rightarrow> int \<Rightarrow> int list \<Rightarrow> exn + calendar" where
  "make_calendar tz op cl days =
     (if days = [] then Inl (ValueError (u ''business_days must not be empty''))
      else if \<not> (0 \<le> op \<and> op < cl \<and> cl \<le> 24)
      then Inl (ValueError (u ''require 0 <= open_hour < close_hour <= 24''))
      else Inr \<lparr>bc_timezone = tz, bc_open_hour = op, bc_close_hour = cl, bc_business_days = days\<rparr>)"

definition max_loop_days :: nat where "max_loop_days = 366 * 5"

definition weekday :: "int \<Rightarrow> int" where
  "weekday t = t div us_per_day mod 7"

text \<open>\<open>replace(hour=h, minute=0, second=0, microsecond=0)\<close>.\<close>

definition at_hour :: "int \<Rightarrow> int \<Rightarrow> int" where
  "at_hour h t = t div us_per_day * us_per_day + h * us_per_hour"

definition close_of :: "calendar \<Rightarrow> int \<Rightarrow> int" where
  "close_of c t = (if bc_close_hour c = 24 then at_hour 0 (t + us_per_day)
     else at_hour (bc_close_hour c) t)"

definition us_seconds :: "int \<Rightarrow> rat" where
  "us_seconds t = of_int t / 1000000"

fun business_loop :: "calendar \<Rightarrow> nat \<Rightarrow> int \<Rightarrow> rat \<Rightarrow> int option" where
  "business_loop c 0 cursor remaining = None"
| "business_loop c (Suc k) cursor remaining =
     (let next_day = at_hour 0 (cursor + us_per_day);
          segment_start = max cursor (at_hour (bc_open_hour c) cursor);
          close_dt = close_of c cursor
      in if weekday cursor \<in> set (bc_business_days c) \<and> segment_start < close_dt
         then (let available = us_seconds (close_dt - segment_start)
               in if remaining \<le> available then Some (segment_start + timedelta_us remaining)
                  else business_loop c k next_day (remaining - available))
         else business_loop c k next_day remaining)"

definition add_business_seconds ::
    "(pystr \<Rightarrow> tzone option) \<Rightarrow> calendar \<Rightarrow> instant \<Rightarrow> rat \<Rightarrow> exn + instant" where
  "add_business_seconds zones c start secs =
     (if secs < 0 then Inl (ValueError (u ''seconds must be non-negative''))
      else case zones (bc_timezone c) of
          None \<Rightarrow> Inl KeyError
        | Some tz \<Rightarrow> (case business_loop c max_loop_days (tz_to_local tz start) secs of
              None \<Rightarrow> Inl (ValueError (u ''business seconds exceed the supported horizon''))
            | Some t \<Rightarrow> Inr (tz_of_local tz t)))"

section \<open>Policy, states and views\<close>

datatype sla_state = SLA_ON_TRACK | SLA_AT_RISK | SLA_BREACHED | SLA_MET

fun sla_state_value :: "sla_state \<Rightarrow> pystr" where
  "sla_state_value SLA_ON_TRACK = u ''ON_TRACK''"
| "sla_state_value SLA_AT_RISK = u ''AT_RISK''"
| "sla_state_value SLA_BREACHED = u ''BREACHED''"
| "sla_state_value SLA_MET = u ''MET''"

record sla_policy =
  sp_calendar :: calendar
  sp_accept_hours :: rat
  sp_perform_hours :: rat
  sp_at_risk_fraction :: rat

definition policy_from_settings :: "settings \<Rightarrow> exn + sla_policy" where
  "policy_from_settings st =
     bindE (make_calendar (st_sla_timezone st) (st_sla_business_open_hour st)
              (st_sla_business_close_hour st) (st_sla_business_days st))
       (\<lambda>c. Inr \<lparr>sp_calendar = c, sp_accept_hours = st_sla_accept_hours st,
                  sp_perform_hours = st_sla_perform_hours st,
                  sp_at_risk_fraction = st_sla_at_risk_fraction st\<rparr>)"

definition set_accept_deadline ::
    "(pystr \<Rightarrow> tzone option) \<Rightarrow> sla_policy \<Rightarrow> jdict option \<Rightarrow> instant \<Rightarrow> exn + jdict" where
  "set_accept_deadline zones p sla dispatched_at =
     bindE (add_business_seconds zones (sp_calendar p) dispatched_at (sp_accept_hours p * 3600))
       (\<lambda>deadline. Inr (dict_setdefault (u ''paused_intervals'') (JArr [])
          (dict_set (u ''accept_deadline'') (JStr (iso_utc deadline))
            (case sla of None \<Rightarrow> [] | Some d \<Rightarrow> d))))"

definition set_perform_deadline ::
    "(pystr \<Rightarrow> tzone option) \<Rightarrow> sla_policy \<Rightarrow> jdict option \<Rightarrow> instant \<Rightarrow> exn + jdict" where
  "set_perform_deadline zones p sla accepted_at =
     bindE (add_business_seconds zones (sp_calendar p) accepted_at (sp_perform_hours p * 3600))
       (\<lambda>deadline. Inr (dict_setdefault (u ''paused_intervals'') (JArr [])
          (dict_set (u ''perform_deadline'') (JStr (iso_utc deadline))
            (case sla of None \<Rightarrow> [] | Some d \<Rightarrow> d))))"

text \<open>The difference of two datetimes: both aware or both naive, else \<open>TypeError\<close>.\<close>

definition dt_minus :: "datetime \<Rightarrow> datetime \<Rightarrow> exn + int" where
  "dt_minus a b = (case (dt_off a, dt_off b) of
       (None, None) \<Rightarrow> Inr (dt_local a - dt_local b)
     | (Some x, Some y) \<Rightarrow> Inr ((dt_local a - x) - (dt_local b - y))
     | _ \<Rightarrow> Inl TypeError)"

definition parse_iso :: "pystr \<Rightarrow> exn + datetime" where
  "parse_iso s = (case fromisoformat s of
       None \<Rightarrow> Inl (ValueError (u ''Invalid isoformat string'')) | Some d \<Rightarrow> Inr d)"

fun paused_items :: "pyrt \<Rightarrow> json list \<Rightarrow> exn + rat" where
  "paused_items rt [] = Inr 0"
| "paused_items rt (item # rest) =
     bindE (case item of
         JArr [a, b] \<Rightarrow> (case (fromisoformat (py_str rt a), fromisoformat (py_str rt b)) of
             (Some s, Some e) \<Rightarrow> bindE (dt_minus e s) (\<lambda>t. Inr (max 0 (us_seconds t)))
           | _ \<Rightarrow> Inr 0)
       | _ \<Rightarrow> Inr 0)
       (\<lambda>x. bindE (paused_items rt rest) (\<lambda>y. Inr (x + y)))"

definition paused_seconds :: "pyrt \<Rightarrow> json option \<Rightarrow> exn + rat" where
  "paused_seconds rt intervals = (case intervals of Some (JArr xs) \<Rightarrow> paused_items rt xs | _ \<Rightarrow> Inr 0)"

definition dt_plus :: "datetime \<Rightarrow> int \<Rightarrow> datetime" where
  "dt_plus d t = d\<lparr>dt_local := dt_local d + t\<rparr>"

definition stage_start :: "jdict \<Rightarrow> pystr \<Rightarrow> datetime \<Rightarrow> exn + datetime" where
  "stage_start sla deadline_key deadline =
     (case dict_get sla (if deadline_key = u ''accept_deadline'' then u ''accept_started_at''
                         else u ''perform_started_at'') of
        Some (JStr raw) \<Rightarrow> parse_iso raw
      | _ \<Rightarrow> Inr (dt_plus deadline (- us_per_day)))"

definition evaluate ::
    "pyrt \<Rightarrow> sla_policy \<Rightarrow> jdict option \<Rightarrow> pystr \<Rightarrow> instant \<Rightarrow> exn + sla_state" where
  "evaluate rt p sla deadline_key now =
     (case sla of None \<Rightarrow> Inr SLA_ON_TRACK
      | Some d \<Rightarrow> (case dict_get d deadline_key of
          Some (JStr raw) \<Rightarrow>
            bindE (parse_iso raw) (\<lambda>deadline.
            bindE (paused_seconds rt (dict_get d (u ''paused_intervals''))) (\<lambda>paused.
            let effective = dt_plus deadline (timedelta_us paused) in
            bindE (dt_minus (utc now) effective) (\<lambda>late.
            if late \<ge> 0 then Inr SLA_BREACHED
            else
              bindE (stage_start d deadline_key deadline) (\<lambda>start.
              bindE (dt_minus effective start) (\<lambda>total.
              bindE (dt_minus (utc now) start) (\<lambda>elapsed.
              if total > 0 \<and> us_seconds elapsed / us_seconds total \<ge> sp_at_risk_fraction p
              then Inr SLA_AT_RISK else Inr SLA_ON_TRACK))))))
        | _ \<Rightarrow> Inr SLA_ON_TRACK))"

definition sla_view ::
    "pyrt \<Rightarrow> jdict option \<Rightarrow> instant option \<Rightarrow> instant option \<Rightarrow> sla_policy \<Rightarrow> instant
     \<Rightarrow> exn + jdict option" where
  "sla_view rt sla accepted_at done_at p now =
     (case sla of None \<Rightarrow> Inr None
      | Some [] \<Rightarrow> Inr None
      | Some d \<Rightarrow>
          bindE (if accepted_at \<noteq> None then Inr SLA_MET
                 else evaluate rt p sla (u ''accept_deadline'') now) (\<lambda>accept_state.
          bindE (if done_at \<noteq> None then Inr SLA_MET
                 else if accepted_at \<noteq> None then evaluate rt p sla (u ''perform_deadline'') now
                 else Inr SLA_ON_TRACK) (\<lambda>perform_state.
          Inr (Some (dict_set (u ''perform_state'') (JStr (sla_state_value perform_state))
            (dict_set (u ''accept_state'') (JStr (sla_state_value accept_state)) d))))))"

section \<open>Business time\<close>

text \<open>
  The specification: the part of an interval of wall clock time that lies inside the business
  windows, day by day.
\<close>

definition window_open :: "calendar \<Rightarrow> int \<Rightarrow> int" where
  "window_open c n = n * us_per_day + bc_open_hour c * us_per_hour"

definition window_close :: "calendar \<Rightarrow> int \<Rightarrow> int" where
  "window_close c n = n * us_per_day + bc_close_hour c * us_per_hour"

definition day_overlap :: "calendar \<Rightarrow> int \<Rightarrow> int \<Rightarrow> int \<Rightarrow> int" where
  "day_overlap c n a b = (if n mod 7 \<in> set (bc_business_days c)
     then max 0 (min b (window_close c n) - max a (window_open c n)) else 0)"

definition business_time :: "calendar \<Rightarrow> int \<Rightarrow> int \<Rightarrow> int" where
  "business_time c a b = (\<Sum>n \<in> {a div us_per_day .. b div us_per_day}. day_overlap c n a b)"

definition valid_calendar :: "calendar \<Rightarrow> bool" where
  "valid_calendar c \<longleftrightarrow> bc_business_days c \<noteq> [] \<and> 0 \<le> bc_open_hour c
     \<and> bc_open_hour c < bc_close_hour c \<and> bc_close_hour c \<le> 24"

definition in_window :: "calendar \<Rightarrow> int \<Rightarrow> bool" where
  "in_window c t \<longleftrightarrow> (\<exists>n. n mod 7 \<in> set (bc_business_days c) \<and> window_open c n \<le> t \<and> t \<le> window_close c n)"

lemma make_calendar_valid: "make_calendar tz op cl days = Inr c \<Longrightarrow> valid_calendar c"
  by (auto simp: make_calendar_def valid_calendar_def split: if_splits)

lemma at_hour_next: "at_hour 0 (t + us_per_day) = (t div us_per_day + 1) * us_per_day"
  by (simp add: at_hour_def us_units)

lemma close_of_eq: "close_of c t = window_close c (t div us_per_day)"
  by (simp add: close_of_def at_hour_next window_close_def at_hour_def us_units)

lemma business_loop_Suc:
  "business_loop c (Suc k) cursor remaining =
     (let n = cursor div us_per_day; s = max cursor (window_open c n); e = window_close c n
      in if n mod 7 \<in> set (bc_business_days c) \<and> s < e
         then (if remaining \<le> us_seconds (e - s) then Some (s + timedelta_us remaining)
               else business_loop c k ((n + 1) * us_per_day) (remaining - us_seconds (e - s)))
         else business_loop c k ((n + 1) * us_per_day) remaining)"
  unfolding business_loop.simps at_hour_next close_of_eq weekday_def Let_def
  by (simp add: window_open_def at_hour_def)

declare business_loop.simps [simp del]
declare business_loop.simps(1) [simp]

lemma timedelta_us_le: "x \<le> us_seconds t \<Longrightarrow> timedelta_us x \<le> t"
  using timedelta_us_mono [of x "us_seconds t"] by (simp add: timedelta_us_def us_seconds_def)

lemma loop_in_window:
  assumes "business_loop c k cursor remaining = Some t" "0 \<le> remaining"
  shows "cursor \<le> t \<and> in_window c t"
  using assms
proof (induction k arbitrary: cursor remaining)
  case (Suc k)
  define n where "n = cursor div us_per_day"
  define s where "s = max cursor (window_open c n)"
  have day: "cursor < (n + 1) * us_per_day" by (simp add: n_def us_units)
  note step = Suc.prems(1) [unfolded business_loop_Suc Let_def, folded n_def, folded s_def]
  show ?case
  proof (cases "n mod 7 \<in> set (bc_business_days c) \<and> s < window_close c n
      \<and> remaining \<le> us_seconds (window_close c n - s)")
    case True
    then have t: "t = s + timedelta_us remaining" using step by simp
    have "timedelta_us remaining \<le> window_close c n - s" using True by (simp add: timedelta_us_le)
    moreover have "0 \<le> timedelta_us remaining" using Suc.prems(2) by (rule timedelta_us_nonneg)
    ultimately show ?thesis using True by (auto simp: t s_def in_window_def)
  next
    case False
    then obtain r where "business_loop c k ((n + 1) * us_per_day) r = Some t" "0 \<le> r"
      using step Suc.prems(2) by (auto split: if_splits)
    from Suc.IH [OF this] show ?thesis using day by simp
  qed
qed simp

lemma day_div:
  "n * us_per_day \<le> t \<Longrightarrow> t < (n + 1) * us_per_day \<Longrightarrow> t div us_per_day = n"
  by (rule int_div_pos_eq [of _ _ _ "t - n * us_per_day"]) (auto simp: algebra_simps)

lemma window_bounds:
  assumes "valid_calendar c"
  shows "n * us_per_day \<le> window_open c n" "window_close c n \<le> (n + 1) * us_per_day"
  using assms by (auto simp: valid_calendar_def window_open_def window_close_def us_units algebra_simps)

lemma business_time_same_day:
  assumes "valid_calendar c" "n = a div us_per_day" "a \<le> b" "b \<le> (n + 1) * us_per_day"
  shows "business_time c a b = day_overlap c n a b"
proof -
  have a: "n * us_per_day \<le> a" by (simp add: assms(2) us_units)
  show ?thesis
  proof (cases "b = (n + 1) * us_per_day")
    case True
    then have "b div us_per_day = n + 1" by (simp add: us_units)
    moreover have "day_overlap c (n + 1) a b = 0"
      using window_bounds(1) [OF assms(1), of "n + 1"] True by (auto simp: day_overlap_def)
    moreover have "{n..n + 1} = {n, n + 1}" by auto
    ultimately show ?thesis by (simp add: business_time_def flip: assms(2))
  next
    case False
    then have "b div us_per_day = n" using a assms(3,4) by (intro day_div) auto
    then show ?thesis by (simp add: business_time_def flip: assms(2))
  qed
qed

lemma business_time_split:
  assumes "valid_calendar c" "n = a div us_per_day" "(n + 1) * us_per_day \<le> b"
  shows "business_time c a b = day_overlap c n a b + business_time c ((n + 1) * us_per_day) b"
proof -
  have a: "a < (n + 1) * us_per_day" by (simp add: assms(2) us_units)
  have "n + 1 \<le> b div us_per_day" using assms(3) by (simp add: us_units)
  then have "{n..b div us_per_day} = insert n {n + 1..b div us_per_day}" by auto
  then have "business_time c a b = day_overlap c n a b + (\<Sum>m\<in>{n + 1..b div us_per_day}. day_overlap c m a b)"
    by (simp add: business_time_def flip: assms(2))
  also have "(\<Sum>m\<in>{n + 1..b div us_per_day}. day_overlap c m a b) =
      (\<Sum>m\<in>{n + 1..b div us_per_day}. day_overlap c m ((n + 1) * us_per_day) b)"
  proof (rule sum.cong)
    fix m assume "m \<in> {n + 1..b div us_per_day}"
    then have "(n + 1) * us_per_day \<le> m * us_per_day" by (simp add: us_units)
    then have "(n + 1) * us_per_day \<le> window_open c m" using window_bounds(1) [OF assms(1), of m] by linarith
    then show "day_overlap c m a b = day_overlap c m ((n + 1) * us_per_day) b"
      using a by (simp add: day_overlap_def max_def)
  qed simp
  finally show ?thesis by (simp add: business_time_def us_units)
qed

lemma timedelta_us_error: "\<bar>of_int (timedelta_us x) - x * 1000000\<bar> \<le> 1/2"
  using round_half_even_bounds [of "x * 1000000"] unfolding timedelta_us_def abs_le_iff by linarith

lemma loop_measure:
  assumes "business_loop c k cursor remaining = Some t" "0 \<le> remaining" "valid_calendar c"
  shows "\<bar>of_int (business_time c cursor t) - remaining * 1000000\<bar> \<le> 1/2"
  using assms(1,2)
proof (induction k arbitrary: cursor remaining)
  case (Suc k)
  define n where "n = cursor div us_per_day"
  define s where "s = max cursor (window_open c n)"
  have day: "cursor < (n + 1) * us_per_day" by (simp add: n_def us_units)
  note step = Suc.prems(1) [unfolded business_loop_Suc Let_def, folded n_def, folded s_def]
  show ?case
  proof (cases "n mod 7 \<in> set (bc_business_days c) \<and> s < window_close c n
      \<and> remaining \<le> us_seconds (window_close c n - s)")
    case True
    then have t: "t = s + timedelta_us remaining" using step by simp
    have "timedelta_us remaining \<le> window_close c n - s" using True by (intro timedelta_us_le) simp
    then have le: "t \<le> window_close c n" by (simp add: t)
    have ge: "s \<le> t" using timedelta_us_nonneg [OF Suc.prems(2)] by (simp add: t)
    have "business_time c cursor t = day_overlap c n cursor t"
      using le ge window_bounds(2) [OF assms(3), of n] n_def
      by (intro business_time_same_day [OF assms(3)]) (auto simp: s_def)
    also have "\<dots> = timedelta_us remaining"
      using True le ge by (simp add: day_overlap_def t flip: s_def)
    finally show ?thesis using timedelta_us_error [of remaining] by simp
  next
    case False
    define r where "r = remaining - us_seconds (day_overlap c n cursor ((n + 1) * us_per_day))"
    have overlap: "day_overlap c n cursor t = day_overlap c n cursor ((n + 1) * us_per_day)"
      if "(n + 1) * us_per_day \<le> t"
    proof -
      have "min t (window_close c n) = window_close c n"
        "min ((n + 1) * us_per_day) (window_close c n) = window_close c n"
        using that window_bounds(2) [OF assms(3), of n] by linarith+
      then show ?thesis by (simp only: day_overlap_def)
    qed
    have "day_overlap c n cursor ((n + 1) * us_per_day) =
        (if n mod 7 \<in> set (bc_business_days c) \<and> s < window_close c n then window_close c n - s else 0)"
      using window_bounds(2) [OF assms(3), of n] by (auto simp: day_overlap_def s_def min_def)
    then have next_day: "business_loop c k ((n + 1) * us_per_day) r = Some t" "0 \<le> r"
      using step False Suc.prems(2) by (auto simp: r_def us_seconds_def split: if_splits)
    from Suc.IH [OF this] have err: "\<bar>of_int (business_time c ((n + 1) * us_per_day) t) - r * 1000000\<bar> \<le> 1/2" .
    have "(n + 1) * us_per_day \<le> t" using loop_in_window [OF next_day] by simp
    from business_time_split [OF assms(3) n_def this] overlap [OF this]
    have "rat_of_int (business_time c cursor t) =
        of_int (day_overlap c n cursor ((n + 1) * us_per_day)) + of_int (business_time c ((n + 1) * us_per_day) t)"
      by simp
    then show ?thesis using err by (simp add: r_def us_seconds_def algebra_simps)
  qed
qed simp

section \<open>The horizon suffices\<close>

fun bdays :: "calendar \<Rightarrow> int \<Rightarrow> nat \<Rightarrow> nat" where
  "bdays c n 0 = 0"
| "bdays c n (Suc k) = (if n mod 7 \<in> set (bc_business_days c) then 1 else 0) + bdays c (n + 1) k"

lemma bdays_add: "bdays c n (j + k) = bdays c n j + bdays c (n + int j) k"
  by (induction j arbitrary: n) (simp_all add: algebra_simps)

lemma bdays_mono: "j \<le> k \<Longrightarrow> bdays c n j \<le> bdays c n k"
  using bdays_add [of c n j "k - j"] by simp

lemma bdays_week: "d \<in> set (bc_business_days c) \<Longrightarrow> 0 \<le> d \<Longrightarrow> d < 7 \<Longrightarrow> 1 \<le> bdays c n 7"
proof -
  assume d: "d \<in> set (bc_business_days c)" "0 \<le> d" "d < 7"
  define j where "j = nat ((d - n) mod 7)"
  have "(n + int j) mod 7 = d" using d by (simp add: j_def mod_add_right_eq)
  then have "bdays c (n + int j) 1 = 1" using d by simp
  then have "1 \<le> bdays c n (j + 1)" by (simp only: bdays_add)
  moreover have "j + 1 \<le> 7" using pos_mod_bound [of 7 "d - n"] by (simp add: j_def nat_less_iff Suc_le_eq)
  ultimately show ?thesis using bdays_mono [of "j + 1" 7 c n] by linarith
qed

lemma bdays_weeks:
  "d \<in> set (bc_business_days c) \<Longrightarrow> 0 \<le> d \<Longrightarrow> d < 7 \<Longrightarrow> q \<le> bdays c n (7 * q)"
proof (induction q arbitrary: n)
  case (Suc q)
  have "bdays c n (7 * Suc q) = bdays c n 7 + bdays c (n + 7) (7 * q)"
    using bdays_add [of c n 7 "7 * q"] by simp
  moreover have "q \<le> bdays c (n + 7) (7 * q)" by (rule Suc.IH [OF Suc.prems])
  ultimately show ?case using bdays_week [OF Suc.prems, of n] by linarith
qed simp

definition window_seconds :: "calendar \<Rightarrow> rat" where
  "window_seconds c = us_seconds ((bc_close_hour c - bc_open_hour c) * us_per_hour)"

lemma loop_from_midnight:
  assumes "valid_calendar c" "1 \<le> bdays c n k" "remaining \<le> of_nat (bdays c n k) * window_seconds c"
  shows "business_loop c k (n * us_per_day) remaining \<noteq> None"
  using assms(2,3)
proof (induction k arbitrary: n remaining)
  case (Suc k)
  have w: "n * us_per_day < window_close c n" "max (n * us_per_day) (window_open c n) = window_open c n"
    "us_seconds (window_close c n - window_open c n) = window_seconds c" "window_open c n < window_close c n"
    using assms(1) window_bounds(1) [OF assms(1), of n]
    by (auto simp: window_seconds_def window_open_def window_close_def valid_calendar_def us_units algebra_simps max_def)
  have day: "n * us_per_day div us_per_day = n" by (simp add: us_units)
  have again: "remaining - window_seconds c \<le> of_nat (bdays c (n + 1) k) * window_seconds c
      \<and> 1 \<le> bdays c (n + 1) k"
    if "n mod 7 \<in> set (bc_business_days c)" "\<not> remaining \<le> window_seconds c"
    using Suc.prems that by (cases "bdays c (n + 1) k") (auto simp: algebra_simps)
  show ?case
    using Suc.prems Suc.IH [of "n + 1"] again
    by (auto simp: business_loop_Suc Let_def day w)
qed simp

lemma loop_returns:
  assumes "valid_calendar c" "d \<in> set (bc_business_days c)" "0 \<le> d" "d < 7"
    "0 \<le> secs" "secs \<le> 261 * window_seconds c"
  shows "business_loop c max_loop_days cursor secs \<noteq> None"
proof -
  define n where "n = cursor div us_per_day"
  have many: "261 \<le> bdays c (n + 1) 1829"
    using bdays_weeks [OF assms(2-4), of 261 "n + 1"] bdays_mono [of "7 * 261" 1829 c "n + 1"] by linarith
  have pos: "0 \<le> window_seconds c"
    using assms(1) by (simp add: window_seconds_def us_seconds_def valid_calendar_def us_units)
  have tail: "business_loop c 1829 ((n + 1) * us_per_day) r \<noteq> None" if "r \<le> secs" for r
  proof (rule loop_from_midnight [OF assms(1)])
    show "1 \<le> bdays c (n + 1) 1829" using many by linarith
    have "of_nat 261 \<le> (of_nat (bdays c (n + 1) 1829) :: rat)" using many by (simp only: of_nat_le_iff)
    then have "261 \<le> (of_nat (bdays c (n + 1) 1829) :: rat)" by (simp only: of_nat_numeral)
    then have "261 * window_seconds c \<le> of_nat (bdays c (n + 1) 1829) * window_seconds c"
      using pos by (rule mult_right_mono)
    with that assms(6) show "r \<le> of_nat (bdays c (n + 1) 1829) * window_seconds c" by linarith
  qed
  have days: "max_loop_days = Suc 1829" by (simp add: max_loop_days_def)
  have less: "secs - us_seconds x \<le> secs" if "0 < x" for x using that by (simp add: us_seconds_def)
  show ?thesis
    using tail [OF order_refl] tail [OF less]
    unfolding days business_loop_Suc Let_def n_def [symmetric] by simp
qed


definition demo_calendar :: calendar where
  "demo_calendar = \<lparr>bc_timezone = u ''Europe/Moscow'', bc_open_hour = 9, bc_close_hour = 18,
     bc_business_days = [0, 1, 2, 3, 4]\<rparr>"

definition demo_zone :: tzone where
  "demo_zone = \<lparr>tz_to_local = (\<lambda>t. t + 3 * us_per_hour), tz_of_local = (\<lambda>t. t - 3 * us_per_hour)\<rparr>"

definition demo_zones :: "pystr \<Rightarrow> tzone option" where
  "demo_zones name = Some demo_zone"

text \<open>Friday 2026-07-03, 17:00 in Moscow: four business hours later it is Monday, 12:00.\<close>

definition demo_friday :: instant where
  "demo_friday = ymd_days 2026 7 3 * us_per_day + 14 * us_per_hour"

lemma demo_deadline:
  "business_loop demo_calendar max_loop_days (demo_friday + 3 * us_per_hour) 14400
     = Some (ymd_days 2026 7 6 * us_per_day + 12 * us_per_hour)"
  by code_simp


section \<open>Stored SLA documents\<close>

text \<open>
  What the code itself writes: deadlines and starts of the stages as UTC instants, and an empty
  list of pauses.
\<close>

definition iso_value :: "json option \<Rightarrow> bool" where
  "iso_value v \<longleftrightarrow> v = None \<or> (\<exists>t. v = Some (JStr (iso_utc t)) \<and> 0 \<le> t \<and> t < max_days * us_per_day)"

definition wf_sla :: "jdict option \<Rightarrow> bool" where
  "wf_sla sla \<longleftrightarrow> (case sla of None \<Rightarrow> True
     | Some d \<Rightarrow> iso_value (dict_get d (u ''accept_deadline''))
         \<and> iso_value (dict_get d (u ''perform_deadline''))
         \<and> dict_get d (u ''paused_intervals'') \<in> {None, Some (JArr [])}
         \<and> iso_value (dict_get d (u ''accept_started_at''))
         \<and> iso_value (dict_get d (u ''perform_started_at'')))"

definition stage_key :: "pystr \<Rightarrow> bool" where
  "stage_key k \<longleftrightarrow> k = u ''accept_deadline'' \<or> k = u ''perform_deadline''"

lemma stage_key_simps [simp]: "stage_key (u ''accept_deadline'')" "stage_key (u ''perform_deadline'')"
  by (simp_all add: stage_key_def)

lemma iso_value_cases:
  assumes "iso_value v"
  obtains "v = None" | t where "v = Some (JStr (iso_utc t))" "fromisoformat (iso_utc t) = Some (utc t)"
  using assms by (auto simp: iso_value_def iso_utc_parse)

lemma dt_minus_utc [simp]: "dt_minus (utc a) (utc b) = Inr (a - b)"
  by (simp add: dt_minus_def utc_def)

lemma dt_plus_utc [simp]: "dt_plus (utc a) x = utc (a + x)"
  by (simp add: dt_plus_def utc_def)

lemma stage_start_wf:
  assumes "wf_sla (Some d)" shows "\<exists>s. stage_start d k (utc t) = Inr (utc s)"
proof -
  have "iso_value (dict_get d (if k = u ''accept_deadline'' then u ''accept_started_at''
      else u ''perform_started_at''))"
    using assms by (simp add: wf_sla_def)
  then show ?thesis by (rule iso_value_cases) (auto simp: stage_start_def parse_iso_def)
qed

lemma evaluate_wf:
  assumes "wf_sla (Some d)" "stage_key k"
  shows "(\<forall>now. evaluate rt p (Some d) k now = Inr SLA_ON_TRACK)
    \<or> (\<exists>t s. \<forall>now. evaluate rt p (Some d) k now =
        Inr (if t \<le> now then SLA_BREACHED
             else if s < t \<and> sp_at_risk_fraction p \<le> us_seconds (now - s) / us_seconds (t - s)
             then SLA_AT_RISK else SLA_ON_TRACK))"
proof -
  have "iso_value (dict_get d k)" using assms by (auto simp: wf_sla_def stage_key_def)
  then show ?thesis
  proof (rule iso_value_cases)
    assume "dict_get d k = None"
    then show ?thesis by (simp add: evaluate_def)
  next
    fix t assume t: "dict_get d k = Some (JStr (iso_utc t))" "fromisoformat (iso_utc t) = Some (utc t)"
    obtain s where s: "stage_start d k (utc t) = Inr (utc s)" using stage_start_wf [OF assms(1)] by blast
    have "paused_seconds rt (dict_get d (u ''paused_intervals'')) = Inr 0"
      using assms(1) by (auto simp: wf_sla_def paused_seconds_def)
    moreover have "timedelta_us 0 = 0" by code_simp
    ultimately have "evaluate rt p (Some d) k now =
        Inr (if t \<le> now then SLA_BREACHED
             else if s < t \<and> sp_at_risk_fraction p \<le> us_seconds (now - s) / us_seconds (t - s)
             then SLA_AT_RISK else SLA_ON_TRACK)" for now
      using t s by (simp add: evaluate_def parse_iso_def Let_def)
    then show ?thesis by blast
  qed
qed

lemma evaluate_total: "wf_sla sla \<Longrightarrow> stage_key k \<Longrightarrow> is_ok (evaluate rt p sla k now)"
proof (cases sla)
  case (Some d)
  assume "wf_sla sla" "stage_key k"
  with evaluate_wf [of d k rt p] Some show ?thesis by auto
qed (simp add: evaluate_def)

lemma sla_view_total: "wf_sla sla \<Longrightarrow> is_ok (sla_view rt sla acc don p now)"
proof -
  assume wf: "wf_sla sla"
  have "is_ok (evaluate rt p sla k now)" if "stage_key k" for k using evaluate_total [OF wf that] .
  from this [of "u ''accept_deadline''"] this [of "u ''perform_deadline''"]
  show ?thesis
    by (cases sla; cases "the sla") (auto simp: sla_view_def is_ok_def split: sum.splits)
qed

lemma wf_sla_set_deadline:
  assumes "wf_sla sla" "0 \<le> t" "t < max_days * us_per_day" "stage_key k"
  shows "wf_sla (Some (dict_setdefault (u ''paused_intervals'') (JArr [])
          (dict_set k (JStr (iso_utc t)) (case sla of None \<Rightarrow> [] | Some d \<Rightarrow> d))))"
proof -
  have "iso_value (Some (JStr (iso_utc t)))" using assms(2,3) unfolding iso_value_def by blast
  moreover have "iso_value None" by (simp add: iso_value_def)
  moreover have "k = u ''accept_deadline'' \<or> k = u ''perform_deadline''"
    using assms(4) by (simp add: stage_key_def)
  ultimately show ?thesis using assms(1) by (cases sla; elim disjE) (auto simp: wf_sla_def)
qed

fun sla_rank :: "sla_state \<Rightarrow> nat" where
  "sla_rank SLA_ON_TRACK = 0"
| "sla_rank SLA_AT_RISK = 1"
| "sla_rank SLA_BREACHED = 2"
| "sla_rank SLA_MET = 0"

text \<open>The state of a stage only ever gets worse with time: on a document the code wrote, reading
  the same stage later never raises and never gives a better state (\<open>ON_TRACK\<close>, then
  \<open>AT_RISK\<close>, then \<open>BREACHED\<close>).
\<close>

theorem sla_state_advances:
  assumes "wf_sla sla" "stage_key k" "now \<le> later"
  shows "\<exists>a b. evaluate rt p sla k now = Inr a \<and> evaluate rt p sla k later = Inr b
    \<and> sla_rank a \<le> sla_rank b"
proof (cases sla)
  case None
  then show ?thesis by (simp add: evaluate_def)
next
  case (Some d)
  have mono: "us_seconds (now - s) / us_seconds (t - s) \<le> us_seconds (later - s) / us_seconds (t - s)"
    if "s < t" for s t
    using that assms(3) by (intro divide_right_mono) (simp_all add: us_seconds_def)
  from evaluate_wf [of d k rt p] assms(1,2) Some
  consider "\<forall>now. evaluate rt p sla k now = Inr SLA_ON_TRACK"
    | t s where "\<forall>now. evaluate rt p sla k now =
        Inr (if t \<le> now then SLA_BREACHED
             else if s < t \<and> sp_at_risk_fraction p \<le> us_seconds (now - s) / us_seconds (t - s)
             then SLA_AT_RISK else SLA_ON_TRACK)"
    by blast
  then show ?thesis
  proof cases
    case 1
    then show ?thesis by auto
  next
    case 2
    then show ?thesis using assms(3) mono [of s t] by auto
  qed
qed

definition demo_policy :: sla_policy where
  "demo_policy = \<lparr>sp_calendar = demo_calendar, sp_accept_hours = 4, sp_perform_hours = 24,
     sp_at_risk_fraction = 8/10\<rparr>"

lemma sla_state_advances_witness:
  "\<exists>a b. evaluate demo_rt demo_policy (Some [(u ''accept_deadline'', JStr (iso_utc demo_friday))])
      (u ''accept_deadline'') 0 = Inr a
    \<and> evaluate demo_rt demo_policy (Some [(u ''accept_deadline'', JStr (iso_utc demo_friday))])
      (u ''accept_deadline'') demo_friday = Inr b \<and> sla_rank a \<le> sla_rank b"
proof (rule sla_state_advances)
  have "0 \<le> demo_friday" "demo_friday < max_days * us_per_day" by code_simp+
  then have "iso_value (Some (JStr (iso_utc demo_friday)))" unfolding iso_value_def by blast
  moreover have "iso_value None" by (simp add: iso_value_def)
  ultimately show "wf_sla (Some [(u ''accept_deadline'', JStr (iso_utc demo_friday))])"
    by (simp add: wf_sla_def)
  show "0 \<le> demo_friday" by code_simp
qed simp

end
