(* ===== verification/Handler.thy ===== *)
theory Handler
  imports Store
begin

text \<open>
  Handlers as values: a state-and-exception monad over the session in which, as in Python, the
  changes made before an exception stay in the working state until somebody rolls back. A small
  Hoare logic (\<open>triple\<close>) with one rule per combinator carries the invariants: the
  postcondition of a return and that of an exception are separate. \<open>keeps I h\<close> says that \<open>h\<close>
  preserves a property of databases in both the durable and the working state, however it ends.
\<close>

section \<open>Combinators\<close>

definition ret :: "'a \<Rightarrow> 'a handler" where
  "ret a s = (Inr a, s)"

definition raise_h :: "exn \<Rightarrow> 'a handler" where
  "raise_h e s = (Inl e, s)"

definition problem_h :: "problem \<Rightarrow> 'a handler" where
  "problem_h e = raise_h (Problem e)"

definition bind_h :: "'a handler \<Rightarrow> ('a \<Rightarrow> 'b handler) \<Rightarrow> 'b handler" where
  "bind_h m f s = (case m s of (Inl e, s') \<Rightarrow> (Inl e, s') | (Inr a, s') \<Rightarrow> f a s')"

definition lift_h :: "exn + 'a \<Rightarrow> 'a handler" where
  "lift_h x s = (x, s)"

definition get_db :: "db handler" where
  "get_db s = (Inr (se_working s), s)"

definition mod_db :: "(db \<Rightarrow> db) \<Rightarrow> unit handler" where
  "mod_db f s = (Inr (), s\<lparr>se_working := f (se_working s)\<rparr>)"

definition commit_h :: "unit handler" where
  "commit_h s = (Inr (), commit s)"

definition rollback_h :: "unit handler" where
  "rollback_h s = (Inr (), rollback s)"

text \<open>\<open>try ... except\<close>: the handler of the exception runs on the state the body left behind.\<close>

definition try_h :: "'a handler \<Rightarrow> (exn \<Rightarrow> 'a handler) \<Rightarrow> 'a handler" where
  "try_h m h s = (case m s of (Inl e, s') \<Rightarrow> h e s' | (Inr a, s') \<Rightarrow> (Inr a, s'))"

text \<open>Changing a loaded row: the object the handler holds and the row stay the same.\<close>

definition put_request :: "service_request \<Rightarrow> service_request handler" where
  "put_request r = bind_h (mod_db (save_request r)) (\<lambda>_. ret r)"

fun for_h :: "'x list \<Rightarrow> ('x \<Rightarrow> unit handler) \<Rightarrow> unit handler" where
  "for_h [] f = ret ()"
| "for_h (x # xs) f = bind_h (f x) (\<lambda>_. for_h xs f)"

definition guard_h :: "bool \<Rightarrow> problem \<Rightarrow> unit handler" where
  "guard_h b e = (if b then ret () else problem_h e)"

text \<open>What the driver raises for a value that does not fit its column; it is no \<open>IntegrityError\<close>.\<close>

definition column_error :: exn where "column_error = OtherError (u ''DBAPIError'') []"

lemma column_error_neq [simp]: "column_error \<noteq> IntegrityError" "column_error \<noteq> Problem e"
  by (simp_all add: column_error_def)

lemmas handler_defs = ret_def raise_h_def problem_h_def lift_h_def get_db_def mod_db_def
  commit_h_def rollback_h_def guard_h_def

lemma bind_h_ok: "bind_h m f s = (Inr b, t) \<Longrightarrow> \<exists>a s'. m s = (Inr a, s') \<and> f a s' = (Inr b, t)"
  by (auto simp: bind_h_def split: sum.splits prod.splits)

lemma run_endpoint_ok:
  "run_endpoint h d = (Inr a, d') \<Longrightarrow> \<exists>s. h (open_session d) = (Inr a, s) \<and> d' = se_durable s"
  by (auto simp: run_endpoint_def split: sum.splits prod.splits)

section \<open>Triples\<close>

definition triple ::
    "(session \<Rightarrow> bool) \<Rightarrow> 'a handler \<Rightarrow> ('a \<Rightarrow> session \<Rightarrow> bool) \<Rightarrow> (exn \<Rightarrow> session \<Rightarrow> bool) \<Rightarrow> bool" where
  "triple P h Q E \<longleftrightarrow> (\<forall>s. P s \<longrightarrow> (case h s of (Inr a, s') \<Rightarrow> Q a s' | (Inl e, s') \<Rightarrow> E e s'))"

lemma tripleI: "(\<And>s. P s \<Longrightarrow> case h s of (Inr a, s') \<Rightarrow> Q a s' | (Inl e, s') \<Rightarrow> E e s') \<Longrightarrow> triple P h Q E"
  by (simp add: triple_def)

lemma triple_Inr: "triple P h Q E \<Longrightarrow> P s \<Longrightarrow> h s = (Inr a, s') \<Longrightarrow> Q a s'"
  by (force simp: triple_def)

lemma triple_Inl: "triple P h Q E \<Longrightarrow> P s \<Longrightarrow> h s = (Inl e, s') \<Longrightarrow> E e s'"
  by (force simp: triple_def)

lemma triple_weaken:
  "triple P h Q E \<Longrightarrow> (\<And>s. P' s \<Longrightarrow> P s) \<Longrightarrow> (\<And>a s. Q a s \<Longrightarrow> Q' a s) \<Longrightarrow> (\<And>e s. E e s \<Longrightarrow> E' e s)
   \<Longrightarrow> triple P' h Q' E'"
  by (force simp: triple_def split: sum.splits prod.splits)

lemma triple_bind:
  "triple P m R E \<Longrightarrow> (\<And>a. triple (R a) (f a) Q E) \<Longrightarrow> triple P (bind_h m f) Q E"
  by (force simp: triple_def bind_h_def split: sum.splits prod.splits)

lemma triple_try:
  "triple P m Q R \<Longrightarrow> (\<And>e. triple (R e) (h e) Q E) \<Longrightarrow> triple P (try_h m h) Q E"
  by (force simp: triple_def try_h_def split: sum.splits prod.splits)

lemma triple_True: "triple P m (\<lambda>_ _. True) (\<lambda>_ _. True)"
proof (rule tripleI)
  fix s
  obtain x t where "m s = (x, t)" by (cases "m s")
  then show "case m s of (Inr a, s') \<Rightarrow> True | (Inl e, s') \<Rightarrow> True" by (cases x) simp_all
qed

lemma triple_ret: "(\<And>s. P s \<Longrightarrow> Q a s) \<Longrightarrow> triple P (ret a) Q E"
  by (simp add: triple_def ret_def)

lemma triple_raise: "(\<And>s. P s \<Longrightarrow> E e s) \<Longrightarrow> triple P (raise_h e) Q E"
  by (simp add: triple_def raise_h_def)

lemma triple_problem: "(\<And>s. P s \<Longrightarrow> E (Problem e) s) \<Longrightarrow> triple P (problem_h e) Q E"
  by (simp add: problem_h_def triple_raise)

lemma triple_lift:
  "(\<And>s a. P s \<Longrightarrow> x = Inr a \<Longrightarrow> Q a s) \<Longrightarrow> (\<And>s e. P s \<Longrightarrow> x = Inl e \<Longrightarrow> E e s) \<Longrightarrow> triple P (lift_h x) Q E"
  by (auto simp: triple_def lift_h_def split: sum.splits)

lemma triple_get: "(\<And>s. P s \<Longrightarrow> Q (se_working s) s) \<Longrightarrow> triple P get_db Q E"
  by (simp add: triple_def get_db_def)

lemma triple_mod: "(\<And>s. P s \<Longrightarrow> Q () (s\<lparr>se_working := f (se_working s)\<rparr>)) \<Longrightarrow> triple P (mod_db f) Q E"
  by (simp add: triple_def mod_db_def)

lemma triple_commit: "(\<And>s. P s \<Longrightarrow> Q () (commit s)) \<Longrightarrow> triple P commit_h Q E"
  by (simp add: triple_def commit_h_def)

lemma triple_rollback: "(\<And>s. P s \<Longrightarrow> Q () (rollback s)) \<Longrightarrow> triple P rollback_h Q E"
  by (simp add: triple_def rollback_h_def)

lemma triple_guard:
  "(\<And>s. P s \<Longrightarrow> b \<Longrightarrow> Q () s) \<Longrightarrow> (\<And>s. P s \<Longrightarrow> \<not> b \<Longrightarrow> E (Problem e) s) \<Longrightarrow> triple P (guard_h b e) Q E"
  by (auto simp: triple_def guard_h_def ret_def problem_h_def raise_h_def)

lemma triple_for:
  "(\<And>x. x \<in> set xs \<Longrightarrow> triple P (f x) (\<lambda>_. P) E) \<Longrightarrow> triple P (for_h xs f) (\<lambda>_. P) E"
  by (induction xs) (auto intro: triple_ret triple_bind)

section \<open>Preserving a property of databases\<close>

definition both :: "(db \<Rightarrow> bool) \<Rightarrow> session \<Rightarrow> bool" where
  "both I s \<longleftrightarrow> I (se_durable s) \<and> I (se_working s)"

definition keeps :: "(db \<Rightarrow> bool) \<Rightarrow> 'a handler \<Rightarrow> bool" where
  "keeps I h \<longleftrightarrow> triple (both I) h (\<lambda>_. both I) (\<lambda>_. both I)"

named_theorems keeps_intros \<open>handlers that preserve an invariant\<close>

lemma keeps_ret [keeps_intros]: "keeps I (ret a)"
  by (simp add: keeps_def triple_ret)

lemma keeps_raise [keeps_intros]: "keeps I (raise_h e)" "keeps I (problem_h p)"
  by (simp_all add: keeps_def triple_raise triple_problem)

lemma keeps_bind [keeps_intros]: "keeps I m \<Longrightarrow> (\<And>a. keeps I (f a)) \<Longrightarrow> keeps I (bind_h m f)"
  unfolding keeps_def by (rule triple_bind)

lemma keeps_try [keeps_intros]: "keeps I m \<Longrightarrow> (\<And>e. keeps I (h e)) \<Longrightarrow> keeps I (try_h m h)"
  unfolding keeps_def by (rule triple_try)

lemma keeps_lift [keeps_intros]: "keeps I (lift_h x)"
  by (simp add: keeps_def triple_lift)

lemma keeps_get [keeps_intros]: "keeps I get_db"
  by (simp add: keeps_def triple_get)

lemma keeps_guard [keeps_intros]: "keeps I (guard_h b e)"
  by (simp add: keeps_def triple_guard)

lemma keeps_commit [keeps_intros]: "keeps I commit_h"
  by (auto simp: keeps_def both_def commit_def intro!: triple_commit)

lemma keeps_rollback [keeps_intros]: "keeps I rollback_h"
  by (auto simp: keeps_def both_def rollback_def intro!: triple_rollback)

lemma keeps_mod: "(\<And>d. I d \<Longrightarrow> I (f d)) \<Longrightarrow> keeps I (mod_db f)"
  by (auto simp: keeps_def both_def intro!: triple_mod)

lemma keeps_for [keeps_intros]: "(\<And>x. x \<in> set xs \<Longrightarrow> keeps I (f x)) \<Longrightarrow> keeps I (for_h xs f)"
  unfolding keeps_def by (rule triple_for)

lemma keeps_if_h: "keeps I f \<Longrightarrow> keeps I g \<Longrightarrow> keeps I (if b then f else g)"
  by simp

text \<open>The durable state after an endpoint satisfies what the handler keeps.\<close>

lemma run_endpoint_keeps:
  assumes "triple (both I) h (\<lambda>_. both I) (\<lambda>_. both I)" "I d"
  shows "I (snd (run_endpoint h d))"
proof (cases "h (open_session d)")
  case (Pair x s)
  have "both I (open_session d)" using assms(2) by (simp add: both_def open_session_def)
  then have "both I s"
    using triple_Inr [OF assms(1)] triple_Inl [OF assms(1)] Pair by (cases x) blast+
  then show ?thesis by (cases x) (simp_all add: run_endpoint_def Pair both_def rollback_def)
qed

end
