(* ===== verification/Lifecycle.thy ===== *)
theory Lifecycle
  imports Emit Fsm Sla Handler
begin

text \<open>
  The core of \<open>requests/service.py\<close> that every other service uses: \<open>apply_transition\<close> (the only
  place where a status changes) and \<open>build_detail\<close> (the card of a request as a subject sees
  it), with the schemas of \<open>requests/schemas.py\<close> they produce and the metrics of
  \<open>requests/metrics.py\<close>. \<open>env\<close> bundles what an operation reads besides the session: the
  interpreter, the settings and the time zone database; \<open>now\<close> is the one clock reading of the
  operation.
\<close>

record env =
  e_rt :: pyrt
  e_settings :: settings
  e_zones :: "pystr \<Rightarrow> tzone option"

definition actor_of :: "principal \<Rightarrow> uuid" where
  "actor_of p = (case p_on_behalf_of p of Some i \<Rightarrow> i | None \<Rightarrow> p_user_id p)"

section \<open>Transitions\<close>

fun stamp_status :: "request_status \<Rightarrow> instant \<Rightarrow> service_request \<Rightarrow> service_request" where
  "stamp_status S_DISPATCHED t r = r\<lparr>sr_dispatched_at := Some t\<rparr>"
| "stamp_status S_ACCEPTED t r = r\<lparr>sr_accepted_at := Some t\<rparr>"
| "stamp_status S_DONE t r = r\<lparr>sr_done_at := Some t\<rparr>"
| "stamp_status S_ACCEPTED_BY_USER t r = r\<lparr>sr_accepted_by_user_at := Some t\<rparr>"
| "stamp_status S_PAID t r = r\<lparr>sr_paid_at := Some t\<rparr>"
| "stamp_status _ t r = r"

definition status_history :: "principal \<Rightarrow> uuid \<Rightarrow> request_status \<Rightarrow> request_status \<Rightarrow> instant \<Rightarrow> request_history" where
  "status_history p i previous target now = \<lparr>rh_request_id = i, rh_actor_id = actor_of p,
     rh_action = H_STATUS_CHANGED, rh_from = Some (status_value previous),
     rh_to = Some (status_value target), rh_ts = now\<rparr>"

definition emit_transition ::
    "env \<Rightarrow> instant \<Rightarrow> service_request \<Rightarrow> request_status \<Rightarrow> db \<Rightarrow> db" where
  "emit_transition e now r target d =
     emit_concierge_status_update (e_rt e) (e_settings e) now (sr_id r) (sr_number r) target (sr_source_ref r)
       (emit_notifications (e_settings e) now (sr_id r) (sr_number r) target (sr_requester_id r) (sr_partner_id r)
         (emit_event (e_settings e) now (status_event target) (sr_id r) (sr_number r) target None d))"

definition apply_transition ::
    "env \<Rightarrow> instant \<Rightarrow> principal \<Rightarrow> service_request \<Rightarrow> request_status \<Rightarrow> service_request handler" where
  "apply_transition e now p r target =
     bind_h (lift_h (ensure_transition (sr_status r) target)) (\<lambda>_.
     bind_h (put_request (stamp_status target now (r\<lparr>sr_status := target\<rparr>))) (\<lambda>r'.
     bind_h (mod_db (add_history (status_history p (sr_id r) (sr_status r) target now))) (\<lambda>_.
     bind_h (mod_db (emit_transition e now r' target)) (\<lambda>_.
     ret r'))))"

text \<open>\<open>record_transition\<close>: the histogram observed besides the counter, in seconds.\<close>

definition transition_observation ::
    "request_status \<Rightarrow> instant \<Rightarrow> service_request \<Rightarrow> (pystr \<times> rat) option" where
  "transition_observation target moment r =
     (if target = S_DISPATCHED then Some (u ''ttfd'', us_seconds (moment - sr_created_at r))
      else if target = S_ACCEPTED \<and> sr_dispatched_at r \<noteq> None
        then Some (u ''tta'', us_seconds (moment - the (sr_dispatched_at r)))
      else if target = S_DONE \<and> sr_accepted_at r \<noteq> None
        then Some (u ''ttr'', us_seconds (moment - the (sr_accepted_at r)))
      else None)"

section \<open>The card\<close>

record estimate_read =
  er_kind :: estimate_kind
  er_amount_rub :: "rat option"
  er_eta_text :: "pystr option"
  er_comment :: "pystr option"
  er_created_at :: instant

definition read_estimate :: "request_estimate \<Rightarrow> estimate_read" where
  "read_estimate e = \<lparr>er_kind = re_kind e, er_amount_rub = re_amount_rub e,
     er_eta_text = re_eta_text e, er_comment = re_comment e, er_created_at = re_created_at e\<rparr>"

record request_read =
  rr_id :: uuid
  rr_number :: pystr
  rr_requester_id :: pystr
  rr_channel_in :: channel_in
  rr_category :: "category option"
  rr_status :: request_status
  rr_created_at :: instant

record request_detail = request_read +
  rd_partner_id :: "pystr option"
  rd_product_code :: "pystr option"
  rd_booking_id :: "pystr option"
  rd_premises_id :: "pystr option"
  rd_delivery_channel :: "pystr option"
  rd_service_order_id :: "pystr option"
  rd_amount_ref :: "pystr option"
  rd_escrow_ref :: "pystr option"
  rd_dispute_id :: "pystr option"
  rd_claim_ref :: "pystr option"
  rd_scheduled_at :: "instant option"
  rd_estimates :: "estimate_read list"
  rd_raw_input :: pystr
  rd_classification :: "jdict option"
  rd_sla :: "jdict option"
  rd_match_trace :: "jdict option"
  rd_fallback_chain :: "pystr list option"
  rd_allowed_transitions :: "request_status list"

definition read_request :: "service_request \<Rightarrow> request_read" where
  "read_request r = \<lparr>rr_id = sr_id r, rr_number = sr_number r, rr_requester_id = sr_requester_id r,
     rr_channel_in = sr_channel_in r, rr_category = sr_category r, rr_status = sr_status r,
     rr_created_at = sr_created_at r\<rparr>"

definition build_detail ::
    "env \<Rightarrow> instant \<Rightarrow> principal \<Rightarrow> service_request \<Rightarrow> request_estimate list \<Rightarrow> exn + request_detail" where
  "build_detail e now p r estimates =
     (let raw = (if can_see_raw_input p r then sr_raw_input r else sr_raw_input_masked r);
          staff_view = can_view_internal p
      in bindE (policy_from_settings (e_settings e)) (\<lambda>policy.
         bindE (sla_view (e_rt e) (sr_sla r) (sr_accepted_at r) (sr_done_at r) policy now) (\<lambda>sla.
         Inr \<lparr>rr_id = sr_id r, rr_number = sr_number r, rr_requester_id = sr_requester_id r,
              rr_channel_in = sr_channel_in r, rr_category = sr_category r, rr_status = sr_status r,
              rr_created_at = sr_created_at r, rd_partner_id = sr_partner_id r,
              rd_product_code = sr_product_code r, rd_booking_id = sr_booking_id r,
              rd_premises_id = sr_premises_id r, rd_delivery_channel = sr_delivery_channel r,
              rd_service_order_id = sr_service_order_id r, rd_amount_ref = sr_amount_ref r,
              rd_escrow_ref = sr_escrow_ref r, rd_dispute_id = sr_dispute_id r,
              rd_claim_ref = sr_claim_ref r, rd_scheduled_at = sr_scheduled_at r,
              rd_estimates = map read_estimate estimates, rd_raw_input = raw,
              rd_classification = sr_classification r, rd_sla = sla,
              rd_match_trace = (if staff_view then sr_match_trace r else None),
              rd_fallback_chain = (if staff_view then sr_fallback_chain r else None),
              rd_allowed_transitions = sorted_list_of_set (allowed_transitions (sr_status r))\<rparr>)))"

section \<open>Loading a request\<close>

text \<open>\<open>get_visible(...)\<close>, and 404 when nothing visible is found.\<close>

definition load_visible :: "principal \<Rightarrow> uuid \<Rightarrow> service_request handler" where
  "load_visible p i = bind_h get_db (\<lambda>d. case get_visible p i d of
       None \<Rightarrow> problem_h (not_found None) | Some r \<Rightarrow> ret r)"

end
