(* ===== verification/Invariant.thy ===== *)
theory Invariant
  imports Lifecycle
begin

text \<open>
  The invariant of the database (\<open>wf_db\<close>) and its preservation by the building blocks of every
  service: request ids, numbers and idempotency keys are unique, numbers come from the sequence,
  audit records belong to stored requests, and the recorded changes of status of each request
  form a chain of allowed transitions from \<open>NEW\<close> to its current status.
\<close>

section \<open>The audit trail\<close>

fun trail :: "request_status \<Rightarrow> request_history list \<Rightarrow> request_status \<Rightarrow> bool" where
  "trail s [] t \<longleftrightarrow> s = t"
| "trail s (h # hs) t \<longleftrightarrow> rh_from h = Some (status_value s)
     \<and> (\<exists>m. rh_to h = Some (status_value m) \<and> can_transition s m \<and> trail m hs t)"

definition status_trail :: "uuid \<Rightarrow> db \<Rightarrow> request_history list" where
  "status_trail i d = filter (\<lambda>h. rh_action h = H_STATUS_CHANGED) (history_of i d)"

lemma trail_snoc:
  "trail s (hs @ [h]) t \<longleftrightarrow> (\<exists>m. trail s hs m \<and> rh_from h = Some (status_value m)
     \<and> rh_to h = Some (status_value t) \<and> can_transition m t)"
  by (induction hs arbitrary: s) auto

lemma trail_path: "trail s hs t \<Longrightarrow> \<exists>ts. fsm_path s ts \<and> last (s # ts) = t
    \<and> map rh_to hs = map (Some \<circ> status_value) ts"
proof (induction hs arbitrary: s)
  case Nil
  then show ?case by (auto intro: exI [of _ "[]"])
next
  case (Cons h hs)
  then obtain m where m: "rh_to h = Some (status_value m)" "can_transition s m" "trail m hs t" by auto
  from Cons.IH [OF m(3)] obtain ts where "fsm_path m ts" "last (m # ts) = t"
    "map rh_to hs = map (Some \<circ> status_value) ts" by blast
  with m show ?case by (intro exI [of _ "m # ts"]) simp
qed

section \<open>The invariant\<close>

definition number_text :: "nat \<Rightarrow> pystr" where
  "number_text n = u ''RQ-'' @ zpad 8 (dec_digits n)"

lemma number_text_inject [simp]: "number_text m = number_text n \<longleftrightarrow> m = n"
  by (auto simp: number_text_def dest: zpad_dec_inj)

definition idempotency_keys :: "db \<Rightarrow> pystr list" where
  "idempotency_keys d = List.map_filter sr_idempotency_key (db_requests d)"

definition wf_db :: "db \<Rightarrow> bool" where
  "wf_db d \<longleftrightarrow> distinct (map sr_id (db_requests d))
     \<and> (\<forall>r\<in>set (db_requests d). trail S_NEW (status_trail (sr_id r) d) (sr_status r))
     \<and> (\<forall>h\<in>set (db_history d). rh_request_id h \<in> sr_id ` set (db_requests d))
     \<and> distinct (map sr_number (db_requests d))
     \<and> (\<forall>r\<in>set (db_requests d). \<exists>n\<le>db_number_seq d. sr_number r = number_text n)
     \<and> distinct (idempotency_keys d)
     \<and> wf_outbox d"

lemma wf_db_distinct: "wf_db d \<Longrightarrow> distinct (map sr_id (db_requests d))"
  by (simp add: wf_db_def)

lemma wf_db_trail: "wf_db d \<Longrightarrow> r \<in> set (db_requests d) \<Longrightarrow> trail S_NEW (status_trail (sr_id r) d) (sr_status r)"
  by (simp add: wf_db_def)

lemma wf_db_outbox: "wf_db d \<Longrightarrow> wf_outbox d"
  by (simp add: wf_db_def)

lemma wf_db_empty: "wf_db empty_db"
  by (simp add: wf_db_def empty_db_def idempotency_keys_def wf_outbox_def map_filter_simps)

text \<open>Changes that touch neither requests nor history nor the sequence.\<close>

definition same_audit :: "db \<Rightarrow> db \<Rightarrow> bool" where
  "same_audit d d' \<longleftrightarrow> db_requests d' = db_requests d \<and> db_history d' = db_history d
     \<and> db_number_seq d' = db_number_seq d"

lemma wf_db_same_audit: "wf_db d \<Longrightarrow> same_audit d d' \<Longrightarrow> wf_outbox d' \<Longrightarrow> wf_db d'"
  by (simp add: wf_db_def same_audit_def status_trail_def history_of_def idempotency_keys_def)

lemma same_audit_outbox_only: "outbox_only d d' \<Longrightarrow> same_audit d d'"
  by (simp add: same_audit_def frame_simps)

definition outbox_grows :: "(db \<Rightarrow> db) \<Rightarrow> bool" where
  "outbox_grows f \<longleftrightarrow> (\<forall>d. outbox_only d (f d) \<and> (wf_outbox d \<longrightarrow> wf_outbox (f d)))"

lemma outbox_grows_enqueue [intro]: "k \<in> set outbox_kinds \<Longrightarrow> outbox_grows (enqueue now k v)"
  by (auto simp: outbox_grows_def inv_intros)

lemma outbox_grows_id [intro]: "outbox_grows (\<lambda>d. d)"
  by (auto simp: outbox_grows_def)

lemma outbox_grows_comp: "outbox_grows f \<Longrightarrow> outbox_grows g \<Longrightarrow> outbox_grows (\<lambda>d. f (g d))"
  unfolding outbox_grows_def by (metis outbox_only_trans)

lemma outbox_grows_foldl: "(\<And>x. outbox_grows (\<lambda>d. f d x)) \<Longrightarrow> outbox_grows (\<lambda>d. foldl f d xs)"
proof (induction xs rule: rev_induct)
  case (snoc x xs)
  then show ?case using outbox_grows_comp [of "\<lambda>d. f d x" "\<lambda>d. foldl f d xs"] by simp
qed (simp add: outbox_grows_id)

lemma outbox_grows_if: "outbox_grows f \<Longrightarrow> outbox_grows g \<Longrightarrow> outbox_grows (\<lambda>d. if b then f d else g d)"
  by (cases b) simp_all

lemma outbox_grows_option:
  "outbox_grows g \<Longrightarrow> (\<And>x. outbox_grows (f x)) \<Longrightarrow>
   outbox_grows (\<lambda>d. case z of None \<Rightarrow> g d | Some x \<Rightarrow> f x d)"
  by (cases z) simp_all

lemma outbox_grows_emit [intro]:
  "outbox_grows (emit_event st now event i number status sched)"
  "outbox_grows (emit_notifications st now i number status requester partner)"
  "outbox_grows (emit_operator_escalation st now i number status summary)"
  "outbox_grows (emit_concierge_status_update rt st now i number status source_ref)"
  unfolding emit_event_def emit_notifications_def emit_operator_escalation_def
    emit_concierge_status_update_def
  by (intro outbox_grows_if outbox_grows_option outbox_grows_foldl outbox_grows_enqueue outbox_grows_id known_kinds)+

lemma outbox_grows_transition [intro]: "outbox_grows (emit_transition e now r target)"
  unfolding emit_transition_def
  by (rule outbox_grows_comp [OF outbox_grows_emit(4)
        outbox_grows_comp [OF outbox_grows_emit(2) outbox_grows_emit(1)]])

lemma outbox_grows_same_audit: "outbox_grows f \<Longrightarrow> same_audit d (f d)"
  by (simp add: outbox_grows_def same_audit_outbox_only)

lemma outbox_grows_row: "outbox_grows f \<Longrightarrow> get_request i (f d) = get_request i d"
  using outbox_grows_same_audit [of f d] by (simp add: get_request_def same_audit_def)

lemma wf_db_outbox_grows: "outbox_grows f \<Longrightarrow> wf_db d \<Longrightarrow> wf_db (f d)"
  using wf_db_same_audit [of d "f d"]
  by (simp add: outbox_grows_def same_audit_outbox_only wf_db_outbox)

section \<open>Editing the current row\<close>

definition current :: "service_request \<Rightarrow> session \<Rightarrow> bool" where
  "current r s \<longleftrightarrow> get_request (sr_id r) (se_working s) = Some r"

definition same_core :: "service_request \<Rightarrow> service_request \<Rightarrow> bool" where
  "same_core r r' \<longleftrightarrow> sr_id r' = sr_id r \<and> sr_number r' = sr_number r
     \<and> sr_idempotency_key r' = sr_idempotency_key r"

lemma row_put_map:
  assumes "distinct (map key rows)" "r \<in> set rows" "key r' = key r" "f r' = f r"
  shows "map f (row_put key r' rows) = map f rows"
  using assms(1,2)
  by (auto simp: row_put_def assms(3,4) distinct_map inj_on_def)

lemma mem_save_request:
  "x \<in> set (db_requests (save_request r' d)) \<Longrightarrow> x = r' \<or> (x \<in> set (db_requests d) \<and> sr_id x \<noteq> sr_id r')"
  by (auto simp: save_request_def dest: mem_row_put)

lemma save_request_core:
  assumes "distinct (map sr_id (db_requests d))" "r \<in> set (db_requests d)" "same_core r r'"
  shows "map sr_number (db_requests (save_request r' d)) = map sr_number (db_requests d)"
    and "idempotency_keys (save_request r' d) = idempotency_keys d"
proof -
  note map = row_put_map [OF assms(1,2), of r']
  show "map sr_number (db_requests (save_request r' d)) = map sr_number (db_requests d)"
    using map [of sr_number] assms(3) by (simp add: save_request_def same_core_def)
  have "List.map_filter f xs = List.map_filter id (map f xs)" for f :: "service_request \<Rightarrow> pystr option" and xs
    by (simp add: map_filter_def filter_map comp_def)
  then show "idempotency_keys (save_request r' d) = idempotency_keys d"
    using map [of sr_idempotency_key] assms(3)
    unfolding idempotency_keys_def by (simp add: save_request_def same_core_def)
qed

text \<open>A row may change its status when the trail changes with it.\<close>

lemma wf_db_step:
  assumes "wf_db d" "get_request (sr_id r) d = Some r" "same_core r r'"
    "db_requests d' = db_requests (save_request r' d)" "db_history d' = db_history d @ hs"
    "\<forall>h\<in>set hs. rh_request_id h = sr_id r" "db_number_seq d' = db_number_seq d" "wf_outbox d'"
    "trail S_NEW (status_trail (sr_id r) d @ filter (\<lambda>h. rh_action h = H_STATUS_CHANGED) hs) (sr_status r')"
  shows "wf_db d'"
proof -
  have r: "r \<in> set (db_requests d)" using get_request_Some [OF assms(2)] by simp
  have ids: "map sr_id (db_requests d') = map sr_id (db_requests d)"
    by (simp add: assms(4) save_request_def)
  then have idset: "sr_id ` set (db_requests d') = sr_id ` set (db_requests d)"
    by (metis list.set_map)
  have core: "map sr_number (db_requests d') = map sr_number (db_requests d)"
      "idempotency_keys d' = idempotency_keys d"
    using save_request_core [OF wf_db_distinct [OF assms(1)] r assms(3)] assms(4)
    by (simp_all add: idempotency_keys_def)
  have trails: "status_trail i d' = status_trail i d
      @ (if i = sr_id r then filter (\<lambda>h. rh_action h = H_STATUS_CHANGED) hs else [])" for i
  proof -
    have "filter (\<lambda>h. rh_request_id h = i) hs = (if i = sr_id r then hs else [])"
      using assms(6) by (auto simp: filter_empty_conv)
    then show ?thesis by (simp add: status_trail_def history_of_def assms(5))
  qed
  have rows: "x = r' \<or> (x \<in> set (db_requests d) \<and> sr_id x \<noteq> sr_id r)" if "x \<in> set (db_requests d')" for x
    using that mem_save_request [of x r' d] assms(3,4) by (auto simp: same_core_def)
  show ?thesis
    unfolding wf_db_def
  proof (intro conjI ballI)
    fix x assume "x \<in> set (db_requests d')"
    from rows [OF this] show "trail S_NEW (status_trail (sr_id x) d') (sr_status x)"
      using assms(1,3,9) by (auto simp: trails same_core_def wf_db_def)
  next
    fix h assume "h \<in> set (db_history d')"
    then show "rh_request_id h \<in> sr_id ` set (db_requests d')"
      using assms(1,5,6) r by (auto simp: idset wf_db_def)
  next
    fix x assume "x \<in> set (db_requests d')"
    from rows [OF this] obtain y where "y \<in> set (db_requests d)" "sr_number x = sr_number y"
      using r assms(3) by (auto simp: same_core_def)
    then show "\<exists>n\<le>db_number_seq d'. sr_number x = number_text n"
      using assms(1,7) by (auto simp: wf_db_def)
  qed (use assms(1,8) in \<open>simp_all add: ids core wf_db_def\<close>)
qed

section \<open>The building blocks keep the invariant\<close>

definition wfc :: "service_request \<Rightarrow> session \<Rightarrow> bool" where
  "wfc r s \<longleftrightarrow> both wf_db s \<and> current r s"

definition keepsc :: "service_request \<Rightarrow> 'a handler \<Rightarrow> bool" where
  "keepsc r h \<longleftrightarrow> triple (wfc r) h (\<lambda>_. both wf_db) (\<lambda>_. both wf_db)"

named_theorems wfc_intros \<open>steps that keep the invariant while a row is held\<close>

lemma wfc_both: "wfc r s \<Longrightarrow> both wf_db s"
  by (simp add: wfc_def)

lemma stamp_status_core [simp]:
  "sr_id (stamp_status t now r) = sr_id r" "sr_number (stamp_status t now r) = sr_number r"
  "sr_idempotency_key (stamp_status t now r) = sr_idempotency_key r"
  "sr_status (stamp_status t now r) = sr_status r"
  by (cases t; simp)+

lemma triple_put:
  assumes "same_core r r'" "sr_status r' = sr_status r"
  shows "triple (wfc r) (put_request r') (\<lambda>x s. x = r' \<and> wfc r' s) E"
proof (rule tripleI)
  fix s assume "wfc r s"
  then have w: "wf_db (se_durable s)" "wf_db (se_working s)" "get_request (sr_id r) (se_working s) = Some r"
    by (simp_all add: wfc_def both_def current_def)
  have "wf_db (save_request r' (se_working s))"
    using w assms wf_db_trail [OF w(2)] get_request_Some [OF w(3)]
    by (intro wf_db_step [OF w(2,3) assms(1), where hs = "[]"])
      (auto simp: frame_simps wf_outbox_def wf_db_def)
  moreover have "get_request (sr_id r') (save_request r' (se_working s)) = Some r'"
    using get_request_Some [OF w(3)] assms(1) by (auto simp: get_save_request same_core_def)
  ultimately show "case put_request r' s of (Inr a, s') \<Rightarrow> a = r' \<and> wfc r' s' | (Inl e, s') \<Rightarrow> E e s'"
    using w(1) by (simp add: put_request_def bind_h_def mod_db_def ret_def wfc_def both_def current_def)
qed

lemma triple_grow:
  assumes "outbox_grows f" shows "triple (wfc r) (mod_db f) (\<lambda>_. wfc r) E"
proof (rule triple_mod)
  fix s assume "wfc r s"
  moreover have "get_request i (f d) = get_request i d" for i d
    using outbox_grows_same_audit [OF assms, of d] by (simp add: get_request_def same_audit_def)
  ultimately show "wfc r (s\<lparr>se_working := f (se_working s)\<rparr>)"
    using wf_db_outbox_grows [OF assms] by (simp add: wfc_def both_def current_def)
qed

text \<open>Messages, estimates, attempts and events are outside the invariant.\<close>

definition outside_audit :: "(db \<Rightarrow> db) \<Rightarrow> bool" where
  "outside_audit f \<longleftrightarrow> (\<forall>d. same_audit d (f d) \<and> db_outbox (f d) = db_outbox d)"

lemma outside_audit_add [intro]:
  "outside_audit (add_message m)" "outside_audit (add_estimate x)"
  by (simp_all add: outside_audit_def same_audit_def frame_simps)
    (simp_all add: add_message_def add_estimate_def)

lemma wf_db_outside: "outside_audit f \<Longrightarrow> wf_db d \<Longrightarrow> wf_db (f d)"
  using wf_db_same_audit [of d "f d"] by (auto simp: outside_audit_def wf_outbox_def wf_db_def)

lemma triple_outside:
  assumes "outside_audit f" shows "triple (wfc r) (mod_db f) (\<lambda>_. wfc r) E"
proof (rule triple_mod)
  fix s assume "wfc r s"
  moreover have "get_request i (f d) = get_request i d" for i d
    using assms by (simp add: outside_audit_def get_request_def same_audit_def)
  ultimately show "wfc r (s\<lparr>se_working := f (se_working s)\<rparr>)"
    using wf_db_outside [OF assms] by (simp add: wfc_def both_def current_def)
qed

lemma wf_db_add_history:
  assumes "wf_db d" "rh_request_id h \<in> sr_id ` set (db_requests d)" "rh_action h \<noteq> H_STATUS_CHANGED"
  shows "wf_db (add_history h d)"
  using assms
  by (auto simp: wf_db_def frame_simps status_trail_def idempotency_keys_def wf_outbox_def)

lemma triple_history:
  assumes "rh_request_id h = sr_id r" "rh_action h \<noteq> H_STATUS_CHANGED"
  shows "triple (wfc r) (mod_db (add_history h)) (\<lambda>_. wfc r) E"
proof (rule triple_mod)
  fix s assume "wfc r s"
  then have w: "wf_db (se_durable s)" "wf_db (se_working s)" "get_request (sr_id r) (se_working s) = Some r"
    by (simp_all add: wfc_def both_def current_def)
  then have "wf_db (add_history h (se_working s))"
    using wf_db_add_history [OF w(2) _ assms(2)] get_request_Some [OF w(3)] assms(1) by force
  then show "wfc r (s\<lparr>se_working := add_history h (se_working s)\<rparr>)"
    using w by (simp add: wfc_def both_def current_def frame_simps)
qed

lemma triple_commit_wfc: "triple (wfc r) commit_h (\<lambda>_. wfc r) E"
  by (rule triple_commit) (simp add: wfc_def both_def current_def commit_def)

definition after_transition :: "instant \<Rightarrow> service_request \<Rightarrow> request_status \<Rightarrow> service_request" where
  "after_transition now r t = stamp_status t now (r\<lparr>sr_status := t\<rparr>)"

lemma after_transition_core [simp]:
  "sr_id (after_transition now r t) = sr_id r" "sr_number (after_transition now r t) = sr_number r"
  "sr_idempotency_key (after_transition now r t) = sr_idempotency_key r"
  "sr_status (after_transition now r t) = t"
  by (simp_all add: after_transition_def)

text \<open>What a transition does when it is allowed, and that nothing happens when it is not.\<close>

lemma apply_transition_run:
  "apply_transition e now p r t s =
     (if can_transition (sr_status r) t
      then (Inr (after_transition now r t), s\<lparr>se_working :=
              emit_transition e now (after_transition now r t) t
                (add_history (status_history p (sr_id r) (sr_status r) t now)
                  (save_request (after_transition now r t) (se_working s)))\<rparr>)
      else (case ensure_transition (sr_status r) t of Inl x \<Rightarrow> (Inl x, s) | Inr _ \<Rightarrow> (Inr r, s)))"
proof (cases "can_transition (sr_status r) t")
  case True
  then have ok: "ensure_transition (sr_status r) t = Inr ()" by simp
  show ?thesis using True
    by (simp add: ok apply_transition_def bind_h_def lift_h_def put_request_def mod_db_def ret_def
        after_transition_def)
next
  case False
  then show ?thesis
    by (simp add: apply_transition_def bind_h_def lift_h_def ensure_transition_def raise_problem_def)
qed

lemma triple_transition:
  "triple (wfc r) (apply_transition e now p r t)
     (\<lambda>r' s. r' = after_transition now r t \<and> can_transition (sr_status r) t \<and> wfc r' s) (\<lambda>_. wfc r)"
proof (rule tripleI)
  fix s assume "wfc r s"
  then have w: "wf_db (se_durable s)" "wf_db (se_working s)" "get_request (sr_id r) (se_working s) = Some r"
    by (simp_all add: wfc_def both_def current_def)
  let ?r = "after_transition now r t" and ?h = "status_history p (sr_id r) (sr_status r) t now"
  let ?d = "add_history ?h (save_request ?r (se_working s))"
  have r: "r \<in> set (db_requests (se_working s))" using get_request_Some [OF w(3)] by simp
  show "case apply_transition e now p r t s of
      (Inr r', s') \<Rightarrow> r' = ?r \<and> can_transition (sr_status r) t \<and> wfc r' s'
    | (Inl _, s') \<Rightarrow> wfc r s'"
  proof (cases "can_transition (sr_status r) t")
    case True
    have "trail S_NEW (status_trail (sr_id r) (se_working s) @ [?h]) t"
      using wf_db_trail [OF w(2) r] True by (auto simp: trail_snoc status_history_def)
    then have "wf_db ?d"
      using w(2) by (intro wf_db_step [OF w(2,3), of ?r _ "[?h]"])
        (auto simp: frame_simps same_core_def status_history_def wf_outbox_def wf_db_def)
    then have "wf_db (emit_transition e now ?r t ?d)" by (rule wf_db_outbox_grows [OF outbox_grows_transition])
    moreover have "get_request (sr_id ?r) (emit_transition e now ?r t ?d) = Some ?r"
    proof -
      have "get_request (sr_id ?r) (emit_transition e now ?r t ?d) = get_request (sr_id ?r) ?d"
        using outbox_grows_same_audit [OF outbox_grows_transition, of ?d e now ?r t]
        by (simp add: get_request_def same_audit_def)
      then show ?thesis using r by (auto simp: frame_simps get_save_request)
    qed
    ultimately show ?thesis using True w(1)
      by (simp add: apply_transition_run wfc_def both_def current_def)
  next
    case False
    then show ?thesis using \<open>wfc r s\<close>
      by (simp add: apply_transition_run ensure_transition_def raise_problem_def)
  qed
qed

lemma keepsc_bind:
  "triple (wfc r) m Q (\<lambda>_. both wf_db) \<Longrightarrow> (\<And>a. triple (Q a) (f a) (\<lambda>_. both wf_db) (\<lambda>_. both wf_db))
   \<Longrightarrow> keepsc r (bind_h m f)"
  unfolding keepsc_def by (rule triple_bind)

lemma keepsc_put [wfc_intros]:
  assumes "same_core r r'" "sr_status r' = sr_status r" "keepsc r' (f r')"
  shows "keepsc r (bind_h (put_request r') f)"
  using assms(3)
  by (intro keepsc_bind [OF triple_put [OF assms(1,2)]]) (auto simp: keepsc_def triple_def)

lemma keepsc_transition [wfc_intros]:
  assumes "can_transition (sr_status r) t \<Longrightarrow> keepsc (after_transition now r t) (f (after_transition now r t))"
  shows "keepsc r (bind_h (apply_transition e now p r t) f)"
proof (rule keepsc_bind)
  show "triple (wfc r) (apply_transition e now p r t)
     (\<lambda>r' s. r' = after_transition now r t \<and> can_transition (sr_status r) t \<and> wfc r' s) (\<lambda>_. both wf_db)"
    by (rule triple_weaken [OF triple_transition]) (auto simp: wfc_def)
  show "triple (\<lambda>s. a = after_transition now r t \<and> can_transition (sr_status r) t \<and> wfc a s) (f a)
     (\<lambda>_. both wf_db) (\<lambda>_. both wf_db)" for a
  proof (cases "a = after_transition now r t \<and> can_transition (sr_status r) t")
    case True
    then have "triple (wfc a) (f a) (\<lambda>_. both wf_db) (\<lambda>_. both wf_db)"
      using assms by (simp add: keepsc_def)
    then show ?thesis by (rule triple_weaken) auto
  qed (auto simp: triple_def)
qed

lemma keepsc_step:
  assumes "triple (wfc r) (mod_db g) (\<lambda>_. wfc r) (\<lambda>_. both wf_db)" "keepsc r (f ())"
  shows "keepsc r (bind_h (mod_db g) f)"
  using assms(2) by (intro keepsc_bind [OF assms(1)]) (simp add: keepsc_def)

lemma keepsc_grow [wfc_intros]:
  "outbox_grows g \<Longrightarrow> keepsc r (f ()) \<Longrightarrow> keepsc r (bind_h (mod_db g) f)"
  by (rule keepsc_step [OF triple_grow])

lemma keepsc_outside [wfc_intros]:
  "outside_audit g \<Longrightarrow> keepsc r (f ()) \<Longrightarrow> keepsc r (bind_h (mod_db g) f)"
  by (rule keepsc_step [OF triple_outside])

lemma keepsc_history [wfc_intros]:
  "rh_request_id h = sr_id r \<Longrightarrow> rh_action h \<noteq> H_STATUS_CHANGED \<Longrightarrow> keepsc r (f ())
   \<Longrightarrow> keepsc r (bind_h (mod_db (add_history h)) f)"
  by (rule keepsc_step [OF triple_history])

lemma keepsc_commit [wfc_intros]: "keepsc r (f ()) \<Longrightarrow> keepsc r (bind_h commit_h f)"
  by (rule keepsc_bind [OF triple_commit_wfc]) (simp add: keepsc_def)

lemma keepsc_commit_end [wfc_intros]: "keepsc r commit_h"
  unfolding keepsc_def by (rule triple_weaken [OF triple_commit_wfc]) (auto simp: wfc_def)

lemma keepsc_guard [wfc_intros]: "(b \<Longrightarrow> keepsc r (f ())) \<Longrightarrow> keepsc r (bind_h (guard_h b x) f)"
  by (rule keepsc_bind [where Q = "\<lambda>_ s. b \<and> wfc r s"])
    (auto simp: keepsc_def triple_def guard_h_def ret_def problem_h_def raise_h_def wfc_def)

lemma keepsc_lift [wfc_intros]: "(\<And>a. x = Inr a \<Longrightarrow> keepsc r (f a)) \<Longrightarrow> keepsc r (bind_h (lift_h x) f)"
  by (rule keepsc_bind [where Q = "\<lambda>a s. x = Inr a \<and> wfc r s"])
    (auto simp: keepsc_def triple_def lift_h_def wfc_def split: sum.splits)

lemma keepsc_get [wfc_intros]: "(\<And>d. keepsc r (f d)) \<Longrightarrow> keepsc r (bind_h get_db f)"
  by (auto simp: keepsc_def triple_def bind_h_def get_db_def split: sum.splits prod.splits)

lemma keepsc_end [wfc_intros]: "keepsc r (ret a)" "keepsc r (problem_h x)" "keepsc r (raise_h y)" "keepsc r (lift_h z)"
  by (auto simp: keepsc_def triple_def handler_defs wfc_def split: sum.splits)

lemma keepsc_if [wfc_intros]: "(b \<Longrightarrow> keepsc r f) \<Longrightarrow> (\<not> b \<Longrightarrow> keepsc r g) \<Longrightarrow> keepsc r (if b then f else g)"
  by simp

lemma keepsc_option [wfc_intros]:
  "(z = None \<Longrightarrow> keepsc r f) \<Longrightarrow> (\<And>x. z = Some x \<Longrightarrow> keepsc r (g x)) \<Longrightarrow>
   keepsc r (case z of None \<Rightarrow> f | Some x \<Rightarrow> g x)"
  by (cases z) simp_all

lemma keepsc_keeps: "keeps wf_db h \<Longrightarrow> keepsc r h"
  by (auto simp: keeps_def keepsc_def wfc_def elim: triple_weaken)

text \<open>Steps that hand the row on: the value returned is the new content of the row.\<close>

definition movesc :: "service_request \<Rightarrow> service_request handler \<Rightarrow> bool" where
  "movesc r m \<longleftrightarrow> triple (wfc r) m (\<lambda>x s. wfc x s \<and> same_core r x) (\<lambda>_. both wf_db)"

lemma movescD: "movesc r m \<Longrightarrow> triple (wfc r) m (\<lambda>x s. wfc x s \<and> same_core r x) (\<lambda>_. both wf_db)"
  by (simp add: movesc_def)

lemma same_core_refl [simp]: "same_core r r"
  by (simp add: same_core_def)

lemma same_core_trans: "same_core r x \<Longrightarrow> same_core x y \<Longrightarrow> same_core r y"
  by (simp add: same_core_def)

lemma same_core_transition [simp]: "same_core r (after_transition now r t)"
  by (simp add: same_core_def)

lemma movesc_ret [wfc_intros]: "movesc r (ret r)"
  by (simp add: movesc_def triple_def ret_def)

lemma movesc_fail [wfc_intros]: "movesc r (problem_h x)" "movesc r (raise_h y)"
  by (simp_all add: movesc_def triple_def handler_defs wfc_def)

lemma movesc_put [wfc_intros]:
  "same_core r r' \<Longrightarrow> sr_status r' = sr_status r \<Longrightarrow> movesc r (put_request r')"
  unfolding movesc_def by (rule triple_weaken [OF triple_put]) auto

lemma movesc_transition [wfc_intros]: "movesc r (apply_transition e now p r t)"
  unfolding movesc_def by (rule triple_weaken [OF triple_transition]) (auto simp: wfc_def)

lemma movesc_bind [wfc_intros]:
  assumes "movesc r m" "\<And>x. same_core r x \<Longrightarrow> movesc x (f x)"
  shows "movesc r (bind_h m f)"
  unfolding movesc_def
proof (rule triple_bind [OF movescD [OF assms(1)]])
  fix x
  show "triple (\<lambda>s. wfc x s \<and> same_core r x) (f x) (\<lambda>y s. wfc y s \<and> same_core r y) (\<lambda>_. both wf_db)"
  proof (cases "same_core r x")
    case True
    show ?thesis
      by (rule triple_weaken [OF movescD [OF assms(2) [OF True]]])
        (use True same_core_trans in auto)
  qed (simp add: triple_def)
qed

lemma movesc_if [wfc_intros]: "(b \<Longrightarrow> movesc r f) \<Longrightarrow> (\<not> b \<Longrightarrow> movesc r g) \<Longrightarrow> movesc r (if b then f else g)"
  by simp

lemma movesc_option [wfc_intros]:
  "(z = None \<Longrightarrow> movesc r f) \<Longrightarrow> (\<And>x. z = Some x \<Longrightarrow> movesc r (g x)) \<Longrightarrow>
   movesc r (case z of None \<Rightarrow> f | Some x \<Rightarrow> g x)"
  by (cases z) simp_all

lemma keepsc_move:
  assumes "movesc r m" "\<And>x. same_core r x \<Longrightarrow> keepsc x (f x)"
  shows "keepsc r (bind_h m f)"
proof (rule keepsc_bind [OF movescD [OF assms(1)]])
  fix x
  show "triple (\<lambda>s. wfc x s \<and> same_core r x) (f x) (\<lambda>_. both wf_db) (\<lambda>_. both wf_db)"
    using assms(2) [of x] by (cases "same_core r x") (auto simp: keepsc_def triple_def)
qed

text \<open>Steps with another result that leave the row alone, and steps that hand on a pair.\<close>

definition stays :: "service_request \<Rightarrow> 'a handler \<Rightarrow> bool" where
  "stays r m \<longleftrightarrow> triple (wfc r) m (\<lambda>_. wfc r) (\<lambda>_. both wf_db)"

definition moves2 :: "service_request \<Rightarrow> ('b \<times> service_request) handler \<Rightarrow> bool" where
  "moves2 r m \<longleftrightarrow> triple (wfc r) m (\<lambda>x s. wfc (snd x) s \<and> same_core r (snd x)) (\<lambda>_. both wf_db)"

lemma stays_simple [wfc_intros]:
  "stays r (ret a)" "stays r (raise_h e)" "stays r (problem_h x)" "stays r (lift_h z)" "stays r get_db"
  by (auto simp: stays_def triple_def handler_defs wfc_def split: sum.splits)

lemma stays_outside [wfc_intros]: "outside_audit f \<Longrightarrow> stays r (mod_db f)"
  unfolding stays_def by (rule triple_outside)

lemma stays_grow [wfc_intros]: "outbox_grows f \<Longrightarrow> stays r (mod_db f)"
  unfolding stays_def by (rule triple_grow)

lemma stays_bind [wfc_intros]: "stays r m \<Longrightarrow> (\<And>a. stays r (f a)) \<Longrightarrow> stays r (bind_h m f)"
  unfolding stays_def by (rule triple_bind)

lemma stays_if [wfc_intros]: "(b \<Longrightarrow> stays r f) \<Longrightarrow> (\<not> b \<Longrightarrow> stays r g) \<Longrightarrow> stays r (if b then f else g)"
  by simp

lemma moves2_ret [wfc_intros]: "moves2 r (ret (b, r))"
  by (simp add: moves2_def triple_def ret_def)

lemma moves2_fail [wfc_intros]: "moves2 r (problem_h x)" "moves2 r (raise_h y)"
  by (simp_all add: moves2_def triple_def handler_defs wfc_def)

lemma moves2_if [wfc_intros]: "(b \<Longrightarrow> moves2 r f) \<Longrightarrow> (\<not> b \<Longrightarrow> moves2 r g) \<Longrightarrow> moves2 r (if b then f else g)"
  by simp

lemma moves2_option [wfc_intros]:
  "(z = None \<Longrightarrow> moves2 r f) \<Longrightarrow> (\<And>x. z = Some x \<Longrightarrow> moves2 r (g x)) \<Longrightarrow>
   moves2 r (case z of None \<Rightarrow> f | Some x \<Rightarrow> g x)"
  by (cases z) simp_all

lemma moves2_stay:
  assumes "stays r m" "\<And>a. moves2 r (f a)" shows "moves2 r (bind_h m f)"
  using assms(2) unfolding moves2_def by (rule triple_bind [OF assms(1) [unfolded stays_def]])

lemma triple_carry:
  assumes "same_core r x"
    "triple (wfc x) g (\<lambda>y s. wfc (h y) s \<and> same_core x (h y)) (\<lambda>_. both wf_db)"
  shows "triple (wfc x) g (\<lambda>y s. wfc (h y) s \<and> same_core r (h y)) (\<lambda>_. both wf_db)"
  by (rule triple_weaken [OF assms(2)]) (use assms(1) same_core_trans in auto)

lemma triple_when:
  "(Q \<Longrightarrow> triple P g R E) \<Longrightarrow> triple (\<lambda>s. P s \<and> Q) g R E"
  by (auto simp: triple_def)

lemma movesc_stay:
  assumes "stays r m" "\<And>a. movesc r (f a)" shows "movesc r (bind_h m f)"
  using assms(2) unfolding movesc_def by (rule triple_bind [OF assms(1) [unfolded stays_def]])

text \<open>Changes to messages of the outbox that are already there.\<close>

definition touches_outbox :: "(db \<Rightarrow> db) \<Rightarrow> bool" where
  "touches_outbox f \<longleftrightarrow> (\<forall>d. same_audit d (f d) \<and> (wf_outbox d \<longrightarrow> wf_outbox (f d)))"

lemma touches_outbox_grows: "outbox_grows f \<Longrightarrow> touches_outbox f"
  by (simp add: touches_outbox_def outbox_grows_def same_audit_outbox_only)

lemma same_audit_save: "same_audit d (save_message m d)"
  by (simp add: same_audit_def frame_simps)

lemma touches_outbox_save [intro]: "known m \<Longrightarrow> touches_outbox (save_message m)"
  by (simp add: touches_outbox_def same_audit_def frame_simps inv_intros)

lemma touches_outbox_foldl: "(\<And>x. touches_outbox (\<lambda>d. f d x)) \<Longrightarrow> touches_outbox (\<lambda>d. foldl f d xs)"
  by (induction xs rule: rev_induct) (auto simp: touches_outbox_def same_audit_def)

lemma keeps_touch [keeps_intros]: "touches_outbox f \<Longrightarrow> keeps wf_db (mod_db f)"
  by (rule keeps_mod) (auto simp: touches_outbox_def intro: wf_db_same_audit wf_db_outbox)

lemma moves2_move:
  assumes "movesc r m" "\<And>x. same_core r x \<Longrightarrow> moves2 x (f x)"
  shows "moves2 r (bind_h m f)"
  unfolding moves2_def
  by (rule triple_bind [OF movescD [OF assms(1)]], rule triple_when, rule triple_carry)
    (use assms(2) in \<open>simp_all add: moves2_def\<close>)

lemma moves2_bind:
  assumes "moves2 r m" "\<And>b x. same_core r x \<Longrightarrow> moves2 x (f (b, x))"
  shows "moves2 r (bind_h m f)"
  unfolding moves2_def
proof (rule triple_bind [OF assms(1) [unfolded moves2_def]])
  fix a :: "'a \<times> service_request"
  show "triple (\<lambda>s. wfc (snd a) s \<and> same_core r (snd a)) (f a)
      (\<lambda>y s. wfc (snd y) s \<and> same_core r (snd y)) (\<lambda>_. both wf_db)"
    by (rule triple_when, rule triple_carry) (use assms(2) [of "snd a" "fst a"] in \<open>simp_all add: moves2_def\<close>)
qed

lemma moves2_put [wfc_intros]:
  assumes "same_core r r'" "sr_status r' = sr_status r" "moves2 r' (f r')"
  shows "moves2 r (bind_h (put_request r') f)"
  unfolding moves2_def
proof (rule triple_bind [OF triple_put [OF assms(1,2)]])
  fix x
  have "triple (wfc r') (f r') (\<lambda>y s. wfc (snd y) s \<and> same_core r (snd y)) (\<lambda>_. both wf_db)"
    by (rule triple_carry [OF assms(1)]) (use assms(3) in \<open>simp add: moves2_def\<close>)
  then show "triple (\<lambda>s. x = r' \<and> wfc r' s) (f x) (\<lambda>y s. wfc (snd y) s \<and> same_core r (snd y))
      (\<lambda>_. both wf_db)"
    by (cases "x = r'") (auto simp: triple_def)
qed

lemma keepsc_move2:
  assumes "moves2 r m" "\<And>b x. same_core r x \<Longrightarrow> keepsc x (f (b, x))"
  shows "keepsc r (bind_h m f)"
proof (rule keepsc_bind [OF assms(1) [unfolded moves2_def]])
  fix a :: "'a \<times> service_request"
  show "triple (\<lambda>s. wfc (snd a) s \<and> same_core r (snd a)) (f a) (\<lambda>_. both wf_db) (\<lambda>_. both wf_db)"
    by (rule triple_when) (use assms(2) [of "snd a" "fst a"] in \<open>simp add: keepsc_def\<close>)
qed

lemma keepsc_stay: "stays r m \<Longrightarrow> (\<And>a. keepsc r (f a)) \<Longrightarrow> keepsc r (bind_h m f)"
  by (rule keepsc_bind) (simp_all add: stays_def keepsc_def)

text \<open>A handler that loads a request and goes on with it.\<close>

lemma triple_load_visible:
  "triple (both wf_db) (load_visible p i) (\<lambda>r s. wfc r s \<and> visible p r \<and> sr_id r = i) (\<lambda>_. both wf_db)"
proof (rule tripleI)
  fix s assume s: "both wf_db s"
  show "case load_visible p i s of (Inr r, s') \<Rightarrow> wfc r s' \<and> visible p r \<and> sr_id r = i | (Inl _, s') \<Rightarrow> both wf_db s'"
  proof (cases "get_visible p i (se_working s)")
    case None
    then show ?thesis using s
      by (simp add: load_visible_def bind_h_def get_db_def problem_h_def raise_h_def)
  next
    case (Some r)
    moreover have "distinct (map sr_id (db_requests (se_working s)))"
      using s by (simp add: both_def wf_db_distinct)
    ultimately show ?thesis using s get_visible_request [of "se_working s" p i r] get_visible_Some [of p i _ r]
      by (auto simp: load_visible_def bind_h_def get_db_def ret_def wfc_def current_def)
  qed
qed

lemma keeps_load_visible [keeps_intros]:
  assumes "\<And>r. visible p r \<Longrightarrow> sr_id r = i \<Longrightarrow> keepsc r (f r)"
  shows "keeps wf_db (bind_h (load_visible p i) f)"
  unfolding keeps_def
proof (rule triple_bind [OF triple_load_visible])
  show "triple (\<lambda>s. wfc r s \<and> visible p r \<and> sr_id r = i) (f r) (\<lambda>_. both wf_db) (\<lambda>_. both wf_db)" for r
    using assms [of r] by (auto simp: keepsc_def triple_def)
qed

text \<open>The row of a request by its id, as the workers and the settlement load it.\<close>

definition load_for_update :: "uuid \<Rightarrow> service_request option handler" where
  "load_for_update i = bind_h get_db (\<lambda>d. ret (get_request i d))"

lemma keeps_load_for_update [keeps_intros]:
  assumes "keeps wf_db (f None)" "\<And>r. sr_id r = i \<Longrightarrow> keepsc r (f (Some r))"
  shows "keeps wf_db (bind_h (load_for_update i) f)"
  unfolding keeps_def
proof (rule triple_bind)
  show "triple (both wf_db) (load_for_update i)
      (\<lambda>z s. both wf_db s \<and> (\<forall>r. z = Some r \<longrightarrow> wfc r s \<and> sr_id r = i)) (\<lambda>_. both wf_db)"
    by (auto simp: triple_def load_for_update_def bind_h_def get_db_def ret_def wfc_def current_def
        dest: get_request_Some)
  show "triple (\<lambda>s. both wf_db s \<and> (\<forall>r. z = Some r \<longrightarrow> wfc r s \<and> sr_id r = i)) (f z)
      (\<lambda>_. both wf_db) (\<lambda>_. both wf_db)" for z
    using assms by (cases z) (auto simp: keeps_def keepsc_def triple_def)
qed

end
