(* ===== verification/Pagination.thy ===== *)
theory Pagination
  imports Access
begin

text \<open>
  Keyset pagination (\<open>requests/pagination.py\<close>): a cursor is the URL-safe base64 of
  \<open><created_at iso>|<id>\<close>. \<open>urlsafe_b64decode\<close> is the non-strict decoder of \<open>binascii\<close> (it
  skips foreign characters and stops at a complete padding), \<open>decode()\<close> is strict UTF-8. A
  byte is a number below 256.
\<close>

section \<open>Base64\<close>

definition b64_char :: "nat \<Rightarrow> nat" where
  "b64_char v = (if v < 26 then 65 + v else if v < 52 then 71 + v else if v < 62 then v - 4
     else if v = 62 then 45 else 95)"

text \<open>The decoder first maps \<open>-\<close> and \<open>_\<close> to \<open>+\<close> and \<open>/\<close>, which it also knows.\<close>

definition b64_val :: "nat \<Rightarrow> nat option" where
  "b64_val c = (if 65 \<le> c \<and> c \<le> 90 then Some (c - 65)
     else if 97 \<le> c \<and> c \<le> 122 then Some (c - 71)
     else if 48 \<le> c \<and> c \<le> 57 then Some (c + 4)
     else if c = 45 \<or> c = 43 then Some 62 else if c = 95 \<or> c = 47 then Some 63 else None)"

fun b64_encode :: "nat list \<Rightarrow> nat list" where
  "b64_encode [] = []"
| "b64_encode [a] = [b64_char (a div 4), b64_char (a mod 4 * 16), 61, 61]"
| "b64_encode [a, b] =
     [b64_char (a div 4), b64_char (a mod 4 * 16 + b div 16), b64_char (b mod 16 * 4), 61]"
| "b64_encode (a # b # c # rest) =
     [b64_char (a div 4), b64_char (a mod 4 * 16 + b div 16), b64_char (b mod 16 * 4 + c div 64),
      b64_char (c mod 64)] @ b64_encode rest"

text \<open>The position in the quad, the pads seen, the bits left over, the input.\<close>

fun b64_decode_aux :: "nat \<Rightarrow> nat \<Rightarrow> nat \<Rightarrow> nat list \<Rightarrow> nat list option" where
  "b64_decode_aux q pads left [] = (if q = 0 then Some [] else None)"
| "b64_decode_aux q pads left (c # cs) =
     (if c = 61
      then (if q \<ge> 2 \<and> q + pads + 1 \<ge> 4 then Some []
            else b64_decode_aux q (if q \<ge> 2 then pads + 1 else pads) left cs)
      else case b64_val c of
          None \<Rightarrow> b64_decode_aux q pads left cs
        | Some v \<Rightarrow>
            (if q = 0 then b64_decode_aux 1 0 v cs
             else if q = 1 then map_option (Cons (left * 4 + v div 16)) (b64_decode_aux 2 0 (v mod 16) cs)
             else if q = 2 then map_option (Cons (left * 16 + v div 4)) (b64_decode_aux 3 0 (v mod 4) cs)
             else map_option (Cons (left * 64 + v)) (b64_decode_aux 0 0 0 cs)))"

definition b64_decode :: "nat list \<Rightarrow> nat list option" where
  "b64_decode s = b64_decode_aux 0 0 0 s"

lemma b64_val_char: "v < 64 \<Longrightarrow> b64_val (b64_char v) = Some v"
  by (auto simp: b64_val_def b64_char_def)

lemma b64_char_pad: "v < 64 \<Longrightarrow> b64_char v \<noteq> 61"
  by (auto simp: b64_char_def)

lemma b64_decode_encode: "\<forall>b\<in>set bs. b < 256 \<Longrightarrow> b64_decode (b64_encode bs) = Some bs"
  unfolding b64_decode_def
proof (induction bs rule: b64_encode.induct)
  case (2 a)
  then have "a div 4 < 64" "a mod 4 * 16 < 64" by auto
  then show ?case by (simp add: b64_val_char b64_char_pad)
next
  case (3 a b)
  then have "a div 4 < 64" "a mod 4 * 16 + b div 16 < 64" "b mod 16 * 4 < 64" "b div 16 < 16" by auto
  then show ?case using 3 by (simp add: b64_val_char b64_char_pad)
next
  case (4 a b c rest)
  then have "a div 4 < 64" "a mod 4 * 16 + b div 16 < 64" "b mod 16 * 4 + c div 64 < 64" "c mod 64 < 64"
    by auto
  moreover have "(a div 4) * 4 + (a mod 4 * 16 + b div 16) div 16 = a"
    "(a mod 4 * 16 + b div 16) mod 16 * 16 + (b mod 16 * 4 + c div 64) div 4 = b"
    "(b mod 16 * 4 + c div 64) mod 4 * 64 + c mod 64 = c"
    using 4 by auto
  ultimately show ?case using 4 by (simp add: b64_val_char b64_char_pad)
qed simp

section \<open>UTF-8\<close>

definition utf8_tail :: "nat \<Rightarrow> bool" where
  "utf8_tail b \<longleftrightarrow> 128 \<le> b \<and> b < 192"

fun utf8_decode :: "nat list \<Rightarrow> pystr option" where
  "utf8_decode [] = Some []"
| "utf8_decode (a # bs) =
     (if a < 128 then map_option (Cons a) (utf8_decode bs)
      else if 194 \<le> a \<and> a < 224 then (case bs of
          b # bs' \<Rightarrow> if utf8_tail b
            then map_option (Cons ((a - 192) * 64 + (b - 128))) (utf8_decode bs') else None
        | _ \<Rightarrow> None)
      else if 224 \<le> a \<and> a < 240 then (case bs of
          b # c # bs' \<Rightarrow>
            (let v = (a - 224) * 4096 + (b - 128) * 64 + (c - 128)
             in if utf8_tail b \<and> utf8_tail c \<and> 2048 \<le> v \<and> \<not> (55296 \<le> v \<and> v < 57344)
                then map_option (Cons v) (utf8_decode bs') else None)
        | _ \<Rightarrow> None)
      else if 240 \<le> a \<and> a < 245 then (case bs of
          b # c # d # bs' \<Rightarrow>
            (let v = (a - 240) * 262144 + (b - 128) * 4096 + (c - 128) * 64 + (d - 128)
             in if utf8_tail b \<and> utf8_tail c \<and> utf8_tail d \<and> 65536 \<le> v \<and> v < 1114112
                then map_option (Cons v) (utf8_decode bs') else None)
        | _ \<Rightarrow> None)
      else None)"

lemma utf8_decode_ascii: "\<forall>c\<in>set s. c < 128 \<Longrightarrow> utf8_decode s = Some s"
  by (induction s) auto

section \<open>Cursors\<close>

definition encode_cursor :: "instant \<Rightarrow> uuid \<Rightarrow> pystr" where
  "encode_cursor created_at i = b64_encode (iso_utc created_at @ [124] @ uuid_str i)"

text \<open>
  A cursor with characters outside ASCII: their UTF-8 bytes are foreign to the decoder, which
  skips them like the characters here.
\<close>

definition decode_cursor :: "pystr \<Rightarrow> exn + (datetime \<times> uuid)" where
  "decode_cursor s =
     (let bad = raise_problem (bad_request (Some (u ''Invalid pagination cursor'')))
      in case Option.bind (b64_decode s) utf8_decode of
           None \<Rightarrow> bad
         | Some raw \<Rightarrow>
             if 124 \<notin> set raw then bad
             else (case (fromisoformat (takeWhile (\<lambda>c. c \<noteq> 124) raw),
                         uuid_parse (tl (dropWhile (\<lambda>c. c \<noteq> 124) raw))) of
                 (Some t, Some i) \<Rightarrow> Inr (t, i)
               | _ \<Rightarrow> bad))"

lemma iso_chars: "c \<in> set (iso_utc t) \<Longrightarrow> ascii_digit c \<or> c \<in> {45, 46, 58, 84, 43}"
  by (auto simp: iso_utc_def isoformat_def utc_def clock_str_def us_suffix_def offset_str_def
      dest!: fixed_digits split: prod.splits if_splits simp del: fixed.simps)

lemma uuid_chars: "c \<in> set (uuid_str w) \<Longrightarrow> c \<noteq> 124 \<and> c < 128"
  using set_uuid_str [of c w] set_hex_fixed [of c 32 "unat w"] by auto

lemma cursor_decodes:
  assumes "0 \<le> t" "t < max_days * us_per_day"
  shows "decode_cursor (encode_cursor t i) = Inr (utc t, i)"
proof -
  let ?raw = "iso_utc t @ [124] @ uuid_str i"
  have iso: "c \<noteq> 124 \<and> c < 128" if "c \<in> set (iso_utc t)" for c
    using iso_chars [OF that] by (auto simp: ascii_digit_def)
  then have ascii: "\<forall>c\<in>set ?raw. c < 128" using uuid_chars by auto
  then have "\<forall>c\<in>set ?raw. c < 256" by fastforce
  then have "b64_decode (encode_cursor t i) = Some ?raw"
    unfolding encode_cursor_def by (rule b64_decode_encode)
  moreover have "utf8_decode ?raw = Some ?raw" using ascii by (rule utf8_decode_ascii)
  moreover have "takeWhile (\<lambda>c. c \<noteq> 124) ?raw = iso_utc t" "dropWhile (\<lambda>c. c \<noteq> 124) ?raw = 124 # uuid_str i"
    using iso by (simp_all add: takeWhile_append2 dropWhile_append2)
  ultimately show ?thesis
    using iso_utc_parse [OF assms] by (simp add: decode_cursor_def)
qed

text \<open>A cursor survives its round trip: the cursor built from the timestamp and the id of a row
  decodes to exactly that timestamp and id.
\<close>

theorem cursor_roundtrip:
  assumes "0 \<le> t" "t < max_days * us_per_day"
  shows "decode_cursor (encode_cursor t i) = Inr (utc t, i)"
  by (rule cursor_decodes [OF assms])

lemma cursor_roundtrip_witness:
  "decode_cursor (encode_cursor 63918684000000000 7) = Inr (utc 63918684000000000, 7)"
  by (rule cursor_roundtrip) (simp_all add: max_days_def us_units)

end
