(* ===== verification/Requests.thy ===== *)
theory Requests
  imports Invariant Pagination
begin

text \<open>
  \<open>RequestService\<close> of \<open>requests/service.py\<close>: the card, the list, the transitions, cancellation,
  rescheduling, messages and their attachments. The client of kb-files is a record of the two
  calls the service makes; no client (no token configured) is \<open>None\<close>.
\<close>

section \<open>Cards and lists\<close>

definition get_detail :: "env \<Rightarrow> instant \<Rightarrow> principal \<Rightarrow> uuid \<Rightarrow> request_detail handler" where
  "get_detail e now p i =
     bind_h (load_visible p i) (\<lambda>r.
     bind_h get_db (\<lambda>d.
     lift_h (build_detail e now p r (estimates_for i d))))"

definition max_page_limit :: nat where "max_page_limit = 100"
definition default_page_limit :: nat where "default_page_limit = 50"

record request_page =
  pg_items :: "request_read list"
  pg_next_cursor :: "pystr option"

definition page_limit :: "nat option \<Rightarrow> nat" where
  "page_limit limit = min (case limit of None \<Rightarrow> default_page_limit
     | Some n \<Rightarrow> if n = 0 then default_page_limit else n) max_page_limit"

text \<open>
  The driver of the database reads a time without an offset (in a forged cursor or in a filter) in
  the zone of its host, which is UTC in a container.
\<close>

definition host_instant :: "datetime \<Rightarrow> instant" where
  "host_instant t = (case dt_instant t of None \<Rightarrow> dt_local t | Some i \<Rightarrow> i)"

definition bind_cursor :: "(datetime \<times> uuid) \<Rightarrow> exn + cursor" where
  "bind_cursor c = Inr (host_instant (fst c), snd c)"

definition page_of :: "nat \<Rightarrow> service_request list \<Rightarrow> request_page" where
  "page_of n rows =
     (let items = take n rows
      in \<lparr>pg_items = map read_request items,
          pg_next_cursor = (if n < length rows \<and> items \<noteq> []
            then Some (encode_cursor (sr_created_at (last items)) (sr_id (last items))) else None)\<rparr>)"

definition list_requests ::
    "principal \<Rightarrow> request_filters \<Rightarrow> pystr option \<Rightarrow> nat option \<Rightarrow> request_page handler" where
  "list_requests p f cursor limit =
     bind_h (case cursor of
         None \<Rightarrow> ret None
       | Some c \<Rightarrow> if c = [] then ret None
           else bind_h (lift_h (decode_cursor c)) (\<lambda>k. bind_h (lift_h (bind_cursor k)) (\<lambda>k'. ret (Some k'))))
       (\<lambda>decoded.
     bind_h get_db (\<lambda>d.
     ret (page_of (page_limit limit) (list_visible p f decoded (page_limit limit) d))))"

section \<open>The lifecycle\<close>

definition transition :: "env \<Rightarrow> instant \<Rightarrow> principal \<Rightarrow> uuid \<Rightarrow> request_status \<Rightarrow> request_detail handler" where
  "transition e now p i target =
     bind_h (load_visible p i) (\<lambda>r.
     bind_h (guard_h (can_drive_lifecycle p)
       (forbidden (Some (u ''Lifecycle transition not allowed for subject'')))) (\<lambda>_.
     bind_h (apply_transition e now p r target) (\<lambda>r'.
     bind_h (lift_h (build_detail e now p r' [])) (\<lambda>detail.
     bind_h commit_h (\<lambda>_. ret detail)))))"

definition cancel :: "env \<Rightarrow> instant \<Rightarrow> principal \<Rightarrow> uuid \<Rightarrow> pystr \<Rightarrow> request_detail handler" where
  "cancel e now p i reason =
     bind_h (load_visible p i) (\<lambda>r.
     bind_h (guard_h (can_cancel p) (forbidden (Some (u ''Cancellation not allowed for subject'')))) (\<lambda>_.
     if sr_status r = S_CANCELLED then lift_h (build_detail e now p r [])
     else
       bind_h (apply_transition e now p r S_CANCELLED) (\<lambda>r'.
       bind_h (put_request (r'\<lparr>sr_custom_fields :=
           dict_merge (sr_custom_fields r') [(u ''cancellation'', JObj [(u ''reason'', JStr reason)])]\<rparr>)) (\<lambda>r''.
       bind_h (lift_h (build_detail e now p r'' [])) (\<lambda>detail.
       bind_h commit_h (\<lambda>_. ret detail))))))"

definition reschedulable :: "request_status \<Rightarrow> bool" where
  "reschedulable s \<longleftrightarrow> s \<in> {S_ASSIGNED, S_DISPATCHED, S_ACCEPTED, S_IN_PROGRESS}"

definition reschedule_notifies :: "request_status \<Rightarrow> bool" where
  "reschedule_notifies s \<longleftrightarrow> s \<in> {S_DISPATCHED, S_ACCEPTED, S_IN_PROGRESS}"

text \<open>A naive client value is read as UTC.\<close>

definition as_aware :: "datetime \<Rightarrow> datetime" where
  "as_aware d = (case dt_off d of None \<Rightarrow> d\<lparr>dt_off := Some 0\<rparr> | Some _ \<Rightarrow> d)"

definition instant_of :: "datetime \<Rightarrow> instant" where
  "instant_of d = dt_local d - (case dt_off d of None \<Rightarrow> 0 | Some off \<Rightarrow> off)"

definition reschedule :: "env \<Rightarrow> instant \<Rightarrow> principal \<Rightarrow> uuid \<Rightarrow> datetime \<Rightarrow> request_detail handler" where
  "reschedule e now p i requested =
     bind_h (load_visible p i) (\<lambda>r.
     bind_h (guard_h (can_reschedule p) (forbidden (Some (u ''Reschedule not allowed for subject'')))) (\<lambda>_.
     let at_dt = as_aware requested; at_time = instant_of at_dt in
     bind_h (guard_h (now < at_time)
       (unprocessable (Some (u ''scheduled_at must be in the future'')))) (\<lambda>_.
     bind_h (guard_h (reschedulable (sr_status r))
       (conflict (Some (u ''Reschedule not allowed in current status'')))) (\<lambda>_.
     if sr_scheduled_at r = Some at_time then lift_h (build_detail e now p r [])
     else
       bind_h (put_request (r\<lparr>sr_scheduled_at := Some at_time\<rparr>)) (\<lambda>r'.
       bind_h (mod_db (add_history \<lparr>rh_request_id = sr_id r, rh_actor_id = actor_of p,
           rh_action = H_RESCHEDULED, rh_from = map_option iso_utc (sr_scheduled_at r),
           rh_to = Some (isoformat at_dt), rh_ts = now\<rparr>)) (\<lambda>_.
       bind_h (mod_db (\<lambda>d. if reschedule_notifies (sr_status r')
           then emit_event (e_settings e) now (u ''request.rescheduled'') (sr_id r') (sr_number r')
                  (sr_status r') (Some at_dt) d
           else d)) (\<lambda>_.
       bind_h (lift_h (build_detail e now p r' [])) (\<lambda>detail.
       bind_h commit_h (\<lambda>_. ret detail)))))))))"

section \<open>Messages and attachments\<close>

definition attachment_owner_scope :: "uuid \<Rightarrow> pystr" where
  "attachment_owner_scope i = u ''partner:request:'' @ uuid_str i"

record file_metadata =
  fm_owner_scope :: pystr
  fm_content_type :: json
  fm_filename :: json
  fm_size_bytes :: json

record files_client =
  fc_get_metadata :: "pystr \<Rightarrow> file_metadata option"
  fc_get_download_url :: "pystr \<Rightarrow> (pystr \<times> int) option"

definition resolve_attachment :: "pyrt \<Rightarrow> files_client option \<Rightarrow> uuid \<Rightarrow> jdict \<Rightarrow> jdict" where
  "resolve_attachment rt files i att =
     (let file_id = (case dict_get att (u ''file_id'') of None \<Rightarrow> [] | Some v \<Rightarrow> py_str rt v)
      in case files of
           None \<Rightarrow> dict_setdefault (u ''verified'') (JBool False) att
         | Some fc \<Rightarrow>
             if file_id = [] then dict_setdefault (u ''verified'') (JBool False) att
             else (case fc_get_metadata fc file_id of
                 Some m \<Rightarrow>
                   if fm_owner_scope m \<noteq> attachment_owner_scope i
                   then dict_pop (u ''download_url_expires_in'') (dict_pop (u ''download_url'')
                          (dict_set (u ''verified'') (JBool False) att))
                   else
                     (let resolved = dict_set (u ''verified'') (JBool True)
                        (dict_set (u ''size_bytes'') (fm_size_bytes m)
                        (dict_set (u ''filename'') (fm_filename m)
                        (dict_set (u ''content_type'') (fm_content_type m) att)))
                      in case fc_get_download_url fc file_id of
                           None \<Rightarrow> resolved
                         | Some (url, expires) \<Rightarrow>
                             dict_set (u ''download_url_expires_in'') (JInt expires)
                               (dict_set (u ''download_url'') (JStr url) resolved))
               | None \<Rightarrow> dict_pop (u ''download_url_expires_in'') (dict_pop (u ''download_url'')
                          (dict_set (u ''verified'') (JBool False) att))))"

text \<open>\<open>MessageRead\<close> has the fields of the row.\<close>

definition read_message :: "pyrt \<Rightarrow> files_client option \<Rightarrow> uuid \<Rightarrow> request_message \<Rightarrow> request_message" where
  "read_message rt files i m = m\<lparr>rm_attachments := map (resolve_attachment rt files i) (rm_attachments m)\<rparr>"

fun author_by_kind :: "principal_kind \<Rightarrow> author_type" where
  "author_by_kind K_REQUESTER = A_REQUESTER"
| "author_by_kind K_OPERATOR = A_OPERATOR"
| "author_by_kind K_PARTNER = A_PARTNER"
| "author_by_kind K_AGENT = A_AI"
| "author_by_kind K_SERVICE = A_SYSTEM"

record attachment_ref =
  ar_file_id :: pystr
  ar_filename :: "pystr option"
  ar_content_type :: "pystr option"

definition dump_attachment :: "attachment_ref \<Rightarrow> jdict" where
  "dump_attachment a = [(u ''file_id'', JStr (ar_file_id a)), (u ''filename'', opt_json (ar_filename a)),
     (u ''content_type'', opt_json (ar_content_type a))]"

record message_create =
  mc_text :: pystr
  mc_is_internal :: bool
  mc_attachments :: "attachment_ref list"

definition post_message ::
    "env \<Rightarrow> instant \<Rightarrow> files_client option \<Rightarrow> uuid \<Rightarrow> principal \<Rightarrow> uuid \<Rightarrow> message_create \<Rightarrow> request_message handler" where
  "post_message e now files new_id p i body =
     bind_h (load_visible p i) (\<lambda>r.
     bind_h (guard_h (\<not> mc_is_internal body \<or> can_view_internal p)
       (forbidden (Some (u ''Internal notes are operator-only'')))) (\<lambda>_.
     let m = \<lparr>rm_id = new_id, rm_request_id = sr_id r, rm_author_type = author_by_kind (p_kind p),
          rm_author_id = Some (uuid_str (p_user_id p)), rm_is_internal = mc_is_internal body,
          rm_text = mc_text body, rm_attachments = map dump_attachment (mc_attachments body),
          rm_created_at = now\<rparr> in
     bind_h (mod_db (add_message m)) (\<lambda>_.
     bind_h (mod_db (add_history \<lparr>rh_request_id = sr_id r, rh_actor_id = actor_of p,
         rh_action = H_MESSAGE_ADDED, rh_from = None, rh_to = Some (uuid_str new_id), rh_ts = now\<rparr>)) (\<lambda>_.
     bind_h commit_h (\<lambda>_.
     ret (read_message (e_rt e) files (sr_id r) m))))))"

definition get_messages ::
    "env \<Rightarrow> files_client option \<Rightarrow> principal \<Rightarrow> uuid \<Rightarrow> request_message list handler" where
  "get_messages e files p i =
     bind_h (load_visible p i) (\<lambda>r.
     bind_h get_db (\<lambda>d.
     ret (map (read_message (e_rt e) files (sr_id r)) (list_messages (sr_id r) (can_view_internal p) d))))"

section \<open>The services keep the invariant\<close>

lemma keeps_get_detail [keeps_intros]: "keeps wf_db (get_detail e now p i)"
  unfolding get_detail_def by (intro keeps_intros wfc_intros)

lemma keeps_list_requests [keeps_intros]: "keeps wf_db (list_requests p f c l)"
  unfolding list_requests_def by (cases c) (auto intro!: keeps_intros)

lemma keeps_transition [keeps_intros]: "keeps wf_db (transition e now p i t)"
  unfolding transition_def by (intro keeps_intros wfc_intros)

lemma keeps_cancel [keeps_intros]: "keeps wf_db (cancel e now p i reason)"
  unfolding cancel_def by (intro keeps_intros wfc_intros) (simp_all add: same_core_def)

lemma keeps_reschedule [keeps_intros]: "keeps wf_db (reschedule e now p i t)"
  unfolding reschedule_def Let_def
  by (intro keeps_intros wfc_intros outbox_grows_if outbox_grows_emit outbox_grows_id)
    (simp_all add: same_core_def)

lemma keeps_post_message [keeps_intros]: "keeps wf_db (post_message e now files new_id p i body)"
  unfolding post_message_def Let_def by (intro keeps_intros wfc_intros outside_audit_add) simp_all

lemma keeps_get_messages [keeps_intros]: "keeps wf_db (get_messages e files p i)"
  unfolding get_messages_def by (intro keeps_intros wfc_intros)

end
