(* ===== verification/Acceptance.thy ===== *)
theory Acceptance
  imports Invariant
begin

text \<open>
  \<open>requests/acceptance.py\<close> and \<open>requests/context.py\<close>: the acceptance of the work by the requester,
  the dispute with its claim in kb-support, the confirmation of the settlement by the payment
  contour, and the requester's context for operators and agents. The two neighbours are records of
  their calls; \<open>None\<close> is a neighbour that gave no answer.
\<close>

record settlement_ref =
  sn_status :: pystr
  sn_amount_ref :: "pystr option"
  sn_escrow_ref :: "pystr option"

record requester_context =
  rc_display_name :: "pystr option"
  rc_phone :: "pystr option"
  rc_email :: "pystr option"
  rc_premises_address :: "pystr option"
  rc_booking_status :: "pystr option"

record rehome_one =
  rh1_trigger_settlement :: "pystr \<Rightarrow> pystr option \<Rightarrow> pystr \<Rightarrow> settlement_ref option"
  rh1_get_requester_context :: "pystr \<Rightarrow> pystr option \<Rightarrow> pystr option \<Rightarrow> requester_context option"

record claim_ref =
  cf_id :: pystr
  cf_status :: pystr

record kb_support =
  ks_create_compensation_claim :: "pystr \<Rightarrow> pystr \<Rightarrow> pystr \<Rightarrow> pystr \<Rightarrow> claim_ref option"

section \<open>Acceptance\<close>

definition accept ::
    "env \<Rightarrow> instant \<Rightarrow> rehome_one \<Rightarrow> bool \<Rightarrow> principal \<Rightarrow> uuid \<Rightarrow> request_detail handler" where
  "accept e now rehome enable_settlement p i =
     bind_h (load_visible p i) (\<lambda>r.
     bind_h (guard_h (can_user_action p) (forbidden (Some (u ''Acceptance not allowed for subject'')))) (\<lambda>_.
     bind_h (apply_transition e now p r S_ACCEPTED_BY_USER) (\<lambda>r1.
     bind_h (if enable_settlement
         then (case rh1_trigger_settlement rehome (uuid_str (sr_id r1)) (sr_service_order_id r1)
                  (u ''settle:'' @ uuid_str (sr_id r1)) of
             None \<Rightarrow> ret r1
           | Some x \<Rightarrow> put_request (r1\<lparr>sr_amount_ref := sn_amount_ref x, sr_escrow_ref := sn_escrow_ref x\<rparr>))
         else ret r1) (\<lambda>r2.
     bind_h (lift_h (build_detail e now p r2 [])) (\<lambda>detail.
     bind_h commit_h (\<lambda>_. ret detail))))))"

record settlement_confirm =
  sf_amount_ref :: "pystr option"
  sf_escrow_ref :: "pystr option"

definition confirm_settlement ::
    "env \<Rightarrow> instant \<Rightarrow> principal \<Rightarrow> uuid \<Rightarrow> settlement_confirm \<Rightarrow> request_detail handler" where
  "confirm_settlement e now p i body =
     bind_h (load_for_update i) (\<lambda>found. case found of
       None \<Rightarrow> problem_h (not_found None)
     | Some r \<Rightarrow>
         bind_h (apply_transition e now p r S_PAID) (\<lambda>r1.
         bind_h (put_request (r1\<lparr>
             sr_amount_ref := (if sf_amount_ref body \<noteq> None then sf_amount_ref body else sr_amount_ref r1),
             sr_escrow_ref := (if sf_escrow_ref body \<noteq> None then sf_escrow_ref body else sr_escrow_ref r1)\<rparr>)) (\<lambda>r2.
         bind_h (lift_h (build_detail e now p r2 [])) (\<lambda>detail.
         bind_h commit_h (\<lambda>_. ret detail)))))"

definition dispute ::
    "env \<Rightarrow> instant \<Rightarrow> kb_support \<Rightarrow> bool \<Rightarrow> principal \<Rightarrow> uuid \<Rightarrow> pystr \<Rightarrow> request_detail handler" where
  "dispute e now support enable_claims p i reason =
     bind_h (load_visible p i) (\<lambda>r.
     bind_h (guard_h (can_user_action p) (forbidden (Some (u ''Dispute not allowed for subject'')))) (\<lambda>_.
     bind_h (apply_transition e now p r S_DISPUTE) (\<lambda>r1.
     bind_h (put_request (r1\<lparr>sr_custom_fields :=
         dict_merge (sr_custom_fields r1) [(u ''dispute'', JObj [(u ''reason'', JStr reason)])]\<rparr>)) (\<lambda>r2.
     bind_h (if enable_claims
         then (case ks_create_compensation_claim support (uuid_str (sr_id r2)) (sr_requester_id r2) reason
                  (u ''dispute:'' @ uuid_str (sr_id r2)) of
             None \<Rightarrow> ret r2
           | Some x \<Rightarrow> put_request (r2\<lparr>sr_dispute_id := Some (cf_id x), sr_claim_ref := Some (cf_id x)\<rparr>))
         else ret r2) (\<lambda>r3.
     bind_h (lift_h (build_detail e now p r3 [])) (\<lambda>detail.
     bind_h commit_h (\<lambda>_. ret detail)))))))"

section \<open>The requester's context\<close>

definition get_requester_context :: "rehome_one \<Rightarrow> principal \<Rightarrow> uuid \<Rightarrow> requester_context handler" where
  "get_requester_context rehome p i =
     bind_h (load_visible p i) (\<lambda>r.
     bind_h (guard_h (is_operator p \<or> is_agent p)
       (forbidden (Some (u ''Requester context is operator/agent only'')))) (\<lambda>_.
     ret (case rh1_get_requester_context rehome (sr_requester_id r) (sr_premises_id r) (sr_booking_id r) of
         None \<Rightarrow> \<lparr>rc_display_name = None, rc_phone = None, rc_email = None,
           rc_premises_address = None, rc_booking_status = None\<rparr>
       | Some ctx \<Rightarrow> ctx)))"

section \<open>The invariant\<close>

lemma keeps_accept [keeps_intros]: "keeps wf_db (accept e now rehome on p i)"
proof -
  have "movesc r1 (if on then (case z of None \<Rightarrow> ret r1
      | Some x \<Rightarrow> put_request (r1\<lparr>sr_amount_ref := f x, sr_escrow_ref := g x\<rparr>)) else ret r1)" for r1 z f g
    by (intro wfc_intros) (simp_all add: same_core_def)
  then show ?thesis unfolding accept_def
    by (intro keeps_load_visible keepsc_guard keepsc_transition keepsc_move [of _ "if _ then _ else _"]
        keepsc_lift keepsc_commit keepsc_end)
qed

lemma keeps_confirm_settlement [keeps_intros]: "keeps wf_db (confirm_settlement e now p i body)"
proof -
  have "keepsc r (bind_h (apply_transition e now p r S_PAID) (\<lambda>r1.
         bind_h (put_request (r1\<lparr>sr_amount_ref := f r1, sr_escrow_ref := g r1\<rparr>)) (\<lambda>r2.
         bind_h (lift_h (build_detail e now p r2 [])) (\<lambda>detail.
         bind_h commit_h (\<lambda>_. ret detail)))))" for r f g
    by (intro wfc_intros) (simp_all add: same_core_def)
  then show ?thesis unfolding confirm_settlement_def
    by (intro keeps_load_for_update) (simp_all add: keeps_raise)
qed

lemma keeps_dispute [keeps_intros]: "keeps wf_db (dispute e now support on p i reason)"
proof -
  have m: "movesc r1 (if on then (case z of None \<Rightarrow> ret r1
      | Some x \<Rightarrow> put_request (r1\<lparr>sr_dispute_id := f x, sr_claim_ref := f x\<rparr>)) else ret r1)" for r1 z f
    by (intro wfc_intros) (simp_all add: same_core_def)
  show ?thesis unfolding dispute_def
    by (intro keeps_load_visible keepsc_guard keepsc_transition keepsc_put keepsc_move [OF m]
        keepsc_lift keepsc_commit keepsc_end; simp add: same_core_def)
qed

lemma keeps_get_requester_context [keeps_intros]: "keeps wf_db (get_requester_context rehome p i)"
  unfolding get_requester_context_def by (intro keeps_intros wfc_intros)

end
