(* ===== verification/Matching.thy ===== *)
theory Matching
  imports Store "HOL-Library.Multiset"
begin

text \<open>
  The ranking of partners (\<open>matching/engine.py\<close>) over the candidates of the registry
  (\<open>clients/platform/models.py\<close>), and the interface of the registry
  (\<open>clients/platform/protocol.py\<close>) as a record of its three calls.
\<close>

record candidate =
  cd_id :: pystr
  cd_name :: pystr
  cd_category :: pystr
  cd_is_active :: bool
  cd_available :: bool
  cd_rating :: "rat option"
  cd_service_areas :: "pystr list"
  cd_channels :: "pystr list"

record service_order_ref =
  so_id :: pystr
  so_status :: pystr

record partner_contact =
  ct_phone :: "pystr option"
  ct_email :: "pystr option"

record platform =
  pf_search_candidates :: "pystr \<Rightarrow> pystr option \<Rightarrow> candidate list"
  pf_get_partner_contact :: "pystr \<Rightarrow> partner_contact option"
  pf_create_service_order :: "pystr \<Rightarrow> pystr \<Rightarrow> pystr \<Rightarrow> pystr \<Rightarrow> service_order_ref option"

record match_result =
  ms_partner_id :: pystr
  ms_delivery_channel :: pystr
  ms_fallback_chain :: "pystr list"
  ms_match_trace :: jdict

definition is_eligible :: "pystr \<Rightarrow> pystr option \<Rightarrow> candidate \<Rightarrow> bool" where
  "is_eligible category area c =
     (if cd_category c \<noteq> category then False
      else if \<not> cd_is_active c \<or> \<not> cd_available c then False
      else if cd_channels c = [] then False
      else case area of
          Some a \<Rightarrow> if cd_service_areas c \<noteq> [] then a \<in> set (cd_service_areas c) else True
        | None \<Rightarrow> True)"

definition rank_key :: "candidate \<Rightarrow> rat \<times> pystr" where
  "rank_key c = (- (case cd_rating c of None \<Rightarrow> 0 | Some x \<Rightarrow> x), cd_id c)"

definition candidate_trace :: "candidate \<Rightarrow> json" where
  "candidate_trace c = JObj [(u ''id'', JStr (cd_id c)),
     (u ''rating'', (case cd_rating c of None \<Rightarrow> JNull | Some x \<Rightarrow> JNum x)),
     (u ''service_areas'', JArr (map JStr (cd_service_areas c))),
     (u ''channels'', JArr (map JStr (cd_channels c)))]"

definition rank :: "candidate list \<Rightarrow> pystr \<Rightarrow> pystr option \<Rightarrow> match_result option" where
  "rank candidates category area =
     (case sort_key rank_key (filter (is_eligible category area) candidates) of
        [] \<Rightarrow> None
      | chosen # rest \<Rightarrow> Some \<lparr>ms_partner_id = cd_id chosen,
          ms_delivery_channel = hd (cd_channels chosen), ms_fallback_chain = map cd_id rest,
          ms_match_trace = [(u ''method'', JStr (u ''auto'')),
            (u ''ranked_by'', JArr (map JStr
               [u ''category'', u ''geo'', u ''availability'', u ''rating'', u ''channel''])),
            (u ''service_area'', opt_json area),
            (u ''candidates'', JArr (map candidate_trace (chosen # rest)))]\<rparr>)"

section \<open>Facts\<close>

lemma eligible_iff:
  "is_eligible category area c \<longleftrightarrow> cd_category c = category \<and> cd_is_active c \<and> cd_available c
     \<and> cd_channels c \<noteq> [] \<and> (area = None \<or> cd_service_areas c = [] \<or> the area \<in> set (cd_service_areas c))"
  by (auto simp: is_eligible_def split: option.splits)

lemma rank_None: "rank cs category area = None \<longleftrightarrow> filter (is_eligible category area) cs = []"
proof -
  have "sort_key rank_key (filter (is_eligible category area) cs) = []
      \<longleftrightarrow> filter (is_eligible category area) cs = []"
    by (metis set_empty set_sort)
  then show ?thesis by (auto simp: rank_def split: list.splits)
qed


text \<open>The choice does not depend on the order in which the registry lists its candidates, as long
  as their ids are distinct: ratings that tie are broken by the id.
\<close>

theorem rank_order_independent:
  assumes "mset cs = mset cs'" "distinct (map cd_id cs)"
  shows "rank cs category area = rank cs' category area"
proof -
  let ?f = "filter (is_eligible category area)"
  have ids: "inj_on cd_id (set (?f cs))"
    using assms(2) by (auto simp: distinct_map inj_on_def)
  then have inj: "inj_on rank_key (set (?f cs))"
    by (auto simp: inj_on_def rank_key_def)
  have "distinct (map rank_key (?f cs))"
    using inj assms(2) by (simp add: distinct_map distinct_filter)
  then have "sort_key rank_key (?f cs) = sort_key rank_key (?f cs')"
    by (intro sort_key_inj_key_eq inj) (simp_all add: assms(1))
  then show ?thesis by (simp add: rank_def)
qed

section \<open>A registry to look at\<close>

definition demo_candidate :: "string \<Rightarrow> rat option \<Rightarrow> string list \<Rightarrow> candidate" where
  "demo_candidate name rating areas = \<lparr>cd_id = u name, cd_name = u name, cd_category = u ''REPAIR'',
     cd_is_active = True, cd_available = True, cd_rating = rating,
     cd_service_areas = map u areas, cd_channels = [u ''EMAIL'']\<rparr>"

lemma rank_order_independent_witness:
  "map_option ms_partner_id (rank [demo_candidate ''p1'' None [], demo_candidate ''p2'' (Some 4) [],
      demo_candidate ''p3'' (Some 5) [''spb'']] (u ''REPAIR'') (Some (u ''msk''))) = Some (u ''p2'')
   \<and> rank [demo_candidate ''p1'' None [], demo_candidate ''p2'' (Some 4) []] (u ''REPAIR'') None
     = rank [demo_candidate ''p2'' (Some 4) [], demo_candidate ''p1'' None []] (u ''REPAIR'') None"
proof
  show "rank [demo_candidate ''p1'' None [], demo_candidate ''p2'' (Some 4) []] (u ''REPAIR'') None
     = rank [demo_candidate ''p2'' (Some 4) [], demo_candidate ''p1'' None []] (u ''REPAIR'') None"
    by (rule rank_order_independent) (simp_all add: demo_candidate_def u_def)
qed code_simp

end
