(* ===== verification/Dispatch.thy ===== *)
theory Dispatch
  imports Invariant
begin

text \<open>
  Delivery to a partner (\<open>channels/dispatch.py\<close>, \<open>channels/protocol.py\<close>): the walk over the chosen
  partner and the fallback chain, each with its active channels by priority; the endpoint with its
  two commits; and the worker that drains the messages of kind \<open>dispatch\<close>. A resolver is a
  parameter: for a channel configuration and a payload it gives the result of the delivery or the
  exception raised on the way.
\<close>

section \<open>The contract of a channel\<close>

record delivery_payload =
  dp_request_id :: pystr
  dp_number :: pystr
  dp_category :: pystr
  dp_summary :: pystr
  dp_params :: jdict
  dp_idempotency_key :: pystr
  dp_attachments :: "pystr list"
  dp_premises_id :: "pystr option"
  dp_booking_id :: "pystr option"

record delivery_result =
  dr_outcome :: delivery_outcome
  dr_provider_response :: jdict
  dr_external_ref :: "pystr option"

record status_update =
  su_request_ref :: pystr
  su_outcome :: delivery_outcome
  su_raw :: jdict

record health_report =
  hl_status :: health_status
  hl_detail :: "pystr option"

type_synonym resolver = "channel_config \<Rightarrow> delivery_payload \<Rightarrow> exn + delivery_result"

section \<open>Repository\<close>

definition active_channels_for :: "pystr \<Rightarrow> db \<Rightarrow> channel_config list" where
  "active_channels_for collaborator_id d =
     sort_key pc_priority (filter (\<lambda>c. pc_collaborator_id c = collaborator_id \<and> pc_is_active c) (db_configs d))"

definition count_attempts :: "uuid \<Rightarrow> db \<Rightarrow> nat" where
  "count_attempts i d = length (filter (\<lambda>a. da_request_id a = i) (db_attempts d))"

definition add_attempt :: "dispatch_attempt \<Rightarrow> db \<Rightarrow> db" where
  "add_attempt a d = d\<lparr>db_attempts := db_attempts d @ [a]\<rparr>"

section \<open>One delivery\<close>

definition dispatch_kind :: pystr where "dispatch_kind = u ''dispatch''"

lemma known_dispatch_kind [known_kinds, simp]: "dispatch_kind \<in> set outbox_kinds"
  by (simp add: dispatch_kind_def outbox_kinds_def)

definition is_success :: "delivery_outcome \<Rightarrow> bool" where
  "is_success o1 \<longleftrightarrow> o1 \<in> {DO_SENT, DO_DELIVERED, DO_ACK}"

definition dispatch_principal :: principal where
  "dispatch_principal = \<lparr>p_user_id = dispatch_actor_id, p_kind = K_SERVICE, p_scopes = {},
     p_partner_id = None, p_on_behalf_of = None, p_acting_agent = None\<rparr>"

definition attempt_key :: "uuid \<Rightarrow> nat \<Rightarrow> pystr" where
  "attempt_key i n = u ''dispatch:'' @ uuid_str i @ u '':'' @ dec_digits n"

definition build_payload :: "service_request \<Rightarrow> nat \<Rightarrow> exn + delivery_payload" where
  "build_payload r attempt_no = (case sr_category r of
       None \<Rightarrow> Inl AssertionError
     | Some category \<Rightarrow> Inr \<lparr>dp_request_id = uuid_str (sr_id r), dp_number = sr_number r,
         dp_category = category_value category, dp_summary = sr_raw_input_masked r,
         dp_params = (case Option.bind (sr_classification r) (\<lambda>c. dict_get c (u ''params'')) of
             Some (JObj kvs) \<Rightarrow> kvs | _ \<Rightarrow> []),
         dp_idempotency_key = attempt_key (sr_id r) attempt_no, dp_attachments = [],
         dp_premises_id = (if truthy (sr_premises_id r) then sr_premises_id r else None),
         dp_booking_id = (if truthy (sr_booking_id r) then sr_booking_id r else None)\<rparr>)"

definition attempt_delivery ::
    "resolver \<Rightarrow> service_request \<Rightarrow> channel_config \<Rightarrow> nat \<Rightarrow> exn + delivery_result" where
  "attempt_delivery rv r c attempt_no =
     bindE (build_payload r attempt_no) (\<lambda>payload. case rv c payload of
         Inl (NotImplementedError t) \<Rightarrow> Inr \<lparr>dr_outcome = DO_FAILED,
             dr_provider_response = [(u ''error'', JStr (u ''unsupported_channel''))],
             dr_external_ref = None\<rparr>
       | other \<Rightarrow> other)"

section \<open>The walk\<close>

text \<open>The channels of one partner; the counter is the number of the last attempt.\<close>

fun try_channels ::
    "resolver \<Rightarrow> instant \<Rightarrow> service_request \<Rightarrow> channel_config list \<Rightarrow> nat
     \<Rightarrow> (nat \<times> channel_config option) handler" where
  "try_channels rv now r [] n = ret (n, None)"
| "try_channels rv now r (c # cs) n =
     bind_h (lift_h (attempt_delivery rv r c (Suc n))) (\<lambda>res.
     bind_h (mod_db (add_attempt \<lparr>da_request_id = sr_id r, da_channel_type = pc_channel_type c,
         da_attempt_no = Suc n, da_status = dr_outcome res,
         da_provider_response = Some (dr_provider_response res),
         da_idempotency_key = attempt_key (sr_id r) (Suc n), da_outbox_ref = None, da_ts = now\<rparr>)) (\<lambda>_.
     if is_success (dr_outcome res) then ret (Suc n, Some c)
     else try_channels rv now r cs (Suc n)))"

fun try_partners ::
    "resolver \<Rightarrow> instant \<Rightarrow> service_request \<Rightarrow> pystr option list \<Rightarrow> nat
     \<Rightarrow> (pystr \<times> channel_config) option handler" where
  "try_partners rv now r [] n = ret None"
| "try_partners rv now r (None # ps) n = try_partners rv now r ps n"
| "try_partners rv now r (Some q # ps) n =
     bind_h get_db (\<lambda>d.
     bind_h (try_channels rv now r (active_channels_for q d) n) (\<lambda>(n', found).
     case found of Some c \<Rightarrow> ret (Some (q, c)) | None \<Rightarrow> try_partners rv now r ps n'))"

definition start_accept_clock ::
    "env \<Rightarrow> sla_policy \<Rightarrow> service_request \<Rightarrow> service_request handler" where
  "start_accept_clock e policy r = (case sr_dispatched_at r of
       None \<Rightarrow> raise_h AssertionError
     | Some t \<Rightarrow> bind_h (lift_h (set_accept_deadline (e_zones e) policy (sr_sla r) t)) (\<lambda>sla.
         put_request (r\<lparr>sr_sla := Some (dict_set (u ''accept_started_at'') (JStr (iso_utc t)) sla)\<rparr>)))"

definition fallback_list :: "service_request \<Rightarrow> pystr list" where
  "fallback_list r = (case sr_fallback_chain r of None \<Rightarrow> [] | Some xs \<Rightarrow> xs)"

definition execute_dispatch ::
    "env \<Rightarrow> instant \<Rightarrow> resolver \<Rightarrow> sla_policy \<Rightarrow> service_request \<Rightarrow> (bool \<times> service_request) handler" where
  "execute_dispatch e now rv policy r =
     bind_h get_db (\<lambda>d.
     bind_h (try_partners rv now r (sr_partner_id r # map Some (fallback_list r))
       (count_attempts (sr_id r) d)) (\<lambda>chosen. case chosen of
         Some (partner, c) \<Rightarrow>
           bind_h (put_request (r\<lparr>sr_partner_id := Some partner,
             sr_delivery_channel := Some (channel_type_value (pc_channel_type c))\<rparr>)) (\<lambda>r1.
           bind_h (start_accept_clock e policy r1) (\<lambda>r2. ret (True, r2)))
       | None \<Rightarrow> bind_h (apply_transition e now dispatch_principal r S_FAILED_DISPATCH) (\<lambda>r'.
           ret (False, r'))))"

section \<open>Draining\<close>

text \<open>\<open>uuid.UUID(str(raw))\<close> of a payload's \<open>request_id\<close>; nothing when it is absent or empty.\<close>

definition payload_request :: "pyrt \<Rightarrow> jdict \<Rightarrow> exn + uuid option" where
  "payload_request rt payload = (case dict_get payload (u ''request_id'') of
       None \<Rightarrow> Inr None
     | Some raw \<Rightarrow> if \<not> json_truthy raw then Inr None
         else (case uuid_parse (py_str rt raw) of
             None \<Rightarrow> Inl (ValueError (u ''badly formed hexadecimal UUID string''))
           | Some i \<Rightarrow> Inr (Some i)))"

definition load_payload_request :: "pyrt \<Rightarrow> jdict \<Rightarrow> service_request option handler" where
  "load_payload_request rt payload =
     bind_h (lift_h (payload_request rt payload)) (\<lambda>i. case i of
       None \<Rightarrow> ret None | Some i \<Rightarrow> load_for_update i)"

definition drain_dispatch_message ::
    "env \<Rightarrow> instant \<Rightarrow> resolver \<Rightarrow> sla_policy \<Rightarrow> outbox_message \<Rightarrow> unit handler" where
  "drain_dispatch_message e now rv policy m =
     bind_h (load_payload_request (e_rt e) (om_payload m)) (\<lambda>found. case found of
       None \<Rightarrow> mod_db (save_message (mark_done now m))
     | Some r \<Rightarrow>
         bind_h (execute_dispatch e now rv policy r) (\<lambda>_.
         mod_db (save_message (mark_done now m))))"

text \<open>
  The shape all workers share: every message of the batch is processed, an exception turns into
  a retry with exponential backoff or into the final failure of the message.
\<close>

definition retry_message :: "settings \<Rightarrow> instant \<Rightarrow> exn \<Rightarrow> outbox_message \<Rightarrow> outbox_message" where
  "retry_message st now x m = mark_failed_or_retry (exn_text x) now (st_outbox_max_attempts st)
     (now + timedelta_us (st_outbox_retry_base_seconds st * 2 ^ (om_attempts m - 1))) m"

definition drain_batch ::
    "settings \<Rightarrow> instant \<Rightarrow> (outbox_message \<Rightarrow> unit handler) \<Rightarrow> outbox_message list \<Rightarrow> nat handler" where
  "drain_batch st now process batch =
     bind_h (for_h batch (\<lambda>m. try_h (process m) (\<lambda>x. mod_db (save_message (retry_message st now x m))))) (\<lambda>_.
     bind_h commit_h (\<lambda>_. ret (length batch)))"

definition claim_h :: "pystr \<Rightarrow> instant \<Rightarrow> nat \<Rightarrow> rat \<Rightarrow> outbox_message list handler" where
  "claim_h kind now limit visibility =
     bind_h get_db (\<lambda>d.
     bind_h (mod_db (\<lambda>d. snd (claim_batch kind now limit visibility d))) (\<lambda>_.
     ret (fst (claim_batch kind now limit visibility d))))"

definition drain_dispatch_batch ::
    "env \<Rightarrow> instant \<Rightarrow> resolver \<Rightarrow> sla_policy \<Rightarrow> nat handler" where
  "drain_dispatch_batch e now rv policy =
     bind_h (claim_h dispatch_kind now (st_outbox_batch_size (e_settings e)) default_visibility)
       (drain_batch (e_settings e) now (drain_dispatch_message e now rv policy))"

section \<open>The endpoint\<close>

definition drain_one :: "env \<Rightarrow> instant \<Rightarrow> resolver \<Rightarrow> sla_policy \<Rightarrow> nat \<Rightarrow> unit handler" where
  "drain_one e now rv policy outbox_id =
     bind_h get_db (\<lambda>d. case get_message outbox_id d of
       None \<Rightarrow> ret ()
     | Some m \<Rightarrow> if om_processed_at m \<noteq> None then ret ()
         else bind_h (drain_dispatch_message e now rv policy m) (\<lambda>_. commit_h))"

definition dispatch ::
    "env \<Rightarrow> instant \<Rightarrow> resolver \<Rightarrow> sla_policy \<Rightarrow> principal \<Rightarrow> uuid \<Rightarrow> request_detail handler" where
  "dispatch e now rv policy p i =
     bind_h (load_visible p i) (\<lambda>r.
     bind_h (guard_h (can_drive_lifecycle p) (forbidden (Some (u ''Dispatch not allowed for subject'')))) (\<lambda>_.
     bind_h (guard_h (sr_status r = S_ASSIGNED)
       (conflict (Some (u ''Dispatch not allowed in status '' @ status_value (sr_status r))))) (\<lambda>_.
     bind_h (guard_h (sr_partner_id r \<noteq> None \<and> sr_category r \<noteq> None)
       (conflict (Some (u ''Request must be assigned and classified'')))) (\<lambda>_.
     bind_h (apply_transition e now p r S_DISPATCHED) (\<lambda>r1.
     bind_h get_db (\<lambda>d.
     bind_h (mod_db (enqueue now dispatch_kind [(u ''request_id'', JStr (uuid_str (sr_id r1)))])) (\<lambda>_.
     bind_h commit_h (\<lambda>_.
     bind_h (drain_one e now rv policy (length (db_outbox d))) (\<lambda>_.
     bind_h get_db (\<lambda>d'. case get_visible p i d' of
         None \<Rightarrow> raise_h AssertionError
       | Some refreshed \<Rightarrow> lift_h (build_detail e now p refreshed [])))))))))))"

section \<open>The invariant\<close>

lemma outside_audit_attempt [intro]: "outside_audit (add_attempt a)"
  by (simp add: outside_audit_def same_audit_def add_attempt_def)

lemma stays_try_channels [wfc_intros]: "stays r (try_channels rv now r cs n)"
proof (induction cs arbitrary: n)
  case (Cons c cs)
  then show ?case unfolding try_channels.simps
    by (intro stays_bind stays_simple stays_outside outside_audit_attempt stays_if)
qed (simp add: stays_simple)

lemma stays_try_partners [wfc_intros]: "stays r (try_partners rv now r ps n)"
proof (induction ps arbitrary: n)
  case (Cons p ps)
  then show ?case
    by (cases p) (auto intro!: wfc_intros split: prod.split option.split)
qed (auto intro!: wfc_intros)

lemma movesc_start_accept_clock [wfc_intros]: "movesc r (start_accept_clock e policy r)"
  unfolding start_accept_clock_def
  by (intro wfc_intros movesc_stay) (simp_all add: same_core_def)

lemma moves2_execute_dispatch [wfc_intros]: "moves2 r (execute_dispatch e now rv policy r)"
proof -
  have fail: "moves2 r (bind_h (apply_transition e now dispatch_principal r S_FAILED_DISPATCH)
      (\<lambda>r'. ret (False, r')))"
    by (intro moves2_move wfc_intros)
  have win: "moves2 r (bind_h (put_request (r\<lparr>sr_partner_id := q, sr_delivery_channel := ch\<rparr>)) (\<lambda>r1.
      bind_h (start_accept_clock e policy r1) (\<lambda>r2. ret (True, r2))))" for q ch
    by (intro moves2_put moves2_move [OF movesc_start_accept_clock] moves2_ret) (simp_all add: same_core_def)
  show ?thesis unfolding execute_dispatch_def
    by (intro moves2_stay stays_simple stays_try_partners) (simp add: fail win split: prod.split option.split)
qed

lemma keeps_load_payload_request [keeps_intros]:
  assumes "keeps wf_db (f None)" "\<And>r. keepsc r (f (Some r))"
  shows "keeps wf_db (bind_h (load_payload_request rt payload) f)"
proof -
  have "bind_h (load_payload_request rt payload) f = bind_h (lift_h (payload_request rt payload))
      (\<lambda>i. case i of None \<Rightarrow> f None | Some i \<Rightarrow> bind_h (load_for_update i) f)"
    by (auto simp: load_payload_request_def bind_h_def lift_h_def ret_def split: sum.splits option.splits)
  moreover have "keeps wf_db (case z of None \<Rightarrow> f None | Some i \<Rightarrow> bind_h (load_for_update i) f)" for z
    by (cases z) (auto intro: assms keeps_load_for_update)
  ultimately show ?thesis by (auto intro: keeps_intros)
qed

lemma keeps_drain_dispatch_message [keeps_intros]:
  "known m \<Longrightarrow> keeps wf_db (drain_dispatch_message e now rv policy m)"
  unfolding drain_dispatch_message_def
proof (rule keeps_load_payload_request)
  assume m: "known m"
  show "keepsc r (case Some r of None \<Rightarrow> mod_db (save_message (mark_done now m))
      | Some r \<Rightarrow> bind_h (execute_dispatch e now rv policy r)
          (\<lambda>_. mod_db (save_message (mark_done now m))))" for r
    unfolding option.case
    using m by (intro keepsc_move2 [OF moves2_execute_dispatch] keepsc_keeps keeps_touch touches_outbox_save) simp
qed (simp add: keeps_touch touches_outbox_save)

lemma same_audit_claim: "same_audit d (snd (claim_batch kind now limit visibility d))"
proof -
  have "same_audit d (foldl (\<lambda>d m. save_message m d) d ms)" for ms and d :: db
    by (induction ms arbitrary: d) (auto simp: same_audit_def frame_simps)
  then show ?thesis by (simp add: claim_batch_def Let_def)
qed

text \<open>What follows a claim gets messages of the known kinds.\<close>

lemma keeps_claimed [keeps_intros]:
  assumes "\<And>ms. list_all known ms \<Longrightarrow> keeps wf_db (f ms)"
  shows "keeps wf_db (bind_h (claim_h kind now limit visibility) f)"
  unfolding keeps_def
proof (rule triple_bind)
  show "triple (both wf_db) (claim_h kind now limit visibility)
      (\<lambda>ms s. both wf_db s \<and> list_all known ms) (\<lambda>_. both wf_db)"
    by (auto simp: triple_def claim_h_def bind_h_def get_db_def mod_db_def ret_def both_def list_all_iff
        intro: wf_db_same_audit same_audit_claim wf_outbox_claim wf_db_outbox)
  show "triple (\<lambda>s. both wf_db s \<and> list_all known ms) (f ms) (\<lambda>_. both wf_db) (\<lambda>_. both wf_db)" for ms
    using assms [of ms] by (cases "list_all known ms") (simp_all add: keeps_def triple_def)
qed

lemma keeps_drain_batch [keeps_intros]:
  "list_all known batch \<Longrightarrow> (\<And>m. known m \<Longrightarrow> keeps wf_db (process m)) \<Longrightarrow>
   keeps wf_db (drain_batch st now process batch)"
  unfolding drain_batch_def retry_message_def
  by (intro keeps_intros touches_outbox_save) (auto simp: list_all_iff)

lemma keeps_drain_dispatch_batch [keeps_intros]: "keeps wf_db (drain_dispatch_batch e now rv policy)"
  unfolding drain_dispatch_batch_def by (intro keeps_intros)

lemma keeps_drain_one [keeps_intros]: "keeps wf_db (drain_one e now rv policy k)"
  unfolding drain_one_def keeps_def
proof (rule triple_bind)
  show "triple (both wf_db) get_db (\<lambda>d s. both wf_db s \<and> wf_outbox d) (\<lambda>_. both wf_db)"
    by (rule triple_get) (simp add: both_def wf_db_outbox)
  fix d
  have "keeps wf_db (case get_message k d of None \<Rightarrow> ret () | Some m \<Rightarrow> if om_processed_at m \<noteq> None then ret ()
      else bind_h (drain_dispatch_message e now rv policy m) (\<lambda>_. commit_h))" if "wf_outbox d"
    using that by (auto simp: get_message_def dest!: row_find_Some intro!: keeps_intros wf_outbox_known split: option.split)
  then show "triple (\<lambda>s. both wf_db s \<and> wf_outbox d) (case get_message k d of None \<Rightarrow> ret ()
      | Some m \<Rightarrow> if om_processed_at m \<noteq> None then ret ()
      else bind_h (drain_dispatch_message e now rv policy m) (\<lambda>_. commit_h)) (\<lambda>_. both wf_db) (\<lambda>_. both wf_db)"
    by (cases "wf_outbox d") (simp_all add: keeps_def triple_def)
qed

lemma keeps_dispatch [keeps_intros]: "keeps wf_db (dispatch e now rv policy p i)"
  unfolding dispatch_def
  by (intro keeps_intros wfc_intros outbox_grows_enqueue known_kinds)
    (auto intro!: keepsc_keeps keeps_intros split: option.split)

end
