(* ===== verification/Partner.thy ===== *)
theory Partner
  imports Invariant
begin

text \<open>
  The partner's side of the lifecycle (\<open>requests/partner.py\<close>): \<open>advance_partner_status\<close>, shared by
  the portal and by the inbound channels, the answer of a partner and its append-only estimates.
\<close>

definition partner_fallback_kind :: pystr where "partner_fallback_kind = u ''partner_fallback''"

lemma known_partner_fallback_kind [known_kinds, simp]: "partner_fallback_kind \<in> set outbox_kinds"
  by (simp add: partner_fallback_kind_def outbox_kinds_def)

definition partner_status_target :: "pystr \<Rightarrow> request_status option" where
  "partner_status_target s = map_of
     [(u ''accepted'', S_ACCEPTED), (u ''rejected'', S_MATCHING), (u ''in_progress'', S_IN_PROGRESS),
      (u ''done'', S_DONE)] s"

definition start_perform_clock ::
    "env \<Rightarrow> sla_policy \<Rightarrow> service_request \<Rightarrow> service_request handler" where
  "start_perform_clock e policy r = (case sr_accepted_at r of
       None \<Rightarrow> raise_h AssertionError
     | Some t \<Rightarrow> bind_h (lift_h (set_perform_deadline (e_zones e) policy (sr_sla r) t)) (\<lambda>sla.
         put_request (r\<lparr>sr_sla := Some (dict_set (u ''perform_started_at'') (JStr (iso_utc t)) sla)\<rparr>)))"

definition advance_partner_status ::
    "env \<Rightarrow> instant \<Rightarrow> principal \<Rightarrow> service_request \<Rightarrow> pystr \<Rightarrow> sla_policy \<Rightarrow> service_request handler" where
  "advance_partner_status e now p r partner_status policy =
     (case partner_status_target (rt_lower (e_rt e) partner_status) of
        None \<Rightarrow> problem_h (unprocessable (Some (u ''Unknown partner status: '' @ partner_status)))
      | Some target \<Rightarrow>
          if target = sr_status r then ret r
          else bind_h (apply_transition e now p r target) (\<lambda>r'.
            if target = S_ACCEPTED then start_perform_clock e policy r'
            else if target = S_MATCHING \<and> st_automation_time_based_enabled (e_settings e)
            then bind_h (mod_db (enqueue now partner_fallback_kind
                   [(u ''request_id'', JStr (uuid_str (sr_id r')))])) (\<lambda>_. ret r')
            else ret r'))"

section \<open>The portal\<close>

record partner_response =
  pr_status :: pystr
  pr_message :: "pystr option"

record estimate_create =
  ec_kind :: estimate_kind
  ec_amount_rub :: "rat option"
  ec_eta_text :: "pystr option"
  ec_comment :: "pystr option"

definition max_amount_rub :: rat where "max_amount_rub = 999999999999 / 100"

definition estimate_not_empty :: "estimate_create \<Rightarrow> bool" where
  "estimate_not_empty b \<longleftrightarrow> \<not> (ec_amount_rub b = None \<and> py_strip (or_empty (ec_eta_text b)) = [])"

definition partner_message :: "uuid \<Rightarrow> uuid \<Rightarrow> pystr option \<Rightarrow> pystr \<Rightarrow> instant \<Rightarrow> request_message" where
  "partner_message new_id i author text now = \<lparr>rm_id = new_id, rm_request_id = i,
     rm_author_type = A_PARTNER, rm_author_id = author, rm_is_internal = False, rm_text = text,
     rm_attachments = [], rm_created_at = now\<rparr>"

definition respond ::
    "env \<Rightarrow> instant \<Rightarrow> sla_policy \<Rightarrow> uuid \<Rightarrow> principal \<Rightarrow> uuid \<Rightarrow> partner_response \<Rightarrow> request_detail handler" where
  "respond e now policy new_id p i body =
     bind_h (load_visible p i) (\<lambda>r.
     bind_h (guard_h (is_partner p) (forbidden (Some (u ''Partner portal is for partners only'')))) (\<lambda>_.
     bind_h (advance_partner_status e now p r (pr_status body) policy) (\<lambda>r'.
     bind_h (case pr_message body of
         None \<Rightarrow> ret ()
       | Some text \<Rightarrow> mod_db (add_message (partner_message new_id (sr_id r') (p_partner_id p) text now))) (\<lambda>_.
     bind_h (lift_h (build_detail e now p r' [])) (\<lambda>detail.
     bind_h commit_h (\<lambda>_. ret detail))))))"

definition new_estimate :: "uuid \<Rightarrow> principal \<Rightarrow> uuid \<Rightarrow> estimate_create \<Rightarrow> instant \<Rightarrow> request_estimate" where
  "new_estimate new_id p i body now = \<lparr>re_id = new_id, re_request_id = i, re_kind = ec_kind body,
     re_amount_rub = ec_amount_rub body,
     re_eta_text = (let t = py_strip (or_empty (ec_eta_text body)) in if t = [] then None else Some t),
     re_comment = ec_comment body,
     re_author_id = (if truthy (p_partner_id p) then or_empty (p_partner_id p) else uuid_str (p_user_id p)),
     re_created_at = now\<rparr>"

definition post_estimate ::
    "env \<Rightarrow> instant \<Rightarrow> uuid \<Rightarrow> principal \<Rightarrow> uuid \<Rightarrow> estimate_create \<Rightarrow> request_detail handler" where
  "post_estimate e now new_id p i body =
     bind_h (load_visible p i) (\<lambda>r.
     bind_h (guard_h (is_partner p) (forbidden (Some (u ''Partner portal is for partners only'')))) (\<lambda>_.
     bind_h (mod_db (add_estimate (new_estimate new_id p (sr_id r) body now))) (\<lambda>_.
     bind_h commit_h (\<lambda>_.
     bind_h get_db (\<lambda>d.
     lift_h (build_detail e now p r (estimates_for i d)))))))"

section \<open>The invariant\<close>

lemma movesc_start_perform_clock [wfc_intros]: "movesc r (start_perform_clock e policy r)"
  unfolding start_perform_clock_def
  by (intro wfc_intros movesc_stay) (simp_all add: same_core_def)

lemma movesc_advance_partner_status [wfc_intros]: "movesc r (advance_partner_status e now p r s policy)"
proof -
  have "movesc r' (bind_h (mod_db (enqueue now partner_fallback_kind v)) (\<lambda>_. ret r'))" for r' v
    by (intro movesc_stay wfc_intros outbox_grows_enqueue known_kinds)
  then show ?thesis unfolding advance_partner_status_def
    by (intro movesc_option movesc_fail movesc_if movesc_ret movesc_bind movesc_transition
        movesc_start_perform_clock)
qed

lemma keeps_respond [keeps_intros]: "keeps wf_db (respond e now policy new_id p i body)"
  unfolding respond_def
  by (cases "pr_message body")
    (auto intro!: keeps_load_visible keepsc_guard keepsc_move [OF movesc_advance_partner_status]
        keepsc_stay stays_simple stays_outside outside_audit_add keepsc_lift keepsc_commit keepsc_end)

lemma keeps_post_estimate [keeps_intros]: "keeps wf_db (post_estimate e now new_id p i body)"
  unfolding post_estimate_def by (intro keeps_intros wfc_intros outside_audit_add)

end
