(* ===== verification/Framing.thy ===== *)
theory Framing
  imports Dispatch Partner
begin

text \<open>
  The interface of what a transition may touch. \<open>rows\<close> are the requests an operation works on; a
  property of databases that survives saving such a row, an audit record and new messages of the
  outbox is kept by everything built from these. The locale proves that once; it is interpreted
  for the tables the lifecycle leaves alone and for the rows of the other requests.
\<close>

section \<open>Handing a row on\<close>

definition advances :: "(db \<Rightarrow> bool) \<Rightarrow> service_request \<Rightarrow> service_request handler \<Rightarrow> bool" where
  "advances I r m \<longleftrightarrow> triple (both I) m (\<lambda>x s. both I s \<and> sr_id x = sr_id r) (\<lambda>_. both I)"

definition advances2 :: "(db \<Rightarrow> bool) \<Rightarrow> service_request \<Rightarrow> ('b \<times> service_request) handler \<Rightarrow> bool" where
  "advances2 I r m \<longleftrightarrow> triple (both I) m (\<lambda>x s. both I s \<and> sr_id (snd x) = sr_id r) (\<lambda>_. both I)"

lemma advances_simple:
  "advances I r (ret r)" "advances I r (problem_h x)" "advances I r (raise_h y)"
  by (simp_all add: advances_def triple_ret triple_problem triple_raise)

lemma advances_keeps: "keeps I m \<Longrightarrow> (\<And>a. advances I r (f a)) \<Longrightarrow> advances I r (bind_h m f)"
  unfolding advances_def keeps_def by (rule triple_bind)

lemma advances_bind:
  assumes "advances I r m" "\<And>x. sr_id x = sr_id r \<Longrightarrow> advances I x (f x)"
  shows "advances I r (bind_h m f)"
  unfolding advances_def
proof (rule triple_bind [OF assms(1) [unfolded advances_def]])
  show "triple (\<lambda>s. both I s \<and> sr_id x = sr_id r) (f x) (\<lambda>y s. both I s \<and> sr_id y = sr_id r) (\<lambda>_. both I)" for x
    by (rule triple_when) (use assms(2) [of x] in \<open>simp add: advances_def\<close>)
qed

lemma advances_if: "(b \<Longrightarrow> advances I r f) \<Longrightarrow> (\<not> b \<Longrightarrow> advances I r g) \<Longrightarrow> advances I r (if b then f else g)"
  by simp

lemma advances_option:
  "(z = None \<Longrightarrow> advances I r f) \<Longrightarrow> (\<And>x. z = Some x \<Longrightarrow> advances I r (g x)) \<Longrightarrow>
   advances I r (case z of None \<Rightarrow> f | Some x \<Rightarrow> g x)"
  by (cases z) simp_all

lemma keeps_advances:
  assumes "advances I r m" "\<And>x. sr_id x = sr_id r \<Longrightarrow> keeps I (f x)"
  shows "keeps I (bind_h m f)"
  unfolding keeps_def
proof (rule triple_bind [OF assms(1) [unfolded advances_def]])
  show "triple (\<lambda>s. both I s \<and> sr_id x = sr_id r) (f x) (\<lambda>_. both I) (\<lambda>_. both I)" for x
    by (rule triple_when) (use assms(2) [of x] in \<open>simp add: keeps_def\<close>)
qed

lemma advances2_of:
  assumes "advances I r m" "\<And>x. sr_id x = sr_id r \<Longrightarrow> advances2 I x (f x)"
  shows "advances2 I r (bind_h m f)"
  unfolding advances2_def
proof (rule triple_bind [OF assms(1) [unfolded advances_def]])
  show "triple (\<lambda>s. both I s \<and> sr_id x = sr_id r) (f x)
      (\<lambda>y s. both I s \<and> sr_id (snd y) = sr_id r) (\<lambda>_. both I)" for x
    by (rule triple_when) (use assms(2) [of x] in \<open>simp add: advances2_def\<close>)
qed

lemma advances2_keeps: "keeps I m \<Longrightarrow> (\<And>a. advances2 I r (f a)) \<Longrightarrow> advances2 I r (bind_h m f)"
  unfolding advances2_def keeps_def by (rule triple_bind)

lemma advances2_bind:
  assumes "advances2 I r m" "\<And>b x. sr_id x = sr_id r \<Longrightarrow> advances2 I x (f (b, x))"
  shows "advances2 I r (bind_h m f)"
  unfolding advances2_def
proof (rule triple_bind [OF assms(1) [unfolded advances2_def]])
  fix a :: "'a \<times> service_request"
  show "triple (\<lambda>s. both I s \<and> sr_id (snd a) = sr_id r) (f a)
      (\<lambda>y s. both I s \<and> sr_id (snd y) = sr_id r) (\<lambda>_. both I)"
    by (rule triple_when) (use assms(2) [of "snd a" "fst a"] in \<open>simp add: advances2_def\<close>)
qed

lemma advances2_simple: "advances2 I r (ret (b, r))"
  by (simp add: advances2_def triple_ret)

lemma keeps_advances2:
  assumes "advances2 I r m" "\<And>b x. sr_id x = sr_id r \<Longrightarrow> keeps I (f (b, x))"
  shows "keeps I (bind_h m f)"
  unfolding keeps_def
proof (rule triple_bind [OF assms(1) [unfolded advances2_def]])
  fix a :: "'a \<times> service_request"
  show "triple (\<lambda>s. both I s \<and> sr_id (snd a) = sr_id r) (f a) (\<lambda>_. both I) (\<lambda>_. both I)"
    by (rule triple_when) (use assms(2) [of "snd a" "fst a"] in \<open>simp add: keeps_def\<close>)
qed

section \<open>The interface\<close>

locale frame_property =
  fixes I :: "db \<Rightarrow> bool" and rows :: "uuid \<Rightarrow> bool"
  assumes save_request_law: "rows (sr_id r) \<Longrightarrow> I d \<Longrightarrow> I (save_request r d)"
    and add_history_law: "rows (rh_request_id h) \<Longrightarrow> I d \<Longrightarrow> I (add_history h d)"
    and outbox_law: "outbox_only d d' \<Longrightarrow> I d \<Longrightarrow> I d'"
begin

lemma keeps_outbox: "outbox_grows f \<Longrightarrow> keeps I (mod_db f)"
  by (rule keeps_mod) (auto simp: outbox_grows_def intro: outbox_law)

lemma keeps_history: "rows (rh_request_id h) \<Longrightarrow> keeps I (mod_db (add_history h))"
  by (rule keeps_mod) (rule add_history_law)

lemma advances_put: "sr_id r' = sr_id r \<Longrightarrow> rows (sr_id r) \<Longrightarrow> advances I r (put_request r')"
  unfolding advances_def put_request_def
  by (rule triple_bind [where R = "\<lambda>_. both I"])
    (auto simp: both_def intro!: triple_mod triple_ret save_request_law)

lemma advances_transition: "rows (sr_id r) \<Longrightarrow> advances I r (apply_transition e now p r t)"
  unfolding apply_transition_def
  by (intro advances_keeps [OF keeps_lift] advances_bind [OF advances_put]
      advances_keeps [OF keeps_history] advances_keeps [OF keeps_outbox] advances_simple
      outbox_grows_transition) (simp_all add: status_history_def)

lemma keeps_load:
  assumes "\<And>r. sr_id r = i \<Longrightarrow> keeps I (f r)" shows "keeps I (bind_h (load_visible p i) f)"
proof -
  have "keeps I (bind_h (case z of None \<Rightarrow> problem_h x | Some r \<Rightarrow> ret r) f)"
    if "\<forall>r. z = Some r \<longrightarrow> sr_id r = i" for z x
    using that assms
    by (cases z) (auto simp: keeps_def triple_def bind_h_def problem_h_def raise_h_def ret_def)
  then have "keeps I (\<lambda>s. bind_h (case get_visible p i (se_working s) of None \<Rightarrow> problem_h (not_found None)
      | Some r \<Rightarrow> ret r) f s)"
    using get_visible_Some [of p i] by (auto simp: keeps_def triple_def)
  moreover have "bind_h (load_visible p i) f = (\<lambda>s. bind_h (case get_visible p i (se_working s) of
      None \<Rightarrow> problem_h (not_found None) | Some r \<Rightarrow> ret r) f s)"
    by (rule ext) (simp add: load_visible_def bind_h_def get_db_def)
  ultimately show ?thesis by simp
qed

lemma keeps_load_row:
  assumes "keeps I (f None)" "\<And>r. sr_id r = i \<Longrightarrow> keeps I (f (Some r))"
  shows "keeps I (bind_h (load_for_update i) f)"
proof -
  have "keeps I (f z)" if "\<forall>r. z = Some r \<longrightarrow> sr_id r = i" for z
    using that assms by (cases z) auto
  then show ?thesis
    using get_request_Some [of i]
    by (auto simp: keeps_def triple_def bind_h_def load_for_update_def get_db_def ret_def)
qed

lemma advances_start_perform_clock: "rows (sr_id r) \<Longrightarrow> advances I r (start_perform_clock e policy r)"
  unfolding start_perform_clock_def
  by (intro advances_option advances_simple advances_keeps [OF keeps_lift] advances_put) simp_all

lemma advances_partner_status: "rows (sr_id r) \<Longrightarrow> advances I r (advance_partner_status e now p r s policy)"
  unfolding advance_partner_status_def
  by (intro advances_option advances_simple advances_if advances_bind [OF advances_transition]
      advances_start_perform_clock advances_keeps [OF keeps_outbox] outbox_grows_enqueue known_kinds) simp_all

end

text \<open>Properties of the requests and their history only: they survive any other table's changes.\<close>

locale row_property = frame_property +
  assumes outside_law: "outside_audit f \<Longrightarrow> I d \<Longrightarrow> I (f d)"
begin

lemma keeps_outside: "outside_audit f \<Longrightarrow> keeps I (mod_db f)"
  by (rule keeps_mod) (rule outside_law)

lemma keeps_outside_option: "(\<And>x. outside_audit (f x)) \<Longrightarrow> keeps I (case z of None \<Rightarrow> ret () | Some x \<Rightarrow> mod_db (f x))"
  by (cases z) (simp_all add: keeps_ret keeps_outside)

end

interpretation configs_frame: frame_property "\<lambda>d. db_configs d = c" "\<lambda>_. True" for c
  by unfold_locales (simp_all add: frame_simps)

interpretation events_frame: frame_property "\<lambda>d. db_events d = es" "\<lambda>_. True" for es
  by unfold_locales (simp_all add: frame_simps)

interpretation subscriptions_frame: frame_property "\<lambda>d. db_subscriptions d = ss" "\<lambda>_. True" for ss
  by unfold_locales (simp_all add: frame_simps)

interpretation estimates_frame: frame_property "\<lambda>d. db_estimates d = es" "\<lambda>_. True" for es
  by unfold_locales (simp_all add: frame_simps)

interpretation messages_frame: frame_property "\<lambda>d. db_messages d = ms" "\<lambda>_. True" for ms
  by unfold_locales (simp_all add: frame_simps)

text \<open>The rows and the audit trails of the other requests.\<close>

lemma outside_audit_rows: "outside_audit f \<Longrightarrow> get_request j (f d) = get_request j d"
  by (simp add: outside_audit_def same_audit_def get_request_def)

lemma outside_audit_history: "outside_audit f \<Longrightarrow> history_of j (f d) = history_of j d"
  by (simp add: outside_audit_def same_audit_def history_of_def)

interpretation other_rows: row_property "\<lambda>d. get_request j d = x" "\<lambda>i. i \<noteq> j" for j x
proof unfold_locales
  show "outbox_only d d' \<Longrightarrow> get_request j d = x \<Longrightarrow> get_request j d' = x" for d d'
    by (simp add: get_request_def frame_simps)
qed (simp_all add: get_save_request frame_simps outside_audit_rows)

interpretation other_trails: row_property "\<lambda>d. history_of j d = hs" "\<lambda>i. i \<noteq> j" for j hs
  by unfold_locales (auto simp: frame_simps history_of_def outside_audit_def same_audit_def)

end
