(* ===== verification/Demo.thy ===== *)
theory Demo
  imports Framing
begin

text \<open>A small database and two subjects, at which the theorems are evaluated.\<close>

definition demo_env :: env where
  "demo_env = \<lparr>e_rt = demo_rt, e_settings = default_settings, e_zones = demo_zones\<rparr>"

definition demo_operator :: principal where
  "demo_operator = \<lparr>p_user_id = 1, p_kind = K_OPERATOR, p_scopes = {operator_scope}, p_partner_id = None,
     p_on_behalf_of = None, p_acting_agent = None\<rparr>"

definition demo_requester :: principal where
  "demo_requester = \<lparr>p_user_id = 2, p_kind = K_REQUESTER, p_scopes = {}, p_partner_id = None,
     p_on_behalf_of = None, p_acting_agent = None\<rparr>"

definition demo_partner :: principal where
  "demo_partner = \<lparr>p_user_id = 3, p_kind = K_PARTNER, p_scopes = {partner_scope},
     p_partner_id = Some (u ''p1''), p_on_behalf_of = None, p_acting_agent = None\<rparr>"

definition demo_request :: "uuid \<Rightarrow> nat \<Rightarrow> request_status \<Rightarrow> service_request" where
  "demo_request i n status = \<lparr>sr_id = i, sr_number = number_text n, sr_requester_id = uuid_str 2,
     sr_booking_id = None, sr_premises_id = None, sr_channel_in = In_WEB_FORM, sr_source_ref = None,
     sr_raw_input = u ''call 1234567890'', sr_raw_input_masked = u ''call ***'', sr_category = Some C_REPAIR,
     sr_product_code = None, sr_classification = None, sr_partner_id = Some (u ''p1''),
     sr_match_trace = None, sr_fallback_chain = Some [u ''p2''], sr_delivery_channel = None,
     sr_service_order_id = None, sr_status = status, sr_sla = None, sr_amount_ref = None,
     sr_escrow_ref = None, sr_dispute_id = None, sr_claim_ref = None, sr_rating_ref = None,
     sr_custom_fields = [], sr_access_level = L_LOGGED, sr_idempotency_key = None,
     sr_dispatched_at = None, sr_accepted_at = None, sr_done_at = None, sr_accepted_by_user_at = None,
     sr_paid_at = None, sr_scheduled_at = None, sr_created_at = int n\<rparr>"

definition demo_channel :: "uuid \<Rightarrow> string \<Rightarrow> channel_type \<Rightarrow> channel_config" where
  "demo_channel i partner t = \<lparr>pc_id = i, pc_collaborator_id = u partner, pc_channel_type = t,
     pc_priority = 100, pc_config = [], pc_inbound_token = Some (u ''secret''), pc_is_active = True,
     pc_health = None\<rparr>"

definition demo_db :: "service_request list \<Rightarrow> channel_config list \<Rightarrow> db" where
  "demo_db rs cs = empty_db\<lparr>db_requests := rs, db_configs := cs, db_number_seq := length rs\<rparr>"

end
