(* ===== verification/Inbound.thy ===== *)
theory Inbound
  imports Demo Pagination
begin

text \<open>
  Messages from partners over their API (\<open>channels/inbound.py\<close>, \<open>InboundEnvelope\<close> of
  \<open>channels/schemas.py\<close>): the channel is found by the token of the path, the body must be fresh and
  signed with the channel's secret, a nonce is taken once, and a partner moves only its own
  requests. The keyed hash, the parser of JSON and the conversion of a JSON value to a decimal are
  parameters; \<open>OverflowError\<close> is what the comparison with the clock raises for an integer that no
  float can hold.
\<close>

record wire =
  wr_hmac_hex :: "nat list \<Rightarrow> nat list \<Rightarrow> pystr"
  wr_loads :: "nat list \<Rightarrow> json option"
  wr_decimal :: "json \<Rightarrow> rat option"

section \<open>Bytes and integers\<close>

definition utf8_char :: "nat \<Rightarrow> nat list" where
  "utf8_char c =
     (if c < 128 then [c]
      else if c < 2048 then [192 + c div 64, 128 + c mod 64]
      else if c < 65536 then [224 + c div 4096, 128 + c div 64 mod 64, 128 + c mod 64]
      else [240 + c div 262144, 128 + c div 4096 mod 64, 128 + c div 64 mod 64, 128 + c mod 64])"

definition utf8_encode :: "pystr \<Rightarrow> nat list" where
  "utf8_encode s = concat (map utf8_char s)"

text \<open>\<open>int(s)\<close> of a string: blanks around, a sign, and digits with single underscores between.\<close>

fun digits_value :: "bool \<Rightarrow> int \<Rightarrow> pystr \<Rightarrow> int option" where
  "digits_value after_digit n [] = (if after_digit then Some n else None)"
| "digits_value after_digit n (c # cs) =
     (if c = 95 then (if after_digit \<and> cs \<noteq> [] then digits_value False n cs else None)
      else case digit_val c of None \<Rightarrow> None | Some v \<Rightarrow> digits_value True (n * 10 + int v) cs)"

definition parse_int :: "pystr \<Rightarrow> int option" where
  "parse_int s =
     (let t = py_strip s;
          sign = (case t of [] \<Rightarrow> 1 | c # _ \<Rightarrow> if c = 45 then - 1 else 1);
          body = (case t of [] \<Rightarrow> [] | c # cs \<Rightarrow> if c = 45 \<or> c = 43 then cs else t)
      in if 4300 < length (filter py_isdigit body) then None
         else map_option (\<lambda>n. sign * n) (digits_value False 0 body))"

definition float_limit :: int where "float_limit = 2 ^ 1024 - 2 ^ 970"

lemma float_limit_code [code]:
  "float_limit =
   179769313486231580793728971405303415079934132710037826936173778980444968292764750946649017977587207096330286416692887910946555547851940402630657488671505820681908902000708383676273854845817711531764475730270069855571366959622842914819860834936475292719074168444365510704342711559699508093042880177904174497792"
  by (simp add: float_limit_def)

section \<open>Signature and freshness\<close>

definition timestamp_window :: rat where "timestamp_window = 300"

definition signed_message :: "pystr \<Rightarrow> nat list \<Rightarrow> nat list" where
  "signed_message timestamp raw_body = utf8_encode timestamp @ u ''.'' @ raw_body"

definition verify_signature ::
    "wire \<Rightarrow> nat list \<Rightarrow> pystr \<Rightarrow> pystr \<Rightarrow> pystr \<Rightarrow> exn + bool" where
  "verify_signature w raw_body signature secret timestamp =
     (if secret = [] then Inr False
      else if \<exists>c\<in>set signature. 128 \<le> c then Inl TypeError
      else Inr (wr_hmac_hex w (utf8_encode secret) (signed_message timestamp raw_body) = signature))"

definition is_fresh :: "pystr \<Rightarrow> rat \<Rightarrow> exn + bool" where
  "is_fresh timestamp now = (case parse_int timestamp of
       None \<Rightarrow> Inr False
     | Some ts \<Rightarrow> if float_limit \<le> \<bar>ts\<bar> then Inl (OtherError (u ''OverflowError'') [])
         else Inr (\<bar>now - of_int ts\<bar> \<le> timestamp_window))"

section \<open>The envelope\<close>

record envelope =
  ev_request_ref :: pystr
  ev_status :: "pystr option"
  ev_nonce :: pystr
  ev_message :: "pystr option"
  ev_estimate_amount :: "rat option"
  ev_estimate_note :: "pystr option"

definition str_field :: "nat \<Rightarrow> nat \<Rightarrow> json option \<Rightarrow> pystr option" where
  "str_field lo hi j = (case j of
       Some (JStr s) \<Rightarrow> if lo \<le> length s \<and> length s \<le> hi then Some s else None | _ \<Rightarrow> None)"

definition opt_field :: "(json \<Rightarrow> 'a option) \<Rightarrow> json option \<Rightarrow> 'a option option" where
  "opt_field f j = (case j of None \<Rightarrow> Some None | Some JNull \<Rightarrow> Some None | Some v \<Rightarrow> map_option Some (f v))"

definition amount_field :: "wire \<Rightarrow> json \<Rightarrow> rat option" where
  "amount_field w j = (case wr_decimal w j of None \<Rightarrow> None | Some q \<Rightarrow> if 0 \<le> q then Some q else None)"

definition envelope_not_empty :: "envelope \<Rightarrow> bool" where
  "envelope_not_empty v \<longleftrightarrow> \<not> (ev_status v = None \<and> ev_estimate_amount v = None
     \<and> py_strip (or_empty (ev_estimate_note v)) = [])"

definition validate_envelope :: "wire \<Rightarrow> json \<Rightarrow> envelope option" where
  "validate_envelope w data = (case data of
       JObj kvs \<Rightarrow>
         (case (str_field 1 255 (dict_get kvs (u ''request_ref'')), str_field 1 255 (dict_get kvs (u ''nonce'')),
                opt_field (\<lambda>j. str_field 1 64 (Some j)) (dict_get kvs (u ''status'')),
                opt_field (\<lambda>j. str_field 0 20000 (Some j)) (dict_get kvs (u ''message'')),
                opt_field (amount_field w) (dict_get kvs (u ''estimate_amount'')),
                opt_field (\<lambda>j. str_field 0 255 (Some j)) (dict_get kvs (u ''estimate_note''))) of
            (Some i, Some n, Some s, Some m, Some a, Some t) \<Rightarrow>
              (let v = \<lparr>ev_request_ref = i, ev_status = s, ev_nonce = n, ev_message = m,
                 ev_estimate_amount = a, ev_estimate_note = t\<rparr>
               in if envelope_not_empty v then Some v else None)
          | _ \<Rightarrow> None)
     | _ \<Rightarrow> None)"

definition parse_envelope :: "wire \<Rightarrow> nat list \<Rightarrow> exn + envelope" where
  "parse_envelope w raw_body = (case wr_loads w raw_body of
       None \<Rightarrow> raise_problem (unprocessable (Some (u ''Malformed inbound body'')))
     | Some data \<Rightarrow> (case validate_envelope w data of
         None \<Rightarrow> raise_problem (unprocessable (Some (u ''Invalid inbound envelope'')))
       | Some v \<Rightarrow> Inr v))"

section \<open>Repository\<close>

definition config_by_inbound_token :: "pystr \<Rightarrow> db \<Rightarrow> exn + channel_config option" where
  "config_by_inbound_token token d =
     (case filter (\<lambda>c. pc_inbound_token c = Some token) (db_configs d) of
        [] \<Rightarrow> Inr None | [c] \<Rightarrow> Inr (Some c) | _ \<Rightarrow> Inl MultipleResultsFound)"

definition is_seen :: "uuid \<Rightarrow> pystr \<Rightarrow> db \<Rightarrow> bool" where
  "is_seen config_id nonce d \<longleftrightarrow>
     (\<exists>x\<in>set (db_events d). ie_channel_config_id x = config_id \<and> ie_nonce x = nonce)"

definition add_event :: "inbound_event \<Rightarrow> db \<Rightarrow> db" where
  "add_event x d = d\<lparr>db_events := db_events d @ [x]\<rparr>"

section \<open>The service\<close>

definition channel_principal :: principal where
  "channel_principal = dispatch_principal"

definition correlate :: "pystr \<Rightarrow> service_request option handler" where
  "correlate request_ref = (case uuid_parse request_ref of
       None \<Rightarrow> ret None | Some i \<Rightarrow> load_for_update i)"

definition inbound_estimate :: "uuid \<Rightarrow> uuid \<Rightarrow> channel_config \<Rightarrow> envelope \<Rightarrow> instant \<Rightarrow> request_estimate" where
  "inbound_estimate new_id i c v now = \<lparr>re_id = new_id, re_request_id = i, re_kind = E_FINAL,
     re_amount_rub = ev_estimate_amount v,
     re_eta_text = (let t = py_strip (or_empty (ev_estimate_note v)) in if t = [] then None else Some t),
     re_comment = None, re_author_id = pc_collaborator_id c, re_created_at = now\<rparr>"

text \<open>
  What the tables refuse when the session is flushed: an amount that \<open>Numeric(12, 2)\<close> cannot hold,
  which the envelope does not bound, and a nonce that another session committed after it was looked up.
\<close>

definition amount_fits :: "rat option \<Rightarrow> bool" where
  "amount_fits x \<longleftrightarrow> (case x of None \<Rightarrow> True | Some q \<Rightarrow> \<bar>q\<bar> < 10 ^ 10 - 1 / 200)"

definition flush_inbound :: "channel_config \<Rightarrow> envelope \<Rightarrow> unit handler" where
  "flush_inbound c v = bind_h get_db (\<lambda>d.
     if \<not> amount_fits (ev_estimate_amount v) then raise_h column_error
     else if is_seen (pc_id c) (ev_nonce v) d then raise_h IntegrityError else ret ())"

definition apply_envelope ::
    "env \<Rightarrow> instant \<Rightarrow> sla_policy \<Rightarrow> uuid \<Rightarrow> channel_config \<Rightarrow> service_request \<Rightarrow> envelope \<Rightarrow> unit handler" where
  "apply_envelope e now policy new_id c r v =
     bind_h (case ev_status v of
         None \<Rightarrow> ret r
       | Some s \<Rightarrow> advance_partner_status e now channel_principal r s policy) (\<lambda>r'.
     bind_h (if ev_estimate_amount v \<noteq> None \<or> py_strip (or_empty (ev_estimate_note v)) \<noteq> []
         then mod_db (add_estimate (inbound_estimate new_id (sr_id r') c v now)) else ret ()) (\<lambda>_.
     bind_h (case ev_message v of
         None \<Rightarrow> ret ()
       | Some text \<Rightarrow> mod_db (add_message
           (partner_message new_id (sr_id r') (Some (pc_collaborator_id c)) text now))) (\<lambda>_.
     bind_h (flush_inbound c v) (\<lambda>_.
     bind_h (mod_db (add_event \<lparr>ie_channel_config_id = pc_id c, ie_nonce = ev_nonce v,
         ie_request_id = Some (sr_id r'), ie_received_at = now\<rparr>)) (\<lambda>_. commit_h)))))"

lemma flush_inbound_run: "flush_inbound c v s =
    (if \<not> amount_fits (ev_estimate_amount v) then (Inl column_error, s)
     else if is_seen (pc_id c) (ev_nonce v) (se_working s) then (Inl IntegrityError, s) else (Inr (), s))"
  by (simp add: flush_inbound_def bind_h_def get_db_def raise_h_def ret_def)

lemma flush_inbound_keeps: "keeps I (flush_inbound c v)" "stays r (flush_inbound c v)"
  by (auto simp: keeps_def stays_def triple_def flush_inbound_run wfc_def)

definition handle_api ::
    "env \<Rightarrow> instant \<Rightarrow> wire \<Rightarrow> sla_policy \<Rightarrow> uuid \<Rightarrow> pystr \<Rightarrow> nat list \<Rightarrow> pystr \<Rightarrow> pystr \<Rightarrow> pystr handler" where
  "handle_api e now w policy new_id token raw_body signature timestamp =
     bind_h get_db (\<lambda>d.
     bind_h (lift_h (config_by_inbound_token token d)) (\<lambda>found. case found of
       None \<Rightarrow> problem_h (not_found None)
     | Some c \<Rightarrow>
         bind_h (lift_h (is_fresh timestamp (of_int now / of_int us_per_second))) (\<lambda>fresh.
         bind_h (if fresh then lift_h (verify_signature w raw_body signature (or_empty (pc_inbound_token c)) timestamp)
             else ret False) (\<lambda>ok.
         bind_h (guard_h ok (unauthorized (Some (u ''Invalid signature or timestamp'')))) (\<lambda>_.
         bind_h (lift_h (parse_envelope w raw_body)) (\<lambda>v.
         if is_seen (pc_id c) (ev_nonce v) d then ret (u ''duplicate'')
         else
           bind_h (correlate (ev_request_ref v)) (\<lambda>req. case req of
             None \<Rightarrow> problem_h (not_found None)
           | Some r \<Rightarrow>
               if sr_partner_id r \<noteq> Some (pc_collaborator_id c) then problem_h (not_found None)
               else bind_h (apply_envelope e now policy new_id c r v) (\<lambda>_. ret (u ''ok'')))))))))"

section \<open>The invariant\<close>

lemma outside_audit_event [intro]: "outside_audit (add_event x)"
  by (simp add: outside_audit_def same_audit_def add_event_def)

lemma keepsc_apply_envelope: "keepsc r (apply_envelope e now policy new_id c r v)"
proof -
  have move: "movesc r (case ev_status v of None \<Rightarrow> ret r
       | Some s \<Rightarrow> advance_partner_status e now channel_principal r s policy)"
    by (intro movesc_option movesc_ret movesc_advance_partner_status)
  have msg: "stays x (case ev_message v of None \<Rightarrow> ret () | Some text \<Rightarrow> mod_db (add_message (m text)))" for x m
    by (cases "ev_message v") (simp_all add: stays_simple stays_outside outside_audit_add)
  show ?thesis unfolding apply_envelope_def
    by (intro keepsc_move [OF move] keepsc_stay [OF msg] keepsc_stay [OF flush_inbound_keeps(2)] keepsc_stay stays_if stays_outside
        outside_audit_add outside_audit_event stays_simple keepsc_commit_end)
qed

lemma keeps_correlate:
  assumes "keeps wf_db (f None)" "\<And>r. keepsc r (f (Some r))"
  shows "keeps wf_db (bind_h (correlate ref) f)"
proof (cases "uuid_parse ref")
  case None
  then have "bind_h (correlate ref) f = f None" by (auto simp: correlate_def bind_h_def ret_def)
  then show ?thesis using assms(1) by simp
next
  case (Some i)
  then show ?thesis using assms keeps_load_for_update [where f = f and i = i] by (simp add: correlate_def)
qed

lemma keeps_handle_api [keeps_intros]:
  "keeps wf_db (handle_api e now w policy new_id token raw_body signature timestamp)"
proof -
  have row: "keepsc r (bind_h (apply_envelope e now policy new_id c r v) (\<lambda>_. ret o1))" for r c v and o1 :: pystr
    using keepsc_apply_envelope [of r e now policy new_id c v]
    by (auto simp: keepsc_def intro!: triple_bind triple_ret)
  show ?thesis unfolding handle_api_def
    by (auto intro!: keeps_intros keeps_correlate row keepsc_end split: option.split)
qed

section \<open>What is signed\<close>

lemma digits_value_dot: "digits_value b n s \<noteq> None \<Longrightarrow> 46 \<notin> set s"
proof (induction b n s rule: digits_value.induct)
  case (2 b n c cs)
  have "digit_val 46 = None" by code_simp
  then show ?case using 2 by (auto split: if_splits option.splits)
qed simp

lemma split_at_first:
  "c \<notin> set a \<Longrightarrow> c \<notin> set a' \<Longrightarrow> a @ c # b = a' @ c # b' \<Longrightarrow> a = a' \<and> b = b'"
proof (induction a arbitrary: a')
  case Nil
  then show ?case by (cases a') auto
next
  case (Cons x a)
  then show ?case by (cases a') auto
qed

lemma strip_by_split: "\<exists>a b. s = a @ strip_by p s @ b \<and> (\<forall>c\<in>set a \<union> set b. p c)"
proof -
  define t where "t = dropWhile p s"
  have "s = takeWhile p s @ t" by (simp add: t_def)
  moreover have "t = rev (dropWhile p (rev t)) @ rev (takeWhile p (rev t))"
    by (metis rev_append rev_rev_ident takeWhile_dropWhile_id)
  ultimately have "s = takeWhile p s @ rev (dropWhile p (rev t)) @ rev (takeWhile p (rev t))" by simp
  moreover have "strip_by p s = rev (dropWhile p (rev t))"
    by (simp add: strip_by_def lstrip_by_def rstrip_by_def t_def)
  ultimately show ?thesis by (metis UnE set_rev set_takeWhileD)
qed

lemma parse_int_dot:
  assumes "parse_int s \<noteq> None" shows "46 \<notin> set s"
proof -
  define t where "t = py_strip s"
  obtain a b where ab: "s = a @ t @ b" "\<forall>c\<in>set a \<union> set b. py_isspace c"
    unfolding t_def py_strip_def using strip_by_split [of s py_isspace] by blast
  have "46 \<notin> set t"
  proof (cases t)
    case (Cons c cs)
    define body where "body = (if c = 45 \<or> c = 43 then cs else t)"
    have "digits_value False 0 body \<noteq> None"
      using assms Cons by (auto simp: parse_int_def Let_def body_def simp flip: t_def split: if_splits)
    then have "46 \<notin> set body" by (rule digits_value_dot)
    then show ?thesis using Cons by (auto simp: body_def split: if_splits)
  qed simp
  moreover have "\<not> py_isspace 46" by (simp add: py_isspace_def)
  ultimately show ?thesis using ab by auto
qed

lemma utf8_encode_dot: "46 \<notin> set s \<Longrightarrow> 46 \<notin> set (utf8_encode s)"
  by (auto simp: utf8_encode_def utf8_char_def split: if_splits)

text \<open>The signature binds the timestamp and the body: two messages that pass the check of the
  timestamp and are signed as the same bytes have the same timestamp and the same body.
\<close>

theorem signed_message_injective:
  assumes "parse_int t1 \<noteq> None" "parse_int t2 \<noteq> None" "signed_message t1 b1 = signed_message t2 b2"
  shows "utf8_encode t1 = utf8_encode t2 \<and> b1 = b2"
proof -
  have "46 \<notin> set (utf8_encode t1)" "46 \<notin> set (utf8_encode t2)"
    using assms parse_int_dot utf8_encode_dot by blast+
  moreover have "utf8_encode t1 @ 46 # b1 = utf8_encode t2 @ 46 # b2"
    using assms(3) by (simp add: signed_message_def u_def)
  ultimately show ?thesis by (rule split_at_first)
qed

lemma signed_message_injective_witness:
  "signed_message (u ''1700000000'') [1] \<noteq> signed_message (u ''1700000000'') [2]"
proof
  assume same: "signed_message (u ''1700000000'') [1] = signed_message (u ''1700000000'') [2]"
  have "parse_int (u ''1700000000'') \<noteq> None" by code_simp
  from signed_message_injective [OF this this same] show False by simp
qed

section \<open>Once, and only by the partner\<close>

lemma handle_api_ok:
  assumes "handle_api e now w policy new_id token raw_body signature timestamp (open_session d) = (Inr (u ''ok''), s)"
  obtains c v r where
    "config_by_inbound_token token d = Inr (Some c)"
    "is_fresh timestamp (of_int now / of_int us_per_second) = Inr True"
    "verify_signature w raw_body signature (or_empty (pc_inbound_token c)) timestamp = Inr True"
    "parse_envelope w raw_body = Inr v" "\<not> is_seen (pc_id c) (ev_nonce v) d"
    "get_request (sr_id r) d = Some r" "sr_partner_id r = Some (pc_collaborator_id c)"
    "apply_envelope e now policy new_id c r v (open_session d) = (Inr (), s)"
  using assms
  by (auto simp: handle_api_def bind_h_def get_db_def lift_h_def guard_h_def correlate_def
      load_for_update_def ret_def problem_h_def raise_h_def open_session_def u_def
      dest: get_request_Some split: sum.splits option.splits if_splits prod.splits)

context row_property
begin

lemma keeps_apply_envelope:
  assumes "rows (sr_id r)" shows "keeps I (apply_envelope e now policy new_id c r v)"
  unfolding apply_envelope_def
  by (intro keeps_advances [where r = r, OF advances_option] advances_simple advances_partner_status assms
      keeps_bind keeps_if_h keeps_outside keeps_outside_option outside_audit_add outside_audit_event
      flush_inbound_keeps(1) keeps_ret keeps_commit)

end

lemma envelope_configs: "keeps (\<lambda>d. db_configs d = c0) (apply_envelope e now policy new_id c r v)"
proof -
  have "keeps (\<lambda>d. db_configs d = c0) (mod_db (add_estimate x))"
    "keeps (\<lambda>d. db_configs d = c0) (mod_db (add_message m))"
    "keeps (\<lambda>d. db_configs d = c0) (mod_db (add_event y))" for x m y
    by (intro keeps_mod; simp add: frame_simps add_event_def)+
  note mods = this
  have "keeps (\<lambda>d. db_configs d = c0) (case z of None \<Rightarrow> ret () | Some t \<Rightarrow> mod_db (add_message (m t)))" for z m
    by (cases z) (simp_all add: mods keeps_ret)
  then show ?thesis unfolding apply_envelope_def
    by (intro keeps_advances [where r = r, OF advances_option] advances_simple configs_frame.advances_partner_status
        keeps_bind keeps_if_h mods flush_inbound_keeps(1) keeps_ret keeps_commit TrueI)
qed

lemma envelope_frame:
  assumes "apply_envelope e now policy new_id c r v (open_session d) = (Inr (), s)" "j \<noteq> sr_id r"
  shows "get_request j (se_durable s) = get_request j d" "history_of j (se_durable s) = history_of j d"
proof -
  have "sr_id r \<noteq> j" using assms(2) by simp
  then have k: "triple (both (\<lambda>x. get_request j x = get_request j d)) (apply_envelope e now policy new_id c r v)
      (\<lambda>_. both (\<lambda>x. get_request j x = get_request j d)) (\<lambda>_. both (\<lambda>x. get_request j x = get_request j d))"
    "triple (both (\<lambda>x. history_of j x = history_of j d)) (apply_envelope e now policy new_id c r v)
      (\<lambda>_. both (\<lambda>x. history_of j x = history_of j d)) (\<lambda>_. both (\<lambda>x. history_of j x = history_of j d))"
    using other_rows.keeps_apply_envelope other_trails.keeps_apply_envelope by (simp_all add: keeps_def)
  have start: "both (\<lambda>x. f x = f d) (open_session d)" for f :: "db \<Rightarrow> 'z"
    by (simp add: both_def open_session_def)
  show "get_request j (se_durable s) = get_request j d" "history_of j (se_durable s) = history_of j d"
    using triple_Inr [OF k(1) start assms(1)] triple_Inr [OF k(2) start assms(1)] by (simp_all add: both_def)
qed

lemma envelope_seen:
  "triple (\<lambda>_. True) (apply_envelope e now policy new_id c r v)
     (\<lambda>_ s. is_seen (pc_id c) (ev_nonce v) (se_durable s)) (\<lambda>_ _. True)"
proof -
  note any = triple_True
  have last: "triple (\<lambda>_. True)
      (bind_h (mod_db (add_event \<lparr>ie_channel_config_id = pc_id c, ie_nonce = ev_nonce v,
         ie_request_id = q, ie_received_at = now\<rparr>)) (\<lambda>_. commit_h))
      (\<lambda>_ s. is_seen (pc_id c) (ev_nonce v) (se_durable s)) (\<lambda>_ _. True)" for q
    by (simp add: triple_def bind_h_def mod_db_def commit_h_def commit_def is_seen_def add_event_def)
  show ?thesis unfolding apply_envelope_def
    by (rule triple_bind [OF any], rule triple_bind [OF any], rule triple_bind [OF any], rule triple_bind [OF any], rule last)
qed

text \<open>C22. A message is taken only from the partner it claims to come from: when the webhook answers
  \<open>ok\<close>, the token belonged to a channel, the timestamp was fresh, the signature was the keyed
  hash of timestamp and body under the channel's secret, the nonce was new, and the request is
  assigned to the partner of the channel; no other request changed, and the nonce is taken now.
\<close>

theorem inbound_authenticated:
  assumes "run_endpoint (handle_api e now w policy new_id token raw_body signature timestamp) d
      = (Inr (u ''ok''), d')"
  shows "\<exists>c v r. c \<in> set (db_configs d) \<and> pc_inbound_token c = Some token
     \<and> is_fresh timestamp (of_int now / of_int us_per_second) = Inr True
     \<and> wr_hmac_hex w (utf8_encode token) (signed_message timestamp raw_body) = signature
     \<and> parse_envelope w raw_body = Inr v \<and> \<not> is_seen (pc_id c) (ev_nonce v) d
     \<and> get_request (sr_id r) d = Some r \<and> sr_partner_id r = Some (pc_collaborator_id c)
     \<and> (\<forall>j. j \<noteq> sr_id r \<longrightarrow> get_request j d' = get_request j d \<and> history_of j d' = history_of j d)
     \<and> is_seen (pc_id c) (ev_nonce v) d'"
proof -
  obtain s where s: "handle_api e now w policy new_id token raw_body signature timestamp (open_session d)
      = (Inr (u ''ok''), s)" "d' = se_durable s" using run_endpoint_ok [OF assms] by blast
  from s(1) obtain c v r where *: "config_by_inbound_token token d = Inr (Some c)"
    "is_fresh timestamp (of_int now / of_int us_per_second) = Inr True"
    "verify_signature w raw_body signature (or_empty (pc_inbound_token c)) timestamp = Inr True"
    "parse_envelope w raw_body = Inr v" "\<not> is_seen (pc_id c) (ev_nonce v) d"
    "get_request (sr_id r) d = Some r" "sr_partner_id r = Some (pc_collaborator_id c)"
    "apply_envelope e now policy new_id c r v (open_session d) = (Inr (), s)"
    by (rule handle_api_ok)
  have c: "c \<in> set (db_configs d)" "pc_inbound_token c = Some token"
  proof -
    have "filter (\<lambda>c. pc_inbound_token c = Some token) (db_configs d) = [c]"
      using *(1) by (auto simp: config_by_inbound_token_def split: list.splits)
    then have "c \<in> set (filter (\<lambda>c. pc_inbound_token c = Some token) (db_configs d))" by simp
    then show "c \<in> set (db_configs d)" "pc_inbound_token c = Some token" by simp_all
  qed
  have seen: "is_seen (pc_id c) (ev_nonce v) d'"
    using triple_Inr [OF envelope_seen TrueI *(8)] by (simp add: s(2))
  have sig: "wr_hmac_hex w (utf8_encode token) (signed_message timestamp raw_body) = signature"
    using *(3) c(2) by (simp add: verify_signature_def split: if_splits)
  show ?thesis unfolding s(2)
    by (intro exI [of _ c] exI [of _ v] exI [of _ r] conjI allI impI c sig seen [unfolded s(2)]
        *(2) *(4) *(5) *(6) *(7) envelope_frame [OF *(8)])
qed

text \<open>C23. A message works once: repeating an accepted message, as often and with whatever clock it is
  still fresh, answers \<open>duplicate\<close> and leaves the database as it is.
\<close>

theorem inbound_replay:
  assumes "run_endpoint (handle_api e now w policy new_id token raw_body signature timestamp) d
      = (Inr (u ''ok''), d')"
    and "is_fresh timestamp (of_int now' / of_int us_per_second) = Inr True"
  shows "run_endpoint (handle_api e' now' w policy' new_id' token raw_body signature timestamp) d'
      = (Inr (u ''duplicate''), d')"
proof -
  obtain s where s: "handle_api e now w policy new_id token raw_body signature timestamp (open_session d)
      = (Inr (u ''ok''), s)" "d' = se_durable s" using run_endpoint_ok [OF assms(1)] by blast
  from s(1) obtain c v r where *: "config_by_inbound_token token d = Inr (Some c)"
    "verify_signature w raw_body signature (or_empty (pc_inbound_token c)) timestamp = Inr True"
    "parse_envelope w raw_body = Inr v"
    "apply_envelope e now policy new_id c r v (open_session d) = (Inr (), s)"
    by (rule handle_api_ok)
  have "both (\<lambda>x. db_configs x = db_configs d) s"
    using triple_Inr [OF envelope_configs [unfolded keeps_def] _ *(4)] by (simp add: both_def open_session_def)
  then have "config_by_inbound_token token d' = Inr (Some c)"
    using *(1) by (simp add: config_by_inbound_token_def both_def s(2))
  moreover have "is_seen (pc_id c) (ev_nonce v) d'"
    using triple_Inr [OF envelope_seen TrueI *(4)] by (simp add: s(2))
  ultimately show ?thesis using assms(2) *(2,3)
    by (simp add: run_endpoint_def handle_api_def bind_h_def get_db_def lift_h_def guard_h_def ret_def
        open_session_def)
qed

section \<open>A message to look at\<close>

definition demo_wire :: wire where
  "demo_wire = \<lparr>wr_hmac_hex = (\<lambda>k m. u ''c0ffee''),
     wr_loads = (\<lambda>_. Some (JObj [(u ''request_ref'', JStr (uuid_str 10)), (u ''nonce'', JStr (u ''n1'')),
       (u ''estimate_note'', JStr (u ''two days''))])),
     wr_decimal = (\<lambda>_. None)\<rparr>"

definition demo_inbound :: "db \<Rightarrow> (exn + pystr) \<times> db" where
  "demo_inbound d = run_endpoint (handle_api demo_env 0 demo_wire demo_policy 7 (u ''secret'') [] (u ''c0ffee'')
     (u ''120'')) d"

definition demo_assigned :: db where
  "demo_assigned = demo_db [demo_request 10 1 S_DISPATCHED] [demo_channel 5 ''p1'' CT_API]"

lemma demo_inbound_ok: "demo_inbound demo_assigned = (Inr (u ''ok''), snd (demo_inbound demo_assigned))"
proof -
  have "fst (demo_inbound demo_assigned) = Inr (u ''ok'')" by code_simp
  then show ?thesis by (metis prod.collapse)
qed

lemma inbound_authenticated_witness:
  "\<exists>c v r. c \<in> set (db_configs demo_assigned) \<and> parse_envelope demo_wire [] = Inr v
     \<and> sr_partner_id r = Some (pc_collaborator_id c) \<and> get_request (sr_id r) demo_assigned = Some r
     \<and> is_seen (pc_id c) (ev_nonce v) (snd (demo_inbound demo_assigned))"
  using inbound_authenticated [OF demo_inbound_ok [unfolded demo_inbound_def]]
  unfolding demo_inbound_def by blast

lemma inbound_replay_witness:
  "demo_inbound (snd (demo_inbound demo_assigned)) = (Inr (u ''duplicate''), snd (demo_inbound demo_assigned))"
proof -
  have "is_fresh (u ''120'') (of_int 0 / of_int us_per_second) = Inr True" by code_simp
  from inbound_replay [OF demo_inbound_ok [unfolded demo_inbound_def] this] show ?thesis
    unfolding demo_inbound_def .
qed

end
