(* ===== verification/Neighbours.thy ===== *)
theory Neighbours
  imports Resilience Requests Acceptance Matching Inbound
begin

text \<open>
  The HTTP clients of the neighbours behind their interfaces: tokens (\<open>clients/auth.py\<close>,
  \<open>clients/oauth.py\<close>), the registry of partners (\<open>clients/platform/adapter.py\<close>), files
  (\<open>clients/files/adapter.py\<close>), the payment contour (\<open>clients/rehome/adapter.py\<close>) and claims
  (\<open>clients/support/adapter.py\<close>). \<open>http\<close> is the answer of the resilient client to one request.
  A field the code copies from JSON without a conversion keeps its JSON value.
\<close>

section \<open>Requests\<close>

record http_call =
  hq_method :: pystr
  hq_url :: pystr
  hq_operation :: pystr
  hq_headers :: "(pystr \<times> pystr) list"
  hq_params :: "(pystr \<times> pystr) list"
  hq_json :: "json option"
  hq_content :: "nat list option"

type_synonym http = "http_call \<Rightarrow> exn + response"

definition bearer :: "pystr \<Rightarrow> pystr \<times> pystr" where
  "bearer token = (u ''Authorization'', u ''Bearer '' @ token)"

text \<open>The pattern of every adapter: an unreachable neighbour and a refusal are no answer.\<close>

definition answered :: "http \<Rightarrow> http_call \<Rightarrow> exn + response option" where
  "answered http q = (case http q of
       Inl (ExternalServiceError _) \<Rightarrow> Inr None
     | Inl x \<Rightarrow> Inl x
     | Inr r \<Rightarrow> if hr_status r \<ge> 400 then Inr None else Inr (Some r))"

text \<open>\<open>response.json()\<close> read as a dict under \<open>except (ValueError, KeyError, TypeError)\<close>.\<close>

definition body_dict :: "response \<Rightarrow> jdict option" where
  "body_dict r = (case hr_body r of Some (JObj d) \<Rightarrow> Some d | _ \<Rightarrow> None)"

definition reply_of :: "exn + response option \<Rightarrow> (jdict \<Rightarrow> 'a option) \<Rightarrow> exn + 'a option" where
  "reply_of answer f = bindE answer (\<lambda>z. Inr (Option.bind z (\<lambda>r. Option.bind (body_dict r) f)))"

definition key_or_null :: "jdict \<Rightarrow> pystr \<Rightarrow> json" where
  "key_or_null d k = (case dict_get d k of None \<Rightarrow> JNull | Some v \<Rightarrow> v)"

section \<open>Tokens\<close>

record token_cache =
  tk_cached :: "pystr option"
  tk_expires_at :: rat

definition expiry_skew :: rat where "expiry_skew = 30"

text \<open>\<open>_post_token\<close>: \<open>post\<close> is the answer of the token endpoint.\<close>

definition post_token :: "http_failure + response \<Rightarrow> exn + jdict" where
  "post_token post =
     (let bad = (\<lambda>t. Inl (ExternalServiceError (external_error (u ''keycloak'') (u ''token'') t)))
      in case post of
           Inl (Transport_error name) \<Rightarrow> bad name
         | Inl (Server_error n) \<Rightarrow> bad (u ''status='' @ dec_str n)
         | Inl (Unexpected x) \<Rightarrow> Inl x
         | Inr r \<Rightarrow>
             if hr_status r \<ge> 400 then bad (u ''status='' @ dec_str (hr_status r))
             else (case hr_body r of
                 None \<Rightarrow> bad (u ''malformed JSON'')
               | Some (JObj d) \<Rightarrow> if dict_get d (u ''access_token'') = None
                   then bad (u ''no access_token'') else Inr d
               | Some (JStr s) \<Rightarrow> if contains_sub (u ''access_token'') s then Inl TypeError
                   else bad (u ''no access_token'')
               | Some (JArr xs) \<Rightarrow> if JStr (u ''access_token'') \<in> set xs then Inl TypeError
                   else bad (u ''no access_token'')
               | Some _ \<Rightarrow> Inl TypeError))"

text \<open>\<open>float(expires_in)\<close>; \<open>float_of\<close> is the conversion of a string.\<close>

definition token_ttl :: "(pystr \<Rightarrow> exn + rat) \<Rightarrow> jdict \<Rightarrow> exn + rat" where
  "token_ttl float_of d = (case dict_get d (u ''expires_in'') of
       None \<Rightarrow> Inr 60
     | Some (JInt n) \<Rightarrow> if \<bar>n\<bar> \<ge> float_limit
         then Inl (OtherError (u ''OverflowError'') (u ''int too large to convert to float'')) else Inr (of_int n)
     | Some (JNum q) \<Rightarrow> Inr q
     | Some (JBool b) \<Rightarrow> Inr (if b then 1 else 0)
     | Some (JStr s) \<Rightarrow> float_of s
     | Some _ \<Rightarrow> Inr 60)"

definition get_token ::
    "pyrt \<Rightarrow> (pystr \<Rightarrow> exn + rat) \<Rightarrow> rat \<Rightarrow> rat \<Rightarrow> http_failure + response \<Rightarrow> token_cache
     \<Rightarrow> (exn + pystr) \<times> token_cache" where
  "get_token rt float_of now later post c =
     (if tk_cached c \<noteq> None \<and> now < tk_expires_at c then (Inr (the (tk_cached c)), c)
      else (case post_token post of
          Inl x \<Rightarrow> (Inl x, c)
        | Inr d \<Rightarrow>
            (let token = py_str rt (key_or_null d (u ''access_token''));
                 c1 = c\<lparr>tk_cached := Some token\<rparr>
             in case token_ttl float_of d of
                  Inl x \<Rightarrow> (Inl x, c1)
                | Inr ttl \<Rightarrow> (Inr token, c1\<lparr>tk_expires_at := later + max 0 (ttl - expiry_skew)\<rparr>))))"

definition exchange_data :: "settings \<Rightarrow> pystr \<Rightarrow> pystr option \<Rightarrow> (pystr \<times> pystr) list" where
  "exchange_data st subject_token requested_subject =
     [(u ''grant_type'', u ''urn:ietf:params:oauth:grant-type:token-exchange''),
      (u ''client_id'', st_oauth_client_id st), (u ''client_secret'', st_oauth_client_secret st),
      (u ''subject_token'', subject_token),
      (u ''subject_token_type'', u ''urn:ietf:params:oauth:token-type:access_token'')]
     @ (case requested_subject of None \<Rightarrow> [] | Some s \<Rightarrow> [(u ''requested_subject'', s)])"

definition exchange ::
    "pyrt \<Rightarrow> settings \<Rightarrow> ((pystr \<times> pystr) list \<Rightarrow> http_failure + response) \<Rightarrow> pystr \<Rightarrow> pystr option \<Rightarrow> exn + pystr" where
  "exchange rt st post subject_token requested_subject =
     bindE (post_token (post (exchange_data st subject_token requested_subject))) (\<lambda>d.
     Inr (py_str rt (key_or_null d (u ''access_token''))))"

datatype token_provider = Client_credentials | Static_token pystr

definition build_token_provider :: "settings \<Rightarrow> pystr \<Rightarrow> token_provider" where
  "build_token_provider st fallback =
     (if st_oauth_token_url st \<noteq> [] \<and> st_oauth_client_id st \<noteq> [] \<and> st_oauth_client_secret st \<noteq> []
      then Client_credentials else Static_token fallback)"

section \<open>The registry of partners\<close>

record raw_candidate =
  rw_id :: pystr
  rw_name :: json
  rw_category :: json
  rw_is_active :: bool
  rw_available :: bool
  rw_rating :: json
  rw_service_areas :: "json list"
  rw_channels :: "json list"

definition json_tuple :: "json option \<Rightarrow> exn + json list" where
  "json_tuple v = (case v of
       None \<Rightarrow> Inr []
     | Some (JArr xs) \<Rightarrow> Inr xs
     | Some (JStr s) \<Rightarrow> Inr (map (\<lambda>c. JStr [c]) s)
     | Some (JObj d) \<Rightarrow> Inr (map (\<lambda>(k, _). JStr k) d)
     | Some _ \<Rightarrow> Inl TypeError)"

definition json_flag :: "jdict \<Rightarrow> pystr \<Rightarrow> bool" where
  "json_flag d k = (case dict_get d k of None \<Rightarrow> False | Some v \<Rightarrow> json_truthy v)"

definition map_candidate :: "pyrt \<Rightarrow> json \<Rightarrow> exn + raw_candidate" where
  "map_candidate rt item = (case item of
       JObj d \<Rightarrow>
         (case (dict_get d (u ''id''), dict_get d (u ''name''), dict_get d (u ''category'')) of
            (Some i, Some name, Some category) \<Rightarrow>
              bindE (json_tuple (dict_get d (u ''service_areas''))) (\<lambda>areas.
              bindE (json_tuple (dict_get d (u ''channels''))) (\<lambda>channels.
              Inr \<lparr>rw_id = py_str rt i, rw_name = name, rw_category = category,
                rw_is_active = json_flag d (u ''is_active''), rw_available = json_flag d (u ''available''),
                rw_rating = key_or_null d (u ''rating''), rw_service_areas = areas, rw_channels = channels\<rparr>))
          | _ \<Rightarrow> Inl KeyError)
     | _ \<Rightarrow> Inl TypeError)"

definition candidates_key :: "pystr \<Rightarrow> pystr option \<Rightarrow> pystr" where
  "candidates_key category area = u ''platform:candidates:'' @ category @ u '':''
     @ (if truthy area then or_empty area else u ''*'')"

definition candidates_call :: "pystr \<Rightarrow> pystr \<Rightarrow> pystr option \<Rightarrow> http_call" where
  "candidates_call token category area = \<lparr>hq_method = u ''GET'', hq_url = u ''/api/v1/collaborators'',
     hq_operation = u ''search_candidates'', hq_headers = [bearer token],
     hq_params = [(u ''category'', category), (u ''group'', u ''B'')]
       @ (case area of None \<Rightarrow> [] | Some a \<Rightarrow> [(u ''service_area'', a)]),
     hq_json = None, hq_content = None\<rparr>"

text \<open>Iterating the decoded cache entry: a list of items, anything else as Python iterates it.\<close>

definition json_items :: "json \<Rightarrow> exn + json list" where
  "json_items j = json_tuple (Some j)"

definition fetch_candidates ::
    "json_text \<Rightarrow> 'c cache_ops \<Rightarrow> http \<Rightarrow> exn + pystr \<Rightarrow> int \<Rightarrow> rat \<Rightarrow> pystr \<Rightarrow> pystr option \<Rightarrow> 'c
     \<Rightarrow> (exn + json option) \<times> 'c" where
  "fetch_candidates jt ops http token ttl now category area c =
     (let key = candidates_key category area; (cached, c1) = ca_get ops now key c
      in case cached of
           Some text \<Rightarrow> (bindE (jt_loads jt text) (\<lambda>j. Inr (Some j)), c1)
         | None \<Rightarrow> (case token of
             Inl x \<Rightarrow> (Inl x, c1)
           | Inr t \<Rightarrow> (case answered http (candidates_call t category area) of
               Inl x \<Rightarrow> (Inl x, c1)
             | Inr None \<Rightarrow> (Inr None, c1)
             | Inr (Some r) \<Rightarrow> (case hr_body r of
                 Some (JArr xs) \<Rightarrow> (Inr (Some (JArr xs)), ca_set ops now key (jt_dumps jt (JArr xs)) ttl c1)
               | _ \<Rightarrow> (Inr None, c1)))))"

definition search_candidates ::
    "pyrt \<Rightarrow> json_text \<Rightarrow> 'c cache_ops \<Rightarrow> http \<Rightarrow> exn + pystr \<Rightarrow> int \<Rightarrow> rat \<Rightarrow> pystr \<Rightarrow> pystr option \<Rightarrow> 'c
     \<Rightarrow> (exn + raw_candidate list) \<times> 'c" where
  "search_candidates rt jt ops http token ttl now category area c =
     (case fetch_candidates jt ops http token ttl now category area c of
        (Inl x, c1) \<Rightarrow> (Inl x, c1)
      | (Inr None, c1) \<Rightarrow> (Inr [], c1)
      | (Inr (Some j), c1) \<Rightarrow> (bindE (json_items j) (\<lambda>items. Inr (List.map_filter
          (\<lambda>item. case map_candidate rt item of Inl _ \<Rightarrow> None | Inr k \<Rightarrow> Some k) items)), c1))"

text \<open>A candidate of the contract's types, as the ranking reads it.\<close>

definition json_texts :: "json list \<Rightarrow> pystr list option" where
  "json_texts xs = those (map (\<lambda>j. case j of JStr s \<Rightarrow> Some s | _ \<Rightarrow> None) xs)"

definition typed_candidate :: "raw_candidate \<Rightarrow> candidate option" where
  "typed_candidate w =
     (case (rw_name w, rw_category w, json_texts (rw_service_areas w), json_texts (rw_channels w),
            (case rw_rating w of JNull \<Rightarrow> Some None | JInt n \<Rightarrow> Some (Some (of_int n))
               | JNum q \<Rightarrow> Some (Some q) | _ \<Rightarrow> None)) of
        (JStr name, JStr category, Some areas, Some channels, Some rating) \<Rightarrow>
          Some \<lparr>cd_id = rw_id w, cd_name = name, cd_category = category, cd_is_active = rw_is_active w,
            cd_available = rw_available w, cd_rating = rating, cd_service_areas = areas, cd_channels = channels\<rparr>
      | _ \<Rightarrow> None)"

definition truthy_text :: "pyrt \<Rightarrow> json \<Rightarrow> pystr option" where
  "truthy_text rt j = (if json_truthy j then Some (py_str rt j) else None)"

definition get_partner_contact ::
    "pyrt \<Rightarrow> http \<Rightarrow> exn + pystr \<Rightarrow> pystr \<Rightarrow> exn + partner_contact option" where
  "get_partner_contact rt http token partner_id =
     bindE token (\<lambda>t.
     bindE (answered http \<lparr>hq_method = u ''GET'',
         hq_url = u ''/api/v1/collaborators/'' @ partner_id @ u ''/contact'',
         hq_operation = u ''get_partner_contact'', hq_headers = [bearer t], hq_params = [], hq_json = None, hq_content = None\<rparr>) (\<lambda>z.
     case z of
       None \<Rightarrow> Inr None
     | Some r \<Rightarrow> (case hr_body r of
         None \<Rightarrow> Inr None
       | Some (JObj d) \<Rightarrow> Inr (Some \<lparr>ct_phone = truthy_text rt (key_or_null d (u ''phone'')),
           ct_email = truthy_text rt (key_or_null d (u ''email''))\<rparr>)
       | Some _ \<Rightarrow> Inl AttributeError)))"

definition create_service_order ::
    "pyrt \<Rightarrow> http \<Rightarrow> exn + pystr \<Rightarrow> pystr \<Rightarrow> pystr \<Rightarrow> pystr \<Rightarrow> pystr \<Rightarrow> exn + service_order_ref option" where
  "create_service_order rt http token request_id partner_id category key =
     bindE token (\<lambda>t. reply_of (answered http \<lparr>hq_method = u ''POST'',
         hq_url = u ''/api/v1/service-orders'', hq_operation = u ''create_service_order'',
         hq_headers = [bearer t, (u ''Idempotency-Key'', key)], hq_params = [],
         hq_json = Some (JObj [(u ''request_id'', JStr request_id), (u ''partner_id'', JStr partner_id),
           (u ''category'', JStr category)]), hq_content = None\<rparr>)
       (\<lambda>d. case (dict_get d (u ''id''), dict_get d (u ''status'')) of
          (Some i, Some s) \<Rightarrow> Some \<lparr>so_id = py_str rt i, so_status = py_str rt s\<rparr> | _ \<Rightarrow> None))"

section \<open>Files\<close>

text \<open>\<open>int(v)\<close> of a JSON value; \<open>None\<close> is a \<open>ValueError\<close> or a \<open>TypeError\<close>.\<close>

definition json_to_int :: "json \<Rightarrow> int option" where
  "json_to_int j = (case j of
       JInt n \<Rightarrow> Some n
     | JBool b \<Rightarrow> Some (if b then 1 else 0)
     | JNum q \<Rightarrow> Some (if q \<ge> 0 then \<lfloor>q\<rfloor> else - \<lfloor>- q\<rfloor>)
     | JStr s \<Rightarrow> parse_int s
     | _ \<Rightarrow> None)"

definition get_metadata :: "pyrt \<Rightarrow> http \<Rightarrow> exn + pystr \<Rightarrow> pystr \<Rightarrow> exn + file_metadata option" where
  "get_metadata rt http token file_id =
     (case token of
        Inl (ExternalServiceError _) \<Rightarrow> Inr None
      | Inl x \<Rightarrow> Inl x
      | Inr t \<Rightarrow> reply_of (answered http \<lparr>hq_method = u ''GET'', hq_url = u ''/api/v1/files/'' @ file_id,
            hq_operation = u ''get_metadata'', hq_headers = [bearer t], hq_params = [], hq_json = None, hq_content = None\<rparr>)
          (\<lambda>d. case (dict_get d (u ''id''), dict_get d (u ''owner_scope''), dict_get d (u ''content_type''),
                Option.bind (dict_get d (u ''size_bytes'')) json_to_int) of
             (Some _, Some scope, Some ctype, Some nbytes) \<Rightarrow> Some \<lparr>fm_owner_scope = py_str rt scope,
               fm_content_type = JStr (py_str rt ctype),
               fm_filename = (case key_or_null d (u ''filename'') of JNull \<Rightarrow> JNull | v \<Rightarrow> JStr (py_str rt v)),
               fm_size_bytes = JInt nbytes\<rparr>
           | _ \<Rightarrow> None))"

definition get_download_url :: "pyrt \<Rightarrow> http \<Rightarrow> exn + pystr \<Rightarrow> pystr \<Rightarrow> exn + (pystr \<times> int) option" where
  "get_download_url rt http token file_id =
     (case token of
        Inl (ExternalServiceError _) \<Rightarrow> Inr None
      | Inl x \<Rightarrow> Inl x
      | Inr t \<Rightarrow> reply_of (answered http \<lparr>hq_method = u ''GET'',
            hq_url = u ''/api/v1/files/'' @ file_id @ u ''/download-url'',
            hq_operation = u ''get_download_url'', hq_headers = [bearer t], hq_params = [], hq_json = None, hq_content = None\<rparr>)
          (\<lambda>d. case (dict_get d (u ''url''), Option.bind (dict_get d (u ''expires_in_seconds'')) json_to_int) of
             (Some url, Some n) \<Rightarrow> Some (py_str rt url, n) | _ \<Rightarrow> None))"

section \<open>The payment contour and the claims\<close>

record raw_settlement =
  rs_status :: pystr
  rs_amount_ref :: json
  rs_escrow_ref :: json

definition trigger_settlement ::
    "pyrt \<Rightarrow> http \<Rightarrow> exn + pystr \<Rightarrow> pystr \<Rightarrow> pystr option \<Rightarrow> pystr \<Rightarrow> exn + raw_settlement option" where
  "trigger_settlement rt http token request_id service_order_id key =
     bindE token (\<lambda>t. reply_of (answered http \<lparr>hq_method = u ''POST'', hq_url = u ''/api/v1/settlements'',
         hq_operation = u ''trigger_settlement'', hq_headers = [bearer t, (u ''Idempotency-Key'', key)],
         hq_params = [], hq_json = Some (JObj [(u ''request_id'', JStr request_id),
           (u ''service_order_id'', opt_json service_order_id)]), hq_content = None\<rparr>)
       (\<lambda>d. case dict_get d (u ''status'') of
          None \<Rightarrow> None
        | Some s \<Rightarrow> Some \<lparr>rs_status = py_str rt s, rs_amount_ref = key_or_null d (u ''amount_ref''),
            rs_escrow_ref = key_or_null d (u ''escrow_ref'')\<rparr>))"

record raw_context =
  rx_display_name :: json
  rx_phone :: json
  rx_user_email :: json
  rx_premises_address :: json
  rx_booking_status :: json

definition fetch_requester_context ::
    "http \<Rightarrow> exn + pystr \<Rightarrow> pystr \<Rightarrow> pystr option \<Rightarrow> pystr option \<Rightarrow> exn + raw_context option" where
  "fetch_requester_context http token requester_id premises_id booking_id =
     bindE token (\<lambda>t.
     bindE (answered http \<lparr>hq_method = u ''GET'', hq_url = u ''/api/v1/context'',
         hq_operation = u ''get_context'', hq_headers = [bearer t],
         hq_params = [(u ''requester_id'', requester_id)]
           @ (case premises_id of None \<Rightarrow> [] | Some x \<Rightarrow> [(u ''premises_id'', x)])
           @ (case booking_id of None \<Rightarrow> [] | Some x \<Rightarrow> [(u ''booking_id'', x)]),
         hq_json = None, hq_content = None\<rparr>) (\<lambda>z.
     case z of
       None \<Rightarrow> Inr None
     | Some r \<Rightarrow> (case hr_body r of
         None \<Rightarrow> Inr None
       | Some (JObj d) \<Rightarrow> Inr (Some \<lparr>rx_display_name = key_or_null d (u ''user_display_name''),
           rx_phone = key_or_null d (u ''user_phone''), rx_user_email = key_or_null d (u ''user_email''),
           rx_premises_address = key_or_null d (u ''premises_address''),
           rx_booking_status = key_or_null d (u ''booking_status'')\<rparr>)
       | Some _ \<Rightarrow> Inl AttributeError)))"

definition create_compensation_claim ::
    "pyrt \<Rightarrow> http \<Rightarrow> exn + pystr \<Rightarrow> pystr \<Rightarrow> pystr \<Rightarrow> pystr \<Rightarrow> pystr \<Rightarrow> exn + claim_ref option" where
  "create_compensation_claim rt http token request_id requester_id reason key =
     bindE token (\<lambda>t. reply_of (answered http \<lparr>hq_method = u ''POST'', hq_url = u ''/api/v1/claims'',
         hq_operation = u ''create_claim'', hq_headers = [bearer t, (u ''Idempotency-Key'', key)],
         hq_params = [], hq_json = Some (JObj [(u ''kind'', JStr (u ''COMPENSATION'')),
           (u ''source'', JStr (u ''kb-partners'')), (u ''request_id'', JStr request_id),
           (u ''requester_id'', JStr requester_id), (u ''reason'', JStr reason)]), hq_content = None\<rparr>)
       (\<lambda>d. case (dict_get d (u ''id''), dict_get d (u ''status'')) of
          (Some i, Some s) \<Rightarrow> Some \<lparr>cf_id = py_str rt i, cf_status = py_str rt s\<rparr> | _ \<Rightarrow> None))"

section \<open>Degradation\<close>

lemma answered_down:
  "(case http q of Inl x \<Rightarrow> is_external x | Inr r \<Rightarrow> 400 \<le> hr_status r) \<Longrightarrow> answered http q = Inr None"
  by (cases "http q") (auto simp: answered_def is_external_def split: exn.splits)

text \<open>A neighbour that is down or refuses never stops an operation: whatever mixture of transport
  errors, open breakers and refusals it answers with, every client gives its empty answer, and
  the cache of the registry is left alone.
\<close>

theorem neighbours_degrade:
  assumes "\<And>q. (case http q of Inl x \<Rightarrow> is_external x | Inr r \<Rightarrow> 400 \<le> hr_status r)"
  shows "get_partner_contact rt http (Inr t) partner = Inr None
    \<and> create_service_order rt http (Inr t) i partner category key = Inr None
    \<and> get_metadata rt http (Inr t) f = Inr None \<and> get_download_url rt http (Inr t) f = Inr None
    \<and> trigger_settlement rt http (Inr t) i order key = Inr None
    \<and> fetch_requester_context http (Inr t) requester premises booking = Inr None
    \<and> create_compensation_claim rt http (Inr t) i requester reason key = Inr None
    \<and> (fst (ca_get ops now (candidates_key category area) c) = None
        \<longrightarrow> search_candidates rt jt ops http (Inr t) ttl now category area c
            = (Inr [], snd (ca_get ops now (candidates_key category area) c)))"
proof -
  have "answered http q = Inr None" for q
    using answered_down assms by blast
  then show ?thesis
    by (cases "ca_get ops now (candidates_key category area) c")
      (simp add: get_partner_contact_def create_service_order_def get_metadata_def get_download_url_def
        trigger_settlement_def fetch_requester_context_def create_compensation_claim_def reply_of_def
        search_candidates_def fetch_candidates_def)
qed

definition demo_down :: http where
  "demo_down q = (if hq_method q = u ''GET'' then Inr \<lparr>hr_status = 404, hr_body = None\<rparr>
     else Inl (ExternalServiceError (circuit_open_error (u ''platform'') (hq_operation q))))"

lemma neighbours_degrade_witness:
  "search_candidates demo_rt demo_jt mem_ops demo_down (Inr []) 60 0 (u ''REPAIR'') None [] = (Inr [], [])"
proof -
  have "case demo_down q of Inl x \<Rightarrow> is_external x | Inr r \<Rightarrow> 400 \<le> hr_status r" for q
    by (simp add: demo_down_def is_external_def)
  from neighbours_degrade [OF this, where rt = demo_rt and ops = mem_ops and c = "[]" and jt = demo_jt
      and t = "[]" and now = 0 and ttl = 60 and category = "u ''REPAIR''" and area = None]
  show ?thesis by (simp add: mem_ops_def mem_get_def)
qed

text \<open>Except for one shape of answer: a context or a contact that is JSON but not an object escapes
  the degradation and comes out of the client as an \<open>AttributeError\<close>.
\<close>

theorem context_array_raises:
  assumes "\<And>q. http q = Inr \<lparr>hr_status = 200, hr_body = Some (JArr xs)\<rparr>"
  shows "fetch_requester_context http (Inr t) requester premises booking = Inl AttributeError
    \<and> get_partner_contact rt http (Inr t) partner = Inl AttributeError
    \<and> trigger_settlement rt http (Inr t) i order key = Inr None"
  using assms
  by (simp add: fetch_requester_context_def get_partner_contact_def trigger_settlement_def answered_def
      reply_of_def body_dict_def)

lemma context_array_raises_witness:
  "fetch_requester_context (\<lambda>_. Inr \<lparr>hr_status = 200, hr_body = Some (JArr [])\<rparr>) (Inr []) [] None None
   = Inl AttributeError"
  using context_array_raises [where http = "\<lambda>_. Inr \<lparr>hr_status = 200, hr_body = Some (JArr [])\<rparr>" and xs = "[]"]
  by blast

section \<open>The cached registry\<close>

context read_cache
begin

lemma search_twice:
  assumes "search_candidates rt jt ops http token ttl now category area c = (Inr found, c1)"
    and "fst (get now (candidates_key category area) c) = None"
    and "\<And>q r. answered http q = Inr r \<Longrightarrow> \<exists>x xs. r = Some x \<and> hr_body x = Some (JArr xs)
          \<and> jt_loads jt (jt_dumps jt (JArr xs)) = Inr (JArr xs)"
    and "now' < now + of_int ttl"
  shows "search_candidates rt jt ops http' token' ttl' now' category area c1 = (Inr found, c1)"
proof -
  obtain c0 where c0: "get now (candidates_key category area) c = (None, c0)"
    using assms(2) by (metis prod.collapse)
  obtain t where t: "token = Inr t"
    using assms(1) c0 by (cases token) (simp_all add: search_candidates_def fetch_candidates_def ops_def)
  obtain r where r: "answered http (candidates_call t category area) = Inr r"
    using assms(1) c0 t by (cases "answered http (candidates_call t category area)")
      (simp_all add: search_candidates_def fetch_candidates_def ops_def)
  obtain x xs where x: "r = Some x" "hr_body x = Some (JArr xs)" "jt_loads jt (jt_dumps jt (JArr xs)) = Inr (JArr xs)"
    using assms(3) [OF r] by blast
  have "found = List.map_filter (\<lambda>item. case map_candidate rt item of Inl _ \<Rightarrow> None | Inr k \<Rightarrow> Some k) xs"
    "c1 = set now (candidates_key category area) (jt_dumps jt (JArr xs)) ttl c0"
    using assms(1) c0 t r x
    by (auto simp: search_candidates_def fetch_candidates_def ops_def json_items_def json_tuple_def)
  then show ?thesis
    using get_set [OF assms(4)] x
    by (simp add: search_candidates_def fetch_candidates_def ops_def json_items_def json_tuple_def)
qed

end

text \<open>Within its time to live an answer of the registry is reused as it is: the same category and
  area give the same candidates, in the same order, whatever the registry or the token endpoint
  would answer meanwhile.
\<close>

theorem registry_cached:
  assumes "search_candidates rt jt mem_ops http token ttl now category area c = (Inr found, c1)"
    and "fst (mem_get now (candidates_key category area) c) = None"
    and "\<And>q r. answered http q = Inr r \<Longrightarrow> \<exists>x xs. r = Some x \<and> hr_body x = Some (JArr xs)
          \<and> jt_loads jt (jt_dumps jt (JArr xs)) = Inr (JArr xs)"
    and "now' < now + of_int ttl"
  shows "search_candidates rt jt mem_ops http' token' ttl' now' category area c1 = (Inr found, c1)"
  by (rule mem.search_twice [unfolded mem_ops_eq, OF assms])

definition empty_jt :: json_text where
  "empty_jt = \<lparr>jt_loads = (\<lambda>s. if s = u ''[]'' then Inr (JArr []) else Inl (ValueError [])), jt_dumps = (\<lambda>_. u ''[]'')\<rparr>"

lemma registry_cached_witness:
  "fst (search_candidates demo_rt empty_jt mem_ops demo_down (Inl TypeError) 60 59 (u ''REPAIR'') None
     (snd (search_candidates demo_rt empty_jt mem_ops (\<lambda>_. Inr \<lparr>hr_status = 200, hr_body = Some (JArr [])\<rparr>)
        (Inr []) 60 0 (u ''REPAIR'') None []))) = Inr []"
proof -
  let ?http = "\<lambda>_ :: http_call. Inr \<lparr>hr_status = 200, hr_body = Some (JArr [])\<rparr> :: exn + response"
  obtain c1 where first: "search_candidates demo_rt empty_jt mem_ops ?http (Inr []) 60 0 (u ''REPAIR'') None [] = (Inr [], c1)"
    by (simp add: search_candidates_def fetch_candidates_def mem_ops_def mem_get_def answered_def
        json_items_def json_tuple_def map_filter_simps)
  have "search_candidates demo_rt empty_jt mem_ops demo_down (Inl TypeError) 60 59 (u ''REPAIR'') None c1 = (Inr [], c1)"
    by (rule registry_cached [OF first]) (auto simp: mem_get_def answered_def empty_jt_def)
  then show ?thesis using first by simp
qed

end
