(* ===== verification/Adapters.thy ===== *)
theory Adapters
  imports Neighbours Demo
begin

text \<open>
  The delivery channels (\<open>channels/adapters\<close>) behind the resolver of \<open>channels/resolver.py\<close>: mock,
  partner API, messenger bots, mail and the three CRMs. \<open>http\<close> is the answer of the channel's
  resilient client, \<open>smtp\<close> the outcome of the blocking mail sender. A value of the channel's
  configuration is read with \<open>str(...)\<close> as in the code.
\<close>

section \<open>Mail\<close>

text \<open>\<open>Smtp_failed\<close> is an \<open>SMTPException\<close> or an \<open>OSError\<close>, with the name of its class.\<close>

datatype smtp_result = Smtp_sent | Smtp_failed pystr | Smtp_raised exn

record mail =
  ml_from :: pystr
  ml_to :: pystr
  ml_subject :: pystr
  ml_text :: pystr

text \<open>A header value of more than one line is refused by \<open>EmailMessage\<close>.\<close>

definition line_break :: "nat \<Rightarrow> bool" where
  "line_break c \<longleftrightarrow> c \<in> {10, 11, 12, 13, 28, 29, 30, 133, 8232, 8233}"

definition multi_line :: "pystr \<Rightarrow> bool" where
  "multi_line s = (case dropWhile (\<lambda>c. \<not> line_break c) s of
       [] \<Rightarrow> False
     | c # rest \<Rightarrow> (case rest of [] \<Rightarrow> False | c' # rest' \<Rightarrow> \<not> (c = 13 \<and> c' = 10 \<and> rest' = [])))"

definition make_mail :: "pystr \<Rightarrow> pystr \<Rightarrow> pystr \<Rightarrow> pystr \<Rightarrow> exn + mail" where
  "make_mail sender to subject text =
     (if multi_line sender \<or> multi_line to \<or> multi_line subject
      then Inl (ValueError (u ''Header values may not contain linefeed or carriage return characters''))
      else Inr \<lparr>ml_from = sender, ml_to = to, ml_subject = subject, ml_text = text\<rparr>)"

section \<open>Results\<close>

definition failed_with :: "pystr \<Rightarrow> delivery_result" where
  "failed_with e = \<lparr>dr_outcome = DO_FAILED, dr_provider_response = [(u ''error'', JStr e)], dr_external_ref = None\<rparr>"

definition delivered_by :: "http \<Rightarrow> http_call \<Rightarrow> (response \<Rightarrow> pystr option) \<Rightarrow> exn + delivery_result" where
  "delivered_by http q ref_of = (case http q of
       Inl (ExternalServiceError e) \<Rightarrow> Inr (failed_with (exn_name (ExternalServiceError e)))
     | Inl x \<Rightarrow> Inl x
     | Inr r \<Rightarrow> Inr (if hr_status r \<ge> 400
         then \<lparr>dr_outcome = DO_FAILED, dr_provider_response = [(u ''status'', JInt (hr_status r))],
               dr_external_ref = None\<rparr>
         else \<lparr>dr_outcome = DO_SENT, dr_provider_response = [(u ''status'', JInt (hr_status r))],
               dr_external_ref = ref_of r\<rparr>))"

definition healthy :: health_report where
  "healthy = \<lparr>hl_status = HS_HEALTHY, hl_detail = None\<rparr>"

definition unhealthy :: "pystr \<Rightarrow> health_report" where
  "unhealthy t = \<lparr>hl_status = HS_UNHEALTHY, hl_detail = Some t\<rparr>"

definition probed_by :: "http \<Rightarrow> http_call \<Rightarrow> exn + health_report" where
  "probed_by http q = (case http q of
       Inl (ExternalServiceError _) \<Rightarrow> Inr (unhealthy (u ''unreachable''))
     | Inl x \<Rightarrow> Inl x
     | Inr r \<Rightarrow> Inr (if hr_status r \<ge> 400
         then \<lparr>hl_status = HS_DEGRADED, hl_detail = Some (u ''status='' @ dec_str (hr_status r))\<rparr> else healthy))"

definition conf_text :: "pyrt \<Rightarrow> jdict \<Rightarrow> pystr \<Rightarrow> pystr \<Rightarrow> pystr" where
  "conf_text rt config k fallback = (case dict_get config k of None \<Rightarrow> fallback | Some v \<Rightarrow> py_str rt v)"

definition post_json :: "pystr \<Rightarrow> (pystr \<times> pystr) list \<Rightarrow> json \<Rightarrow> http_call" where
  "post_json url headers body = \<lparr>hq_method = u ''POST'', hq_url = url, hq_operation = u ''deliver'',
     hq_headers = headers, hq_params = [], hq_json = Some body, hq_content = None\<rparr>"

definition get_probe :: "pystr \<Rightarrow> (pystr \<times> pystr) list \<Rightarrow> http_call" where
  "get_probe url headers = \<lparr>hq_method = u ''GET'', hq_url = url, hq_operation = u ''healthcheck'',
     hq_headers = headers, hq_params = [], hq_json = None, hq_content = None\<rparr>"

text \<open>Bodies of the responses: the reference some channels keep.\<close>

definition ref_field :: "pyrt \<Rightarrow> pystr \<Rightarrow> response \<Rightarrow> pystr option" where
  "ref_field rt k r = (case hr_body r of
       Some (JObj d) \<Rightarrow> (case key_or_null d k of JNull \<Rightarrow> None | v \<Rightarrow> Some (py_str rt v))
     | _ \<Rightarrow> None)"

definition message_ref :: "pyrt \<Rightarrow> response \<Rightarrow> pystr option" where
  "message_ref rt r = (case hr_body r of
       Some (JObj d) \<Rightarrow> (case dict_get d (u ''result'') of
           Some (JObj d') \<Rightarrow> (case key_or_null d' (u ''message_id'') of JNull \<Rightarrow> None | v \<Rightarrow> Some (py_str rt v))
         | _ \<Rightarrow> None)
     | _ \<Rightarrow> None)"

definition rehome_ref :: "pyrt \<Rightarrow> response \<Rightarrow> pystr option" where
  "rehome_ref rt r = (case hr_body r of
       Some (JObj d) \<Rightarrow> truthy_text rt (key_or_null d (u ''id''))
     | _ \<Rightarrow> None)"

section \<open>Mock\<close>

definition mock_deliver :: "delivery_payload \<Rightarrow> delivery_result" where
  "mock_deliver p = \<lparr>dr_outcome = DO_SENT, dr_provider_response = [(u ''mock'', JBool True)],
     dr_external_ref = Some (u ''mock:'' @ dp_request_id p)\<rparr>"

definition mock_parse_inbound :: "pyrt \<Rightarrow> jdict \<Rightarrow> status_update option" where
  "mock_parse_inbound rt payload =
     (case (key_or_null payload (u ''request_ref''), key_or_null payload (u ''outcome'')) of
        (JNull, _) \<Rightarrow> None
      | (ref, JStr t) \<Rightarrow> map_option (\<lambda>o1. \<lparr>su_request_ref = py_str rt ref, su_outcome = o1, su_raw = payload\<rparr>)
          (outcome_of_value t)
      | _ \<Rightarrow> None)"

section \<open>Partner API\<close>

definition api_deliver :: "pyrt \<Rightarrow> http \<Rightarrow> pystr \<Rightarrow> jdict \<Rightarrow> delivery_payload \<Rightarrow> exn + delivery_result" where
  "api_deliver rt http token config p =
     delivered_by http (post_json (conf_text rt config (u ''deliver_path'') (u ''/orders''))
       [bearer token, (u ''Idempotency-Key'', dp_idempotency_key p)]
       (JObj [(u ''request_id'', JStr (dp_request_id p)), (u ''number'', JStr (dp_number p)),
         (u ''category'', JStr (dp_category p)), (u ''summary'', JStr (dp_summary p)),
         (u ''params'', JObj (dp_params p)), (u ''attachments'', JArr (map JStr (dp_attachments p)))]))
       (ref_field rt (u ''external_ref''))"

definition api_healthcheck :: "pyrt \<Rightarrow> http \<Rightarrow> jdict \<Rightarrow> exn + health_report" where
  "api_healthcheck rt http config = probed_by http (get_probe (conf_text rt config (u ''health_path'') (u ''/health'')) [])"

text \<open>The statuses a partner may report, and \<open>parse_inbound\<close> with its two orders of the reference.\<close>

definition inbound_status :: "(pystr \<times> delivery_outcome) list" where
  "inbound_status = [(u ''accepted'', DO_ACK), (u ''delivered'', DO_DELIVERED), (u ''rejected'', DO_FAILED),
     (u ''failed'', DO_FAILED)]"

definition parse_inbound_by :: "pyrt \<Rightarrow> pystr \<Rightarrow> pystr \<Rightarrow> jdict \<Rightarrow> status_update option" where
  "parse_inbound_by rt k1 k2 payload =
     (let ref = (if json_truthy (key_or_null payload k1) then key_or_null payload k1 else key_or_null payload k2)
      in case dict_get payload (u ''status'') of
           Some (JStr s) \<Rightarrow> if ref = JNull then None
             else map_option (\<lambda>o1. \<lparr>su_request_ref = py_str rt ref, su_outcome = o1, su_raw = payload\<rparr>)
               (map_of inbound_status (rt_lower rt s))
         | _ \<Rightarrow> None)"

definition api_parse_inbound :: "pyrt \<Rightarrow> jdict \<Rightarrow> status_update option" where
  "api_parse_inbound rt = parse_inbound_by rt (u ''external_ref'') (u ''request_ref'')"

definition parse_inbound :: "pyrt \<Rightarrow> jdict \<Rightarrow> status_update option" where
  "parse_inbound rt = parse_inbound_by rt (u ''request_ref'') (u ''external_ref'')"

section \<open>Bots\<close>

definition new_request_text :: pystr where
  "new_request_text =
     [1053, 1086, 1074, 1072, 1103, 32, 1079, 1072, 1103, 1074, 1082, 1072, 32]"

definition category_text :: pystr where
  "category_text =
     [1050, 1072, 1090, 1077, 1075, 1086, 1088, 1080, 1103, 58, 32]"

definition join_lines :: "pystr list \<Rightarrow> pystr" where
  "join_lines ls = (case ls of [] \<Rightarrow> [] | l # ls \<Rightarrow> l @ concat (map (\<lambda>x. 10 # x) ls))"

definition format_message :: "delivery_payload \<Rightarrow> pystr" where
  "format_message p = join_lines (filter (\<lambda>l. l \<noteq> [])
     [new_request_text @ dp_number p, category_text @ dp_category p, dp_summary p])"

definition bot_deliver :: "pyrt \<Rightarrow> http \<Rightarrow> jdict \<Rightarrow> delivery_payload \<Rightarrow> exn + delivery_result" where
  "bot_deliver rt http config p =
     (let token = conf_text rt config (u ''bot_token'') []; chat_id = key_or_null config (u ''chat_id'')
      in if token = [] \<or> \<not> json_truthy chat_id then Inr (failed_with (u ''missing_bot_config''))
         else delivered_by http (post_json (u ''/bot'' @ token @ u ''/sendMessage'') []
           (JObj [(u ''chat_id'', chat_id), (u ''text'', JStr (format_message p))])) (message_ref rt))"

definition bot_healthcheck :: "pyrt \<Rightarrow> http \<Rightarrow> jdict \<Rightarrow> exn + health_report" where
  "bot_healthcheck rt http config =
     (let token = conf_text rt config (u ''bot_token'') []
      in if token = [] then Inr (unhealthy (u ''missing bot_token''))
         else probed_by http (get_probe (u ''/bot'' @ token @ u ''/getMe'') []))"

section \<open>Mail to a partner\<close>

definition request_text :: pystr where
  "request_text =
     [1047, 1072, 1103, 1074, 1082, 1072, 58, 32]"

definition description_text :: pystr where
  "description_text =
     [1054, 1087, 1080, 1089, 1072, 1085, 1080, 1077, 58, 32]"

definition idempotency_text :: pystr where
  "idempotency_text =
     [1048, 1076, 1077, 1084, 1087, 1086, 1090, 1077, 1085, 1090, 1085, 1086, 1089, 1090, 1100,
      58, 32]"

definition lead_title :: "delivery_payload \<Rightarrow> pystr" where
  "lead_title p = [1047, 1072, 1103, 1074, 1082, 1072, 32] @ dp_number p
     @ u '' ['' @ dp_category p @ u '']''"

definition build_message :: "settings \<Rightarrow> pystr \<Rightarrow> delivery_payload \<Rightarrow> exn + mail" where
  "build_message st to p = make_mail (st_notify_email_from st) to
     (new_request_text @ dp_number p @ u '' ['' @ dp_category p @ u '']'')
     (join_lines [request_text @ dp_number p, category_text @ dp_category p, description_text @ dp_summary p,
        idempotency_text @ dp_idempotency_key p])"

definition email_deliver ::
    "pyrt \<Rightarrow> settings \<Rightarrow> (mail \<Rightarrow> smtp_result) \<Rightarrow> jdict \<Rightarrow> delivery_payload \<Rightarrow> exn + delivery_result" where
  "email_deliver rt st smtp config p =
     (let to = conf_text rt config (u ''email'') []
      in if st_notify_smtp_host st = [] \<or> st_notify_email_from st = [] \<or> to = []
         then Inr (failed_with (u ''missing_email_config''))
         else bindE (build_message st to p) (\<lambda>m. case smtp m of
             Smtp_raised x \<Rightarrow> Inl x
           | Smtp_failed name \<Rightarrow> Inr (failed_with name)
           | Smtp_sent \<Rightarrow> Inr \<lparr>dr_outcome = DO_SENT, dr_provider_response = [(u ''status'', JStr (u ''sent''))],
               dr_external_ref = None\<rparr>))"

definition email_healthcheck :: "settings \<Rightarrow> health_report" where
  "email_healthcheck st = (if st_notify_smtp_host st = [] \<or> st_notify_email_from st = []
     then unhealthy (u ''smtp not configured'') else healthy)"

section \<open>CRMs\<close>

definition webhook_path :: "pyrt \<Rightarrow> jdict \<Rightarrow> pystr" where
  "webhook_path rt config = rstrip_by (\<lambda>c. c = 47) (conf_text rt config (u ''webhook_path'') [])"

definition bitrix_deliver :: "pyrt \<Rightarrow> http \<Rightarrow> jdict \<Rightarrow> delivery_payload \<Rightarrow> exn + delivery_result" where
  "bitrix_deliver rt http config p =
     (if webhook_path rt config = [] then Inr (failed_with (u ''missing_webhook''))
      else delivered_by http (post_json (webhook_path rt config @ u ''/crm.lead.add.json'') []
        (JObj [(u ''fields'', JObj [(u ''TITLE'', JStr (lead_title p)), (u ''COMMENTS'', JStr (dp_summary p))]),
          (u ''params'', JObj [(u ''REGISTER_SONET_EVENT'', JStr (u ''N''))])])) (ref_field rt (u ''result'')))"

definition bitrix_healthcheck :: "pyrt \<Rightarrow> http \<Rightarrow> jdict \<Rightarrow> exn + health_report" where
  "bitrix_healthcheck rt http config =
     (if webhook_path rt config = [] then Inr (unhealthy (u ''missing webhook_path''))
      else probed_by http (get_probe (webhook_path rt config @ u ''/profile.json'') []))"

definition amocrm_deliver :: "pyrt \<Rightarrow> http \<Rightarrow> jdict \<Rightarrow> delivery_payload \<Rightarrow> exn + delivery_result" where
  "amocrm_deliver rt http config p =
     (let token = conf_text rt config (u ''access_token'') []
      in if token = [] then Inr (failed_with (u ''missing_token''))
         else delivered_by http (post_json (u ''/api/v4/leads'') [bearer token]
           (JArr [JObj [(u ''name'', JStr (lead_title p)), (u ''_embedded'',
             JObj [(u ''tags'', JArr [JObj [(u ''name'', JStr (dp_category p))]])])]])) (\<lambda>_. None))"

definition amocrm_healthcheck :: "pyrt \<Rightarrow> http \<Rightarrow> jdict \<Rightarrow> exn + health_report" where
  "amocrm_healthcheck rt http config =
     (let token = conf_text rt config (u ''access_token'') []
      in if token = [] then Inr (unhealthy (u ''missing access_token''))
         else probed_by http (get_probe (u ''/api/v4/account'') [bearer token]))"

definition rehome_crm_deliver :: "pyrt \<Rightarrow> http \<Rightarrow> jdict \<Rightarrow> delivery_payload \<Rightarrow> exn + delivery_result" where
  "rehome_crm_deliver rt http config p =
     (let key = conf_text rt config (u ''service_key'') []
      in if key = [] then Inr (failed_with (u ''missing_service_key''))
         else delivered_by http (post_json (u ''/api/v1/internal/crm/services/tickets'')
           [(u ''X-Internal-Service-Key'', key)]
           (JObj ([(u ''external_ref'', JStr (dp_request_id p)), (u ''number'', JStr (dp_number p)),
              (u ''category'', JStr (dp_category p)), (u ''subject'', JStr (lead_title p)),
              (u ''description'', JStr (dp_summary p))]
             @ (if truthy (dp_premises_id p) then [(u ''premises_id'', JStr (or_empty (dp_premises_id p)))] else [])
             @ (if truthy (dp_booking_id p) then [(u ''booking_id'', JStr (or_empty (dp_booking_id p)))] else []))))
           (rehome_ref rt))"

definition rehome_crm_healthcheck :: "pyrt \<Rightarrow> jdict \<Rightarrow> health_report" where
  "rehome_crm_healthcheck rt config = (if conf_text rt config (u ''service_key'') [] = []
     then unhealthy (u ''missing_service_key'') else healthy)"

section \<open>The resolver\<close>

type_synonym net = "channel_config \<Rightarrow> pystr \<Rightarrow> http"

text \<open>\<open>HttpChannelResolver\<close> with the delivery of the channel it opens; \<open>net\<close> gets the base URL.\<close>

definition http_resolver :: "pyrt \<Rightarrow> settings \<Rightarrow> net \<Rightarrow> (mail \<Rightarrow> smtp_result) \<Rightarrow> resolver" where
  "http_resolver rt st net smtp c p = (case pc_channel_type c of
       CT_MOCK \<Rightarrow> Inr (mock_deliver p)
     | CT_API \<Rightarrow> (case dict_get (pc_config c) (u ''endpoint'') of
         None \<Rightarrow> Inl KeyError
       | Some endpoint \<Rightarrow> api_deliver rt (net c (py_str rt endpoint))
           (conf_text rt (pc_config c) (u ''auth_token'') []) (pc_config c) p)
     | CT_TELEGRAM \<Rightarrow> bot_deliver rt (net c (st_telegram_api_base_url st)) (pc_config c) p
     | CT_MAX \<Rightarrow> bot_deliver rt (net c (st_max_api_base_url st)) (pc_config c) p
     | CT_EMAIL \<Rightarrow> email_deliver rt st smtp (pc_config c) p
     | CT_CRM \<Rightarrow>
         (let http = net c (conf_text rt (pc_config c) (u ''endpoint'') []);
              crm_type = rt_lower rt (conf_text rt (pc_config c) (u ''crm_type'') [])
          in if crm_type = u ''rehome'' then rehome_crm_deliver rt http (pc_config c) p
             else if crm_type = u ''amocrm'' then amocrm_deliver rt http (pc_config c) p
             else bitrix_deliver rt http (pc_config c) p))"

section \<open>What is kept of a partner's answer\<close>

definition without_body :: "exn + response \<Rightarrow> exn + response" where
  "without_body x = (case x of Inl e \<Rightarrow> Inl e | Inr r \<Rightarrow> Inr (r\<lparr>hr_body := None\<rparr>))"

definition kept :: "exn + delivery_result \<Rightarrow> exn + (delivery_outcome \<times> jdict)" where
  "kept x = (case x of Inl e \<Rightarrow> Inl e | Inr r \<Rightarrow> Inr (dr_outcome r, dr_provider_response r))"

lemma without_body_cases:
  assumes "without_body x = without_body y"
  obtains e where "x = Inl e" "y = Inl e" | r r' where "x = Inr r" "y = Inr r'" "hr_status r = hr_status r'"
proof (cases x; cases y)
  fix r r' assume "x = Inr r" "y = Inr r'"
  moreover have "hr_status (r\<lparr>hr_body := None\<rparr>) = hr_status (r'\<lparr>hr_body := None\<rparr>)"
    using assms \<open>x = Inr r\<close> \<open>y = Inr r'\<close> by (simp add: without_body_def)
  ultimately show thesis using that(2) by simp
qed (use assms that in \<open>auto simp: without_body_def\<close>)

lemma kept_delivered_by:
  assumes "\<And>q. without_body (http q) = without_body (http' q)"
  shows "kept (delivered_by http q ref_of) = kept (delivered_by http' q ref_of)"
  using assms [of q]
  by (cases rule: without_body_cases) (auto simp: delivered_by_def kept_def split: exn.split)

text \<open>A word a JSON value says in one of its texts.\<close>

inductive says :: "pystr \<Rightarrow> json \<Rightarrow> bool" for w where
  says_text: "contains_sub w s \<Longrightarrow> says w (JStr s)"
| says_item: "x \<in> set xs \<Longrightarrow> says w x \<Longrightarrow> says w (JArr xs)"
| says_field: "(k, x) \<in> set kvs \<Longrightarrow> says w x \<Longrightarrow> says w (JObj kvs)"

inductive_simps says_simps: "says w (JStr s)" "says w (JArr xs)" "says w (JObj kvs)"

lemma says_parts [simp]:
  "says w (JStr s) \<longleftrightarrow> contains_sub w s"
  "\<not> says w (JArr [])" "says w (JArr (x # xs)) \<longleftrightarrow> says w x \<or> says w (JArr xs)"
  "\<not> says w (JObj [])" "says w (JObj ((k, x) # kvs)) \<longleftrightarrow> says w x \<or> says w (JObj kvs)"
  by (auto simp: says_simps)

lemma contains_self [simp]: "contains_sub w w" "contains_sub w (a @ w)" "contains_sub w (a @ w @ b)"
  unfolding contains_sub_iff by (rule exI [of _ "[]"], rule exI [of _ "[]"], simp) (metis append_Nil2, blast)

lemma join_lines_contains: "l \<in> set ls \<Longrightarrow> contains_sub w l \<Longrightarrow> contains_sub w (join_lines ls)"
proof -
  assume "l \<in> set ls" "contains_sub w l"
  then obtain xs ys a b where l: "ls = xs @ l # ys" "l = a @ w @ b"
    by (auto simp: in_set_conv_decomp contains_sub_iff)
  have "join_lines (xs @ l # ys) = (case xs of [] \<Rightarrow> [] | x # xs \<Rightarrow> x @ concat (map ((#) 10) xs) @ [10]) @ l
      @ concat (map ((#) 10) ys)"
    by (cases xs) (simp_all add: join_lines_def)
  then obtain c d where "join_lines ls = (c @ a) @ w @ (b @ d)" unfolding l by auto
  then show ?thesis unfolding contains_sub_iff by blast
qed

text \<open>
  The contract of a channel that delivers over HTTP, as the walk over the channels and the records of
  the attempts rely on it: errors of the network are results, a delivery counts as a success only
  when the partner's side answered below 400 to a request that names the order, and nothing of
  the body of the answer is recorded.
\<close>

locale http_channel =
  fixes deliver :: "http \<Rightarrow> jdict \<Rightarrow> delivery_payload \<Rightarrow> exn + delivery_result"
  assumes body_blind: "(\<And>q. without_body (http q) = without_body (http' q)) \<Longrightarrow>
      kept (deliver http config p) = kept (deliver http' config p)"
    and success_answered: "deliver http config p = Inr res \<Longrightarrow> is_success (dr_outcome res) \<Longrightarrow>
      \<exists>q r j. http q = Inr r \<and> hr_status r < 400 \<and> hq_json q = Some j \<and> says (dp_number p) j \<and> says (dp_category p) j"
    and contained: "deliver http config p \<noteq> Inl (ExternalServiceError x)"
begin

lemma refused_fails:
  assumes "\<And>q r. http q = Inr r \<Longrightarrow> 400 \<le> hr_status r" "deliver http config p = Inr res"
  shows "dr_outcome res = DO_FAILED"
proof -
  have "\<not> is_success (dr_outcome res)"
    using assms(1) success_answered [OF assms(2)] by fastforce
  then show ?thesis by (cases "dr_outcome res") (simp_all add: is_success_def)
qed

end

text \<open>What all of them do: refuse, or make one call whose body names the order.\<close>

definition one_call :: "delivery_payload \<Rightarrow> (http \<Rightarrow> exn + delivery_result) \<Rightarrow> bool" where
  "one_call p d \<longleftrightarrow> (\<exists>t. d = (\<lambda>_. Inr (failed_with t)))
     \<or> (\<exists>q f j. d = (\<lambda>http. delivered_by http q f) \<and> hq_json q = Some j
          \<and> says (dp_number p) j \<and> says (dp_category p) j)"

lemma one_call_refused: "one_call p (\<lambda>_. Inr (failed_with t))"
  by (auto simp: one_call_def)

lemma one_call_post:
  "says (dp_number p) j \<Longrightarrow> says (dp_category p) j \<Longrightarrow> one_call p (\<lambda>http. delivered_by http (post_json url hs j) f)"
  unfolding one_call_def by (rule disjI2, rule exI [of _ "post_json url hs j"]) (auto simp: post_json_def)

lemma one_call_if:
  "(\<not> b \<Longrightarrow> one_call p d) \<Longrightarrow> one_call p (\<lambda>http. if b then Inr (failed_with t) else d http)"
  by (cases b) (simp_all add: one_call_refused)

lemma delivered_by_contained: "delivered_by http q f \<noteq> Inl (ExternalServiceError x)"
proof (cases "http q")
  case (Inl y)
  then show ?thesis by (cases y) (simp_all add: delivered_by_def)
qed (simp add: delivered_by_def)

lemma http_channelI:
  assumes "\<And>config p. one_call p (\<lambda>http. deliver http config p)"
  shows "http_channel deliver"
proof
  fix http http' :: http and config p
  assume same: "\<And>q. without_body (http q) = without_body (http' q)"
  show "kept (deliver http config p) = kept (deliver http' config p)"
    using assms [of p config] kept_delivered_by [OF same] by (auto simp: one_call_def fun_eq_iff)
next
  fix http :: http and config p res
  assume res: "deliver http config p = Inr res" "is_success (dr_outcome res)"
  have "\<not> is_success (dr_outcome (failed_with t))" for t by (simp add: failed_with_def is_success_def)
  then obtain q f j where q: "delivered_by http q f = Inr res" "hq_json q = Some j" "says (dp_number p) j"
      "says (dp_category p) j"
    using assms [of p config] res by (auto simp: one_call_def fun_eq_iff)
  have "\<exists>r. http q = Inr r \<and> hr_status r < 400"
  proof (cases "http q")
    case (Inl x)
    then show ?thesis using q(1) res(2) by (cases x) (auto simp: delivered_by_def failed_with_def is_success_def)
  next
    case (Inr r)
    then show ?thesis using q(1) res(2) by (auto simp: delivered_by_def is_success_def split: if_splits)
  qed
  then show "\<exists>q r j. http q = Inr r \<and> hr_status r < 400 \<and> hq_json q = Some j \<and> says (dp_number p) j \<and> says (dp_category p) j"
    using q(2-4) by blast
next
  fix http :: http and config p x
  show "deliver http config p \<noteq> Inl (ExternalServiceError x)"
    using assms [of p config] by (auto simp: one_call_def fun_eq_iff delivered_by_contained)
qed

lemma lead_title_says [simp]: "contains_sub (dp_number p) (lead_title p)" "contains_sub (dp_category p) (lead_title p)"
proof -
  let ?a = "[1047, 1072, 1103, 1074, 1082, 1072, 32]"
  have "lead_title p = ?a @ dp_number p @ (u '' ['' @ dp_category p @ u '']'')"
    "lead_title p = (?a @ dp_number p @ u '' ['') @ dp_category p @ u '']''"
    by (simp_all add: lead_title_def)
  then show "contains_sub (dp_number p) (lead_title p)" "contains_sub (dp_category p) (lead_title p)"
    using contains_self(3) by metis+
qed

lemma format_message_says:
  "contains_sub (dp_number p) (format_message p)" "contains_sub (dp_category p) (format_message p)"
proof -
  have "new_request_text \<noteq> []" "category_text \<noteq> []" by (simp_all add: new_request_text_def category_text_def)
  then show "contains_sub (dp_number p) (format_message p)" "contains_sub (dp_category p) (format_message p)"
    unfolding format_message_def
    by (auto intro: join_lines_contains [of "new_request_text @ dp_number p"]
        join_lines_contains [of "category_text @ dp_category p"])
qed

lemmas deliver_defs = api_deliver_def bot_deliver_def bitrix_deliver_def amocrm_deliver_def
  rehome_crm_deliver_def

interpretation api: http_channel "\<lambda>http. api_deliver rt http token" for rt token
  unfolding deliver_defs by (intro http_channelI one_call_post) simp_all

interpretation bot: http_channel "bot_deliver rt" for rt
  unfolding deliver_defs Let_def
  by (intro http_channelI one_call_if one_call_post) (simp_all add: format_message_says)

interpretation bitrix: http_channel "bitrix_deliver rt" for rt
  unfolding deliver_defs by (intro http_channelI one_call_if one_call_post) simp_all

interpretation amocrm: http_channel "amocrm_deliver rt" for rt
  unfolding deliver_defs Let_def by (intro http_channelI one_call_if one_call_post) simp_all

interpretation rehome_crm: http_channel "rehome_crm_deliver rt" for rt
  unfolding deliver_defs Let_def by (intro http_channelI one_call_if one_call_post) simp_all

lemmas body_blind_channels = api.body_blind bot.body_blind bitrix.body_blind amocrm.body_blind rehome_crm.body_blind

lemmas success_answered_channels = api.success_answered bot.success_answered bitrix.success_answered
  amocrm.success_answered rehome_crm.success_answered

text \<open>Nothing of the body of a partner's answer reaches the record of an attempt: two networks whose
  answers differ in their bodies only give the same outcome and the same recorded response, on every
  channel.
\<close>

theorem partner_body_not_recorded:
  assumes "\<And>c url q. without_body (net c url q) = without_body (net' c url q)"
  shows "kept (http_resolver rt st net smtp c p) = kept (http_resolver rt st net' smtp c p)"
  using assms by (cases "pc_channel_type c")
    (auto simp: http_resolver_def Let_def intro!: body_blind_channels split: option.split)

text \<open>What an amoCRM lead says does not depend on the description of the request.\<close>

lemma amocrm_drops_description: "amocrm_deliver rt http config (p\<lparr>dp_summary := x\<rparr>) = amocrm_deliver rt http config p"
  by (simp add: amocrm_deliver_def lead_title_def Let_def)

definition demo_answering :: "json option \<Rightarrow> net" where
  "demo_answering body c url q = Inr \<lparr>hr_status = 201, hr_body = body\<rparr>"

definition demo_payload :: delivery_payload where
  "demo_payload = \<lparr>dp_request_id = u ''r'', dp_number = u ''RQ-1'', dp_category = u ''REPAIR'', dp_summary = [],
     dp_params = [], dp_idempotency_key = u ''k'', dp_attachments = [], dp_premises_id = None, dp_booking_id = None\<rparr>"

definition demo_bot :: channel_config where
  "demo_bot = \<lparr>pc_id = 1, pc_collaborator_id = u ''p1'', pc_channel_type = CT_TELEGRAM, pc_priority = 1,
     pc_config = [(u ''bot_token'', JStr (u ''t'')), (u ''chat_id'', JInt 5)], pc_inbound_token = None,
     pc_is_active = True, pc_health = None\<rparr>"

lemma partner_body_not_recorded_witness:
  "kept (http_resolver demo_rt default_settings (demo_answering (Some (JStr (u ''secret'')))) (\<lambda>_. Smtp_sent) demo_bot demo_payload)
   = Inr (DO_SENT, [(u ''status'', JInt 201)])"
proof -
  have "without_body (demo_answering (Some (JStr (u ''secret''))) c url q) = without_body (demo_answering None c url q)" for c url q
    by (simp add: demo_answering_def without_body_def)
  from partner_body_not_recorded [OF this, where rt = demo_rt and st = default_settings
      and smtp = "\<lambda>_. Smtp_sent" and c = demo_bot and p = demo_payload]
  show ?thesis by (rule ssubst) code_simp
qed

section \<open>A channel that is not set up\<close>

text \<open>A partner API channel without an endpoint is not a failed attempt but a \<open>KeyError\<close> that ends
  the whole walk: nothing is recorded, and neither the partner's other channels nor the partners of
  the fallback chain are tried.
\<close>

theorem missing_endpoint_aborts:
  assumes "pc_channel_type c = CT_API" "dict_get (pc_config c) (u ''endpoint'') = None" "sr_category r \<noteq> None"
    "active_channels_for q (se_working s) = c # cs"
  shows "try_channels (http_resolver rt st net smtp) now r (c # cs) n s = (Inl KeyError, s)
    \<and> try_partners (http_resolver rt st net smtp) now r (Some q # ps) n s = (Inl KeyError, s)"
proof -
  have "attempt_delivery (http_resolver rt st net smtp) r c (Suc n) = Inl KeyError"
    using assms by (auto simp: attempt_delivery_def build_payload_def http_resolver_def)
  then have "try_channels (http_resolver rt st net smtp) now r (c # cs) n s = (Inl KeyError, s)"
    by (simp add: bind_h_def lift_h_def)
  then show ?thesis using assms(4) by (simp add: bind_h_def get_db_def)
qed

definition demo_api :: channel_config where
  "demo_api = \<lparr>pc_id = 2, pc_collaborator_id = u ''p1'', pc_channel_type = CT_API, pc_priority = 1,
     pc_config = [(u ''base_url'', JStr (u ''x''))], pc_inbound_token = None, pc_is_active = True, pc_health = None\<rparr>"

definition demo_api_session :: session where
  "demo_api_session = open_session (empty_db\<lparr>db_configs := [demo_api, demo_bot\<lparr>pc_collaborator_id := u ''p2''\<rparr>]\<rparr>)"

lemma missing_endpoint_aborts_witness:
  "fst (try_partners (http_resolver demo_rt default_settings (demo_answering None) (\<lambda>_. Smtp_sent)) 0
      (demo_request 7 1 S_ASSIGNED) [Some (u ''p1''), Some (u ''p2'')] 0 demo_api_session) = Inl KeyError"
proof -
  have "active_channels_for (u ''p1'') (se_working demo_api_session) = [demo_api]"
    by (simp add: active_channels_for_def demo_api_session_def open_session_def empty_db_def demo_api_def demo_bot_def)
  moreover have "pc_channel_type demo_api = CT_API" "dict_get (pc_config demo_api) (u ''endpoint'') = None"
    "sr_category (demo_request 7 1 S_ASSIGNED) \<noteq> None"
    by (simp_all add: demo_api_def demo_request_def)
  ultimately have "try_partners (http_resolver demo_rt default_settings (demo_answering None) (\<lambda>_. Smtp_sent)) 0
      (demo_request 7 1 S_ASSIGNED) [Some (u ''p1''), Some (u ''p2'')] 0 demo_api_session = (Inl KeyError, demo_api_session)"
    by (intro missing_endpoint_aborts [THEN conjunct2])
  then show ?thesis by (rule arg_cong [of _ _ fst, THEN trans]) simp
qed

end
