(* ===== verification/Channels.thy ===== *)
theory Channels
  imports Demo
begin

text \<open>
  The administration of delivery channels (\<open>channels/service.py\<close>, \<open>ChannelConfigRepository\<close>,
  the schemas of \<open>channels/schemas.py\<close>) and the subscriptions of browsers (\<open>push/service.py\<close>,
  \<open>push/repository.py\<close>). The unique constraints of the two tables are checked at the flush.
\<close>

section \<open>Channel configurations\<close>

record channel_create =
  cc_collaborator_id :: pystr
  cc_channel_type :: channel_type
  cc_priority :: int
  cc_config :: jdict
  cc_inbound_token :: "pystr option"
  cc_is_active :: bool

record channel_update =
  cu_priority :: "int option"
  cu_config :: "jdict option"
  cu_inbound_token :: "pystr option"
  cu_is_active :: "bool option"

text \<open>The representation has no token.\<close>

record channel_read =
  cr_id :: uuid
  cr_collaborator_id :: pystr
  cr_channel_type :: channel_type
  cr_priority :: int
  cr_config :: jdict
  cr_is_active :: bool
  cr_health :: "jdict option"

definition read_channel :: "channel_config \<Rightarrow> channel_read" where
  "read_channel c = \<lparr>cr_id = pc_id c, cr_collaborator_id = pc_collaborator_id c,
     cr_channel_type = pc_channel_type c, cr_priority = pc_priority c, cr_config = pc_config c,
     cr_is_active = pc_is_active c, cr_health = pc_health c\<rparr>"

definition add_config :: "channel_config \<Rightarrow> db \<Rightarrow> db" where
  "add_config c d = d\<lparr>db_configs := db_configs d @ [c]\<rparr>"

definition get_config :: "uuid \<Rightarrow> db \<Rightarrow> channel_config option" where
  "get_config i d = row_find pc_id i (db_configs d)"

definition save_config :: "channel_config \<Rightarrow> db \<Rightarrow> db" where
  "save_config c d = d\<lparr>db_configs := row_put pc_id c (db_configs d)\<rparr>"

definition list_configs :: "pystr option \<Rightarrow> db \<Rightarrow> channel_config list" where
  "list_configs collaborator d =
     sort_key (\<lambda>c. (pc_collaborator_id c, pc_priority c))
       (filter (\<lambda>c. case collaborator of None \<Rightarrow> True | Some q \<Rightarrow> pc_collaborator_id c = q) (db_configs d))"

definition channel_key :: "channel_config \<Rightarrow> pystr \<times> pystr" where
  "channel_key c = (pc_collaborator_id c, channel_type_value (pc_channel_type c))"

definition new_channel :: "uuid \<Rightarrow> channel_create \<Rightarrow> channel_config" where
  "new_channel i b = \<lparr>pc_id = i, pc_collaborator_id = cc_collaborator_id b,
     pc_channel_type = cc_channel_type b, pc_priority = cc_priority b, pc_config = cc_config b,
     pc_inbound_token = cc_inbound_token b, pc_is_active = cc_is_active b, pc_health = None\<rparr>"

text \<open>The insert is flushed by the commit, which raises when the unique constraint is violated.\<close>

definition commit_config :: "channel_config \<Rightarrow> unit handler" where
  "commit_config c = bind_h get_db (\<lambda>d.
     if channel_key c \<in> channel_key ` set (db_configs d) then raise_h IntegrityError
     else bind_h (mod_db (add_config c)) (\<lambda>_. commit_h))"

definition create_channel :: "uuid \<Rightarrow> channel_create \<Rightarrow> channel_config handler" where
  "create_channel new_id body =
     (let c = new_channel new_id body
      in bind_h (try_h (commit_config c) (\<lambda>x.
           if x = IntegrityError
           then bind_h rollback_h (\<lambda>_. problem_h (conflict
             (Some (u ''Channel config for this collaborator and type already exists''))))
           else raise_h x)) (\<lambda>_. ret c))"

definition get_or_404 :: "uuid \<Rightarrow> channel_config handler" where
  "get_or_404 i = bind_h get_db (\<lambda>d. case get_config i d of
       None \<Rightarrow> problem_h (not_found None) | Some c \<Rightarrow> ret c)"

definition update_fields :: "channel_update \<Rightarrow> channel_config \<Rightarrow> channel_config" where
  "update_fields b c = c\<lparr>
     pc_priority := (case cu_priority b of None \<Rightarrow> pc_priority c | Some x \<Rightarrow> x),
     pc_config := (case cu_config b of None \<Rightarrow> pc_config c | Some x \<Rightarrow> x),
     pc_inbound_token := (case cu_inbound_token b of None \<Rightarrow> pc_inbound_token c | Some x \<Rightarrow> Some x),
     pc_is_active := (case cu_is_active b of None \<Rightarrow> pc_is_active c | Some x \<Rightarrow> x)\<rparr>"

definition update_channel :: "uuid \<Rightarrow> channel_update \<Rightarrow> channel_config handler" where
  "update_channel i body =
     bind_h (get_or_404 i) (\<lambda>c.
     let c' = update_fields body c in
     bind_h (mod_db (save_config c')) (\<lambda>_.
     bind_h commit_h (\<lambda>_. ret c')))"

section \<open>Subscriptions\<close>

definition push_owner :: "principal \<Rightarrow> pystr \<times> pystr" where
  "push_owner p = (if is_partner p \<and> p_partner_id p \<noteq> None then (the (p_partner_id p), u ''partner'')
     else (uuid_str (p_user_id p), u ''user''))"

definition same_subscription :: "pystr \<Rightarrow> pystr \<Rightarrow> push_subscription \<Rightarrow> bool" where
  "same_subscription owner endpoint x \<longleftrightarrow> ps_owner_id x = owner \<and> ps_endpoint x = endpoint"

definition upsert_subscription :: "push_subscription \<Rightarrow> db \<Rightarrow> db" where
  "upsert_subscription n d = d\<lparr>db_subscriptions :=
     (if \<exists>x\<in>set (db_subscriptions d). same_subscription (ps_owner_id n) (ps_endpoint n) x
      then map (\<lambda>x. if same_subscription (ps_owner_id n) (ps_endpoint n) x
          then x\<lparr>ps_p256dh := ps_p256dh n, ps_auth := ps_auth n, ps_audience := ps_audience n\<rparr> else x)
        (db_subscriptions d)
      else db_subscriptions d @ [n])\<rparr>"

definition list_for_owner :: "pystr \<Rightarrow> db \<Rightarrow> push_subscription list" where
  "list_for_owner owner d = filter (\<lambda>x. ps_owner_id x = owner) (db_subscriptions d)"

definition delete_subscription :: "pystr \<Rightarrow> pystr \<Rightarrow> db \<Rightarrow> db" where
  "delete_subscription owner endpoint d = d\<lparr>db_subscriptions :=
     filter (\<lambda>x. \<not> same_subscription owner endpoint x) (db_subscriptions d)\<rparr>"

record subscription_create =
  sb_endpoint :: pystr
  sb_p256dh :: pystr
  sb_auth :: pystr

definition subscribe :: "instant \<Rightarrow> uuid \<Rightarrow> principal \<Rightarrow> subscription_create \<Rightarrow> pystr handler" where
  "subscribe now new_id p body =
     (let (owner, audience) = push_owner p
      in bind_h (mod_db (upsert_subscription \<lparr>ps_id = new_id, ps_owner_id = owner,
           ps_audience = audience, ps_endpoint = sb_endpoint body, ps_p256dh = sb_p256dh body,
           ps_auth = sb_auth body, ps_created_at = now\<rparr>)) (\<lambda>_.
         bind_h commit_h (\<lambda>_. ret (u ''subscribed''))))"

definition unsubscribe :: "principal \<Rightarrow> pystr \<Rightarrow> pystr handler" where
  "unsubscribe p endpoint =
     bind_h (mod_db (delete_subscription (fst (push_owner p)) endpoint)) (\<lambda>_.
     bind_h commit_h (\<lambda>_. ret (u ''unsubscribed'')))"

section \<open>The invariant\<close>

lemma outside_audit_channels [intro]:
  "outside_audit (add_config c)" "outside_audit (save_config c)"
  "outside_audit (upsert_subscription n)" "outside_audit (delete_subscription o1 x)"
  by (simp_all add: outside_audit_def same_audit_def add_config_def save_config_def
      upsert_subscription_def delete_subscription_def)

lemma keeps_outside_wf: "outside_audit f \<Longrightarrow> keeps wf_db (mod_db f)"
  by (rule keeps_mod) (rule wf_db_outside)

lemma keeps_channels [keeps_intros]:
  "keeps wf_db (create_channel i b)" "keeps wf_db (get_or_404 i)" "keeps wf_db (update_channel i ub)"
  "keeps wf_db (subscribe now i p sb)" "keeps wf_db (unsubscribe p x)"
proof -
  show get: "keeps wf_db (get_or_404 i)" for i
    unfolding get_or_404_def by (auto intro!: keeps_intros split: option.split)
  show "keeps wf_db (create_channel i b)"
    unfolding create_channel_def commit_config_def Let_def
    by (intro keeps_intros keeps_if_h keeps_outside_wf outside_audit_channels)
  show "keeps wf_db (update_channel i ub)"
    unfolding update_channel_def Let_def
    by (intro keeps_bind get keeps_intros keeps_outside_wf outside_audit_channels)
  show "keeps wf_db (subscribe now i p sb)" "keeps wf_db (unsubscribe p x)"
    unfolding subscribe_def unsubscribe_def Let_def
    by (auto intro!: keeps_intros keeps_outside_wf outside_audit_channels split: prod.split)
qed

section \<open>Uniqueness\<close>

definition subscription_key :: "push_subscription \<Rightarrow> pystr \<times> pystr" where
  "subscription_key x = (ps_owner_id x, ps_endpoint x)"

lemma subscription_key_keep [simp]:
  "subscription_key (if b then x\<lparr>ps_p256dh := k, ps_auth := a, ps_audience := c\<rparr> else x) = subscription_key x"
  by (simp add: subscription_key_def)

definition wf_channels :: "db \<Rightarrow> bool" where
  "wf_channels d \<longleftrightarrow> distinct (map pc_id (db_configs d)) \<and> distinct (map channel_key (db_configs d))
     \<and> distinct (map subscription_key (db_subscriptions d))"

lemma wf_channels_save:
  assumes "wf_channels d" "c \<in> set (db_configs d)" "pc_id c' = pc_id c" "channel_key c' = channel_key c"
  shows "wf_channels (save_config c' d)"
proof -
  have "map channel_key (row_put pc_id c' (db_configs d)) = map channel_key (db_configs d)"
    using assms by (intro row_put_map [OF _ assms(2)]) (simp_all add: wf_channels_def)
  then show ?thesis using assms(1) by (simp add: wf_channels_def save_config_def)
qed

lemma wf_channels_upsert: "wf_channels d \<Longrightarrow> wf_channels (upsert_subscription n d)"
proof (cases "\<exists>x\<in>set (db_subscriptions d). same_subscription (ps_owner_id n) (ps_endpoint n) x")
  case True
  then show "wf_channels d \<Longrightarrow> ?thesis" by (simp add: wf_channels_def upsert_subscription_def comp_def)
next
  case False
  then have "subscription_key n \<notin> subscription_key ` set (db_subscriptions d)"
    by (auto simp: subscription_key_def same_subscription_def)
  then show "wf_channels d \<Longrightarrow> ?thesis" using False
    by (simp add: wf_channels_def upsert_subscription_def)
qed



end
