(* ===== verification/Fixtures.thy ===== *)
theory Fixtures
  imports Adapters Channels
begin

text \<open>
  The test partners of \<open>clients/platform/fixtures.py\<close>, the registry over them
  (\<open>clients/platform/fixture_client.py\<close>) and the script that seeds their channels
  (\<open>scripts/seed_test_partners.py\<close>).
\<close>

section \<open>The partners\<close>

record seed_channel =
  sc_channel_type :: channel_type
  sc_priority :: int
  sc_config :: jdict

record test_partner =
  tp_id :: pystr
  tp_name :: pystr
  tp_category :: pystr
  tp_service_areas :: "pystr list"
  tp_rating :: rat
  tp_contact :: partner_contact
  tp_seed_channels :: "seed_channel list"

definition channel_types :: "test_partner \<Rightarrow> pystr list" where
  "channel_types t = map (\<lambda>c. channel_type_value (sc_channel_type c)) (tp_seed_channels t)"

definition partner_candidate :: "pystr option \<Rightarrow> test_partner \<Rightarrow> candidate" where
  "partner_candidate category t = \<lparr>cd_id = tp_id t, cd_name = tp_name t,
     cd_category = (case category of None \<Rightarrow> tp_category t | Some c \<Rightarrow> c), cd_is_active = True,
     cd_available = True, cd_rating = Some (tp_rating t), cd_service_areas = tp_service_areas t,
     cd_channels = channel_types t\<rparr>"

definition telegram_seed :: "pystr \<Rightarrow> pystr \<Rightarrow> seed_channel" where
  "telegram_seed chat_id handle = \<lparr>sc_channel_type = CT_TELEGRAM, sc_priority = 1,
     sc_config = [(u ''chat_id'', JStr chat_id), (u ''partner_handle'', JStr handle),
       (u ''bot_token_ref'', JStr (u ''ENV:TG_BOT_TOKEN_TEST''))]\<rparr>"

definition email_seed :: "pystr \<Rightarrow> seed_channel" where
  "email_seed to = \<lparr>sc_channel_type = CT_EMAIL, sc_priority = 2, sc_config = [(u ''to'', JArr [JStr to])]\<rparr>"

definition profi_seed :: seed_channel where
  "profi_seed = \<lparr>sc_channel_type = CT_API, sc_priority = 1,
     sc_config = [(u ''base_url'', JStr (u ''<PROFI_API_BASE_URL>'')),
       (u ''auth_ref'', JStr (u ''ENV:PROFI_API_KEY_TEST'')),
       (u ''create_order_endpoint'', JStr (u ''/orders'')),
       (u ''status_callback'', JStr (u ''/webhooks/profi''))]\<rparr>"

definition chistyakoff :: test_partner where
  "chistyakoff = \<lparr>tp_id = u ''test-chistyakoff'',
     tp_name = [1063, 1080, 1089, 1090, 1103, 1082, 1086, 1092, 1092, 32, 40, 1090, 1077, 1089,
         1090, 41],
     tp_category = u ''CLEANING'', tp_service_areas = [u ''msk'', u ''spb''], tp_rating = 5,
     tp_contact = \<lparr>ct_phone = Some (u ''+7 000 000-00-01''), ct_email = Some (u ''test+chistyakoff@rehome.one'')\<rparr>,
     tp_seed_channels = [telegram_seed (u ''<TG_CHAT_ID_CLEANING>'') (u ''@test_chistyakoff''), email_seed (u ''test+chistyakoff@rehome.one'')]\<rparr>"

definition pereezd_spb :: test_partner where
  "pereezd_spb = \<lparr>tp_id = u ''test-delikatny-pereezd-spb'',
     tp_name = [1044, 1077, 1083, 1080, 1082, 1072, 1090, 1085, 1099, 1081, 32, 1087, 1077,
         1088, 1077, 1077, 1079, 1076, 32, 1057, 1055, 1073, 32, 40, 1090, 1077, 1089,
         1090, 41],
     tp_category = u ''MOVING'', tp_service_areas = [u ''spb''], tp_rating = 5,
     tp_contact = \<lparr>ct_phone = Some (u ''+7 000 000-00-02''), ct_email = Some (u ''test+pereezd-spb@rehome.one'')\<rparr>,
     tp_seed_channels = [telegram_seed (u ''<TG_CHAT_ID_MOVING_SPB>'') (u ''@test_pereezd_spb''), email_seed (u ''test+pereezd-spb@rehome.one'')]\<rparr>"

definition pereezd_msk :: test_partner where
  "pereezd_msk = \<lparr>tp_id = u ''test-delikatny-pereezd-msk'',
     tp_name = [1044, 1077, 1083, 1080, 1082, 1072, 1090, 1085, 1099, 1081, 32, 1087, 1077,
         1088, 1077, 1077, 1079, 1076, 32, 1052, 1057, 1050, 32, 40, 1090, 1077, 1089,
         1090, 41],
     tp_category = u ''MOVING'', tp_service_areas = [u ''msk''], tp_rating = 5,
     tp_contact = \<lparr>ct_phone = Some (u ''+7 000 000-00-03''), ct_email = Some (u ''test+pereezd-msk@rehome.one'')\<rparr>,
     tp_seed_channels = [telegram_seed (u ''<TG_CHAT_ID_MOVING_MSK>'') (u ''@test_pereezd_msk''), email_seed (u ''test+pereezd-msk@rehome.one'')]\<rparr>"

definition lenremont :: test_partner where
  "lenremont = \<lparr>tp_id = u ''test-lenremont'',
     tp_name = [1051, 1077, 1085, 1088, 1077, 1084, 1086, 1085, 1090, 32, 40, 1090, 1077, 1089,
         1090, 41],
     tp_category = u ''REPAIR'', tp_service_areas = [u ''spb'', u ''msk''], tp_rating = 5,
     tp_contact = \<lparr>ct_phone = Some (u ''+7 000 000-00-04''), ct_email = Some (u ''test+lenremont@rehome.one'')\<rparr>,
     tp_seed_channels = [telegram_seed (u ''<TG_CHAT_ID_REPAIR>'') (u ''@test_lenremont''), email_seed (u ''test+lenremont@rehome.one'')]\<rparr>"

definition profi_ru :: test_partner where
  "profi_ru = \<lparr>tp_id = u ''test-profi-ru'',
     tp_name = [1055, 1088, 1086, 1092, 1080, 46, 1088, 1091, 32, 40, 1090, 1077, 1089, 1090,
         44, 32, 1072, 1075, 1088, 1077, 1075, 1072, 1090, 1086, 1088, 41],
     tp_category = u ''CLEANING'', tp_service_areas = [u ''msk'', u ''spb''], tp_rating = 3,
     tp_contact = \<lparr>ct_phone = Some (u ''+7 000 000-00-05''), ct_email = Some (u ''test+profi@rehome.one'')\<rparr>,
     tp_seed_channels = [profi_seed]\<rparr>"

definition test_partners :: "test_partner list" where
  "test_partners = [chistyakoff, pereezd_spb, pereezd_msk, lenremont, profi_ru]"

definition aggregator_id :: pystr where "aggregator_id = u ''test-profi-ru''"

definition aggregator_categories :: "pystr list" where
  "aggregator_categories = [u ''CLEANING'', u ''MOVING'', u ''REPAIR'']"

lemmas partner_defs = chistyakoff_def pereezd_spb_def pereezd_msk_def lenremont_def profi_ru_def
  telegram_seed_def email_seed_def profi_seed_def

section \<open>The registry over them\<close>

definition fixture_search :: "pystr \<Rightarrow> pystr option \<Rightarrow> candidate list" where
  "fixture_search category area = List.map_filter (\<lambda>t.
     if tp_id t = aggregator_id
     then (if category \<in> set aggregator_categories then Some (partner_candidate (Some category) t) else None)
     else if tp_category t = category then Some (partner_candidate None t) else None) test_partners"

definition fixture_contact :: "pystr \<Rightarrow> partner_contact option" where
  "fixture_contact partner_id = map_option tp_contact (find (\<lambda>t. tp_id t = partner_id) test_partners)"

definition fixture_order :: "pystr \<Rightarrow> pystr \<Rightarrow> pystr \<Rightarrow> pystr \<Rightarrow> service_order_ref option" where
  "fixture_order request_id partner_id category key = Some
     \<lparr>so_id = u ''test-order:'' @ request_id @ u '':'' @ partner_id, so_status = u ''CREATED''\<rparr>"

definition fixture_platform :: platform where
  "fixture_platform = \<lparr>pf_search_candidates = fixture_search, pf_get_partner_contact = fixture_contact,
     pf_create_service_order = fixture_order\<rparr>"

definition build_platform_client :: "settings \<Rightarrow> platform \<Rightarrow> platform" where
  "build_platform_client st http_platform = (if st_platform_test_fixtures st then fixture_platform else http_platform)"

section \<open>Seeding the channels\<close>

definition seed_row :: "uuid \<Rightarrow> test_partner \<Rightarrow> seed_channel \<Rightarrow> channel_config" where
  "seed_row i t c = \<lparr>pc_id = i, pc_collaborator_id = tp_id t, pc_channel_type = sc_channel_type c,
     pc_priority = sc_priority c, pc_config = sc_config c, pc_inbound_token = None, pc_is_active = True,
     pc_health = None\<rparr>"

definition seed_pairs :: "(test_partner \<times> seed_channel) list" where
  "seed_pairs = concat (map (\<lambda>t. map (Pair t) (tp_seed_channels t)) test_partners)"

definition seed_rows :: "uuid list \<Rightarrow> channel_config list" where
  "seed_rows ids = map (\<lambda>(i, t, c). seed_row i t c) (zip ids seed_pairs)"

text \<open>\<open>ON CONFLICT (collaborator_id, channel_type) DO UPDATE\<close>.\<close>

definition upsert_config :: "channel_config list \<Rightarrow> channel_config \<Rightarrow> channel_config list" where
  "upsert_config rows n =
     (if \<exists>x\<in>set rows. channel_key x = channel_key n
      then map (\<lambda>x. if channel_key x = channel_key n
          then x\<lparr>pc_priority := pc_priority n, pc_config := pc_config n, pc_is_active := pc_is_active n\<rparr> else x) rows
      else rows @ [n])"

definition upsert_configs :: "channel_config list \<Rightarrow> db \<Rightarrow> db" where
  "upsert_configs ns d = d\<lparr>db_configs := foldl upsert_config (db_configs d) ns\<rparr>"

definition seed_test_partners :: "uuid list \<Rightarrow> nat handler" where
  "seed_test_partners ids =
     bind_h (mod_db (upsert_configs (seed_rows ids))) (\<lambda>_.
     bind_h commit_h (\<lambda>_. ret (length (seed_rows ids))))"

definition count_test_channels :: "db \<Rightarrow> nat \<times> nat" where
  "count_test_channels d =
     (let rows = filter (\<lambda>c. is_prefix (u ''test-'') (pc_collaborator_id c)) (db_configs d)
      in (length (remdups (map pc_collaborator_id rows)), length rows))"

section \<open>The invariant\<close>

lemma keeps_seed [keeps_intros]: "keeps wf_db (seed_test_partners ids)"
  unfolding seed_test_partners_def
  by (intro keeps_intros keeps_outside_wf) (simp add: outside_audit_def same_audit_def upsert_configs_def)

section \<open>Seeding twice\<close>

definition seeded :: "channel_config \<Rightarrow> channel_config list \<Rightarrow> bool" where
  "seeded n rows \<longleftrightarrow> channel_key n \<in> channel_key ` set rows
     \<and> (\<forall>x\<in>set rows. channel_key x = channel_key n \<longrightarrow> pc_priority x = pc_priority n
          \<and> pc_config x = pc_config n \<and> pc_is_active x = pc_is_active n)"

lemma channel_key_keep [simp]:
  "channel_key (x\<lparr>pc_priority := p, pc_config := c, pc_is_active := a\<rparr>) = channel_key x"
  by (simp add: channel_key_def)

lemma upsert_keys: "channel_key ` set (upsert_config rows n) = insert (channel_key n) (channel_key ` set rows)"
proof (cases "\<exists>x\<in>set rows. channel_key x = channel_key n")
  case True
  then have "map channel_key (upsert_config rows n) = map channel_key rows"
    by (simp add: upsert_config_def)
  then have "channel_key ` set (upsert_config rows n) = channel_key ` set rows"
    by (metis list.set_map)
  moreover have "channel_key n \<in> channel_key ` set rows" using True by (metis imageI)
  ultimately show ?thesis by (simp add: insert_absorb)
next
  case False
  then show ?thesis by (simp add: upsert_config_def)
qed

lemma seeded_upsert: "seeded n (upsert_config rows n)"
  using upsert_keys [of rows n] by (auto simp: seeded_def upsert_config_def)

lemma seeded_other: "seeded m rows \<Longrightarrow> channel_key m \<noteq> channel_key n \<Longrightarrow> seeded m (upsert_config rows n)"
  using upsert_keys [of rows n] by (auto simp: seeded_def upsert_config_def)

lemma upsert_seeded:
  assumes "seeded m rows" "channel_key n = channel_key m" "pc_priority n = pc_priority m"
    "pc_config n = pc_config m" "pc_is_active n = pc_is_active m"
  shows "upsert_config rows n = rows"
proof -
  have "\<exists>x\<in>set rows. channel_key x = channel_key n" using assms(1,2) by (force simp: seeded_def)
  then show ?thesis using assms by (auto simp: seeded_def upsert_config_def intro!: map_idI)
qed

lemma seeded_all:
  "distinct (map channel_key ns) \<Longrightarrow> n \<in> set ns \<Longrightarrow> seeded n (foldl upsert_config rows ns)"
proof (induction ns rule: rev_induct)
  case (snoc m ms)
  show ?case
  proof (cases "n = m")
    case True
    then show ?thesis by (simp add: seeded_upsert)
  next
    case False
    then have "n \<in> set ms" "channel_key n \<noteq> channel_key m"
      using snoc.prems by (auto simp: image_iff)
    then show ?thesis using snoc by (simp add: seeded_other)
  qed
qed simp

definition same_seed :: "channel_config \<Rightarrow> channel_config \<Rightarrow> bool" where
  "same_seed n m \<longleftrightarrow> channel_key n = channel_key m \<and> pc_priority n = pc_priority m
     \<and> pc_config n = pc_config m \<and> pc_is_active n = pc_is_active m"

lemma upsert_all_seeded:
  "list_all2 (\<lambda>n m. seeded m rows \<and> same_seed n m) ns ms \<Longrightarrow> foldl upsert_config rows ns = rows"
proof (induction rule: list_all2_induct)
  case (Cons n ns m ms)
  then show ?case using upsert_seeded [of m rows n] by (simp add: same_seed_def)
qed simp

lemma seed_rows_keys:
  "length ids = length seed_pairs \<Longrightarrow> map channel_key (seed_rows ids)
     = map (\<lambda>(t, c). (tp_id t, channel_type_value (sc_channel_type c))) seed_pairs"
  by (auto simp: seed_rows_def seed_row_def channel_key_def list_eq_iff_nth_eq split: prod.splits)

lemma seed_keys_distinct: "distinct (map (\<lambda>(t, c). (tp_id t, channel_type_value (sc_channel_type c))) seed_pairs)"
  by code_simp

text \<open>Seeding is idempotent: a second run, whatever keys it draws for its rows, changes nothing, and
  a run never leaves two channels of one type with a partner that had none before.
\<close>

theorem seed_idempotent:
  assumes "length ids = length seed_pairs" "length ids' = length seed_pairs"
  shows "run_endpoint (seed_test_partners ids') (snd (run_endpoint (seed_test_partners ids) d))
    = (Inr (length seed_pairs), snd (run_endpoint (seed_test_partners ids) d))"
proof -
  have run: "run_endpoint (seed_test_partners js) d
      = (Inr (length (seed_rows js)), upsert_configs (seed_rows js) d)" for js d
    by (simp add: run_endpoint_def seed_test_partners_def bind_h_def mod_db_def commit_h_def ret_def
        open_session_def commit_def)
  have dist: "distinct (map channel_key (seed_rows ids))"
    using seed_rows_keys [OF assms(1)] seed_keys_distinct by simp
  have "foldl upsert_config (foldl upsert_config (db_configs d) (seed_rows ids)) (seed_rows ids')
      = foldl upsert_config (db_configs d) (seed_rows ids)"
  proof (rule upsert_all_seeded [where ms = "seed_rows ids"], rule list_all2_all_nthI)
    show "length (seed_rows ids') = length (seed_rows ids)" using assms by (simp add: seed_rows_def)
    fix i assume "i < length (seed_rows ids')"
    then have i: "i < length (seed_rows ids)" "i < length seed_pairs" "i < length ids" "i < length ids'"
      using assms by (simp_all add: seed_rows_def)
    have "same_seed (seed_rows ids' ! i) (seed_rows ids ! i)"
      using i by (cases "seed_pairs ! i") (simp add: seed_rows_def same_seed_def seed_row_def channel_key_def)
    then show "seeded (seed_rows ids ! i) (foldl upsert_config (db_configs d) (seed_rows ids))
        \<and> same_seed (seed_rows ids' ! i) (seed_rows ids ! i)"
      using seeded_all [OF dist] nth_mem [OF i(1)] by blast
  qed
  then show ?thesis using assms by (simp add: run upsert_configs_def seed_rows_def)
qed

lemma seed_idempotent_witness:
  "snd (run_endpoint (seed_test_partners (map of_nat [11..<20])) (snd (run_endpoint (seed_test_partners (map of_nat [1..<10])) empty_db)))
   = snd (run_endpoint (seed_test_partners (map of_nat [1..<10])) empty_db)"
proof -
  have "length (map of_nat [1..<10]) = length seed_pairs" "length (map of_nat [11..<20]) = length seed_pairs" by code_simp+
  from seed_idempotent [OF this, of empty_db] show ?thesis by simp
qed

section \<open>The order of the partners\<close>

text \<open>In the test registry the aggregator is the last resort it is meant to be: for each of its
  categories, wherever it works, the ranking chooses another partner when one serves the area,
  and the aggregator ends the fallback chain.
\<close>

theorem aggregator_is_last:
  "list_all (\<lambda>(category, area). case rank (fixture_search category area) category area of
       None \<Rightarrow> False
     | Some m \<Rightarrow> ms_partner_id m \<noteq> aggregator_id \<and> last (ms_fallback_chain m) = aggregator_id
         \<and> ms_delivery_channel m = u ''TELEGRAM'')
     (List.product aggregator_categories [None, Some (u ''msk''), Some (u ''spb'')])
   \<and> rank (fixture_search (u ''REPAIR'') (Some (u ''kzn''))) (u ''REPAIR'') (Some (u ''kzn'')) = None"
  by code_simp

section \<open>What the seeded channels deliver\<close>

text \<open>None of the seeded channels can deliver, whatever the network and the mail server answer: the
  bots lack the key the adapter reads (it is seeded as a reference), the mails lack the address
  (seeded under another key), and the aggregator's API lacks its endpoint, which is a \<open>KeyError\<close>
  and ends the whole walk.
\<close>

theorem seeded_channels_never_deliver:
  assumes "sr_category r = Some k"
  shows "list_all (\<lambda>(t, c).
      case attempt_delivery (http_resolver rt st net smtp) r (seed_row i t c) n of
        Inr res \<Rightarrow> \<not> is_success (dr_outcome res)
      | Inl x \<Rightarrow> x = KeyError \<and> tp_id t = aggregator_id) seed_pairs"
  using assms
  by (simp add: seed_pairs_def test_partners_def partner_defs attempt_delivery_def build_payload_def
      http_resolver_def seed_row_def bot_deliver_def email_deliver_def conf_text_def failed_with_def
      is_success_def aggregator_id_def Let_def)

lemma seeded_channels_never_deliver_witness:
  "attempt_delivery (http_resolver demo_rt default_settings (demo_answering None) (\<lambda>_. Smtp_sent))
     (demo_request 7 1 S_ASSIGNED) (seed_row 1 profi_ru profi_seed) 1 = Inl KeyError"
proof -
  have "sr_category (demo_request 7 1 S_ASSIGNED) = Some C_REPAIR" by (simp add: demo_request_def)
  from seeded_channels_never_deliver [OF this, where rt = demo_rt and st = default_settings
      and net = "demo_answering None" and smtp = "\<lambda>_. Smtp_sent" and i = 1 and n = 1]
  have "(profi_ru, profi_seed) \<in> set seed_pairs \<Longrightarrow> case attempt_delivery (http_resolver demo_rt default_settings
      (demo_answering None) (\<lambda>_. Smtp_sent)) (demo_request 7 1 S_ASSIGNED) (seed_row 1 profi_ru profi_seed) 1 of
        Inr res \<Rightarrow> \<not> is_success (dr_outcome res) | Inl x \<Rightarrow> x = KeyError \<and> tp_id profi_ru = aggregator_id"
    by (auto simp: list_all_iff)
  moreover have "(profi_ru, profi_seed) \<in> set seed_pairs"
    by (simp add: seed_pairs_def test_partners_def profi_ru_def)
  moreover have "attempt_delivery (http_resolver demo_rt default_settings (demo_answering None) (\<lambda>_. Smtp_sent))
     (demo_request 7 1 S_ASSIGNED) (seed_row 1 profi_ru profi_seed) 1 \<noteq> Inr res" for res
    by (simp add: attempt_delivery_def build_payload_def http_resolver_def seed_row_def profi_seed_def demo_request_def)
  ultimately show ?thesis by (auto split: sum.splits)
qed

end
