(* ===== verification/Pii.thy ===== *)
theory Pii
  imports Prelude
begin

text \<open>
  The part of \<open>re\<close> the code uses, and the masking of personal data (\<open>observability/pii_mask.py\<close>).
  A pattern is a sequence of items: a greedy repetition of a character class with backtracking,
  an alternation of literals, the two negative lookarounds of one character, and the edge of a
  word. \<open>rx_match\<close>
  gives the last consumed character (what a lookbehind sees next) and the rest of the text.
\<close>

section \<open>Patterns\<close>

datatype rx_item =
    Rep "nat \<Rightarrow> bool" nat "nat option"
  | Lits "pystr list"
  | NotBehind "nat \<Rightarrow> bool"
  | NotAhead "nat \<Rightarrow> bool"
  | WordEdge "nat \<Rightarrow> bool"

fun first_some :: "('a \<Rightarrow> 'b option) \<Rightarrow> 'a list \<Rightarrow> 'b option" where
  "first_some f [] = None"
| "first_some f (x # xs) = (case f x of Some y \<Rightarrow> Some y | None \<Rightarrow> first_some f xs)"

lemma first_some_cong [fundef_cong]:
  "xs = ys \<Longrightarrow> (\<And>x. x \<in> set ys \<Longrightarrow> f x = g x) \<Longrightarrow> first_some f xs = first_some g ys"
  by (induction ys arbitrary: xs) (auto split: option.splits)

definition rep_max :: "(nat \<Rightarrow> bool) \<Rightarrow> nat option \<Rightarrow> pystr \<Rightarrow> nat" where
  "rep_max p hi s = (let n = length (takeWhile p s) in case hi of None \<Rightarrow> n | Some h \<Rightarrow> min n h)"

definition prev_at :: "nat option \<Rightarrow> nat \<Rightarrow> pystr \<Rightarrow> nat option" where
  "prev_at prev k s = (if k = 0 then prev else Some (s ! (k - 1)))"

fun rx_match :: "rx_item list \<Rightarrow> nat option \<Rightarrow> pystr \<Rightarrow> (nat option \<times> pystr) option" where
  "rx_match [] prev s = Some (prev, s)"
| "rx_match (NotBehind p # items) prev s =
     (if (case prev of None \<Rightarrow> False | Some c \<Rightarrow> p c) then None else rx_match items prev s)"
| "rx_match (NotAhead p # items) prev s =
     (if (case s of [] \<Rightarrow> False | c # _ \<Rightarrow> p c) then None else rx_match items prev s)"
| "rx_match (WordEdge p # items) prev s =
     (if (case prev of None \<Rightarrow> False | Some c \<Rightarrow> p c) \<noteq> (case s of [] \<Rightarrow> False | c # _ \<Rightarrow> p c)
      then rx_match items prev s else None)"
| "rx_match (Lits ws # items) prev s =
     first_some (\<lambda>w. if is_prefix w s
       then rx_match items (prev_at prev (length w) s) (drop (length w) s) else None) ws"
| "rx_match (Rep p lo hi # items) prev s =
     first_some (\<lambda>k. rx_match items (prev_at prev k s) (drop k s)) (rev [lo..<Suc (rep_max p hi s)])"

text \<open>\<open>pattern.sub(repl, text)\<close> for patterns that never match the empty string.\<close>

function rx_sub :: "rx_item list \<Rightarrow> pystr \<Rightarrow> nat option \<Rightarrow> pystr \<Rightarrow> pystr" where
  "rx_sub pat repl prev [] = []"
| "rx_sub pat repl prev (c # cs) =
     (case rx_match pat prev (c # cs) of
        Some (prev', rest) \<Rightarrow>
          if length rest < length (c # cs) then repl @ rx_sub pat repl prev' rest
          else c # rx_sub pat repl (Some c) cs
      | None \<Rightarrow> c # rx_sub pat repl (Some c) cs)"
  by pat_completeness auto
termination by (relation "measure (\<lambda>(pat, repl, prev, s). length s)") auto

text \<open>\<open>pattern.search(text)\<close>: the text matched by the first match.\<close>

fun rx_search :: "rx_item list \<Rightarrow> nat option \<Rightarrow> pystr \<Rightarrow> pystr option" where
  "rx_search pat prev [] = map_option (\<lambda>_. []) (rx_match pat prev [])"
| "rx_search pat prev (c # cs) = (case rx_match pat prev (c # cs) of
      Some (_, rest) \<Rightarrow> Some (take (length (c # cs) - length rest) (c # cs))
    | None \<Rightarrow> rx_search pat (Some c) cs)"

section \<open>Masking\<close>

definition one_of :: "string \<Rightarrow> nat \<Rightarrow> bool" where
  "one_of s c \<longleftrightarrow> c \<in> set (u s)"

definition rx_email :: "pyrt \<Rightarrow> rx_item list" where
  "rx_email rt =
     [Rep (\<lambda>c. rt_is_word rt c \<or> one_of ''.+-'' c) 1 None, Lits [u ''@''],
      Rep (\<lambda>c. rt_is_word rt c \<or> one_of ''-'' c) 1 None, Lits [u ''.''],
      Rep (\<lambda>c. rt_is_word rt c \<or> one_of ''.-'' c) 1 None]"

definition rx_phone :: "rx_item list" where
  "rx_phone =
     (let gap = Rep (\<lambda>c. py_isspace c \<or> one_of ''-()'' c) 0 None;
          dash = Rep (\<lambda>c. py_isspace c \<or> one_of ''-'' c) 0 None;
          digits = (\<lambda>n. Rep py_isdigit n (Some n))
      in [NotBehind py_isdigit, Lits [u ''+7'', u ''8''], gap, digits 3, gap, digits 3, dash, digits 2,
          dash, digits 2, NotAhead py_isdigit])"

definition rx_snils :: "rx_item list" where
  "rx_snils =
     (let digits = (\<lambda>n. Rep py_isdigit n (Some n))
      in [NotBehind py_isdigit, digits 3, Lits [u ''-''], digits 3, Lits [u ''-''], digits 3,
          Rep (\<lambda>c. py_isspace c \<or> one_of ''-'' c) 0 (Some 1), digits 2, NotAhead py_isdigit])"

definition rx_passport :: "rx_item list" where
  "rx_passport = [NotBehind py_isdigit, Rep py_isdigit 4 (Some 4), Rep py_isspace 0 (Some 1),
     Rep py_isdigit 6 (Some 6), NotAhead py_isdigit]"

definition rx_inn :: "rx_item list" where
  "rx_inn = [NotBehind py_isdigit, Rep py_isdigit 10 (Some 12), NotAhead py_isdigit]"

definition pii_patterns :: "pyrt \<Rightarrow> rx_item list list" where
  "pii_patterns rt = [rx_email rt, rx_phone, rx_snils, rx_passport, rx_inn]"

definition pii_mask :: pystr where "pii_mask = u ''***''"

definition mask_pii :: "pyrt \<Rightarrow> pystr \<Rightarrow> pystr" where
  "mask_pii rt text = foldl (\<lambda>t pat. rx_sub pat pii_mask None t) text (pii_patterns rt)"

section \<open>No long number survives\<close>

text \<open>The lengths of the maximal runs of digits, the first one continuing a run of length \<open>k\<close>.\<close>

fun digit_runs :: "nat \<Rightarrow> pystr \<Rightarrow> nat list" where
  "digit_runs k [] = [k]"
| "digit_runs k (c # cs) = (if py_isdigit c then digit_runs (Suc k) cs else k # digit_runs 0 cs)"

definition prev_digit :: "nat option \<Rightarrow> bool" where
  "prev_digit prev \<longleftrightarrow> (case prev of None \<Rightarrow> False | Some c \<Rightarrow> py_isdigit c)"

lemma takeWhile_dropWhile: "takeWhile p (dropWhile p s) = []"
  by (induction s) auto

lemma first_some_None: "(\<And>x. x \<in> set xs \<Longrightarrow> f x = None) \<Longrightarrow> first_some f xs = None"
  by (induction xs) auto

lemma drop_run_digit:
  assumes "k < length (takeWhile p s)"
  shows "\<exists>c cs. drop k s = c # cs \<and> p c"
proof -
  have "k < length s" using assms length_takeWhile_le [of p s] by linarith
  then have "drop k s = s ! k # drop (Suc k) s" by (simp add: Cons_nth_drop_Suc)
  moreover have "p (s ! k)" using assms takeWhile_nth [OF assms] set_takeWhileD nth_mem by metis
  ultimately show ?thesis by blast
qed

lemma rx_sub_hit:
  "rx_match pat prev s = Some (prev', rest) \<Longrightarrow> length rest < length s
   \<Longrightarrow> rx_sub pat repl prev s = repl @ rx_sub pat repl prev' rest"
  by (cases s) auto

lemma rx_sub_miss:
  "rx_match pat prev (c # cs) = None \<Longrightarrow> rx_sub pat repl prev (c # cs) = c # rx_sub pat repl (Some c) cs"
  by simp

lemma rx_inn_match:
  "rx_match rx_inn prev s =
     (let n = length (takeWhile py_isdigit s)
      in if \<not> prev_digit prev \<and> 10 \<le> n \<and> n \<le> 12 then Some (prev_at prev n s, drop n s) else None)"
proof -
  define n where "n = length (takeWhile py_isdigit s)"
  define f where "f = (\<lambda>k. rx_match [NotAhead py_isdigit] (prev_at prev k s) (drop k s))"
  have unfold: "rx_match rx_inn prev s =
      (if prev_digit prev then None else first_some f (rev [10..<Suc (min n 12)]))"
    by (simp add: rx_inn_def prev_digit_def rep_max_def f_def n_def)
  have early: "f k = None" if "k < n" for k
    using drop_run_digit [of k py_isdigit s] that by (auto simp: f_def n_def)
  have last: "f n = Some (prev_at prev n s, drop n s)"
  proof -
    have "drop n s = dropWhile py_isdigit s" by (simp add: n_def dropWhile_eq_drop)
    moreover have "\<not> py_isdigit c" if "dropWhile py_isdigit s = c # cs" for c cs
      using takeWhile_dropWhile [of py_isdigit s] that by (auto split: if_splits)
    ultimately show ?thesis by (cases "dropWhile py_isdigit s") (simp_all add: f_def)
  qed
  show ?thesis
  proof (cases "10 \<le> n \<and> n \<le> 12")
    case True
    then have "rev [10..<Suc (min n 12)] = n # rev [10..<n]" by simp
    then show ?thesis using True last by (simp add: unfold Let_def flip: n_def)
  next
    case False
    have "f k = None" if "k \<in> set (rev [10..<Suc (min n 12)])" for k
      using that False early by (auto simp: min_def split: if_splits)
    then have "first_some f (rev [10..<Suc (min n 12)]) = None" by (rule first_some_None)
    then show ?thesis using False by (auto simp: unfold Let_def simp flip: n_def)
  qed
qed

definition short_run :: "nat \<Rightarrow> bool" where
  "short_run n \<longleftrightarrow> n < 10 \<or> 12 < n"

lemma not_digit_star: "\<not> py_isdigit 42"
  by (simp add: py_isdigit_def digit_val_def decimal_zeros_def)

lemma rx_inn_runs:
  assumes "if k = 0 then prev_digit prev \<longrightarrow> takeWhile py_isdigit s = []
    else prev_digit prev \<and> short_run (k + length (takeWhile py_isdigit s))"
  shows "\<forall>n\<in>set (digit_runs k (rx_sub rx_inn pii_mask prev s)). short_run n"
  using assms
proof (induction s arbitrary: k prev rule: length_induct)
  case (1 s)
  have IH: "\<forall>n\<in>set (digit_runs j (rx_sub rx_inn pii_mask q t)). short_run n"
    if "length t < length s" "if j = 0 then prev_digit q \<longrightarrow> takeWhile py_isdigit t = []
      else prev_digit q \<and> short_run (j + length (takeWhile py_isdigit t))" for j q t
    using "1.IH" that by blast
  show ?case
  proof (cases s)
    case Nil
    then show ?thesis using "1.prems" by (auto simp: short_run_def split: if_splits)
  next
    case (Cons c cs)
    define n where "n = length (takeWhile py_isdigit s)"
    show ?thesis
    proof (cases "\<not> prev_digit prev \<and> 10 \<le> n \<and> n \<le> 12")
      case True
      then have k: "k = 0" using "1.prems" by (auto split: if_splits)
      have rest: "takeWhile py_isdigit (drop n s) = []"
        by (simp add: n_def takeWhile_dropWhile flip: dropWhile_eq_drop)
      have "length (drop n s) < length s" using True Cons by simp
      then have "\<forall>m\<in>set (digit_runs 0 (rx_sub rx_inn pii_mask (prev_at prev n s) (drop n s))). short_run m"
        using rest by (intro IH) simp_all
      moreover have "rx_sub rx_inn pii_mask prev s = pii_mask @ rx_sub rx_inn pii_mask (prev_at prev n s) (drop n s)"
        using True \<open>length (drop n s) < length s\<close> rx_inn_match [of prev s, folded n_def]
        by (intro rx_sub_hit) (simp_all add: Let_def)
      ultimately show ?thesis using k not_digit_star by (simp add: pii_mask_def u_def short_run_def)
    next
      case False
      then have sub: "rx_sub rx_inn pii_mask prev s = c # rx_sub rx_inn pii_mask (Some c) cs"
        unfolding Cons
        by (intro rx_sub_miss) (use rx_inn_match [of prev s, folded n_def] Cons in \<open>auto simp: Let_def\<close>)
      show ?thesis
      proof (cases "py_isdigit c")
        case True
        then have n: "n = Suc (length (takeWhile py_isdigit cs))" using Cons by (simp add: n_def)
        have "short_run (Suc k + length (takeWhile py_isdigit cs))"
          using "1.prems" False n Cons True by (auto simp: short_run_def n_def split: if_splits)
        then have "\<forall>m\<in>set (digit_runs (Suc k) (rx_sub rx_inn pii_mask (Some c) cs)). short_run m"
          using Cons True by (intro IH) (simp_all add: prev_digit_def)
        then show ?thesis using sub True by simp
      next
        case nondigit: False
        then have "\<forall>m\<in>set (digit_runs 0 (rx_sub rx_inn pii_mask (Some c) cs)). short_run m"
          using Cons nondigit by (intro IH) (simp_all add: prev_digit_def)
        moreover have "short_run k" using "1.prems" Cons nondigit by (auto simp: short_run_def split: if_splits)
        ultimately show ?thesis using sub nondigit by simp
      qed
    qed
  qed
qed

text \<open>C30. Whatever a requester types, the masked text that reaches logs, partners and the language
  model holds no isolated number of 10, 11 or 12 digits (a taxpayer number, a phone number or a
  passport written without separators, ...), in any script of decimal digits.
\<close>

theorem masked_text_has_no_long_number:
  "\<not> (\<exists>n\<in>set (digit_runs 0 (mask_pii rt text)). 10 \<le> n \<and> n \<le> 12)"
proof -
  have "\<exists>t. mask_pii rt text = rx_sub rx_inn pii_mask None t"
    unfolding mask_pii_def pii_patterns_def foldl.simps by (rule exI, rule refl)
  then obtain t where "mask_pii rt text = rx_sub rx_inn pii_mask None t" by blast
  then have "\<forall>n\<in>set (digit_runs 0 (mask_pii rt text)). short_run n"
    using rx_inn_runs [of 0 None t] by (simp add: prev_digit_def)
  then show ?thesis by (auto simp: short_run_def)
qed

end
