(* ===== verification/Classifier.thy ===== *)
theory Classifier
  imports Pii Principal Enums Datetime
begin

text \<open>
  The classifier (\<open>classifier/engine.py\<close>, \<open>classifier/provider.py\<close>): keyword rules first, the
  language model only when they are ambiguous or silent. The model is a parameter (any function
  from the masked text); \<open>None\<close> stands for a provider that gave no answer. Keywords are lists of
  code points. \<open>int()\<close> of more than 4300 digits raises \<open>ValueError\<close>, as in the interpreter the
  project requires (3.12).
\<close>

definition rules_version :: pystr where "rules_version = u ''1.0''"
definition rules_model :: pystr where "rules_model = u ''rules''"
definition rules_confidence :: rat where "rules_confidence = 9 / 10"
definition ambiguous_confidence :: rat where "ambiguous_confidence = 4 / 10"

definition keyword_table :: "(category \<times> pystr list) list" where
  "keyword_table =
     [(C_CLEANING,
       [[1091, 1073, 1086, 1088],
        [1082, 1083, 1080, 1085, 1080, 1085, 1075],
        [1087, 1086, 1084, 1099, 1090, 1100],
        [1087, 1086, 1084, 1086, 1081],
        [1095, 1080, 1089, 1090, 1082],
        [1084, 1086, 1081, 1082, 1072, 32, 1086, 1082, 1086, 1085]]),
      (C_MOVING,
       [[1087, 1077, 1088, 1077, 1077, 1079, 1076],
        [1087, 1077, 1088, 1077, 1074, 1086, 1079],
        [1087, 1077, 1088, 1077, 1074, 1077, 1079],
        [1075, 1088, 1091, 1079, 1095, 1080, 1082],
        [1074, 1099, 1074, 1077, 1079],
        [1087, 1086, 1075, 1088, 1091, 1079, 1082]]),
      (C_REPAIR,
       [[1088, 1077, 1084, 1086, 1085, 1090],
        [1087, 1086, 1095, 1080, 1085],
        [1089, 1072, 1085, 1090, 1077, 1093, 1085, 1080, 1082],
        [1101, 1083, 1077, 1082, 1090, 1088, 1080, 1082],
        [1082, 1088, 1072, 1085],
        [1087, 1088, 1086, 1090, 1077, 1095, 1082],
        [1088, 1086, 1079, 1077, 1090, 1082],
        [1089, 1084, 1077, 1089, 1080, 1090, 1077, 1083]]),
      (C_KEY_DELIVERY,
       [[1082, 1083, 1102, 1095],
        [1076, 1086, 1089, 1090, 1072, 1074, 1082, 1072, 32, 1082, 1083, 1102, 1095],
        [1087, 1077, 1088, 1077, 1076, 1072, 1090, 1100, 32, 1082, 1083, 1102, 1095]])]"

section \<open>Rules\<close>

definition rule_scores :: "pyrt \<Rightarrow> pystr \<Rightarrow> (category \<times> nat) list" where
  "rule_scores rt masked_text =
     (let text = rt_lower rt masked_text
      in map (\<lambda>(c, ws). (c, sum_list (map (count_sub text) ws))) keyword_table)"

text \<open>
  The area pattern, one sequence per alternative (metre with the digit 2, with the superscript
  two, and the abbreviation of a square metre). Letters ignore case; the group is the run of
  digits the match starts with.
\<close>

definition ci_em :: "nat \<Rightarrow> bool" where "ci_em c \<longleftrightarrow> c = 1084 \<or> c = 1052"
definition ci_ka :: "nat \<Rightarrow> bool" where "ci_ka c \<longleftrightarrow> c = 1082 \<or> c = 1050"
definition ci_ve :: "nat \<Rightarrow> bool" where "ci_ve c \<longleftrightarrow> c = 1074 \<or> c = 1042 \<or> c = 7296"

definition area_patterns :: "rx_item list list" where
  "area_patterns =
     (let digits = Rep py_isdigit 1 None; spaces = Rep py_isspace 0 None;
          one = (\<lambda>p. Rep p 1 (Some 1))
      in [[digits, spaces, one ci_em, Lits [u ''2'', [178]]],
          [digits, spaces, one ci_ka, one ci_ve, Rep (one_of ''.'') 0 (Some 1), spaces, one ci_em]])"

fun area_search :: "nat option \<Rightarrow> pystr \<Rightarrow> pystr option" where
  "area_search prev [] = None"
| "area_search prev (c # cs) =
     (if \<exists>pat\<in>set area_patterns. rx_match pat prev (c # cs) \<noteq> None
      then Some (takeWhile py_isdigit (c # cs)) else area_search (Some c) cs)"

definition max_int_digits :: nat where "max_int_digits = 4300"

definition py_int :: "pystr \<Rightarrow> exn + int" where
  "py_int s =
     (if max_int_digits < length s
      then Inl (ValueError (u ''Exceeds the limit (4300 digits) for integer string conversion''))
      else Inr (foldl (\<lambda>n c. n * 10 + int (case digit_val c of None \<Rightarrow> 0 | Some v \<Rightarrow> v)) 0 s))"

definition extract_params :: "pystr \<Rightarrow> exn + jdict" where
  "extract_params masked_text = (case area_search None masked_text of
       None \<Rightarrow> Inr []
     | Some digits \<Rightarrow> bindE (py_int digits) (\<lambda>n. Inr [(u ''area_sqm'', JInt n)]))"

section \<open>The engine\<close>

record llm_classification =
  llm_category :: category
  llm_confidence :: rat
  llm_product_code :: "pystr option"
  llm_params :: jdict
  llm_model :: pystr
  llm_version :: pystr

type_synonym llm_provider = "pystr \<Rightarrow> exn + llm_classification option"

definition null_llm :: llm_provider where
  "null_llm masked_text = Inr None"

record outcome =
  oc_category :: category
  oc_confidence :: rat
  oc_method :: pystr
  oc_model :: pystr
  oc_version :: pystr
  oc_product_code :: "pystr option"
  oc_params :: jdict

definition to_classification :: "outcome \<Rightarrow> instant \<Rightarrow> jdict" where
  "to_classification o1 classified_at =
     [(u ''confidence'', JNum (oc_confidence o1)), (u ''model'', JStr (oc_model o1)),
      (u ''version'', JStr (oc_version o1)), (u ''method'', JStr (oc_method o1)),
      (u ''params'', JObj (oc_params o1)), (u ''classified_at'', JStr (iso_utc classified_at))]"

text \<open>\<open>max(matched, key=...)\<close> keeps the first of the best.\<close>

fun first_max :: "('a \<times> nat) list \<Rightarrow> 'a option" where
  "first_max [] = None"
| "first_max [(a, n)] = Some a"
| "first_max ((a, n) # (b, m) # rest) = first_max ((if n < m then (b, m) else (a, n)) # rest)"

definition rules_outcome :: "category \<Rightarrow> rat \<Rightarrow> jdict \<Rightarrow> outcome" where
  "rules_outcome c confidence params = \<lparr>oc_category = c, oc_confidence = confidence,
     oc_method = u ''rules'', oc_model = rules_model, oc_version = rules_version,
     oc_product_code = None, oc_params = params\<rparr>"

definition engine_classify :: "pyrt \<Rightarrow> llm_provider \<Rightarrow> pystr \<Rightarrow> exn + outcome" where
  "engine_classify rt provider masked_text =
     (let matched = filter (\<lambda>(c, hits). 0 < hits) (rule_scores rt masked_text)
      in bindE (extract_params masked_text) (\<lambda>params.
         if length matched = 1
         then Inr (rules_outcome (fst (hd matched)) rules_confidence params)
         else bindE (provider masked_text) (\<lambda>llm. case llm of
             Some r \<Rightarrow> Inr \<lparr>oc_category = llm_category r, oc_confidence = llm_confidence r,
                 oc_method = u ''llm'', oc_model = llm_model r, oc_version = llm_version r,
                 oc_product_code = llm_product_code r, oc_params = dict_merge params (llm_params r)\<rparr>
           | None \<Rightarrow> (case first_max matched of
                 Some best \<Rightarrow> Inr (rules_outcome best ambiguous_confidence params)
               | None \<Rightarrow> Inr (rules_outcome C_OTHER 0 params)))))"

section \<open>Facts\<close>

lemma first_max_best:
  "first_max xs = Some a \<Longrightarrow> \<exists>n. (a, n) \<in> set xs \<and> (\<forall>(b, m)\<in>set xs. m \<le> n)"
proof (induction xs rule: first_max.induct)
  case (3 a n b m rest)
  then show ?case by (fastforce split: if_splits)
qed auto

lemma first_max_None [simp]: "first_max xs = None \<longleftrightarrow> xs = []"
  by (induction xs rule: first_max.induct) auto

definition hit_categories :: "pyrt \<Rightarrow> pystr \<Rightarrow> (category \<times> nat) list" where
  "hit_categories rt text = filter (\<lambda>(c, hits). 0 < hits) (rule_scores rt text)"

text \<open>Without a language model the answer is decided by the keywords alone: one category hit gives
  it with confidence 0.9 (also when a model is there, which is then never asked), several give one
  of those hit most often with 0.4, none gives \<open>OTHER\<close> with 0.
\<close>

theorem classify_by_rules:
  assumes "extract_params text = Inr params"
  shows "(case hit_categories rt text of
       [] \<Rightarrow> engine_classify rt null_llm text = Inr (rules_outcome C_OTHER 0 params)
     | [(c, n)] \<Rightarrow> (\<forall>provider. engine_classify rt provider text = Inr (rules_outcome c rules_confidence params))
     | hits \<Rightarrow> \<exists>c n. (c, n) \<in> set hits \<and> (\<forall>(c', n')\<in>set hits. n' \<le> n)
         \<and> engine_classify rt null_llm text = Inr (rules_outcome c ambiguous_confidence params))"
proof -
  let ?h = "hit_categories rt text"
  have run: "engine_classify rt null_llm text = (case first_max ?h of
        Some best \<Rightarrow> Inr (rules_outcome best ambiguous_confidence params)
      | None \<Rightarrow> Inr (rules_outcome C_OTHER 0 params))" if "length ?h \<noteq> 1"
    using that assms
    by (simp add: engine_classify_def Let_def hit_categories_def null_llm_def split: option.splits)
  have one: "engine_classify rt provider text = Inr (rules_outcome (fst (hd ?h)) rules_confidence params)"
    if "length ?h = 1" for provider
    using that assms by (simp add: engine_classify_def Let_def hit_categories_def)
  show ?thesis
  proof (cases ?h)
    case Nil
    then show ?thesis using run by simp
  next
    case (Cons x xs)
    obtain c n where x: "x = (c, n)" by (cases x)
    show ?thesis
    proof (cases xs)
      case Nil
      then show ?thesis using one Cons x by simp
    next
      case (Cons y ys)
      with \<open>?h = x # xs\<close> have two: "length ?h \<noteq> 1" "?h \<noteq> []" by auto
      then obtain best where best: "first_max ?h = Some best" by fastforce
      obtain k where "(best, k) \<in> set ?h" "\<forall>(c', n')\<in>set ?h. n' \<le> k"
        using first_max_best [OF best] by blast
      moreover have "engine_classify rt null_llm text = Inr (rules_outcome best ambiguous_confidence params)"
        using run [OF two(1)] best by simp
      ultimately have "\<exists>c n. (c, n) \<in> set ?h \<and> (\<forall>(c', n')\<in>set ?h. n' \<le> n)
         \<and> engine_classify rt null_llm text = Inr (rules_outcome c ambiguous_confidence params)" by blast
      then show ?thesis using \<open>?h = x # xs\<close> Cons x by simp
    qed
  qed
qed

lemma classify_by_rules_witness:
  "engine_classify demo_rt null_llm [1082, 1088, 1072, 1085, 32, 52, 50, 32, 1084, 50] =
     Inr (rules_outcome C_REPAIR rules_confidence [(u ''area_sqm'', JInt 42)])"
proof -
  let ?t = "[1082, 1088, 1072, 1085, 32, 52, 50, 32, 1084, 50]"
  have "extract_params ?t = Inr [(u ''area_sqm'', JInt 42)]" by code_simp
  moreover have "hit_categories demo_rt ?t = [(C_REPAIR, 1)]" by code_simp
  ultimately show ?thesis using classify_by_rules [of ?t _ demo_rt] by fastforce
qed

section \<open>The contract of a provider\<close>

text \<open>
  What the engine relies on when it hands the confidence of a model on: a number between 0 and 1. The
  keywords keep to it, so every answer of the engine does.
\<close>

locale bounded_provider =
  fixes provider :: llm_provider
  assumes confidence_bounds: "provider t = Inr (Some c) \<Longrightarrow> 0 \<le> llm_confidence c \<and> llm_confidence c \<le> 1"
begin

lemma outcome_bounds:
  assumes "engine_classify rt provider t = Inr oc"
  shows "0 \<le> oc_confidence oc \<and> oc_confidence oc \<le> 1"
proof -
  have rules: "0 \<le> oc_confidence (rules_outcome c q params) \<and> oc_confidence (rules_outcome c q params) \<le> 1"
    if "q \<in> {rules_confidence, ambiguous_confidence, 0}" for c q params
    using that by (auto simp: rules_outcome_def rules_confidence_def ambiguous_confidence_def)
  obtain params where "extract_params t = Inr params"
    using assms by (cases "extract_params t") (simp_all add: engine_classify_def Let_def)
  with assms show ?thesis
    by (cases "provider t")
      (auto simp: engine_classify_def Let_def rules dest: confidence_bounds split: if_splits option.splits)
qed

end

interpretation no_model: bounded_provider null_llm
  by unfold_locales (simp add: null_llm_def)

section \<open>A number too long\<close>

lemma first_some_first: "f x = Some y \<Longrightarrow> first_some f (x # xs) = Some y"
  by simp

lemma takeWhile_digits: "takeWhile py_isdigit (replicate n 57 @ [32, 1084, 50]) = replicate n 57"
  by (induction n) (simp_all add: py_isdigit_def digit_val_def decimal_zeros_def)

lemma rx_match_greedy:
  assumes "rx_match items (prev_at prev (rep_max p hi s) s) (drop (rep_max p hi s) s) = Some y"
    "lo \<le> rep_max p hi s"
  shows "rx_match (Rep p lo hi # items) prev s = Some y"
proof -
  have "rev [lo..<Suc (rep_max p hi s)] = rep_max p hi s # rev [lo..<rep_max p hi s]"
    using assms(2) by simp
  then show ?thesis using assms(1) by simp
qed

lemma area_found:
  "rx_match (hd area_patterns) None (replicate (Suc n) 57 @ [32, 1084, 50]) = Some (Some 50, [])"
proof -
  let ?s = "replicate (Suc n) 57 @ [32, 1084, 50]"
  let ?rest = "[Rep py_isspace 0 None, Rep ci_em 1 (Some 1), Lits [u ''2'', [178]]]"
  have m: "rep_max py_isdigit None ?s = Suc n"
    unfolding rep_max_def takeWhile_digits by simp
  have "rx_match ?rest prev [32, 1084, 50] = Some (Some 50, [])" for prev
    by (simp add: rep_max_def py_isspace_def ci_em_def prev_at_def u_def)
  moreover have "drop (Suc n) ?s = [32, 1084, 50]" by (simp del: replicate_Suc)
  ultimately have "rx_match (Rep py_isdigit 1 None # ?rest) None ?s = Some (Some 50, [])"
    using rx_match_greedy [where p = py_isdigit and hi = None and s = ?s and items = ?rest] m
    by (metis One_nat_def Suc_le_mono le0)
  then show ?thesis by (simp only: area_patterns_def Let_def list.sel)
qed

text \<open>A request of up to 20000 characters may hold a number of more than 4300 digits before a unit
  of area; the engine does not answer then but raises, whatever the model would say.
\<close>

theorem long_area_raises:
  assumes "4300 < n"
  shows "engine_classify rt provider (replicate n 57 @ [32, 1084, 50]) =
     Inl (ValueError (u ''Exceeds the limit (4300 digits) for integer string conversion''))"
proof -
  obtain m where n: "n = Suc m" using assms by (cases n) auto
  have "area_search None (replicate n 57 @ [32, 1084, 50]) = Some (replicate n 57)"
    using area_found [of m] takeWhile_digits [of n]
    by (simp add: n area_patterns_def Let_def)
  then show ?thesis using assms
    by (simp add: engine_classify_def Let_def extract_params_def py_int_def max_int_digits_def)
qed

lemma long_area_raises_witness: "is_ok (engine_classify demo_rt null_llm (replicate 4301 57 @ [32, 1084, 50])) = False"
  by (simp add: long_area_raises)

end
