(* ===== verification/Classification.thy ===== *)
theory Classification
  imports Invariant Classifier
begin

text \<open>
  \<open>ClassificationService\<close> of \<open>requests/service.py\<close>: it asks the classifier for the masked text,
  stores the outcome with its trace and drives the request to \<open>CLASSIFIED\<close>, or to
  \<open>NEEDS_REVIEW\<close> when the confidence is below the threshold.
\<close>

definition classifiable :: "request_status \<Rightarrow> bool" where
  "classifiable s \<longleftrightarrow> s \<in> {S_NEW, S_CLASSIFIED, S_NEEDS_REVIEW}"

definition route_status ::
    "env \<Rightarrow> instant \<Rightarrow> principal \<Rightarrow> service_request \<Rightarrow> bool \<Rightarrow> service_request handler" where
  "route_status e now p r confident =
     bind_h (if sr_status r = S_NEW
         then bind_h (apply_transition e now p r S_CLASSIFYING) (\<lambda>r1. apply_transition e now p r1 S_CLASSIFIED)
         else ret r) (\<lambda>r'.
     if \<not> confident \<and> sr_status r' = S_CLASSIFIED then apply_transition e now p r' S_NEEDS_REVIEW
     else ret r')"

definition is_confident :: "rat \<Rightarrow> outcome \<Rightarrow> bool" where
  "is_confident threshold oc \<longleftrightarrow> threshold \<le> oc_confidence oc \<and> oc_category oc \<noteq> C_OTHER"

definition classify ::
    "env \<Rightarrow> instant \<Rightarrow> llm_provider \<Rightarrow> rat \<Rightarrow> principal \<Rightarrow> uuid \<Rightarrow> request_detail handler" where
  "classify e now provider threshold p i =
     bind_h (load_visible p i) (\<lambda>r.
     bind_h (guard_h (can_drive_lifecycle p)
       (forbidden (Some (u ''Classification not allowed for subject'')))) (\<lambda>_.
     bind_h (guard_h (classifiable (sr_status r))
       (conflict (Some (u ''Classification not allowed in status '' @ status_value (sr_status r))))) (\<lambda>_.
     bind_h (lift_h (engine_classify (e_rt e) provider (sr_raw_input_masked r))) (\<lambda>oc.
     bind_h (put_request (r\<lparr>sr_category := Some (oc_category oc), sr_product_code := oc_product_code oc,
         sr_classification := Some (to_classification oc now)\<rparr>)) (\<lambda>r1.
     bind_h (route_status e now p r1 (is_confident threshold oc)) (\<lambda>r2.
     bind_h (mod_db (add_history \<lparr>rh_request_id = sr_id r2, rh_actor_id = actor_of p,
         rh_action = H_CLASSIFIED, rh_from = Some (oc_method oc),
         rh_to = Some (category_value (oc_category oc)), rh_ts = now\<rparr>)) (\<lambda>_.
     bind_h (lift_h (build_detail e now p r2 [])) (\<lambda>detail.
     bind_h commit_h (\<lambda>_. ret detail)))))))))"

section \<open>The invariant\<close>

lemma movesc_route_status [wfc_intros]: "movesc r (route_status e now p r c)"
  unfolding route_status_def by (intro wfc_intros)

lemma keeps_classify [keeps_intros]: "keeps wf_db (classify e now provider threshold p i)"
  unfolding classify_def
  by (intro keeps_intros wfc_intros keepsc_move [OF movesc_route_status]) (simp_all add: same_core_def)

end
