(* ===== verification/Yandex.thy ===== *)
theory Yandex
  imports Neighbours Classification
begin

text \<open>
  The language model behind the classifier (\<open>classifier/yandexgpt.py\<close>): the request it sends, the
  parsing of what the model wrote, and the choice of the provider. JSON text, \<open>str.upper\<close> and
  \<open>float\<close> of a string are arguments.
\<close>

section \<open>Parsing the answer\<close>

text \<open>A \<open>float\<close> as the answer of the model may hold it: \<open>float('nan')\<close> and \<open>float('inf')\<close> are numbers of
  Python. \<open>min\<close> and \<open>max\<close> keep their first argument unless the second is smaller (larger).\<close>

datatype pyfloat = Finite rat | Plus_inf | Minus_inf | NaN

definition float_less :: "pyfloat \<Rightarrow> pyfloat \<Rightarrow> bool" where
  "float_less x y = (case (x, y) of
       (Finite p, Finite q) \<Rightarrow> p < q
     | (Finite _, Plus_inf) \<Rightarrow> True
     | (Minus_inf, Finite _) \<Rightarrow> True
     | (Minus_inf, Plus_inf) \<Rightarrow> True
     | _ \<Rightarrow> False)"

definition py_min :: "pyfloat \<Rightarrow> pyfloat \<Rightarrow> pyfloat" where
  "py_min x y = (if float_less y x then y else x)"

definition py_max :: "pyfloat \<Rightarrow> pyfloat \<Rightarrow> pyfloat" where
  "py_max x y = (if float_less x y then y else x)"

text \<open>\<open>max(0.0, min(1.0, x))\<close>, which is finite for every \<open>x\<close>.\<close>

definition clamp_unit :: "pyfloat \<Rightarrow> rat" where
  "clamp_unit x = (case py_max (Finite 0) (py_min (Finite 1) x) of Finite q \<Rightarrow> q | _ \<Rightarrow> 0)"

record yandex_rt =
  yr_rt :: pyrt
  yr_upper :: "pystr \<Rightarrow> pystr"
  yr_loads :: "pystr \<Rightarrow> exn + json"
  yr_float :: "pystr \<Rightarrow> exn + pyfloat"

definition json_item :: "json \<Rightarrow> pystr \<Rightarrow> exn + json" where
  "json_item j k = (case j of
       JObj d \<Rightarrow> (case dict_get d k of None \<Rightarrow> Inl KeyError | Some v \<Rightarrow> Inr v)
     | _ \<Rightarrow> Inl TypeError)"

definition index_error :: exn where
  "index_error = OtherError (u ''IndexError'') []"

definition json_first :: "json \<Rightarrow> exn + json" where
  "json_first j = (case j of
       JArr [] \<Rightarrow> Inl index_error
     | JArr (x # _) \<Rightarrow> Inr x
     | JStr [] \<Rightarrow> Inl index_error
     | JStr (c # _) \<Rightarrow> Inr (JStr [c])
     | JObj _ \<Rightarrow> Inl KeyError
     | _ \<Rightarrow> Inl TypeError)"

definition overflow_error :: exn where
  "overflow_error = OtherError (u ''OverflowError'') (u ''int too large to convert to float'')"

definition json_float :: "(pystr \<Rightarrow> exn + pyfloat) \<Rightarrow> json \<Rightarrow> exn + pyfloat" where
  "json_float float_of j = (case j of
       JInt n \<Rightarrow> if \<bar>n\<bar> \<ge> float_limit then Inl overflow_error else Inr (Finite (of_int n))
     | JBool b \<Rightarrow> Inr (Finite (if b then 1 else 0))
     | JNum q \<Rightarrow> Inr (Finite q)
     | JStr s \<Rightarrow> float_of s
     | _ \<Rightarrow> Inl TypeError)"

definition fence :: pystr where "fence = u ''```''"

definition after_newline :: "pystr \<Rightarrow> pystr" where
  "after_newline s = (if 10 \<in> set s then tl (dropWhile (\<lambda>c. c \<noteq> 10) s) else s)"

definition remove_prefix :: "pystr \<Rightarrow> pystr \<Rightarrow> pystr" where
  "remove_prefix p s = (if is_prefix p s then drop (length p) s else s)"

definition ends_with :: "pystr \<Rightarrow> pystr \<Rightarrow> bool" where
  "ends_with p s = is_prefix (rev p) (rev s)"

definition strip_fences :: "pystr \<Rightarrow> pystr" where
  "strip_fences text =
     (let cleaned = py_strip text
      in if is_prefix fence cleaned
         then (let inner = py_strip (remove_prefix (u ''json'') (after_newline cleaned))
               in if ends_with fence inner then py_strip (take (length inner - 3) inner) else inner)
         else cleaned)"

text \<open>The exceptions \<open>_parse\<close> turns into no answer.\<close>

definition parse_caught :: "exn \<Rightarrow> bool" where
  "parse_caught x = (case x of KeyError \<Rightarrow> True | TypeError \<Rightarrow> True | ValueError _ \<Rightarrow> True
     | OtherError n _ \<Rightarrow> n = u ''IndexError'' | _ \<Rightarrow> False)"

definition read_completion :: "yandex_rt \<Rightarrow> json \<Rightarrow> exn + (category \<times> pyfloat \<times> json)" where
  "read_completion yr payload =
     bindE (json_item payload (u ''result'')) (\<lambda>result.
     bindE (json_item result (u ''alternatives'')) (\<lambda>alternatives.
     bindE (json_first alternatives) (\<lambda>alternative.
     bindE (json_item alternative (u ''message'')) (\<lambda>message.
     bindE (json_item message (u ''text'')) (\<lambda>text.
     bindE (case text of JStr s \<Rightarrow> yr_loads yr (strip_fences s) | _ \<Rightarrow> Inl AttributeError) (\<lambda>data.
     bindE (json_item data (u ''category'')) (\<lambda>name.
     bindE (case category_of_value (yr_upper yr (py_str (yr_rt yr) name)) of
         None \<Rightarrow> Inl (ValueError (u ''not a valid Category'')) | Some c \<Rightarrow> Inr c) (\<lambda>category.
     bindE (json_item data (u ''confidence'')) (\<lambda>v.
     bindE (json_float (yr_float yr) v) (\<lambda>confidence.
     Inr (category, confidence, data)))))))))))"

definition parse_completion :: "yandex_rt \<Rightarrow> settings \<Rightarrow> json \<Rightarrow> exn + llm_classification option" where
  "parse_completion yr st payload = (case read_completion yr payload of
       Inl x \<Rightarrow> if parse_caught x then Inr None else Inl x
     | Inr (category, confidence, data) \<Rightarrow>
         (let d = (case data of JObj kvs \<Rightarrow> kvs | _ \<Rightarrow> [])
          in Inr (Some \<lparr>llm_category = category, llm_confidence = clamp_unit confidence,
               llm_product_code = truthy_text (yr_rt yr) (key_or_null d (u ''product_code'')),
               llm_params = (case dict_get d (u ''params'') of Some (JObj kvs) \<Rightarrow> kvs | _ \<Rightarrow> []),
               llm_model = st_yandexgpt_model st, llm_version = u ''v1''\<rparr>)))"

section \<open>The provider\<close>

definition system_prompt :: pystr where
  "system_prompt =
     [1058, 1099, 32, 1082, 1083, 1072, 1089, 1089, 1080, 1092, 1080, 1082, 1072, 1090, 1086,
      1088, 32, 1079, 1072, 1103, 1074, 1086, 1082, 32, 1085, 1072, 32, 1073, 1099, 1090, 1086,
      1074, 1099, 1077, 32, 1091, 1089, 1083, 1091, 1075, 1080, 46, 32, 1054, 1087, 1088, 1077,
      1076, 1077, 1083, 1080, 32, 1082, 1072, 1090, 1077, 1075, 1086, 1088, 1080, 1102, 32, 1087,
      1086, 32, 1090, 1077, 1082, 1089, 1090, 1091, 32, 1079, 1072, 1103, 1074, 1082, 1080, 46,
      32, 1050, 1072, 1090, 1077, 1075, 1086, 1088, 1080, 1080, 58, 32, 67, 76, 69, 65, 78, 73,
      78, 71, 32, 40, 1091, 1073, 1086, 1088, 1082, 1072, 47, 1082, 1083, 1080, 1085, 1080, 1085,
      1075, 41, 44, 32, 77, 79, 86, 73, 78, 71, 32, 40, 1087, 1077, 1088, 1077, 1077, 1079, 1076,
      47, 1075, 1088, 1091, 1079, 1095, 1080, 1082, 1080, 41, 44, 32, 82, 69, 80, 65, 73, 82, 32,
      40, 1088, 1077, 1084, 1086, 1085, 1090, 47, 1089, 1072, 1085, 1090, 1077, 1093, 1085, 1080,
      1082, 47, 1101, 1083, 1077, 1082, 1090, 1088, 1080, 1082, 41, 44, 32, 75, 69, 89, 95, 68,
      69, 76, 73, 86, 69, 82, 89, 32, 40, 1076, 1086, 1089, 1090, 1072, 1074, 1082, 1072, 47,
      1087, 1077, 1088, 1077, 1076, 1072, 1095, 1072, 32, 1082, 1083, 1102, 1095, 1077, 1081, 41,
      44, 32, 79, 84, 72, 69, 82, 32, 40, 1085, 1077, 32, 1087, 1086, 1076, 1093, 1086, 1076,
      1080, 1090, 32, 1085, 1080, 32, 1086, 1076, 1085, 1072, 41, 46, 32, 1054, 1090, 1074, 1077,
      1090, 1100, 32, 1057, 1058, 1056, 1054, 1043, 1054, 32, 1086, 1076, 1085, 1080, 1084, 32,
      74, 83, 79, 78, 45, 1086, 1073, 1098, 1077, 1082, 1090, 1086, 1084, 32, 1073, 1077, 1079,
      32, 1087, 1086, 1103, 1089, 1085, 1077, 1085, 1080, 1081, 58, 32, 123, 34, 99, 97, 116, 101,
      103, 111, 114, 121, 34, 58, 32, 34, 60, 1050, 1040, 1058, 1045, 1043, 1054, 1056, 1048,
      1071, 62, 34, 44, 32, 34, 99, 111, 110, 102, 105, 100, 101, 110, 99, 101, 34, 58, 32, 60,
      48, 46, 46, 49, 62, 44, 32, 34, 112, 114, 111, 100, 117, 99, 116, 95, 99, 111, 100, 101, 34,
      58, 32, 110, 117, 108, 108, 44, 32, 34, 112, 97, 114, 97, 109, 115, 34, 58, 32, 123, 125,
      125]"

definition model_uri :: "settings \<Rightarrow> pystr" where
  "model_uri st = u ''gpt://'' @ st_yandexgpt_folder_id st @ u ''/'' @ st_yandexgpt_model st @ u ''/latest''"

definition build_body :: "settings \<Rightarrow> pystr \<Rightarrow> json" where
  "build_body st masked_text = JObj
     [(u ''modelUri'', JStr (model_uri st)),
      (u ''completionOptions'', JObj [(u ''stream'', JBool False), (u ''temperature'', JNum 0),
        (u ''maxTokens'', JInt 200)]),
      (u ''messages'', JArr [JObj [(u ''role'', JStr (u ''system'')), (u ''text'', JStr system_prompt)],
        JObj [(u ''role'', JStr (u ''user'')), (u ''text'', JStr masked_text)]])]"

definition completion_call :: "settings \<Rightarrow> pystr \<Rightarrow> http_call" where
  "completion_call st masked_text = \<lparr>hq_method = u ''POST'', hq_url = u ''/foundationModels/v1/completion'',
     hq_operation = u ''classify'',
     hq_headers = [(u ''Authorization'', u ''Api-Key '' @ st_yandexgpt_api_key st),
       (u ''x-folder-id'', st_yandexgpt_folder_id st)],
     hq_params = [], hq_json = Some (build_body st masked_text), hq_content = None\<rparr>"

definition yandex_classify :: "yandex_rt \<Rightarrow> settings \<Rightarrow> http \<Rightarrow> llm_provider" where
  "yandex_classify yr st http masked_text =
     bindE (answered http (completion_call st masked_text)) (\<lambda>z. case z of
       None \<Rightarrow> Inr None
     | Some r \<Rightarrow> bindE (response_json r) (parse_completion yr st))"

definition build_llm_provider :: "yandex_rt \<Rightarrow> settings \<Rightarrow> http \<Rightarrow> llm_provider" where
  "build_llm_provider yr st http =
     (if st_classifier_llm_provider st = u ''yandexgpt'' \<and> st_yandexgpt_api_key st \<noteq> []
         \<and> st_yandexgpt_folder_id st \<noteq> []
      then yandex_classify yr st http else null_llm)"

section \<open>Facts\<close>

lemma clamp_unit_simps [simp]:
  "clamp_unit (Finite q) = max 0 (min 1 q)" "clamp_unit Plus_inf = 1" "clamp_unit Minus_inf = 0"
  "clamp_unit NaN = 1"
  by (auto simp: clamp_unit_def py_max_def py_min_def float_less_def)

lemma clamp_unit_bounds: "0 \<le> clamp_unit x" "clamp_unit x \<le> 1"
  by (cases x; simp)+

lemma clamp_unit_finite: "py_max (Finite 0) (py_min (Finite 1) x) = Finite (clamp_unit x)"
  by (cases x) (auto simp: py_max_def py_min_def float_less_def)

lemma strip_id:
  assumes "s \<noteq> []" "\<not> py_isspace (hd s)" "\<not> py_isspace (last s)"
  shows "py_strip s = s"
proof -
  have "dropWhile py_isspace s = s" using assms by (cases s) auto
  moreover have "dropWhile py_isspace (rev s) = rev s"
    using assms by (cases s rule: rev_cases) auto
  ultimately show ?thesis by (simp add: py_strip_def strip_by_def lstrip_by_def rstrip_by_def)
qed

lemma strip_newline:
  assumes "s \<noteq> []" "\<not> py_isspace (hd s)" "\<not> py_isspace (last s)"
  shows "py_strip (s @ [10]) = s"
proof -
  have "dropWhile py_isspace (s @ [10]) = s @ [10]" using assms by (cases s) auto
  moreover have "dropWhile py_isspace (rev s) = rev s"
    using assms by (cases s rule: rev_cases) auto
  ultimately show ?thesis by (simp add: py_strip_def strip_by_def lstrip_by_def rstrip_by_def py_isspace_def)
qed

definition fenced :: "pystr \<Rightarrow> pystr" where
  "fenced s = fence @ u ''json'' @ [10] @ s @ [10] @ fence"

text \<open>The fence a model puts around its JSON is transparent: a trimmed text that starts with neither
  a fence nor the word json comes back unchanged, with the fence and without it.
\<close>

theorem fences_roundtrip:
  assumes "s \<noteq> []" "\<not> py_isspace (hd s)" "\<not> py_isspace (last s)" "\<not> is_prefix fence s"
    "\<not> is_prefix (u ''json'') s"
  shows "strip_fences (fenced s) = s \<and> strip_fences s = s"
proof -
  have tick: "\<not> py_isspace 96" by (simp add: py_isspace_def)
  have f: "fence = [96, 96, 96]" by (simp add: fence_def u_def)
  have j: "u ''json'' = [106, 115, 111, 110]" by (simp add: u_def)
  have "py_strip (fenced s) = fenced s"
    by (rule strip_id) (simp_all add: fenced_def f tick)
  moreover have "after_newline (fenced s) = s @ [10] @ fence"
    by (simp add: after_newline_def fenced_def f j)
  moreover have "remove_prefix (u ''json'') (s @ [10] @ fence) = s @ [10] @ fence"
  proof -
    have "is_prefix (u ''json'') s" if "is_prefix (u ''json'') (s @ [10] @ fence)"
      using that assms(1)
      by (auto simp: j f is_prefix_append append_eq_Cons_conv)
    then show ?thesis using assms(5) by (auto simp: remove_prefix_def)
  qed
  moreover have "py_strip (s @ [10] @ fence) = s @ [10] @ fence"
    by (rule strip_id) (use assms(1,2) in \<open>simp_all add: f tick\<close>)
  moreover have "ends_with fence (s @ [10] @ fence)" by (simp add: ends_with_def f)
  moreover have "take (length (s @ [10] @ fence) - 3) (s @ [10] @ fence) = s @ [10]" by (simp add: f)
  moreover have "is_prefix fence (fenced s)" by (simp add: fenced_def f)
  ultimately have "strip_fences (fenced s) = s"
    using strip_newline [OF assms(1-3)] by (simp add: strip_fences_def Let_def)
  moreover have "strip_fences s = s"
    using strip_id [OF assms(1-3)] assms(4) by (simp add: strip_fences_def Let_def)
  ultimately show ?thesis by blast
qed

lemma fences_roundtrip_witness: "strip_fences (fenced (u ''{}'')) = u ''{}''"
proof -
  have "u ''{}'' \<noteq> []" "\<not> py_isspace (hd (u ''{}''))" "\<not> py_isspace (last (u ''{}''))"
    "\<not> is_prefix fence (u ''{}'')" "\<not> is_prefix (u ''json'') (u ''{}'')" by code_simp+
  from fences_roundtrip [OF this] show ?thesis by blast
qed

definition escapes :: "yandex_rt \<Rightarrow> exn \<Rightarrow> bool" where
  "escapes yr x \<longleftrightarrow> x = AttributeError \<or> x = overflow_error
     \<or> (\<exists>s. yr_loads yr s = Inl x) \<or> (\<exists>s. yr_float yr s = Inl x)"

definition fails_in :: "(exn \<Rightarrow> bool) \<Rightarrow> exn + 'a \<Rightarrow> bool" where
  "fails_in P m \<longleftrightarrow> (case m of Inl x \<Rightarrow> P x | Inr _ \<Rightarrow> True)"

lemma fails_in_bind: "fails_in P m \<Longrightarrow> (\<And>a. fails_in P (f a)) \<Longrightarrow> fails_in P (bindE m f)"
  by (cases m) (simp_all add: fails_in_def)

lemma fails_in_read: "fails_in (\<lambda>x. parse_caught x \<or> escapes yr x) (read_completion yr payload)"
proof -
  let ?P = "\<lambda>x. parse_caught x \<or> escapes yr x"
  have item: "fails_in ?P (json_item j k)" for j k
    by (simp add: fails_in_def json_item_def parse_caught_def split: json.splits option.splits)
  have first: "fails_in ?P (json_first j)" for j
    by (simp add: fails_in_def json_first_def parse_caught_def index_error_def split: json.splits list.splits)
  have flt: "fails_in ?P (json_float (yr_float yr) j)" for j
    by (cases j) (auto simp: fails_in_def json_float_def parse_caught_def escapes_def split: sum.splits)
  have txt_ok: "fails_in ?P (case j of JStr s \<Rightarrow> yr_loads yr (strip_fences s) | _ \<Rightarrow> Inl AttributeError)" for j
    by (cases j) (auto simp: fails_in_def escapes_def split: sum.splits)
  have cat: "fails_in ?P (case z of None \<Rightarrow> Inl (ValueError t) | Some c \<Rightarrow> Inr c)" for z :: "category option" and t
    by (cases z) (simp_all add: fails_in_def parse_caught_def)
  show ?thesis unfolding read_completion_def
    by (intro fails_in_bind item first txt_ok cat flt) (simp add: fails_in_def)
qed

text \<open>Whatever the model answers, a classification it leads to has a confidence between 0 and 1, and
  a text that is not a classification is no answer; the only ways out are a completion whose text
  is not a string, an exception of the JSON reader or of \<open>float\<close> outside the caught ones, and an
  integer confidence too large for a float.
\<close>

theorem completion_is_bounded:
  shows "(case parse_completion yr st payload of
       Inr None \<Rightarrow> True
     | Inr (Some c) \<Rightarrow> 0 \<le> llm_confidence c \<and> llm_confidence c \<le> 1 \<and> llm_model c = st_yandexgpt_model st
     | Inl x \<Rightarrow> x = AttributeError \<or> x = overflow_error
         \<or> (\<exists>s. yr_loads yr s = Inl x) \<or> (\<exists>s. yr_float yr s = Inl x))"
proof (cases "read_completion yr payload")
  case (Inr z)
  then show ?thesis by (cases z) (simp add: parse_completion_def Let_def clamp_unit_bounds)
next
  case (Inl x)
  then show ?thesis using fails_in_read [of yr payload]
    by (auto simp: fails_in_def parse_completion_def escapes_def)
qed

text \<open>So the configured provider keeps to the contract of the engine.\<close>

interpretation configured: bounded_provider "build_llm_provider yr st http" for yr st http
proof
  fix t c assume "build_llm_provider yr st http t = Inr (Some c)"
  then have "yandex_classify yr st http t = Inr (Some c)"
    by (simp add: build_llm_provider_def null_llm_def split: if_splits)
  then obtain payload where "parse_completion yr st payload = Inr (Some c)"
    by (auto simp: yandex_classify_def bindE_Inr_iff split: option.splits)
  then show "0 \<le> llm_confidence c \<and> llm_confidence c \<le> 1"
    by (auto simp: parse_completion_def Let_def clamp_unit_bounds split: sum.splits if_splits)
qed

section \<open>A model that is not sure\<close>

text \<open>The document a completion comes in, with \<open>text\<close> as what the model wrote.\<close>

definition completion :: "pystr \<Rightarrow> json" where
  "completion text = JObj [(u ''result'', JObj [(u ''alternatives'',
     JArr [JObj [(u ''message'', JObj [(u ''text'', JStr text)])]])])]"

lemma parse_answer:
  assumes "yr_loads yr (strip_fences answer) = Inr (JObj data)"
    "dict_get data (u ''category'') = Some (JStr name)" "category_of_value (yr_upper yr name) = Some c"
    "dict_get data (u ''confidence'') = Some (JStr s)" "yr_float yr s = Inr q"
  shows "\<exists>cl. parse_completion yr st (completion answer) = Inr (Some cl) \<and> llm_category cl = c
    \<and> llm_confidence cl = clamp_unit q"
proof -
  have "read_completion yr (completion answer) = Inr (c, q, JObj data)"
    using assms by (simp add: read_completion_def completion_def json_item_def json_first_def json_float_def
        dict_get_def u_def)
  then show ?thesis by (simp add: parse_completion_def Let_def)
qed

text \<open>C39. A model that is not sure is trusted most: when the confidence it writes is not a number
  (\<open>nan\<close>), \<open>min\<close> keeps 1.0, and the category is taken as certain, above any threshold, instead of
  going to review.
\<close>

theorem unsure_model_is_trusted:
  assumes "st_classifier_llm_provider st = u ''yandexgpt''" "st_yandexgpt_api_key st \<noteq> []"
    "st_yandexgpt_folder_id st \<noteq> []"
    "http (completion_call st text) = Inr \<lparr>hr_status = 200, hr_body = Some (completion answer)\<rparr>"
    "yr_loads yr (strip_fences answer) = Inr (JObj data)"
    "dict_get data (u ''category'') = Some (JStr name)" "category_of_value (yr_upper yr name) = Some c"
    "dict_get data (u ''confidence'') = Some (JStr s)" "yr_float yr s = Inr NaN"
    "extract_params text = Inr params" "length (hit_categories rt text) \<noteq> 1" "c \<noteq> C_OTHER"
  shows "\<exists>oc. engine_classify rt (build_llm_provider yr st http) text = Inr oc \<and> oc_category oc = c
    \<and> oc_confidence oc = 1 \<and> (\<forall>threshold. threshold \<le> 1 \<longleftrightarrow> is_confident threshold oc)"
proof -
  obtain cl where cl: "parse_completion yr st (completion answer) = Inr (Some cl)" "llm_category cl = c"
      "llm_confidence cl = 1"
    using parse_answer [OF assms(5-9)] by auto
  have "build_llm_provider yr st http text = Inr (Some cl)"
    using assms(1-4) cl(1)
    by (simp add: build_llm_provider_def yandex_classify_def answered_def response_json_def)
  then show ?thesis
    using assms(10-12) cl(2,3) by (simp add: engine_classify_def hit_categories_def Let_def is_confident_def)
qed

definition demo_yandex :: yandex_rt where
  "demo_yandex = \<lparr>yr_rt = demo_rt, yr_upper = (\<lambda>s. s),
     yr_loads = (\<lambda>_. Inr (JObj [(u ''category'', JStr (u ''MOVING'')), (u ''confidence'', JStr (u ''nan''))])),
     yr_float = (\<lambda>_. Inr NaN)\<rparr>"

definition demo_model :: settings where
  "demo_model = default_settings\<lparr>st_classifier_llm_provider := u ''yandexgpt'', st_yandexgpt_api_key := u ''k'',
     st_yandexgpt_folder_id := u ''f''\<rparr>"

lemma unsure_model_is_trusted_witness:
  "\<exists>oc. engine_classify demo_rt (build_llm_provider demo_yandex demo_model
       (\<lambda>_. Inr \<lparr>hr_status = 200, hr_body = Some (completion (u ''{}''))\<rparr>)) (u ''help'') = Inr oc
     \<and> oc_category oc = C_MOVING \<and> is_confident 1 oc"
proof -
  let ?d = "[(u ''category'', JStr (u ''MOVING'')), (u ''confidence'', JStr (u ''nan''))]"
  have set_up: "st_classifier_llm_provider demo_model = u ''yandexgpt''" "st_yandexgpt_api_key demo_model \<noteq> []"
    "st_yandexgpt_folder_id demo_model \<noteq> []"
    by (simp_all add: demo_model_def u_def)
  have said: "dict_get ?d (u ''category'') = Some (JStr (u ''MOVING''))"
    "dict_get ?d (u ''confidence'') = Some (JStr (u ''nan''))"
    "category_of_value (yr_upper demo_yandex (u ''MOVING'')) = Some C_MOVING"
    by code_simp+
  have plain: "extract_params (u ''help'') = Inr []" "hit_categories demo_rt (u ''help'') = []"
    by code_simp+
  from unsure_model_is_trusted [OF set_up _ _ said(1,3,2), of "\<lambda>_. Inr \<lparr>hr_status = 200,
      hr_body = Some (completion (u ''{}''))\<rparr>" "u ''help''" "u ''{}''" "[]" demo_rt] plain
  obtain oc where "engine_classify demo_rt (build_llm_provider demo_yandex demo_model
       (\<lambda>_. Inr \<lparr>hr_status = 200, hr_body = Some (completion (u ''{}''))\<rparr>)) (u ''help'') = Inr oc"
     "oc_category oc = C_MOVING" "(1::rat) \<le> 1 \<longleftrightarrow> is_confident 1 oc"
    by (auto simp: demo_yandex_def)
  then show ?thesis by auto
qed

end
