(* ===== verification/Email_Inbound.thy ===== *)
theory Email_Inbound
  imports Inbound Pii
begin

text \<open>
  Answers of partners by mail (\<open>channels/email_inbound.py\<close>) and the poll of the mailbox
  (\<open>_poll_email_inbound\<close> of \<open>tasks/actors.py\<close>). The mailbox itself and \<open>parseaddr\<close> are
  parameters; every message is handled in its own session.
\<close>

record imap_message =
  mi_message_id :: pystr
  mi_from_addr :: pystr
  mi_subject :: pystr
  mi_body :: pystr

section \<open>Reading a message\<close>

definition number_chars :: "nat \<Rightarrow> bool" where
  "number_chars c \<longleftrightarrow> (65 \<le> c \<and> c \<le> 90) \<or> (97 \<le> c \<and> c \<le> 122) \<or> (48 \<le> c \<and> c \<le> 57) \<or> c = 45"

definition rx_number :: "pyrt \<Rightarrow> rx_item list" where
  "rx_number rt = [WordEdge (rt_is_word rt), Lits [u ''RQ-''], Rep number_chars 1 None, WordEdge (rt_is_word rt)]"

definition parse_number :: "pyrt \<Rightarrow> pystr \<Rightarrow> pystr option" where
  "parse_number rt text = rx_search (rx_number rt) None text"

definition status_keywords :: "(pystr \<times> pystr) list" where
  "status_keywords =
     [([1086, 1090, 1082, 1083, 1086, 1085], u ''rejected''),
      ([1086, 1090, 1082, 1072, 1079], u ''rejected''),
      (u ''reject'', u ''rejected''),
      ([1074, 1099, 1087, 1086, 1083, 1085], u ''done''),
      ([1079, 1072, 1074, 1077, 1088, 1096], u ''done''),
      ([1075, 1086, 1090, 1086, 1074], u ''done''),
      (u ''done'', u ''done''),
      ([1074, 32, 1088, 1072, 1073, 1086, 1090], u ''in_progress''),
      ([1087, 1088, 1080, 1089, 1090, 1091, 1087], u ''in_progress''),
      (u ''progress'', u ''in_progress''),
      ([1087, 1088, 1080, 1085, 1103], u ''accepted''),
      ([1087, 1088, 1080, 1085, 1103, 1090], u ''accepted''),
      (u ''accept'', u ''accepted'')]"

definition parse_status :: "pyrt \<Rightarrow> pystr \<Rightarrow> pystr option" where
  "parse_status rt text = map_option snd
     (find (\<lambda>(w, _). contains_sub w (rt_lower rt text)) status_keywords)"

section \<open>One message\<close>

definition request_by_number :: "pystr \<Rightarrow> db \<Rightarrow> service_request option" where
  "request_by_number number d = find (\<lambda>r. sr_number r = number) (db_requests d)"

definition email_config :: "pystr \<Rightarrow> db \<Rightarrow> channel_config option" where
  "email_config partner_id d =
     find (\<lambda>c. pc_collaborator_id c = partner_id \<and> pc_channel_type c = CT_EMAIL) (db_configs d)"

definition config_email :: "pyrt \<Rightarrow> channel_config \<Rightarrow> pystr" where
  "config_email rt c = rt_lower rt (case dict_get (pc_config c) (u ''email'') of
       None \<Rightarrow> [] | Some v \<Rightarrow> py_str rt v)"

text \<open>The row found by its number, as an object of the session.\<close>

definition load_by_number :: "pystr \<Rightarrow> service_request option handler" where
  "load_by_number number = bind_h get_db (\<lambda>d. case request_by_number number d of
       None \<Rightarrow> ret None | Some r \<Rightarrow> load_for_update (sr_id r))"

definition handle_email ::
    "env \<Rightarrow> instant \<Rightarrow> (pystr \<Rightarrow> pystr) \<Rightarrow> sla_policy \<Rightarrow> imap_message \<Rightarrow> pystr handler" where
  "handle_email e now parseaddr policy m =
     (let text = mi_subject m @ [10] @ mi_body m
      in case (parse_number (e_rt e) text, parse_status (e_rt e) text) of
        (Some number, Some status) \<Rightarrow>
          bind_h (load_by_number number) (\<lambda>found. case found of
            None \<Rightarrow> ret (u ''ignored:no_request'')
          | Some r \<Rightarrow> (case sr_partner_id r of
              None \<Rightarrow> ret (u ''ignored:no_request'')
            | Some partner \<Rightarrow>
                bind_h get_db (\<lambda>d.
                let sender = rt_lower (e_rt e) (parseaddr (mi_from_addr m)) in
                case email_config partner d of
                  None \<Rightarrow> ret (u ''ignored:spoof'')
                | Some c \<Rightarrow>
                    if config_email (e_rt e) c \<noteq> sender then ret (u ''ignored:spoof'')
                    else if is_seen (pc_id c) (mi_message_id m) d then ret (u ''duplicate'')
                    else
                      bind_h (advance_partner_status e now channel_principal r status policy) (\<lambda>r'.
                      bind_h (mod_db (add_event \<lparr>ie_channel_config_id = pc_id c,
                          ie_nonce = mi_message_id m, ie_request_id = Some (sr_id r'),
                          ie_received_at = now\<rparr>)) (\<lambda>_.
                      bind_h commit_h (\<lambda>_. ret (u ''ok'')))))))
      | _ \<Rightarrow> ret (u ''ignored:unparseable''))"

section \<open>The poll\<close>

fun poll_messages ::
    "env \<Rightarrow> instant \<Rightarrow> (pystr \<Rightarrow> pystr) \<Rightarrow> sla_policy \<Rightarrow> imap_message list \<Rightarrow> nat \<Rightarrow> db \<Rightarrow> (exn + nat) \<times> db" where
  "poll_messages e now parseaddr policy [] processed d = (Inr processed, d)"
| "poll_messages e now parseaddr policy (m # ms) processed d =
     (case run_endpoint (handle_email e now parseaddr policy m) d of
        (Inl x, d') \<Rightarrow> (Inl x, d')
      | (Inr _, d') \<Rightarrow> poll_messages e now parseaddr policy ms (Suc processed) d')"

definition poll_email_inbound ::
    "env \<Rightarrow> instant \<Rightarrow> (pystr \<Rightarrow> pystr) \<Rightarrow> imap_message list \<Rightarrow> db \<Rightarrow> (exn + nat) \<times> db" where
  "poll_email_inbound e now parseaddr unseen d =
     (let messages = (if st_imap_host (e_settings e) = [] then [] else unseen)
      in case policy_from_settings (e_settings e) of
           Inl x \<Rightarrow> (Inl x, d)
         | Inr policy \<Rightarrow> poll_messages e now parseaddr policy messages 0 d)"

section \<open>The invariant\<close>

lemma keeps_load_by_number:
  assumes "keeps wf_db (f None)" "\<And>r. keepsc r (f (Some r))"
  shows "keeps wf_db (bind_h (load_by_number number) f)"
proof -
  have "bind_h (load_by_number number) f = bind_h get_db (\<lambda>d. case request_by_number number d of
      None \<Rightarrow> f None | Some r \<Rightarrow> bind_h (load_for_update (sr_id r)) f)"
    by (rule ext) (simp add: load_by_number_def bind_h_def get_db_def ret_def split: option.split)
  moreover have "keeps wf_db (case z of None \<Rightarrow> f None | Some r \<Rightarrow> bind_h (load_for_update (sr_id r)) f)" for z
    by (cases z) (auto intro: assms keeps_load_for_update)
  ultimately show ?thesis by (auto intro: keeps_intros)
qed

lemma keepsc_email_row:
  "keepsc r (bind_h (advance_partner_status e now p r status policy) (\<lambda>r'.
     bind_h (mod_db (add_event (x r'))) (\<lambda>_. bind_h commit_h (\<lambda>_. ret o1))))"
  by (intro keepsc_move [OF movesc_advance_partner_status] keepsc_outside outside_audit_event
      keepsc_commit keepsc_end)

lemma keeps_handle_email [keeps_intros]: "keeps wf_db (handle_email e now parseaddr policy m)"
  unfolding handle_email_def Let_def
  by (auto intro!: keeps_ret keeps_load_by_number keepsc_get keepsc_email_row keepsc_end split: option.split)

lemma wf_db_poll: "wf_db d \<Longrightarrow> wf_db (snd (poll_email_inbound e now parseaddr unseen d))"
proof -
  have "wf_db d \<Longrightarrow> wf_db (snd (poll_messages e now parseaddr policy ms n d))" for policy ms n d
  proof (induction ms arbitrary: n d)
    case (Cons m ms)
    have "wf_db (snd (run_endpoint (handle_email e now parseaddr policy m) d))"
      using keeps_handle_email Cons.prems by (simp add: keeps_def run_endpoint_keeps)
    then show ?case using Cons.IH by (simp split: prod.split sum.split) (metis snd_conv)
  qed simp
  then show "wf_db d \<Longrightarrow> ?thesis" by (simp add: poll_email_inbound_def Let_def split: sum.split)
qed

section \<open>Who may answer\<close>

lemma handle_email_run:
  assumes "parse_number (e_rt e) (mi_subject m @ [10] @ mi_body m) = Some number"
    "parse_status (e_rt e) (mi_subject m @ [10] @ mi_body m) = Some status"
    "request_by_number number d = Some r" "get_request (sr_id r) d = Some r"
    "sr_partner_id r = Some partner" "email_config partner d = Some c"
    "config_email (e_rt e) c = rt_lower (e_rt e) (parseaddr (mi_from_addr m))"
    "\<not> is_seen (pc_id c) (mi_message_id m) d"
  shows "handle_email e now parseaddr policy m (open_session d) =
     bind_h (advance_partner_status e now channel_principal r status policy) (\<lambda>r'.
       bind_h (mod_db (add_event \<lparr>ie_channel_config_id = pc_id c, ie_nonce = mi_message_id m,
         ie_request_id = Some (sr_id r'), ie_received_at = now\<rparr>)) (\<lambda>_.
       bind_h commit_h (\<lambda>_. ret (u ''ok'')))) (open_session d)"
  using assms
  by (simp add: handle_email_def bind_h_def load_by_number_def load_for_update_def get_db_def ret_def
      open_session_def)

lemma handle_email_ok:
  assumes "handle_email e now parseaddr policy m (open_session d) = (Inr (u ''ok''), s)"
    "distinct (map sr_id (db_requests d))"
  obtains number status r partner c where
    "parse_number (e_rt e) (mi_subject m @ [10] @ mi_body m) = Some number"
    "parse_status (e_rt e) (mi_subject m @ [10] @ mi_body m) = Some status"
    "request_by_number number d = Some r" "get_request (sr_id r) d = Some r"
    "sr_partner_id r = Some partner" "email_config partner d = Some c"
    "config_email (e_rt e) c = rt_lower (e_rt e) (parseaddr (mi_from_addr m))"
    "\<not> is_seen (pc_id c) (mi_message_id m) d"
proof -
  have row: "get_request (sr_id r) d = Some r" if "request_by_number n d = Some r" for n r
  proof -
    have "r \<in> set (db_requests d)" using that by (auto simp: request_by_number_def find_Some_iff)
    then show ?thesis using row_find_distinct [OF assms(2)] by (simp add: get_request_def)
  qed
  show thesis
    using assms(1) that row
    by (auto simp: handle_email_def Let_def bind_h_def load_by_number_def load_for_update_def
        get_db_def ret_def open_session_def u_def split: option.splits if_splits)
qed


text \<open>Mails are told apart by their \<open>Message-ID\<close>, which is empty for a mail without one.\<close>

lemma email_row_frame:
  fixes e now r status policy c m
  defines "body \<equiv> bind_h (advance_partner_status e now channel_principal r status policy) (\<lambda>r'.
       bind_h (mod_db (add_event \<lparr>ie_channel_config_id = pc_id c, ie_nonce = mi_message_id m,
         ie_request_id = Some (sr_id r'), ie_received_at = now\<rparr>)) (\<lambda>_.
       bind_h commit_h (\<lambda>_. ret (u ''ok''))))"
  assumes "body (open_session d) = (Inr x, s)"
  shows "is_seen (pc_id c) (mi_message_id m) (se_durable s)" "db_configs (se_durable s) = db_configs d"
proof -
  have last: "triple (\<lambda>_. True) (bind_h (mod_db (add_event \<lparr>ie_channel_config_id = pc_id c, ie_nonce = mi_message_id m,
         ie_request_id = Some (sr_id r'), ie_received_at = now\<rparr>)) (\<lambda>_. bind_h commit_h (\<lambda>_. ret (u ''ok''))))
      (\<lambda>_ s. is_seen (pc_id c) (mi_message_id m) (se_durable s)) (\<lambda>_ _. True)" for r'
    by (simp add: triple_def bind_h_def mod_db_def commit_h_def commit_def ret_def is_seen_def add_event_def)
  have t: "triple (\<lambda>_. True) body (\<lambda>_ s. is_seen (pc_id c) (mi_message_id m) (se_durable s)) (\<lambda>_ _. True)"
    unfolding body_def by (rule triple_bind [OF triple_True last])
  show "is_seen (pc_id c) (mi_message_id m) (se_durable s)" using triple_Inr [OF t TrueI assms(2)] .
  have k: "keeps (\<lambda>x. db_configs x = db_configs d) body" unfolding body_def
    by (intro keeps_advances [OF configs_frame.advances_partner_status, OF TrueI] keeps_bind keeps_mod keeps_commit keeps_ret)
      (simp add: add_event_def)
  have "both (\<lambda>x. db_configs x = db_configs d) s"
    by (rule triple_Inr [OF k [unfolded keeps_def] _ assms(2)]) (simp add: both_def open_session_def)
  then show "db_configs (se_durable s) = db_configs d" by (simp add: both_def)
qed

text \<open>
  After a mail was taken, another one of the same sender with the same \<open>Message-ID\<close> is a duplicate,
  whatever it says. Two mails that have none are equal in this sense: the answer of a partner to a second
  request is dropped because his first one had no \<open>Message-ID\<close> either.
\<close>

theorem second_mail_without_id_is_dropped:
  assumes "run_endpoint (handle_email e now parseaddr policy m) d = (Inr (u ''ok''), d')"
    "distinct (map sr_id (db_requests d))"
    "parse_number (e_rt e) (mi_subject m @ [10] @ mi_body m) = Some number"
    "request_by_number number d = Some r" "sr_partner_id r = Some partner"
    "mi_message_id m = []" "mi_message_id m' = []" "mi_from_addr m' = mi_from_addr m"
    "parse_number (e_rt e) (mi_subject m' @ [10] @ mi_body m') = Some number'"
    "parse_status (e_rt e) (mi_subject m' @ [10] @ mi_body m') = Some status'"
    "request_by_number number' d' = Some r'" "get_request (sr_id r') d' = Some r'" "sr_partner_id r' = Some partner"
  shows "run_endpoint (handle_email e now' parseaddr policy' m') d' = (Inr (u ''duplicate''), d')"
proof -
  obtain s where s: "handle_email e now parseaddr policy m (open_session d) = (Inr (u ''ok''), s)"
    "d' = se_durable s" using run_endpoint_ok [OF assms(1)] by blast
  from s(1) assms(2) obtain n0 status r0 partner0 c where *:
    "parse_number (e_rt e) (mi_subject m @ [10] @ mi_body m) = Some n0"
    "parse_status (e_rt e) (mi_subject m @ [10] @ mi_body m) = Some status"
    "request_by_number n0 d = Some r0" "get_request (sr_id r0) d = Some r0"
    "sr_partner_id r0 = Some partner0" "email_config partner0 d = Some c"
    "config_email (e_rt e) c = rt_lower (e_rt e) (parseaddr (mi_from_addr m))"
    "\<not> is_seen (pc_id c) (mi_message_id m) d"
    by (rule handle_email_ok)
  have run: "bind_h (advance_partner_status e now channel_principal r0 status policy) (\<lambda>r'.
       bind_h (mod_db (add_event \<lparr>ie_channel_config_id = pc_id c, ie_nonce = mi_message_id m,
         ie_request_id = Some (sr_id r'), ie_received_at = now\<rparr>)) (\<lambda>_.
       bind_h commit_h (\<lambda>_. ret (u ''ok'')))) (open_session d) = (Inr (u ''ok''), s)"
    using handle_email_run [where parseaddr = parseaddr, OF *] s(1) by simp
  have "partner0 = partner" using * assms(3-5) by simp
  moreover have "email_config p d' = email_config p d" for p
    using email_row_frame(2) [OF run] by (simp add: email_config_def s(2))
  ultimately have c: "email_config partner d' = Some c" using *(6) by simp
  have seen: "is_seen (pc_id c) [] d'" using email_row_frame(1) [OF run] assms(6) by (simp add: s(2))
  show ?thesis
    using assms(7-13) c seen *(7)
    by (simp add: handle_email_def run_endpoint_def bind_h_def load_by_number_def load_for_update_def get_db_def
        ret_def open_session_def)
qed

section \<open>What the poll does with trouble\<close>

text \<open>An answer that comes too late for its request (the transition is not allowed any more) ends
  the whole poll with an error: the messages behind it, which the mailbox has already handed out as
  read, are not handled, whatever they are, and the database stays as it was.
\<close>

theorem late_answer_stops_poll:
  assumes "parse_number (e_rt e) (mi_subject m @ [10] @ mi_body m) = Some number"
    "parse_status (e_rt e) (mi_subject m @ [10] @ mi_body m) = Some status"
    "request_by_number number d = Some r" "get_request (sr_id r) d = Some r"
    "sr_partner_id r = Some partner" "email_config partner d = Some c"
    "config_email (e_rt e) c = rt_lower (e_rt e) (parseaddr (mi_from_addr m))"
    "\<not> is_seen (pc_id c) (mi_message_id m) d"
    "partner_status_target (rt_lower (e_rt e) status) = Some target"
    "target \<noteq> sr_status r" "\<not> can_transition (sr_status r) target"
  shows "\<exists>x. poll_messages e now parseaddr policy (m # ms) n d = (Inl x, d)"
proof -
  obtain x where x: "ensure_transition (sr_status r) target = Inl x"
    using assms(11) by (auto simp: ensure_transition_def raise_problem_def)
  have "handle_email e now parseaddr policy m (open_session d) = (Inl x, open_session d)"
    unfolding handle_email_run [where parseaddr = parseaddr, OF assms(1-8)]
    using assms(9-11) x by (simp add: advance_partner_status_def bind_h_def apply_transition_run)
  then show ?thesis by (simp add: run_endpoint_def rollback_def open_session_def)
qed

text \<open>A mail channel stored without an address is open to everybody: a message whose sender cannot
  be parsed passes the comparison of the empty addresses and drives the request like the partner.
\<close>

theorem empty_sender_passes:
  assumes "parse_number (e_rt e) (mi_subject m @ [10] @ mi_body m) = Some number"
    "parse_status (e_rt e) (mi_subject m @ [10] @ mi_body m) = Some (u ''rejected'')"
    "request_by_number number d = Some r" "get_request (sr_id r) d = Some r"
    "sr_partner_id r = Some partner" "email_config partner d = Some c"
    "dict_get (pc_config c) (u ''email'') = None" "parseaddr (mi_from_addr m) = []"
    "\<not> is_seen (pc_id c) (mi_message_id m) d"
    "rt_lower (e_rt e) (u ''rejected'') = u ''rejected''" "sr_status r = S_DISPATCHED"
  shows "\<exists>d'. run_endpoint (handle_email e now parseaddr policy m) d = (Inr (u ''ok''), d')
     \<and> map_option sr_status (get_request (sr_id r) d') = Some S_MATCHING"
proof -
  have mail: "config_email (e_rt e) c = rt_lower (e_rt e) (parseaddr (mi_from_addr m))"
    by (simp add: config_email_def assms(7,8))
  let ?r = "after_transition now r S_MATCHING"
  let ?s = "(open_session d)\<lparr>se_working := emit_transition e now ?r S_MATCHING
      (add_history (status_history channel_principal (sr_id r) S_DISPATCHED S_MATCHING now)
        (save_request ?r d))\<rparr>"
  have tr: "apply_transition e now channel_principal r S_MATCHING (open_session d) = (Inr ?r, ?s)"
    using assms(11) by (simp add: apply_transition_run open_session_def)
  have row: "get_request (sr_id r) (emit_transition e now ?r S_MATCHING
      (add_history h (save_request ?r d))) = Some ?r" for h
    using get_request_Some [OF assms(4)]
    by (auto simp: outbox_grows_row [OF outbox_grows_transition] frame_simps get_save_request)
  have rows: "get_request i (enqueue now k v x) = get_request i x" "get_request i (add_event y x) = get_request i x" for i k v y x
    by (simp_all add: get_request_def enqueue_def add_event_def)
  have target: "partner_status_target (u ''rejected'') = Some S_MATCHING"
    by (simp add: partner_status_target_def u_def)
  show ?thesis
    using handle_email_run [where parseaddr = parseaddr and now = now and policy = policy, OF assms(1-6) mail assms(9)] tr row rows target assms(10,11)
    by (simp add: run_endpoint_def advance_partner_status_def bind_h_def mod_db_def ret_def commit_h_def
        commit_def after_transition_def)
qed

section \<open>Two mails to look at\<close>

definition demo_mail :: "string \<Rightarrow> imap_message" where
  "demo_mail text = \<lparr>mi_message_id = u ''m1'', mi_from_addr = [], mi_subject = u ''RQ-00000001'',
     mi_body = u text\<rparr>"

definition demo_mail_db :: "request_status \<Rightarrow> db" where
  "demo_mail_db s = demo_db [demo_request 10 1 s] [demo_channel 6 ''p1'' CT_EMAIL]"

lemma demo_mail_parsed:
  "parse_number (e_rt demo_env) (mi_subject (demo_mail ''reject'') @ [10] @ mi_body (demo_mail ''reject''))
     = Some (u ''RQ-00000001'')"
  "parse_status (e_rt demo_env) (mi_subject (demo_mail ''reject'') @ [10] @ mi_body (demo_mail ''reject''))
     = Some (u ''rejected'')"
  by code_simp+

lemma empty_sender_passes_witness:
  "\<exists>d'. run_endpoint (handle_email demo_env 0 (\<lambda>_. []) demo_policy (demo_mail ''reject''))
      (demo_mail_db S_DISPATCHED) = (Inr (u ''ok''), d')
    \<and> map_option sr_status (get_request (sr_id (demo_request 10 1 S_DISPATCHED)) d') = Some S_MATCHING"
  by (rule empty_sender_passes [where partner = "u ''p1''" and c = "demo_channel 6 ''p1'' CT_EMAIL",
        OF demo_mail_parsed]) code_simp+

lemma late_answer_stops_poll_witness:
  "\<exists>x. poll_messages demo_env 0 (\<lambda>_. []) demo_policy (demo_mail ''reject'' # [demo_mail ''reject'']) 0 (demo_mail_db S_DONE)
     = (Inl x, demo_mail_db S_DONE)"
  by (rule late_answer_stops_poll [where partner = "u ''p1''" and c = "demo_channel 6 ''p1'' CT_EMAIL"
        and r = "demo_request 10 1 S_DONE" and target = S_MATCHING, OF demo_mail_parsed]) code_simp+


definition nameless_mail :: "string \<Rightarrow> imap_message" where
  "nameless_mail text = (demo_mail text)\<lparr>mi_message_id := []\<rparr>"

lemma nameless_mail_frame:
  "mi_message_id (nameless_mail x) = []" "mi_from_addr (nameless_mail x) = mi_from_addr (nameless_mail y)"
  by (simp_all add: nameless_mail_def demo_mail_def)

lemma second_mail_without_id_is_dropped_witness:
  "\<exists>d'. run_endpoint (handle_email demo_env 0 (\<lambda>_. []) demo_policy (nameless_mail ''reject''))
      (demo_mail_db S_DISPATCHED) = (Inr (u ''ok''), d')
    \<and> run_endpoint (handle_email demo_env 9 (\<lambda>_. []) demo_policy (nameless_mail ''done'')) d' = (Inr (u ''duplicate''), d')"
proof -
  let ?run = "run_endpoint (handle_email demo_env 0 (\<lambda>_. []) demo_policy (nameless_mail ''reject''))
      (demo_mail_db S_DISPATCHED)"
  let ?text = "\<lambda>x. mi_subject (nameless_mail x) @ [10] @ mi_body (nameless_mail x)"
  have "fst ?run = Inr (u ''ok'')" by code_simp
  then have run: "?run = (Inr (u ''ok''), snd ?run)" by (metis prod.collapse)
  have parsed: "parse_number (e_rt demo_env) (?text ''reject'') = Some (u ''RQ-00000001'')"
    "parse_number (e_rt demo_env) (?text ''done'') = Some (u ''RQ-00000001'')"
    "parse_status (e_rt demo_env) (?text ''done'') = Some (u ''done'')" by code_simp+
  have row: "\<exists>r. request_by_number (u ''RQ-00000001'') d = Some r \<and> get_request (sr_id r) d = Some r \<and> sr_partner_id r = Some (u ''p1'')"
    if "map (\<lambda>r. (sr_id r, sr_number r, sr_partner_id r)) (db_requests d) = [(10, u ''RQ-00000001'', Some (u ''p1''))]" for d
    using that by (auto simp: request_by_number_def get_request_def row_find_def)
  have "map (\<lambda>r. (sr_id r, sr_number r, sr_partner_id r)) (db_requests (snd ?run)) = [(10, u ''RQ-00000001'', Some (u ''p1''))]"
    by code_simp
  from row [OF this] obtain r' where r': "request_by_number (u ''RQ-00000001'') (snd ?run) = Some r'"
    "get_request (sr_id r') (snd ?run) = Some r'" "sr_partner_id r' = Some (u ''p1'')" by blast
  have "map (\<lambda>r. (sr_id r, sr_number r, sr_partner_id r)) (db_requests (demo_mail_db S_DISPATCHED)) = [(10, u ''RQ-00000001'', Some (u ''p1''))]"
    by code_simp
  from row [OF this] obtain r where r: "request_by_number (u ''RQ-00000001'') (demo_mail_db S_DISPATCHED) = Some r"
    "sr_partner_id r = Some (u ''p1'')" by blast
  have "distinct (map sr_id (db_requests (demo_mail_db S_DISPATCHED)))" by code_simp
  from second_mail_without_id_is_dropped [OF run this parsed(1) r nameless_mail_frame(1,1,2) parsed(2,3) r']
  have "run_endpoint (handle_email demo_env 9 (\<lambda>_. []) demo_policy (nameless_mail ''done'')) (snd ?run)
      = (Inr (u ''duplicate''), snd ?run)" .
  with run show ?thesis by blast
qed

end
