(* ===== verification/Imap.thy ===== *)
theory Imap
  imports Email_Inbound Demo
begin

text \<open>
  The mailbox of the partners' answers (\<open>ImaplibFetcher\<close> and \<open>_to_message\<close> of
  \<open>channels/email_inbound.py\<close>). The answers of the IMAP server to the commands are parameters,
  and so is the parser of \<open>email\<close>, whose trees are a datatype here; a session is the messages it
  yields, or the exception that ends it, with the commands it has issued.
\<close>

section \<open>Messages\<close>

text \<open>
  A parsed message: its headers, and its payload as \<open>get_payload()\<close> hands it out, parts for a
  multipart message and otherwise the text as it was transferred.
\<close>

datatype mime = Mime "(pystr \<times> pystr) list" mime_payload
and mime_payload = Transferred pystr | Parts "mime list" | No_payload

fun mime_headers :: "mime \<Rightarrow> (pystr \<times> pystr) list" where
  "mime_headers (Mime hs _) = hs"

definition mime_get :: "pyrt \<Rightarrow> mime \<Rightarrow> pystr \<Rightarrow> pystr" where
  "mime_get rt m name = (case find (\<lambda>(k, _). rt_lower rt k = rt_lower rt name) (mime_headers m) of
       None \<Rightarrow> [] | Some (_, v) \<Rightarrow> v)"

fun join_blank :: "pystr list \<Rightarrow> pystr" where
  "join_blank [] = []"
| "join_blank [s] = s"
| "join_blank (s # t # ss) = s @ 32 # join_blank (t # ss)"

fun extract_body :: "mime \<Rightarrow> pystr" and payload_body :: "mime_payload \<Rightarrow> pystr" where
  "extract_body (Mime hs p) = payload_body p"
| "payload_body (Parts ms) = join_blank (map extract_body ms)"
| "payload_body (Transferred s) = s"
| "payload_body No_payload = u ''None''"

definition to_message :: "pyrt \<Rightarrow> (pystr \<Rightarrow> mime) \<Rightarrow> pystr \<Rightarrow> imap_message" where
  "to_message rt parser raw = (let parsed = parser raw in
     \<lparr>mi_message_id = mime_get rt parsed (u ''Message-ID''), mi_from_addr = mime_get rt parsed (u ''From''),
      mi_subject = mime_get rt parsed (u ''Subject''), mi_body = extract_body parsed\<rparr>)"

section \<open>A session\<close>

datatype imap_command = Connect | Login | Select pystr | Search_unseen | Fetch pystr | Logout

datatype fetch_item = Pair_item pystr pystr | Line_item pystr

record imap_server =
  is_connect :: "exn + unit"
  is_login :: "exn + unit"
  is_select :: "pystr \<Rightarrow> exn + unit"
  is_search :: "exn + (pystr \<times> pystr option list)"
  is_fetch :: "pystr \<Rightarrow> exn + (pystr \<times> fetch_item list)"

text \<open>The numbers of a search answer that is worth reading.\<close>

definition found_numbers :: "pystr \<times> pystr option list \<Rightarrow> pystr list" where
  "found_numbers answer = (case answer of
       (typ, Some nums # _) \<Rightarrow> if typ = u ''OK'' then py_split nums else []
     | _ \<Rightarrow> [])"

definition fetched_raw :: "pystr \<times> fetch_item list \<Rightarrow> pystr option" where
  "fetched_raw answer = (case answer of
       (typ, Pair_item _ raw # _) \<Rightarrow> if typ = u ''OK'' then Some raw else None
     | _ \<Rightarrow> None)"

fun fetch_all ::
    "(pystr \<Rightarrow> imap_message) \<Rightarrow> imap_server \<Rightarrow> pystr list \<Rightarrow> (exn + imap_message list) \<times> imap_command list" where
  "fetch_all read sv [] = (Inr [], [])"
| "fetch_all read sv (n # ns) = (case is_fetch sv n of
       Inl x \<Rightarrow> (Inl x, [Fetch n])
     | Inr answer \<Rightarrow> (let (rest, cmds) = fetch_all read sv ns
         in (case fetched_raw answer of
               None \<Rightarrow> rest
             | Some raw \<Rightarrow> bindE rest (\<lambda>ms. Inr (read raw # ms)), Fetch n # cmds)))"

definition read_mailbox ::
    "settings \<Rightarrow> (pystr \<Rightarrow> imap_message) \<Rightarrow> imap_server \<Rightarrow> (exn + imap_message list) \<times> imap_command list" where
  "read_mailbox st read sv = (case is_select sv (st_imap_mailbox st) of
       Inl x \<Rightarrow> (Inl x, [Select (st_imap_mailbox st)])
     | Inr _ \<Rightarrow> (case is_search sv of
           Inl x \<Rightarrow> (Inl x, [Select (st_imap_mailbox st), Search_unseen])
         | Inr answer \<Rightarrow> (let (res, cmds) = fetch_all read sv (found_numbers answer)
             in (res, Select (st_imap_mailbox st) # Search_unseen # cmds))))"

definition open_mailbox :: "imap_server \<Rightarrow> (exn + unit) \<times> imap_command list" where
  "open_mailbox sv = (case is_connect sv of
       Inl x \<Rightarrow> (Inl x, [Connect])
     | Inr _ \<Rightarrow> (is_login sv, [Connect, Login]))"

text \<open>The logout is the last command of every session that was opened; its own errors are swallowed.\<close>

definition fetch_unseen ::
    "settings \<Rightarrow> (pystr \<Rightarrow> imap_message) \<Rightarrow> imap_server \<Rightarrow> (exn + imap_message list) \<times> imap_command list" where
  "fetch_unseen st read sv =
     (if st_imap_host st = [] then (Inr [], [])
      else case open_mailbox sv of
          (Inl x, cmds) \<Rightarrow> (Inl x, cmds)
        | (Inr _, cmds) \<Rightarrow> (case read_mailbox st read sv of
              (res, cmds') \<Rightarrow> (res, cmds @ cmds' @ [Logout])))"

definition poll_mailbox ::
    "env \<Rightarrow> instant \<Rightarrow> (pystr \<Rightarrow> pystr) \<Rightarrow> (pystr \<Rightarrow> mime) \<Rightarrow> imap_server \<Rightarrow> db \<Rightarrow> (exn + nat) \<times> db" where
  "poll_mailbox e now parseaddr parser sv d =
     (case fst (fetch_unseen (e_settings e) (to_message (e_rt e) parser) sv) of
        Inl x \<Rightarrow> (Inl x, d)
      | Inr messages \<Rightarrow> poll_email_inbound e now parseaddr messages d)"

section \<open>What a session does\<close>

lemma fetch_all_shape:
  "fetch_all read sv ns = (res, cmds) \<Longrightarrow>
   (\<exists>k\<le>length ns. cmds = map Fetch (take k ns))
   \<and> (\<forall>ms. res = Inr ms \<longrightarrow> cmds = map Fetch ns
        \<and> ms = concat (map (\<lambda>n. case is_fetch sv n of
            Inr answer \<Rightarrow> (case fetched_raw answer of Some raw \<Rightarrow> [read raw] | None \<Rightarrow> []) | _ \<Rightarrow> []) ns))"
proof (induction ns arbitrary: res cmds)
  case (Cons n ns)
  show ?case
  proof (cases "is_fetch sv n")
    case (Inl x)
    then have "cmds = map Fetch (take 1 (n # ns)) \<and> res = Inl x" using Cons.prems by auto
    then show ?thesis by (intro conjI exI [of _ 1]) auto
  next
    case (Inr answer)
    obtain rest cs where r: "fetch_all read sv ns = (rest, cs)" by fastforce
    obtain k where k: "k \<le> length ns" "cs = map Fetch (take k ns)"
      using Cons.IH [OF r] by blast
    have cmds: "cmds = map Fetch (take (Suc k) (n # ns))"
      using Cons.prems Inr r k(2) by (auto split: option.splits)
    have "\<exists>j\<le>length (n # ns). cmds = map Fetch (take j (n # ns))"
      using k(1) cmds by (intro exI [of _ "Suc k"]) simp
    then show ?thesis
      using Cons.prems Inr r Cons.IH [OF r]
      by (cases rest) (auto split: option.splits)
  qed
qed simp

text \<open>A session that was opened ends with its logout; it fetches what the search found, in order, and
  yields the messages that could be fetched.
\<close>

lemma mailbox_session:
  assumes "st_imap_host st \<noteq> []" "is_connect sv = Inr ()" "is_login sv = Inr ()"
    "fetch_unseen st read sv = (res, cmds)"
  shows "last cmds = Logout \<and> take 2 cmds = [Connect, Login]
    \<and> (\<forall>ms answer. res = Inr ms \<longrightarrow> is_search sv = Inr answer
        \<longrightarrow> cmds = [Connect, Login, Select (st_imap_mailbox st), Search_unseen] @ map Fetch (found_numbers answer) @ [Logout]
          \<and> ms = concat (map (\<lambda>n. case is_fetch sv n of
              Inr a \<Rightarrow> (case fetched_raw a of Some raw \<Rightarrow> [read raw] | None \<Rightarrow> []) | _ \<Rightarrow> []) (found_numbers answer)))"
proof -
  obtain res' cs where r: "read_mailbox st read sv = (res', cs)" by fastforce
  have c: "res' = res" "cmds = [Connect, Login] @ cs @ [Logout]"
    using assms r by (simp_all add: fetch_unseen_def open_mailbox_def)
  moreover have "cs = Select (st_imap_mailbox st) # Search_unseen # map Fetch (found_numbers answer)
      \<and> ms = concat (map (\<lambda>n. case is_fetch sv n of
              Inr a \<Rightarrow> (case fetched_raw a of Some raw \<Rightarrow> [read raw] | None \<Rightarrow> []) | _ \<Rightarrow> []) (found_numbers answer))"
    if ms: "res = Inr ms" "is_search sv = Inr answer" for ms answer
  proof (cases "is_select sv (st_imap_mailbox st)")
    case (Inr a)
    obtain res2 cs2 where f: "fetch_all read sv (found_numbers answer) = (res2, cs2)" by fastforce
    then show ?thesis using fetch_all_shape [OF f] r c(1) ms Inr by (auto simp: read_mailbox_def)
  qed (use r c(1) ms in \<open>simp add: read_mailbox_def\<close>)
  ultimately show ?thesis by simp
qed

section \<open>Mime as it is sent\<close>

text \<open>The characters of base64, and the header \<open>=?utf-8?B?...?=\<close> of a subject that is not ASCII.\<close>

definition base64_text :: "pystr \<Rightarrow> bool" where
  "base64_text s \<longleftrightarrow> list_all (\<lambda>c. (65 \<le> c \<and> c \<le> 90) \<or> (97 \<le> c \<and> c \<le> 122) \<or> (48 \<le> c \<and> c \<le> 57)
     \<or> c \<in> {43, 47, 61, 10, 13}) s"

definition encoded_word :: "pystr \<Rightarrow> pystr" where
  "encoded_word s = u ''=?utf-8?B?'' @ s @ u ''?=''"

lemma no_number:
  assumes "\<not> contains_sub (u ''RQ-'') s"
  shows "rx_search (rx_number rt) prev s = None"
  using assms
proof (induction s arbitrary: prev)
  case Nil
  then show ?case by (simp add: rx_number_def u_def)
next
  case (Cons c s)
  then have "\<not> is_prefix (u ''RQ-'') (c # s)" "\<not> contains_sub (u ''RQ-'') s" by simp_all
  then show ?case using Cons.IH by (simp add: rx_number_def)
qed

lemma encoded_has_no_number:
  assumes "base64_text s" "base64_text body"
  shows "\<not> contains_sub (u ''RQ-'') (encoded_word s @ 10 # body)"
proof
  let ?rest = "u ''8?B?'' @ s @ u ''?='' @ 10 # body"
  assume "contains_sub (u ''RQ-'') (encoded_word s @ 10 # body)"
  then obtain a b where "encoded_word s @ 10 # body = a @ u ''RQ-'' @ b"
    by (auto simp: contains_sub_iff)
  then have "u ''=?utf'' @ 45 # ?rest = (a @ u ''RQ'') @ 45 # b"
    by (simp add: encoded_word_def u_def)
  moreover have "45 \<notin> set ?rest" using assms by (auto simp: base64_text_def list_all_iff u_def)
  moreover have "45 \<notin> set (u ''=?utf'')" by (simp add: u_def)
  ultimately have "u ''=?utf'' = a @ u ''RQ''"
    using append_Cons_eq_iff [of 45 "u ''=?utf''" ?rest "a @ u ''RQ''" b] by blast
  then have "last (u ''=?utf'') = last (a @ u ''RQ'')" by simp
  then show False by (simp add: u_def)
qed


text \<open>The answer \<open>RQ-00000001\<close> with the word for ''accepted'', as a mailer transfers it.\<close>

definition demo_encoded_mail :: mime where
  "demo_encoded_mail = Mime [(u ''Subject'', encoded_word (u ''UlEtMDAwMDAwMDE='')),
     (u ''From'', u ''p@x''), (u ''Message-ID'', u ''1'')]
     (Transferred (u ''UlEtMDAwMDAwMDEg0L/RgNC40L3Rj9GC0L4=''))"


end
