(* ===== verification/Intake.thy ===== *)
theory Intake
  imports Requests Pii
begin

text \<open>
  \<open>IntakeService\<close> of \<open>requests/service.py\<close>: a request enters from the form, from a chat or from
  a support ticket, deduplicated by an idempotency key. The id of the new row (\<open>uuid4\<close>) is an
  argument. The unique indexes of the table raise \<open>IntegrityError\<close> when the row is flushed.
  Gaps that a rollback leaves in the number sequence are not modelled.
\<close>

record request_create =
  rc_raw_input :: pystr
  rc_requester_id :: "pystr option"
  rc_booking_id :: "pystr option"
  rc_premises_id :: "pystr option"
  rc_source_ref :: "jdict option"

record from_chat_create =
  fc_chat_session_id :: pystr
  fc_requester_id :: pystr
  fc_raw_input :: pystr
  fc_transcript :: "json option"
  fc_booking_id :: "pystr option"
  fc_premises_id :: "pystr option"

record from_ticket_create =
  ft_ticket_id :: pystr
  ft_requester_id :: pystr
  ft_raw_input :: pystr
  ft_booking_id :: "pystr option"
  ft_premises_id :: "pystr option"

definition resolve_requester :: "principal \<Rightarrow> pystr option \<Rightarrow> exn + pystr" where
  "resolve_requester p provided =
     (if p_kind p = K_REQUESTER then Inr (uuid_str (p_user_id p))
      else if truthy provided then Inr (or_empty provided)
      else case p_on_behalf_of p of
          Some i \<Rightarrow> Inr (uuid_str i)
        | None \<Rightarrow>
            if p_kind p = K_SERVICE
            then raise_problem (bad_request (Some (u ''requester_id is required for service intake'')))
            else Inr (uuid_str (p_user_id p)))"

definition violates_unique :: "service_request \<Rightarrow> db \<Rightarrow> bool" where
  "violates_unique r d \<longleftrightarrow> list_ex (\<lambda>x. sr_id x = sr_id r \<or> sr_number x = sr_number r
     \<or> (sr_idempotency_key r \<noteq> None \<and> sr_idempotency_key x = sr_idempotency_key r)) (db_requests d)"

text \<open>
  The columns of a new row that take text from outside: \<open>String(255)\<close> each. A longer text is
  refused by the database when the row is built, before the unique indexes are looked at; the driver
  reports it as an error that is no \<open>IntegrityError\<close>.
\<close>

definition text_fits :: "pystr option \<Rightarrow> bool" where
  "text_fits x \<longleftrightarrow> length (or_empty x) \<le> 255"

definition fits_columns :: "service_request \<Rightarrow> bool" where
  "fits_columns r \<longleftrightarrow> text_fits (Some (sr_requester_id r)) \<and> text_fits (sr_booking_id r)
     \<and> text_fits (sr_premises_id r) \<and> text_fits (sr_idempotency_key r)"

definition flush_request :: "service_request \<Rightarrow> unit handler" where
  "flush_request r = bind_h get_db (\<lambda>d.
     if \<not> fits_columns r then raise_h column_error
     else if violates_unique r d then raise_h IntegrityError else mod_db (add_request r))"

record intake_args =
  ia_requester_id :: pystr
  ia_raw_input :: pystr
  ia_channel_in :: channel_in
  ia_source_ref :: "jdict option"
  ia_booking_id :: "pystr option"
  ia_premises_id :: "pystr option"
  ia_idempotency_key :: "pystr option"

definition args_fit :: "intake_args \<Rightarrow> bool" where
  "args_fit a \<longleftrightarrow> text_fits (Some (ia_requester_id a)) \<and> text_fits (ia_booking_id a)
     \<and> text_fits (ia_premises_id a) \<and> text_fits (ia_idempotency_key a)"

definition new_request :: "env \<Rightarrow> instant \<Rightarrow> uuid \<Rightarrow> pystr \<Rightarrow> intake_args \<Rightarrow> service_request" where
  "new_request e now new_id number a = \<lparr>sr_id = new_id, sr_number = number,
     sr_requester_id = ia_requester_id a, sr_booking_id = ia_booking_id a,
     sr_premises_id = ia_premises_id a, sr_channel_in = ia_channel_in a,
     sr_source_ref = ia_source_ref a, sr_raw_input = ia_raw_input a,
     sr_raw_input_masked = mask_pii (e_rt e) (ia_raw_input a), sr_category = None,
     sr_product_code = None, sr_classification = None, sr_partner_id = None, sr_match_trace = None,
     sr_fallback_chain = None, sr_delivery_channel = None, sr_service_order_id = None,
     sr_status = S_NEW, sr_sla = None, sr_amount_ref = None, sr_escrow_ref = None,
     sr_dispute_id = None, sr_claim_ref = None, sr_rating_ref = None, sr_custom_fields = [],
     sr_access_level = L_LOGGED, sr_idempotency_key = ia_idempotency_key a,
     sr_dispatched_at = None, sr_accepted_at = None, sr_done_at = None,
     sr_accepted_by_user_at = None, sr_paid_at = None, sr_scheduled_at = None,
     sr_created_at = now\<rparr>"

definition on_create_kind :: pystr where "on_create_kind = u ''automation_on_create''"

lemma known_on_create_kind [known_kinds, simp]: "on_create_kind \<in> set outbox_kinds"
  by (simp add: on_create_kind_def outbox_kinds_def)

text \<open>What follows the flush: the audit record, the automation task, the event, the notification.\<close>

definition announce_created :: "env \<Rightarrow> instant \<Rightarrow> principal \<Rightarrow> service_request \<Rightarrow> unit handler" where
  "announce_created e now p r =
     bind_h (mod_db (add_history \<lparr>rh_request_id = sr_id r, rh_actor_id = actor_of p,
         rh_action = H_CREATED, rh_from = None, rh_to = Some (status_value S_NEW), rh_ts = now\<rparr>)) (\<lambda>_.
     bind_h (mod_db (\<lambda>d. if st_automation_on_create_enabled (e_settings e)
         then enqueue now on_create_kind [(u ''request_id'', JStr (uuid_str (sr_id r)))] d else d)) (\<lambda>_.
     bind_h (mod_db (emit_event (e_settings e) now (u ''request.created'') (sr_id r) (sr_number r) S_NEW None)) (\<lambda>_.
     bind_h (mod_db (emit_notifications (e_settings e) now (sr_id r) (sr_number r) S_NEW
         (sr_requester_id r) None)) (\<lambda>_.
     commit_h))))"

definition find_key :: "pystr option \<Rightarrow> service_request option handler" where
  "find_key k = bind_h get_db (\<lambda>d. ret (case k of None \<Rightarrow> None | Some key \<Rightarrow> get_by_idempotency_key key d))"

text \<open>
  After the lookup found nothing: the row is inserted. Another session may have committed the key
  meanwhile; the unique index refuses the row then, and the lookup is repeated after the rollback.
\<close>

definition intake_insert ::
    "env \<Rightarrow> instant \<Rightarrow> uuid \<Rightarrow> principal \<Rightarrow> intake_args \<Rightarrow> (service_request \<times> bool) handler" where
  "intake_insert e now new_id p a =
     bind_h get_db (\<lambda>d.
     let number = fst (next_number d); r = new_request e now new_id number a in
     bind_h (mod_db (\<lambda>d. snd (next_number d))) (\<lambda>_.
     bind_h (try_h (bind_h (flush_request r) (\<lambda>_. ret None)) (\<lambda>x.
         if x \<noteq> IntegrityError then raise_h x
         else bind_h rollback_h (\<lambda>_.
              bind_h (find_key (ia_idempotency_key a)) (\<lambda>again.
              case again of Some r' \<Rightarrow> ret (Some r') | None \<Rightarrow> raise_h x)))) (\<lambda>lost.
     case lost of
       Some r' \<Rightarrow> ret (r', False)
     | None \<Rightarrow> bind_h (announce_created e now p r) (\<lambda>_. ret (r, True)))))"

definition intake ::
    "env \<Rightarrow> instant \<Rightarrow> uuid \<Rightarrow> principal \<Rightarrow> intake_args \<Rightarrow> (service_request \<times> bool) handler" where
  "intake e now new_id p a =
     bind_h (find_key (ia_idempotency_key a)) (\<lambda>existing.
     case existing of
       Some r \<Rightarrow> ret (r, False)
     | None \<Rightarrow> intake_insert e now new_id p a)"

definition create_from_form ::
    "env \<Rightarrow> instant \<Rightarrow> uuid \<Rightarrow> principal \<Rightarrow> request_create \<Rightarrow> pystr option \<Rightarrow> (service_request \<times> bool) handler" where
  "create_from_form e now new_id p body key =
     bind_h (lift_h (resolve_requester p (rc_requester_id body))) (\<lambda>requester_id.
     intake e now new_id p \<lparr>ia_requester_id = requester_id, ia_raw_input = rc_raw_input body,
       ia_channel_in = (if p_kind p = K_SERVICE then In_API else In_WEB_FORM),
       ia_source_ref = rc_source_ref body, ia_booking_id = rc_booking_id body,
       ia_premises_id = rc_premises_id body, ia_idempotency_key = key\<rparr>)"

definition create_from_chat ::
    "env \<Rightarrow> instant \<Rightarrow> uuid \<Rightarrow> principal \<Rightarrow> from_chat_create \<Rightarrow> (service_request \<times> bool) handler" where
  "create_from_chat e now new_id p body =
     intake e now new_id p \<lparr>ia_requester_id = fc_requester_id body, ia_raw_input = fc_raw_input body,
       ia_channel_in = In_AI_CHAT,
       ia_source_ref = Some ([(u ''chat_session_id'', JStr (fc_chat_session_id body))]
         @ (case fc_transcript body of None \<Rightarrow> [] | Some t \<Rightarrow> [(u ''transcript'', t)])),
       ia_booking_id = fc_booking_id body, ia_premises_id = fc_premises_id body,
       ia_idempotency_key = Some (u ''chat:'' @ fc_chat_session_id body)\<rparr>"

definition create_from_ticket ::
    "env \<Rightarrow> instant \<Rightarrow> uuid \<Rightarrow> principal \<Rightarrow> from_ticket_create \<Rightarrow> (service_request \<times> bool) handler" where
  "create_from_ticket e now new_id p body =
     intake e now new_id p \<lparr>ia_requester_id = ft_requester_id body, ia_raw_input = ft_raw_input body,
       ia_channel_in = In_SUPPORT_TICKET,
       ia_source_ref = Some [(u ''ticket_id'', JStr (ft_ticket_id body))],
       ia_booking_id = ft_booking_id body, ia_premises_id = ft_premises_id body,
       ia_idempotency_key = Some (u ''ticket:'' @ ft_ticket_id body)\<rparr>"

section \<open>Creation\<close>

lemma new_request_simps [simp]:
  "sr_id (new_request e now i n a) = i" "sr_number (new_request e now i n a) = n"
  "sr_status (new_request e now i n a) = S_NEW"
  "sr_idempotency_key (new_request e now i n a) = ia_idempotency_key a"
  "fits_columns (new_request e now i n a) = args_fit a"
  by (simp_all add: new_request_def fits_columns_def args_fit_def)

lemma next_number_eq: "next_number d = (number_text (Suc (db_number_seq d)), d\<lparr>db_number_seq := Suc (db_number_seq d)\<rparr>)"
  by (simp add: next_number_def number_text_def Let_def)

lemma wf_db_seq: "wf_db d \<Longrightarrow> wf_db (d\<lparr>db_number_seq := Suc (db_number_seq d)\<rparr>)"
  unfolding wf_db_def status_trail_def history_of_def idempotency_keys_def wf_outbox_def
  by (auto intro: le_SucI)

lemma wf_db_add_request:
  assumes "wf_db d" "\<not> violates_unique r d" "sr_status r = S_NEW" "sr_number r = number_text n" "n \<le> db_number_seq d"
  shows "wf_db (add_request r d)"
proof -
  have fresh: "sr_id r \<notin> sr_id ` set (db_requests d)" "sr_number r \<notin> sr_number ` set (db_requests d)"
    using assms(2) by (auto simp: violates_unique_def list_ex_iff)
  have "\<forall>h\<in>set (db_history d). rh_request_id h \<noteq> sr_id r"
    using assms(1) fresh(1) unfolding wf_db_def by metis
  then have "status_trail (sr_id r) d = []"
    by (simp add: status_trail_def history_of_def filter_empty_conv)
  moreover have "distinct (idempotency_keys (add_request r d))"
    using assms(1,2)
    by (auto simp: wf_db_def idempotency_keys_def add_request_def map_filter_def violates_unique_def
        list_ex_iff split: option.splits)
  ultimately show ?thesis
    using assms(1,3-5) fresh
    by (auto simp: wf_db_def add_request_def status_trail_def history_of_def wf_outbox_def)
qed

lemma keeps_find_key [keeps_intros]: "keeps wf_db (find_key k)"
  unfolding find_key_def by (intro keeps_intros)

lemma keepsc_announce: "keepsc r (announce_created e now p r)"
proof -
  have "outbox_grows (\<lambda>d. if st_automation_on_create_enabled (e_settings e)
      then enqueue now on_create_kind [(u ''request_id'', JStr (uuid_str (sr_id r)))] d else d)"
    by (intro outbox_grows_if outbox_grows_enqueue outbox_grows_id known_kinds)
  then show ?thesis unfolding announce_created_def by (intro wfc_intros outbox_grows_emit) simp_all
qed

text \<open>With a key nobody used and a fresh id, the row is inserted and announced.\<close>

lemma intake_new_run:
  fixes e :: env and now :: instant
  assumes "wf_db (se_working s)" "new_id \<notin> sr_id ` set (db_requests (se_working s))"
    "\<forall>k. ia_idempotency_key a = Some k \<longrightarrow> get_by_idempotency_key k (se_working s) = None" "args_fit a"
  defines "d \<equiv> se_working s"
  defines "r \<equiv> new_request e now new_id (number_text (Suc (db_number_seq d))) a"
  defines "d1 \<equiv> add_request r (d\<lparr>db_number_seq := Suc (db_number_seq d)\<rparr>)"
  shows "intake e now new_id p a s =
      bind_h (announce_created e now p r) (\<lambda>_. ret (r, True)) (s\<lparr>se_working := d1\<rparr>)"
    and "wf_db d1" "get_request new_id d1 = Some r"
proof -
  have none: "(case ia_idempotency_key a of None \<Rightarrow> None | Some key \<Rightarrow> get_by_idempotency_key key d) = None"
    using assms(3) by (simp add: d_def split: option.splits)
  have "sr_number x \<noteq> number_text (Suc (db_number_seq d))" if "x \<in> set (db_requests d)" for x
    using assms(1) that by (auto simp: wf_db_def d_def)
  moreover have "sr_idempotency_key x \<noteq> ia_idempotency_key a"
    if "x \<in> set (db_requests d)" "ia_idempotency_key a \<noteq> None" for x
    using assms(3) that by (auto simp: d_def get_by_idempotency_key_def find_None_iff)
  ultimately have unique: "\<not> violates_unique r (d\<lparr>db_number_seq := Suc (db_number_seq d)\<rparr>)"
    using assms(2) by (auto simp: violates_unique_def list_ex_iff r_def d_def)
  show "intake e now new_id p a s =
      bind_h (announce_created e now p r) (\<lambda>_. ret (r, True)) (s\<lparr>se_working := d1\<rparr>)"
    using none unique assms(4)
    by (simp add: intake_def intake_insert_def find_key_def bind_h_def get_db_def ret_def mod_db_def try_h_def
        flush_request_def Let_def next_number_eq d1_def flip: d_def r_def)
  show "wf_db d1" unfolding d1_def
    using wf_db_seq [OF assms(1)] unique
    by (intro wf_db_add_request [where n = "Suc (db_number_seq d)"]) (simp_all add: r_def d_def)
  show "get_request new_id d1 = Some r"
    using assms(2) by (simp add: d1_def get_request_def add_request_def row_find_app row_find_None [THEN iffD2] r_def d_def)
qed

text \<open>A text that is longer than its column: the row is refused after the number was taken.\<close>

lemma intake_long_run:
  "\<not> args_fit a \<Longrightarrow> \<forall>k. ia_idempotency_key a = Some k \<longrightarrow> get_by_idempotency_key k (se_working s) = None
   \<Longrightarrow> intake e now new_id p a s =
     (Inl column_error, s\<lparr>se_working := se_working s\<lparr>db_number_seq := Suc (db_number_seq (se_working s))\<rparr>\<rparr>)"
  by (auto simp: intake_def intake_insert_def find_key_def bind_h_def get_db_def ret_def mod_db_def try_h_def raise_h_def
      flush_request_def Let_def next_number_eq split: option.split)

lemma intake_found_run:
  "ia_idempotency_key a = Some k \<Longrightarrow> get_by_idempotency_key k (se_working s) = Some r
   \<Longrightarrow> intake e now new_id p a s = (Inr (r, False), s)"
  by (simp add: intake_def find_key_def bind_h_def get_db_def ret_def)

text \<open>The insert meets the key that another session committed: its request is the answer.\<close>

lemma intake_lost_run:
  assumes "ia_idempotency_key a = Some k" "get_by_idempotency_key k d = Some r" "args_fit a"
  shows "run_endpoint (intake_insert e now new_id p a) d = (Inr (r, False), d)"
proof -
  have "r \<in> set (db_requests d)" "sr_idempotency_key r = Some k"
    using assms(2) by (auto simp: get_by_idempotency_key_def find_Some_iff)
  then have "violates_unique (new_request e now new_id n a) (d\<lparr>db_number_seq := m\<rparr>)" for n m
    using assms(1) by (auto simp: violates_unique_def list_ex_iff)
  then show ?thesis
    using assms by (simp add: run_endpoint_def intake_insert_def find_key_def bind_h_def get_db_def ret_def mod_db_def
        try_h_def flush_request_def raise_h_def rollback_h_def rollback_def Let_def next_number_eq open_session_def)
qed

lemma announce_run:
  "announce_created e now p r s = (Inr (), commit (s\<lparr>se_working :=
     emit_notifications (e_settings e) now (sr_id r) (sr_number r) S_NEW (sr_requester_id r) None
      (emit_event (e_settings e) now (u ''request.created'') (sr_id r) (sr_number r) S_NEW None
       ((if st_automation_on_create_enabled (e_settings e)
         then enqueue now on_create_kind [(u ''request_id'', JStr (uuid_str (sr_id r)))] else id)
        (add_history \<lparr>rh_request_id = sr_id r, rh_actor_id = actor_of p, rh_action = H_CREATED,
           rh_from = None, rh_to = Some (status_value S_NEW), rh_ts = now\<rparr> (se_working s))))\<rparr>))"
  by (simp add: announce_created_def bind_h_def mod_db_def commit_h_def)

lemma keeps_intake [keeps_intros]: "keeps wf_db (intake e now new_id p a)"
  unfolding keeps_def
proof (rule tripleI)
  fix s assume s: "both wf_db s"
  then have wf: "wf_db (se_working s)" "wf_db (se_durable s)" by (simp_all add: both_def)
  let ?d = "se_working s"
  consider (found) k r where "ia_idempotency_key a = Some k" "get_by_idempotency_key k ?d = Some r"
    | (long) "\<not> args_fit a" "\<forall>k. ia_idempotency_key a = Some k \<longrightarrow> get_by_idempotency_key k ?d = None"
    | (clash) "new_id \<in> sr_id ` set (db_requests ?d)" "args_fit a"
        "\<forall>k. ia_idempotency_key a = Some k \<longrightarrow> get_by_idempotency_key k ?d = None"
    | (new) "new_id \<notin> sr_id ` set (db_requests ?d)"
        "\<forall>k. ia_idempotency_key a = Some k \<longrightarrow> get_by_idempotency_key k ?d = None" "args_fit a"
    by (cases "args_fit a"; cases "new_id \<in> sr_id ` set (db_requests ?d)"; cases "ia_idempotency_key a";
        cases "get_by_idempotency_key (the (ia_idempotency_key a)) ?d") auto
  then show "case intake e now new_id p a s of (Inr _, s') \<Rightarrow> both wf_db s' | (Inl _, s') \<Rightarrow> both wf_db s'"
  proof cases
    case found
    then show ?thesis using s by (simp add: intake_found_run)
  next
    case long
    then show ?thesis
      using wf wf_db_seq [OF wf(1)] by (simp add: intake_long_run both_def)
  next
    case clash
    define r where "r = new_request e now new_id (number_text (Suc (db_number_seq ?d))) a"
    have "violates_unique r (?d\<lparr>db_number_seq := Suc (db_number_seq ?d)\<rparr>)"
      using clash(1) by (auto simp: violates_unique_def list_ex_iff r_def)
    moreover have "find_key (ia_idempotency_key a) s = (Inr None, s)"
      using clash(3) by (auto simp: find_key_def bind_h_def get_db_def ret_def split: option.splits)
    ultimately have "snd (intake e now new_id p a s) = rollback s"
      using clash(2) by (auto simp: intake_def intake_insert_def bind_h_def get_db_def ret_def mod_db_def try_h_def find_key_def
          flush_request_def raise_h_def rollback_h_def Let_def next_number_eq rollback_def
          simp flip: r_def split: option.splits)
    moreover have "both wf_db (rollback s)" using wf by (simp add: both_def rollback_def)
    ultimately show ?thesis by (simp add: case_prod_beta split: sum.splits)
  next
    case new
    define r where "r = new_request e now new_id (number_text (Suc (db_number_seq ?d))) a"
    define d1 where "d1 = add_request r (?d\<lparr>db_number_seq := Suc (db_number_seq ?d)\<rparr>)"
    note run = intake_new_run [OF wf(1) new, of e now, folded r_def, folded d1_def]
    have "wfc r (s\<lparr>se_working := d1\<rparr>)"
      using run(2,3) wf(2) by (simp add: wfc_def both_def current_def r_def)
    then show ?thesis
      using keepsc_announce [of r e now p] unfolding run(1)
      by (auto simp: keepsc_def triple_def bind_h_def ret_def split: prod.splits sum.splits)
  qed
qed

lemma keeps_creates [keeps_intros]:
  "keeps wf_db (create_from_form e now new_id p body key)"
  "keeps wf_db (create_from_chat e now new_id p chat)"
  "keeps wf_db (create_from_ticket e now new_id p ticket)"
  unfolding create_from_form_def create_from_chat_def create_from_ticket_def by (intro keeps_intros)+

end
