(* ===== verification/Timers.thy ===== *)
theory Timers
  imports Dispatch Partner
begin

text \<open>
  The time based automation (\<open>automation/timers.py\<close>): requests whose partner did not accept in time
  and requests a partner rejected go to the next partner of the fallback chain, or to the operator.
  The rows of a scan are read again by their id, since the identity map of the session holds one
  object per row.
\<close>

definition sla_timer_principal :: principal where
  "sla_timer_principal = \<lparr>p_user_id = sla_actor_id, p_kind = K_SERVICE, p_scopes = {},
     p_partner_id = None, p_on_behalf_of = None, p_acting_agent = None\<rparr>"

definition next_partner :: "service_request \<Rightarrow> (pystr \<times> service_request) option" where
  "next_partner r = (case fallback_list r of
       [] \<Rightarrow> None
     | nxt # rest \<Rightarrow> Some (nxt, r\<lparr>sr_partner_id := Some nxt, sr_fallback_chain := Some rest\<rparr>))"

text \<open>The Russian summary of the escalation.\<close>

definition chain_exhausted_summary :: pystr where
  "chain_exhausted_summary =
     [70, 97, 108, 108, 98, 97, 99, 107, 45, 1094, 1077, 1087, 1086, 1095, 1082, 1072, 32, 1080,
     1089, 1095, 1077, 1088, 1087, 1072, 1085, 1072, 32, 8212, 32, 1090, 1088, 1077, 1073, 1091,
     1077, 1090, 1089, 1103, 32, 1086, 1087, 1077, 1088, 1072, 1090, 1086, 1088]"

definition redispatch_to_next ::
    "env \<Rightarrow> instant \<Rightarrow> resolver \<Rightarrow> sla_policy \<Rightarrow> service_request \<Rightarrow> (pystr \<times> service_request) handler" where
  "redispatch_to_next e now rv policy r = (case next_partner r of
       None \<Rightarrow>
         bind_h (mod_db (emit_operator_escalation (e_settings e) now (sr_id r) (sr_number r) (sr_status r)
           chain_exhausted_summary)) (\<lambda>_. ret (u ''exhausted'', r))
     | Some (nxt, r0) \<Rightarrow>
         bind_h (put_request r0) (\<lambda>r1.
         bind_h (apply_transition e now sla_timer_principal r1 S_ASSIGNED) (\<lambda>r2.
         bind_h (apply_transition e now sla_timer_principal r2 S_DISPATCHED) (\<lambda>r3.
         bind_h (execute_dispatch e now rv policy r3) (\<lambda>(delivered, r4).
         ret (if delivered then u ''redispatched'' else u ''failed_dispatch'', r4))))))"

definition run_accept_timeout_fallback ::
    "env \<Rightarrow> instant \<Rightarrow> resolver \<Rightarrow> sla_policy \<Rightarrow> service_request \<Rightarrow> (pystr \<times> service_request) handler" where
  "run_accept_timeout_fallback e now rv policy r =
     (if fallback_list r = []
      then bind_h (apply_transition e now sla_timer_principal r S_FAILED_DISPATCH) (\<lambda>r'.
        ret (u ''failed_dispatch'', r'))
      else bind_h (apply_transition e now sla_timer_principal r S_MATCHING) (\<lambda>r'.
        redispatch_to_next e now rv policy r'))"

fun scan_rows ::
    "env \<Rightarrow> instant \<Rightarrow> resolver \<Rightarrow> sla_policy \<Rightarrow> uuid list \<Rightarrow> nat handler" where
  "scan_rows e now rv policy [] = ret 0"
| "scan_rows e now rv policy (i # ids) =
     bind_h (load_for_update i) (\<lambda>found.
     bind_h (case found of
         None \<Rightarrow> ret 0
       | Some r \<Rightarrow>
           bind_h (lift_h (evaluate (e_rt e) policy (sr_sla r) (u ''accept_deadline'') now)) (\<lambda>state.
           if state \<noteq> SLA_BREACHED then ret 0
           else bind_h (run_accept_timeout_fallback e now rv policy r) (\<lambda>_. ret (1::nat)))) (\<lambda>n.
     bind_h (scan_rows e now rv policy ids) (\<lambda>m. ret (n + m))))"

definition scan_accept_timeouts ::
    "env \<Rightarrow> instant \<Rightarrow> resolver \<Rightarrow> sla_policy \<Rightarrow> nat handler" where
  "scan_accept_timeouts e now rv policy =
     (if \<not> st_automation_time_based_enabled (e_settings e) then ret 0
      else bind_h get_db (\<lambda>d.
        bind_h (scan_rows e now rv policy
          (map sr_id (list_accept_overdue now (st_outbox_batch_size (e_settings e)) d))) (\<lambda>processed.
        bind_h commit_h (\<lambda>_. ret processed))))"

section \<open>Rejections\<close>

definition process_partner_fallback ::
    "env \<Rightarrow> instant \<Rightarrow> resolver \<Rightarrow> sla_policy \<Rightarrow> outbox_message \<Rightarrow> unit handler" where
  "process_partner_fallback e now rv policy m =
     bind_h (load_payload_request (e_rt e) (om_payload m)) (\<lambda>found. case found of
       None \<Rightarrow> ret ()
     | Some r \<Rightarrow> if sr_status r \<noteq> S_MATCHING then ret ()
         else bind_h (redispatch_to_next e now rv policy r) (\<lambda>_. ret ()))"

definition drain_partner_fallback_batch ::
    "env \<Rightarrow> instant \<Rightarrow> resolver \<Rightarrow> sla_policy \<Rightarrow> nat handler" where
  "drain_partner_fallback_batch e now rv policy =
     bind_h (claim_h partner_fallback_kind now (st_outbox_batch_size (e_settings e))
         (st_outbox_visibility_timeout_seconds (e_settings e)))
       (drain_batch (e_settings e) now (\<lambda>m.
          bind_h (process_partner_fallback e now rv policy m) (\<lambda>_.
          mod_db (save_message (mark_done now m)))))"

section \<open>The invariant\<close>

lemma next_partner_core:
  "next_partner r = Some (q, r0) \<Longrightarrow> same_core r r0 \<and> sr_status r0 = sr_status r"
  by (auto simp: next_partner_def same_core_def split: list.splits)

lemma moves2_redispatch [wfc_intros]: "moves2 r (redispatch_to_next e now rv policy r)"
proof (cases "next_partner r")
  case None
  have "moves2 r (bind_h (mod_db (emit_operator_escalation st now i num status s)) (\<lambda>_. ret (o1, r)))"
    for st i num status s o1
    by (intro moves2_stay stays_grow outbox_grows_emit moves2_ret)
  then show ?thesis by (simp add: redispatch_to_next_def None)
next
  case (Some x)
  obtain q r0 where x: "x = (q, r0)" by (cases x)
  have core: "same_core r r0" "sr_status r0 = sr_status r"
    using next_partner_core Some x by auto
  have end1: "moves2 r4 (case (b, r4) of (delivered, r4) \<Rightarrow> ret (f delivered, r4))" for b f r4
    by (simp add: moves2_ret)
  have chain: "moves2 r1 (bind_h (apply_transition e now sla_timer_principal r1 S_ASSIGNED) (\<lambda>r2.
         bind_h (apply_transition e now sla_timer_principal r2 S_DISPATCHED) (\<lambda>r3.
         bind_h (execute_dispatch e now rv policy r3) (\<lambda>(delivered, r4). ret (f delivered, r4)))))" for r1 f
    by (intro moves2_move movesc_transition moves2_bind [OF moves2_execute_dispatch] end1)
  show ?thesis unfolding redispatch_to_next_def Some x option.case prod.case
    by (rule moves2_put [OF core]) (rule chain)
qed

lemma moves2_accept_timeout [wfc_intros]: "moves2 r (run_accept_timeout_fallback e now rv policy r)"
  unfolding run_accept_timeout_fallback_def
  by (intro moves2_if moves2_move movesc_transition moves2_ret moves2_redispatch)

lemma keepsc_scan_row:
  "keepsc r (bind_h (lift_h z) (\<lambda>state. if state \<noteq> SLA_BREACHED then ret 0
     else bind_h (run_accept_timeout_fallback e now rv policy r) (\<lambda>_. ret (1::nat))))"
  by (intro keepsc_lift keepsc_if keepsc_move2 [OF moves2_accept_timeout] keepsc_end)

lemma keeps_assoc: "bind_h (bind_h m f) g = bind_h m (\<lambda>x. bind_h (f x) g)"
  by (auto simp: bind_h_def split: sum.splits prod.splits)

lemma keeps_scan_rows [keeps_intros]: "keeps wf_db (scan_rows e now rv policy ids)"
proof (induction ids)
  case (Cons i ids)
  let ?row = "\<lambda>found. case found of
         None \<Rightarrow> ret 0
       | Some r \<Rightarrow>
           bind_h (lift_h (evaluate (e_rt e) policy (sr_sla r) (u ''accept_deadline'') now)) (\<lambda>state.
           if state \<noteq> SLA_BREACHED then ret 0
           else bind_h (run_accept_timeout_fallback e now rv policy r) (\<lambda>_. ret (1::nat)))"
  have "keeps wf_db (bind_h (load_for_update i) ?row)"
    by (intro keeps_load_for_update) (simp_all add: keepsc_scan_row keeps_ret)
  then have "keeps wf_db (bind_h (bind_h (load_for_update i) ?row)
      (\<lambda>n. bind_h (scan_rows e now rv policy ids) (\<lambda>m. ret (n + m))))"
    by (rule keeps_bind) (intro keeps_bind Cons keeps_ret)
  then show ?case by (simp add: keeps_assoc)
qed (simp add: keeps_ret)

lemma keeps_scan_accept_timeouts [keeps_intros]: "keeps wf_db (scan_accept_timeouts e now rv policy)"
  unfolding scan_accept_timeouts_def by (auto intro!: keeps_intros)

lemma keeps_process_partner_fallback [keeps_intros]:
  "keeps wf_db (process_partner_fallback e now rv policy m)"
proof -
  have "keepsc r (if sr_status r \<noteq> S_MATCHING then ret ()
      else bind_h (redispatch_to_next e now rv policy r) (\<lambda>_. ret ()))" for r
    by (intro keepsc_if keepsc_move2 [OF moves2_redispatch] keepsc_end)
  then show ?thesis unfolding process_partner_fallback_def
    by (intro keeps_load_payload_request) (simp_all add: keeps_ret)
qed

lemma keeps_drain_partner_fallback_batch [keeps_intros]:
  "keeps wf_db (drain_partner_fallback_batch e now rv policy)"
  unfolding drain_partner_fallback_batch_def by (intro keeps_intros touches_outbox_save) simp_all

end
