(* ===== verification/Assignment.thy ===== *)
theory Assignment
  imports Invariant Matching
begin

text \<open>
  \<open>AssignmentService\<close> of \<open>requests/service.py\<close>: a partner given by the operator or ranked from the
  registry of kb-platform, the service order there (a parameter, keyed by the request), and the
  way to \<open>ASSIGNED\<close> through \<open>MATCHING\<close>.
\<close>

definition assignable :: "request_status \<Rightarrow> bool" where
  "assignable s \<longleftrightarrow> s \<in> {S_CLASSIFIED, S_NEEDS_REVIEW, S_MATCHING, S_DISPATCHED, S_FAILED_DISPATCH}"

record assign_request =
  ag_partner_id :: "pystr option"
  ag_service_area :: "pystr option"

definition apply_manual :: "service_request \<Rightarrow> pystr \<Rightarrow> service_request handler" where
  "apply_manual r partner_id = put_request (r\<lparr>sr_partner_id := Some partner_id,
     sr_delivery_channel := None, sr_fallback_chain := Some [],
     sr_match_trace := Some [(u ''method'', JStr (u ''manual'')), (u ''partner_id'', JStr partner_id)]\<rparr>)"

definition apply_auto ::
    "instant \<Rightarrow> platform \<Rightarrow> service_request \<Rightarrow> category \<Rightarrow> pystr option \<Rightarrow> service_request handler" where
  "apply_auto now pf r category area =
     (case rank (pf_search_candidates pf (category_value category) area) (category_value category) area of
        None \<Rightarrow> problem_h (unprocessable (Some (u ''No eligible partner found'')))
      | Some m \<Rightarrow> put_request (r\<lparr>sr_partner_id := Some (ms_partner_id m),
          sr_delivery_channel := Some (ms_delivery_channel m),
          sr_fallback_chain := Some (ms_fallback_chain m),
          sr_match_trace := Some (dict_merge (ms_match_trace m)
             [(u ''matched_at'', JStr (iso_utc now))])\<rparr>))"

definition orchestrate_service_order ::
    "platform \<Rightarrow> bool \<Rightarrow> service_request \<Rightarrow> category \<Rightarrow> service_request handler" where
  "orchestrate_service_order pf require r category =
     (if \<not> require then ret r
      else case sr_partner_id r of
          None \<Rightarrow> problem_h (conflict (Some (u ''Partner must be selected before ServiceOrder'')))
        | Some partner \<Rightarrow> (case pf_create_service_order pf (uuid_str (sr_id r)) partner
              (category_value category) (u ''assign:'' @ uuid_str (sr_id r)) of
            None \<Rightarrow> problem_h (bad_gateway (Some (u ''ServiceOrder orchestration failed'')))
          | Some so \<Rightarrow> put_request (r\<lparr>sr_service_order_id := Some (so_id so)\<rparr>)))"

definition route_to_assigned ::
    "env \<Rightarrow> instant \<Rightarrow> principal \<Rightarrow> service_request \<Rightarrow> service_request handler" where
  "route_to_assigned e now p r =
     bind_h (if sr_status r \<noteq> S_MATCHING then apply_transition e now p r S_MATCHING else ret r) (\<lambda>r'.
     apply_transition e now p r' S_ASSIGNED)"

definition assign ::
    "env \<Rightarrow> instant \<Rightarrow> platform \<Rightarrow> bool \<Rightarrow> principal \<Rightarrow> uuid \<Rightarrow> assign_request \<Rightarrow> request_detail handler" where
  "assign e now pf require p i body =
     bind_h (load_visible p i) (\<lambda>r.
     bind_h (guard_h (can_drive_lifecycle p)
       (forbidden (Some (u ''Assignment not allowed for subject'')))) (\<lambda>_.
     bind_h (guard_h (assignable (sr_status r))
       (conflict (Some (u ''Assignment not allowed in status '' @ status_value (sr_status r))))) (\<lambda>_.
     case sr_category r of
       None \<Rightarrow> problem_h (conflict (Some (u ''Request must be classified before assignment'')))
     | Some category \<Rightarrow>
         bind_h (case ag_partner_id body of
             Some partner \<Rightarrow> apply_manual r partner
           | None \<Rightarrow> apply_auto now pf r category (ag_service_area body)) (\<lambda>r1.
         bind_h (orchestrate_service_order pf require r1 category) (\<lambda>r2.
         bind_h (route_to_assigned e now p r2) (\<lambda>r3.
         bind_h (mod_db (add_history \<lparr>rh_request_id = sr_id r3, rh_actor_id = actor_of p,
             rh_action = H_ASSIGNED,
             rh_from = Some (if ag_partner_id body \<noteq> None then u ''manual'' else u ''auto''),
             rh_to = sr_partner_id r3, rh_ts = now\<rparr>)) (\<lambda>_.
         bind_h (lift_h (build_detail e now p r3 [])) (\<lambda>detail.
         bind_h commit_h (\<lambda>_. ret detail)))))))))"

section \<open>The invariant\<close>

lemma movesc_assignment [wfc_intros]:
  "movesc r (apply_manual r partner)" "movesc r (apply_auto now pf r category area)"
  "movesc r (orchestrate_service_order pf require r category)" "movesc r (route_to_assigned e now p r)"
  unfolding apply_manual_def apply_auto_def orchestrate_service_order_def route_to_assigned_def
  by (intro wfc_intros; simp add: same_core_def)+

lemma keeps_assign [keeps_intros]: "keeps wf_db (assign e now pf require p i body)"
  unfolding assign_def
  by (intro keeps_intros wfc_intros keepsc_move [OF movesc_option]
      keepsc_move [OF movesc_assignment(3)] keepsc_move [OF movesc_assignment(4)]) simp_all

end
