(* ===== verification/Automation.thy ===== *)
theory Automation
  imports Timers Classification Assignment
begin

text \<open>
  The pipeline a new request goes through (\<open>automation/pipeline.py\<close>): classification, assignment and
  dispatch as the system's operator, as far as the autonomy level (\<open>automation/autonomy.py\<close>)
  allows, driven by messages of the outbox. A service that raised leaves its changes in the
  session, as in the code: the worker does not roll back.
\<close>

section \<open>Autonomy\<close>

datatype autonomy_level = AL_CLASSIFY | AL_ASSIGN | AL_DISPATCH

fun autonomy_rank :: "autonomy_level \<Rightarrow> nat" where
  "autonomy_rank AL_CLASSIFY = 1"
| "autonomy_rank AL_ASSIGN = 2"
| "autonomy_rank AL_DISPATCH = 3"

definition parse_autonomy :: "pyrt \<Rightarrow> pystr \<Rightarrow> autonomy_level" where
  "parse_autonomy rt v = (case map_of
       [(u ''classify'', AL_CLASSIFY), (u ''assign'', AL_ASSIGN), (u ''dispatch'', AL_DISPATCH)]
       (rt_lower rt (py_strip v)) of
     Some l \<Rightarrow> l | None \<Rightarrow> AL_CLASSIFY)"

section \<open>The pipeline\<close>

definition automation_principal :: principal where
  "automation_principal = \<lparr>p_user_id = automation_actor_id, p_kind = K_OPERATOR,
     p_scopes = {staff_admin_scope}, p_partner_id = None, p_on_behalf_of = None, p_acting_agent = None\<rparr>"

record automation_deps =
  ad_provider :: llm_provider
  ad_threshold :: rat
  ad_platform :: platform
  ad_resolver :: resolver
  ad_policy :: sla_policy
  ad_require_service_order :: bool
  ad_autonomy :: autonomy_level

text \<open>\<open>except ProblemException\<close> with some status codes handled, the rest raised again.\<close>

definition except_status :: "(nat \<times> 'a) list \<Rightarrow> exn \<Rightarrow> 'a handler" where
  "except_status handled x = (case x of
       Problem pb \<Rightarrow> (case map_of handled (pb_status pb) of Some a \<Rightarrow> ret a | None \<Rightarrow> raise_h x)
     | _ \<Rightarrow> raise_h x)"

definition run_on_create :: "env \<Rightarrow> instant \<Rightarrow> automation_deps \<Rightarrow> uuid \<Rightarrow> pystr handler" where
  "run_on_create e now deps i =
     bind_h (try_h (bind_h (classify e now (ad_provider deps) (ad_threshold deps) automation_principal i)
           (\<lambda>detail. ret (rr_status detail = S_NEEDS_REVIEW)))
         (except_status [(409, False)])) (\<lambda>needs_review.
     if needs_review then ret (u ''needs_review'')
     else if autonomy_rank (ad_autonomy deps) < autonomy_rank AL_ASSIGN then ret (u ''classified'')
     else
       bind_h (try_h (bind_h (assign e now (ad_platform deps) (ad_require_service_order deps)
             automation_principal i \<lparr>ag_partner_id = None, ag_service_area = None\<rparr>) (\<lambda>_. ret False))
           (except_status [(422, True), (409, False)])) (\<lambda>no_partner.
       if no_partner then ret (u ''no_partner'')
       else if autonomy_rank (ad_autonomy deps) < autonomy_rank AL_DISPATCH then ret (u ''assigned'')
       else
         bind_h (try_h (bind_h (dispatch e now (ad_resolver deps) (ad_policy deps) automation_principal i)
             (\<lambda>_. ret ())) (except_status [(409, ())])) (\<lambda>_.
         ret (u ''dispatched''))))"

definition automation_kind :: pystr where "automation_kind = u ''automation_on_create''"

text \<open>\<open>uuid.UUID(str(payload["request_id"]))\<close>.\<close>

definition payload_id :: "pyrt \<Rightarrow> jdict \<Rightarrow> exn + uuid" where
  "payload_id rt payload = (case dict_get payload (u ''request_id'') of
       None \<Rightarrow> Inl KeyError
     | Some raw \<Rightarrow> (case uuid_parse (py_str rt raw) of
         None \<Rightarrow> Inl (ValueError (u ''badly formed hexadecimal UUID string''))
       | Some i \<Rightarrow> Inr i))"

definition drain_on_create_batch :: "env \<Rightarrow> instant \<Rightarrow> automation_deps \<Rightarrow> nat handler" where
  "drain_on_create_batch e now deps =
     bind_h (claim_h automation_kind now (st_outbox_batch_size (e_settings e))
         (st_outbox_visibility_timeout_seconds (e_settings e)))
       (drain_batch (e_settings e) now (\<lambda>m.
          bind_h (lift_h (payload_id (e_rt e) (om_payload m))) (\<lambda>i.
          bind_h (run_on_create e now deps i) (\<lambda>_.
          mod_db (save_message (mark_done now m))))))"

section \<open>The invariant\<close>

lemma keeps_except_status [keeps_intros]: "keeps I (except_status handled x)"
  by (cases x) (auto simp: except_status_def intro!: keeps_intros split: option.split)

lemma keeps_run_on_create [keeps_intros]: "keeps wf_db (run_on_create e now deps i)"
  unfolding run_on_create_def by (intro keeps_intros keeps_if_h)

lemma keeps_drain_on_create_batch [keeps_intros]: "keeps wf_db (drain_on_create_batch e now deps)"
  unfolding drain_on_create_batch_def by (intro keeps_intros touches_outbox_save) simp_all

end
