(* ===== verification/Retention.thy ===== *)
theory Retention
  imports Invariant
begin

text \<open>
  \<open>retention/worker.py\<close>: raw texts older than the retention period are replaced by their masked
  form, with an audit record each.
\<close>

definition retention_cutoff :: "settings \<Rightarrow> instant \<Rightarrow> instant" where
  "retention_cutoff st now = now - st_raw_input_retention_days st * us_per_day"

definition anonymize_row :: "instant \<Rightarrow> uuid \<Rightarrow> unit handler" where
  "anonymize_row now i =
     bind_h (load_for_update i) (\<lambda>found. case found of
       None \<Rightarrow> ret ()
     | Some r \<Rightarrow>
         bind_h (put_request (r\<lparr>sr_raw_input := sr_raw_input_masked r\<rparr>)) (\<lambda>r'.
         mod_db (add_history \<lparr>rh_request_id = sr_id r', rh_actor_id = retention_actor_id,
           rh_action = H_ANONYMIZED, rh_from = None, rh_to = Some (u ''raw_input''), rh_ts = now\<rparr>)))"

definition anonymize_expired_raw_input :: "settings \<Rightarrow> instant \<Rightarrow> nat handler" where
  "anonymize_expired_raw_input st now =
     (if \<not> st_retention_worker_enabled st then ret 0
      else bind_h get_db (\<lambda>d.
        let rows = list_raw_input_expired (retention_cutoff st now) (st_outbox_batch_size st) d in
        bind_h (for_h (map sr_id rows) (anonymize_row now)) (\<lambda>_.
        bind_h commit_h (\<lambda>_. ret (length rows)))))"

section \<open>The invariant\<close>

lemma keepsc_history_end:
  assumes "rh_request_id h = sr_id r" "rh_action h \<noteq> H_STATUS_CHANGED"
  shows "keepsc r (mod_db (add_history h))"
  unfolding keepsc_def by (rule triple_weaken [OF triple_history [OF assms]]) (auto simp: wfc_def)

lemma keeps_anonymize_row [keeps_intros]: "keeps wf_db (anonymize_row now i)"
proof -
  have "keepsc r (bind_h (put_request (r\<lparr>sr_raw_input := x\<rparr>)) (\<lambda>r'.
      mod_db (add_history \<lparr>rh_request_id = sr_id r', rh_actor_id = a, rh_action = H_ANONYMIZED,
        rh_from = None, rh_to = b, rh_ts = now\<rparr>)))" for r x a b
    by (intro keepsc_put keepsc_history_end) (simp_all add: same_core_def)
  then show ?thesis unfolding anonymize_row_def
    by (intro keeps_load_for_update) (simp_all add: keeps_ret)
qed

lemma keeps_anonymize [keeps_intros]: "keeps wf_db (anonymize_expired_raw_input st now)"
  unfolding anonymize_expired_raw_input_def Let_def by (auto intro!: keeps_intros)

end
