(* ===== verification/Delivery.thy ===== *)
theory Delivery
  imports Channels Adapters
begin

text \<open>
  The workers that empty the outbox towards the outside: domain events (\<open>webhooks/client.py\<close>,
  \<open>webhooks/drainer.py\<close>), callbacks of the chat agent (\<open>clients/concierge\<close>, \<open>agent/drainer.py\<close>)
  and notifications by SMS, mail and web push (\<open>notifications/drainer.py\<close>, \<open>contacts.py\<close>,
  \<open>channels.py\<close>, \<open>push/webpush.py\<close>). The HTTP side, SMTP, the push library and HMAC are arguments.
\<close>

section \<open>Delivering and settling\<close>

definition retry_at :: "settings \<Rightarrow> instant \<Rightarrow> outbox_message \<Rightarrow> instant" where
  "retry_at st now m = now + timedelta_us (st_outbox_retry_base_seconds st * 2 ^ (om_attempts m - 1))"

definition settle ::
    "settings \<Rightarrow> instant \<Rightarrow> pystr \<Rightarrow> exn + bool \<Rightarrow> outbox_message \<Rightarrow> outbox_message" where
  "settle st now refusal answer m = (case answer of
       Inl x \<Rightarrow> mark_failed_or_retry (exn_text x) now (st_outbox_max_attempts st) (retry_at st now m) m
     | Inr True \<Rightarrow> mark_done now m
     | Inr False \<Rightarrow> mark_failed_or_retry refusal now (st_outbox_max_attempts st) (retry_at st now m) m)"

definition deliver_message ::
    "settings \<Rightarrow> instant \<Rightarrow> pystr \<Rightarrow> (outbox_message \<Rightarrow> exn + bool) \<Rightarrow> outbox_message \<Rightarrow> unit handler" where
  "deliver_message st now refusal deliver m = (case deliver m of
       Inl x \<Rightarrow> if is_external x then mod_db (save_message (settle st now refusal (Inl x) m)) else raise_h x
     | Inr ok \<Rightarrow> mod_db (save_message (settle st now refusal (Inr ok) m)))"

definition drain_deliveries ::
    "settings \<Rightarrow> instant \<Rightarrow> pystr \<Rightarrow> pystr \<Rightarrow> (outbox_message \<Rightarrow> exn + bool) \<Rightarrow> nat handler" where
  "drain_deliveries st now kind refusal deliver =
     bind_h (claim_h kind now (st_outbox_batch_size st) (st_outbox_visibility_timeout_seconds st)) (\<lambda>batch.
     bind_h (for_h batch (deliver_message st now refusal deliver)) (\<lambda>_.
     bind_h commit_h (\<lambda>_. ret (length batch))))"

section \<open>Webhooks\<close>

definition sign :: "(nat list \<Rightarrow> nat list \<Rightarrow> pystr) \<Rightarrow> (pystr \<Rightarrow> nat list) \<Rightarrow> pystr \<Rightarrow> nat list \<Rightarrow> pystr" where
  "sign hmac_hex encode secret body = hmac_hex (encode secret) body"

text \<open>\<open>WebhookClient.deliver\<close>; \<open>http\<close> is the request of the resilient client.\<close>

definition webhook_request ::
    "pyrt \<Rightarrow> (nat list \<Rightarrow> nat list \<Rightarrow> pystr) \<Rightarrow> (pystr \<Rightarrow> nat list) \<Rightarrow> (jdict \<Rightarrow> pystr)
     \<Rightarrow> settings \<Rightarrow> jdict \<Rightarrow> http_call" where
  "webhook_request rt hmac_hex encode dumps st payload =
     (let body = encode (dumps payload)
      in \<lparr>hq_method = u ''POST'', hq_url = st_webhook_url st, hq_operation = u ''deliver_webhook'',
          hq_headers = [(u ''Content-Type'', u ''application/json''),
            (u ''X-Signature'', sign hmac_hex encode (st_webhook_secret st) body),
            (u ''X-Event'', (case dict_get payload (u ''event'') of None \<Rightarrow> [] | Some v \<Rightarrow> py_str rt v))],
          hq_params = [], hq_json = None, hq_content = Some body\<rparr>)"

definition webhook_deliver ::
    "(http_call \<Rightarrow> exn + response) \<Rightarrow> http_call \<Rightarrow> exn + bool" where
  "webhook_deliver http req = bindE (http req) (\<lambda>r. Inr (hr_status r < 300))"

definition drain_webhook_batch ::
    "settings \<Rightarrow> instant \<Rightarrow> (outbox_message \<Rightarrow> exn + bool) \<Rightarrow> nat handler" where
  "drain_webhook_batch st now deliver =
     drain_deliveries st now webhook_kind (u ''subscriber returned non-2xx'') deliver"

section \<open>Callbacks of the chat agent\<close>

definition concierge_call :: "pyrt \<Rightarrow> pystr \<Rightarrow> jdict \<Rightarrow> exn + http_call" where
  "concierge_call rt token payload =
     (case (dict_get payload (u ''session_id''), dict_get payload (u ''text'')) of
        (Some sid, Some text) \<Rightarrow> Inr \<lparr>hq_method = u ''POST'',
          hq_url = u ''/api/v1/concierge/inbound/status-update'', hq_operation = u ''concierge_status_update'',
          hq_headers = [bearer token, (u ''Idempotency-Key'',
            u ''concierge-status:'' @ py_str rt (key_or_null payload (u ''request_id''))
            @ u '':'' @ py_str rt (key_or_null payload (u ''status'')))],
          hq_params = [],
          hq_json = Some (JObj [(u ''session_id'', sid), (u ''text'', text),
            (u ''ref'', key_or_null payload (u ''ref'')), (u ''status'', key_or_null payload (u ''status''))]),
          hq_content = None\<rparr>
      | _ \<Rightarrow> Inl KeyError)"

definition deliver_status_update :: "pyrt \<Rightarrow> exn + pystr \<Rightarrow> http \<Rightarrow> jdict \<Rightarrow> exn + bool" where
  "deliver_status_update rt token http payload =
     bindE token (\<lambda>t. bindE (concierge_call rt t payload) (\<lambda>q.
     bindE (http q) (\<lambda>r. Inr (hr_status r < 300))))"

definition drain_concierge_callback_batch ::
    "settings \<Rightarrow> instant \<Rightarrow> (outbox_message \<Rightarrow> exn + bool) \<Rightarrow> nat handler" where
  "drain_concierge_callback_batch st now deliver =
     drain_deliveries st now concierge_callback_kind (u ''concierge returned non-2xx'') deliver"

section \<open>Notices and contacts\<close>

record notice =
  nc_request_id :: uuid
  nc_number :: pystr
  nc_audience :: notify_audience
  nc_summary :: pystr
  nc_requester_id :: "pystr option"
  nc_partner_id :: "pystr option"

record recipient =
  rp_phone :: "pystr option"
  rp_email :: "pystr option"

definition opt_text :: "pyrt \<Rightarrow> json option \<Rightarrow> pystr option" where
  "opt_text rt v = (case v of None \<Rightarrow> None | Some j \<Rightarrow> if json_truthy j then Some (py_str rt j) else None)"

definition audience_of_value :: "pystr \<Rightarrow> notify_audience option" where
  "audience_of_value t = find (\<lambda>a. audience_value a = t) [N_USER, N_PARTNER, N_OPERATOR]"

definition parse_notice :: "pyrt \<Rightarrow> jdict \<Rightarrow> notice option" where
  "parse_notice rt payload =
     (case (Option.bind (dict_get payload (u ''request_id'')) (\<lambda>v. uuid_parse (py_str rt v)),
            dict_get payload (u ''number''),
            Option.bind (dict_get payload (u ''audience'')) (\<lambda>v. audience_of_value (py_str rt v)),
            dict_get payload (u ''summary'')) of
        (Some i, Some number, Some a, Some summary) \<Rightarrow> Some \<lparr>nc_request_id = i,
          nc_number = py_str rt number, nc_audience = a, nc_summary = py_str rt summary,
          nc_requester_id = opt_text rt (dict_get payload (u ''requester_id'')),
          nc_partner_id = opt_text rt (dict_get payload (u ''partner_id''))\<rparr>
      | _ \<Rightarrow> None)"

text \<open>\<open>NeighborContactResolver.resolve\<close>.\<close>

definition resolve_contact :: "rehome_one \<Rightarrow> platform \<Rightarrow> settings \<Rightarrow> notice \<Rightarrow> recipient" where
  "resolve_contact rehome pf st n =
     (let nobody = \<lparr>rp_phone = None, rp_email = None\<rparr>
      in if nc_audience n = N_USER \<and> truthy (nc_requester_id n)
         then (case rh1_get_requester_context rehome (or_empty (nc_requester_id n)) None None of
             None \<Rightarrow> nobody | Some c \<Rightarrow> \<lparr>rp_phone = rc_phone c, rp_email = rc_email c\<rparr>)
         else if nc_audience n = N_PARTNER \<and> truthy (nc_partner_id n)
         then (case pf_get_partner_contact pf (or_empty (nc_partner_id n)) of
             None \<Rightarrow> nobody | Some c \<Rightarrow> \<lparr>rp_phone = ct_phone c, rp_email = ct_email c\<rparr>)
         else if nc_audience n = N_OPERATOR
         then \<lparr>rp_phone = None, rp_email = (if st_notify_operator_email st = [] then None
             else Some (st_notify_operator_email st))\<rparr>
         else nobody)"

section \<open>The channels of a notification\<close>

definition request_word :: pystr where
  "request_word = [1047, 1072, 1103, 1074, 1082, 1072, 32]"

definition message_text :: "notice \<Rightarrow> pystr" where
  "message_text n = request_word @ nc_number n @ u '': '' @ nc_summary n"

definition send_sms ::
    "pyrt \<Rightarrow> settings \<Rightarrow> (pystr \<Rightarrow> pystr \<Rightarrow> exn + response) \<Rightarrow> notice \<Rightarrow> pystr option \<Rightarrow> exn + bool" where
  "send_sms rt st http n phone =
     (if st_sms_ru_api_id st = [] \<or> \<not> truthy phone then Inr False
      else bindE (http (or_empty phone) (message_text n)) (\<lambda>r.
        if hr_status r \<ge> 400 then Inr False
        else (case hr_body r of
            Some (JObj d) \<Rightarrow> Inr (py_str rt (key_or_null d (u ''status'')) = u ''OK'')
          | _ \<Rightarrow> Inr False)))"

definition send_email ::
    "settings \<Rightarrow> (mail \<Rightarrow> smtp_result) \<Rightarrow> notice \<Rightarrow> pystr option \<Rightarrow> exn + bool" where
  "send_email st smtp n to_addr =
     (if st_notify_smtp_host st = [] \<or> st_notify_email_from st = [] \<or> \<not> truthy to_addr then Inr False
      else bindE (make_mail (st_notify_email_from st) (or_empty to_addr) (message_text n) (message_text n)) (\<lambda>m.
        case smtp m of Smtp_sent \<Rightarrow> Inr True | Smtp_failed _ \<Rightarrow> Inr False | Smtp_raised x \<Rightarrow> Inl x))"

datatype push_result = Push_sent | Push_refused "int option" | Push_raised exn

definition push_body :: "notice \<Rightarrow> jdict" where
  "push_body n = [(u ''title'', JStr (request_word @ nc_number n)), (u ''body'', JStr (nc_summary n))]"

definition send_webpush ::
    "settings \<Rightarrow> (push_subscription \<Rightarrow> jdict \<Rightarrow> push_result) \<Rightarrow> push_subscription \<Rightarrow> notice \<Rightarrow> exn + bool" where
  "send_webpush st push sub n =
     (if st_vapid_private_key st = [] \<or> st_vapid_subject st = [] then Inr False
      else (case push sub (push_body n) of
          Push_sent \<Rightarrow> Inr True
        | Push_refused (Some c) \<Rightarrow> if c = 404 \<or> c = 410 then Inl (SubscriptionExpired (dec_str c)) else Inr False
        | Push_refused None \<Rightarrow> Inr False
        | Push_raised x \<Rightarrow> Inl x))"

definition notice_owner :: "notice \<Rightarrow> pystr option" where
  "notice_owner n = (case nc_audience n of
       N_USER \<Rightarrow> nc_requester_id n | N_PARTNER \<Rightarrow> nc_partner_id n | N_OPERATOR \<Rightarrow> None)"

fun push_all ::
    "(push_subscription \<Rightarrow> exn + bool) \<Rightarrow> pystr \<Rightarrow> push_subscription list \<Rightarrow> nat handler" where
  "push_all send owner [] = ret 0"
| "push_all send owner (x # xs) = (case send x of
       Inr ok \<Rightarrow> bind_h (push_all send owner xs) (\<lambda>k. ret (if ok then Suc k else k))
     | Inl (SubscriptionExpired _) \<Rightarrow>
         bind_h (mod_db (delete_subscription owner (ps_endpoint x))) (\<lambda>_. push_all send owner xs)
     | Inl e \<Rightarrow> raise_h e)"

definition deliver_push ::
    "settings \<Rightarrow> (push_subscription \<Rightarrow> jdict \<Rightarrow> push_result) \<Rightarrow> notice \<Rightarrow> nat handler" where
  "deliver_push st push n =
     (if st_vapid_private_key st = [] then ret 0
      else (case notice_owner n of
          None \<Rightarrow> ret 0
        | Some owner \<Rightarrow> bind_h get_db (\<lambda>d.
            push_all (\<lambda>x. send_webpush st push x n) owner (list_for_owner owner d))))"

record outlets =
  ol_sms :: "pystr \<Rightarrow> pystr \<Rightarrow> exn + response"
  ol_smtp :: "mail \<Rightarrow> smtp_result"
  ol_push :: "push_subscription \<Rightarrow> jdict \<Rightarrow> push_result"

definition deliver_notification ::
    "pyrt \<Rightarrow> settings \<Rightarrow> outlets \<Rightarrow> notice \<Rightarrow> recipient \<Rightarrow> nat handler" where
  "deliver_notification rt st ol n to =
     bind_h (lift_h (send_sms rt st (ol_sms ol) n (rp_phone to))) (\<lambda>sms.
     bind_h (lift_h (send_email st (ol_smtp ol) n (rp_email to))) (\<lambda>mail.
     bind_h (deliver_push st (ol_push ol) n) (\<lambda>k.
     ret ((if sms then 1 else 0) + (if mail then 1 else 0) + k))))"

definition drain_one_notification ::
    "env \<Rightarrow> instant \<Rightarrow> outlets \<Rightarrow> (notice \<Rightarrow> exn + recipient) \<Rightarrow> outbox_message \<Rightarrow> unit handler" where
  "drain_one_notification e now ol resolve m = (case parse_notice (e_rt e) (om_payload m) of
       None \<Rightarrow> mod_db (save_message (mark_done now m))
     | Some n \<Rightarrow>
         try_h (bind_h (lift_h (resolve n)) (\<lambda>to.
             bind_h (deliver_notification (e_rt e) (e_settings e) ol n to) (\<lambda>_.
             mod_db (save_message (mark_done now m)))))
           (\<lambda>x. if is_external x
             then mod_db (save_message (settle (e_settings e) now [] (Inl x) m)) else raise_h x))"

definition drain_notification_batch ::
    "env \<Rightarrow> instant \<Rightarrow> outlets \<Rightarrow> (notice \<Rightarrow> exn + recipient) \<Rightarrow> nat handler" where
  "drain_notification_batch e now ol resolve =
     bind_h (claim_h notification_kind now (st_outbox_batch_size (e_settings e))
       (st_outbox_visibility_timeout_seconds (e_settings e))) (\<lambda>batch.
     bind_h (for_h batch (drain_one_notification e now ol resolve)) (\<lambda>_.
     bind_h commit_h (\<lambda>_. ret (length batch))))"

section \<open>The invariant\<close>

lemma known_settle [simp]: "known (settle st now refusal answer m) = known m"
  by (auto simp: settle_def split: sum.split bool.split)

lemma keeps_deliver_message [keeps_intros]: "known m \<Longrightarrow> keeps wf_db (deliver_message st now refusal deliver m)"
  unfolding deliver_message_def
  by (auto intro!: keeps_intros touches_outbox_save split: sum.split)

lemma keeps_drain_deliveries [keeps_intros]: "keeps wf_db (drain_deliveries st now kind refusal deliver)"
  unfolding drain_deliveries_def by (intro keeps_intros) (simp add: list_all_iff)

lemma keeps_drain_webhooks [keeps_intros]:
  "keeps wf_db (drain_webhook_batch st now deliver)"
  "keeps wf_db (drain_concierge_callback_batch st now deliver)"
  unfolding drain_webhook_batch_def drain_concierge_callback_batch_def by (rule keeps_intros)+

lemma keeps_push_all [keeps_intros]: "keeps wf_db (push_all send owner xs)"
  by (induction xs) (auto intro!: keeps_intros keeps_outside_wf split: sum.split exn.split)

lemma keeps_deliver_notification [keeps_intros]: "keeps wf_db (deliver_notification rt st ol n to)"
proof -
  have "keeps wf_db (deliver_push st (ol_push ol) n)"
    unfolding deliver_push_def by (auto intro!: keeps_intros split: option.split)
  then show ?thesis unfolding deliver_notification_def by (intro keeps_intros)
qed

lemma keeps_drain_notifications [keeps_intros]: "keeps wf_db (drain_notification_batch e now ol resolve)"
proof -
  have "keeps wf_db (drain_one_notification e now ol resolve m)" if "known m" for m using that
    unfolding drain_one_notification_def
    by (auto intro!: keeps_intros touches_outbox_save split: option.split)
  then show ?thesis unfolding drain_notification_batch_def by (intro keeps_intros) (simp_all add: list_all_iff)
qed

section \<open>A drain is a pointwise change of the queue\<close>

definition poison :: "exn + bool \<Rightarrow> exn option" where
  "poison answer = (case answer of Inl x \<Rightarrow> if is_external x then None else Some x | Inr _ \<Rightarrow> None)"

definition settled_queue ::
    "(outbox_message \<Rightarrow> outbox_message) \<Rightarrow> outbox_message list \<Rightarrow> outbox_message list \<Rightarrow> outbox_message list" where
  "settled_queue f claimed queue =
     map (\<lambda>x. case row_find om_id (om_id x) claimed of None \<Rightarrow> x | Some m \<Rightarrow> f m) queue"

lemma for_deliver:
  "for_h ms (deliver_message st now refusal deliver) s =
     (case List.map_filter (\<lambda>m. poison (deliver m)) ms of
        [] \<Rightarrow> (Inr (), s\<lparr>se_working := foldl (\<lambda>d m. save_message (settle st now refusal (deliver m) m) d)
            (se_working s) ms\<rparr>)
      | x # _ \<Rightarrow> (Inl x, snd (for_h ms (deliver_message st now refusal deliver) s)))
   \<and> se_durable (snd (for_h ms (deliver_message st now refusal deliver) s)) = se_durable s"
proof (induction ms arbitrary: s)
  case Nil
  then show ?case by (simp add: ret_def map_filter_simps)
next
  case (Cons m ms)
  show ?case
  proof (cases "poison (deliver m)")
    case None
    then have "deliver_message st now refusal deliver m s =
        (Inr (), s\<lparr>se_working := save_message (settle st now refusal (deliver m) m) (se_working s)\<rparr>)"
      by (auto simp: poison_def deliver_message_def mod_db_def split: sum.splits if_splits)
    then show ?thesis
      using Cons.IH [of "s\<lparr>se_working := save_message (settle st now refusal (deliver m) m) (se_working s)\<rparr>"] None
      by (auto simp: bind_h_def map_filter_simps split: list.splits)
  next
    case (Some x)
    then have "deliver_message st now refusal deliver m s = (Inl x, s)"
      by (auto simp: poison_def deliver_message_def raise_h_def split: sum.splits if_splits)
    then show ?thesis using Some by (simp add: bind_h_def map_filter_simps)
  qed
qed

lemma settle_id [simp]: "om_id (settle st now refusal answer m) = om_id m"
  by (simp add: settle_def split: sum.split bool.split)

lemma foldl_settle:
  assumes "distinct (map om_id ms)" "\<And>m. om_id (f m) = om_id m"
  shows "db_outbox (foldl (\<lambda>d m. save_message (f m) d) d ms) = settled_queue f ms (db_outbox d)"
proof -
  have fold: "foldl (\<lambda>d m. save_message (f m) d) d ms = foldl (\<lambda>d m. save_message m d) d (map f ms)" for d
    by (induction ms arbitrary: d) simp_all
  have find: "row_find om_id i (map f ms) = map_option f (row_find om_id i ms)" for i
    by (induction ms) (simp_all add: row_find_def assms(2))
  have "distinct (map om_id (map f ms))" using assms by (simp add: comp_def)
  from foldl_save_messages [OF this] show ?thesis
    by (auto simp: fold settled_queue_def find intro!: map_cong split: option.splits)
qed

lemma foldl_save_others:
  "foldl (\<lambda>d m. save_message (f m) d) d ms = d\<lparr>db_outbox := db_outbox (foldl (\<lambda>d m. save_message (f m) d) d ms)\<rparr>"
proof -
  have "\<exists>q. foldl (\<lambda>d m. save_message (f m) d) d ms = d\<lparr>db_outbox := q\<rparr>"
  proof (induction ms arbitrary: d)
    case Nil
    have "d = d\<lparr>db_outbox := db_outbox d\<rparr>" by simp
    then show ?case by (metis foldl_Nil)
  next
    case (Cons m ms)
    obtain q where "foldl (\<lambda>d m. save_message (f m) d) (save_message (f m) d) ms = (save_message (f m) d)\<lparr>db_outbox := q\<rparr>"
      using Cons.IH by blast
    then show ?case by (auto simp: save_message_def)
  qed
  then show ?thesis by auto
qed

lemma claim_batch_queue:
  assumes "wf_outbox d" "claim_batch kind now limit vis d = (ms, d')"
  shows "distinct (map om_id ms)" "db_outbox d' = settled_queue (\<lambda>m. m) ms (db_outbox d)"
    "d' = d\<lparr>db_outbox := db_outbox d'\<rparr>"
proof -
  obtain rows where "ms = map (claim_row (now + timedelta_us vis)) rows" "distinct (map om_id rows)"
    by (rule claimed_rows [OF assms])
  then show dist: "distinct (map om_id ms)" by (simp add: comp_def)
  have d': "d' = foldl (\<lambda>d m. save_message m d) d ms"
    using assms(2) by (auto simp: claim_batch_def Let_def)
  show "db_outbox d' = settled_queue (\<lambda>m. m) ms (db_outbox d)"
    using foldl_settle [OF dist, of "\<lambda>m. m"] d' by simp
  show "d' = d\<lparr>db_outbox := db_outbox d'\<rparr>" using foldl_save_others [of "\<lambda>m. m" d ms] d' by simp
qed

lemma settled_twice:
  "settled_queue f ms (settled_queue (\<lambda>m. m) ms q) = settled_queue f ms q"
proof -
  have "(case row_find om_id (om_id x) ms of None \<Rightarrow> x | Some m \<Rightarrow> f m) =
      (let y = (case row_find om_id (om_id x) ms of None \<Rightarrow> x | Some m \<Rightarrow> m)
       in case row_find om_id (om_id y) ms of None \<Rightarrow> y | Some m \<Rightarrow> f m)" for x
    using row_find_Some [of om_id "om_id x" ms] by (cases "row_find om_id (om_id x) ms") simp_all
  then show ?thesis unfolding settled_queue_def map_map comp_def Let_def by metis
qed

lemma drain_pointwise:
  assumes "wf_outbox d"
  shows "run_endpoint (drain_deliveries st now kind refusal deliver) d =
    (let ms = fst (claim_batch kind now (st_outbox_batch_size st) (st_outbox_visibility_timeout_seconds st) d)
     in case List.map_filter (\<lambda>m. poison (deliver m)) ms of
          [] \<Rightarrow> (Inr (length ms), d\<lparr>db_outbox :=
            settled_queue (\<lambda>m. settle st now refusal (deliver m) m) ms (db_outbox d)\<rparr>)
        | x # _ \<Rightarrow> (Inl x, d))"
proof -
  obtain ms d' where claim: "claim_batch kind now (st_outbox_batch_size st)
      (st_outbox_visibility_timeout_seconds st) d = (ms, d')" by fastforce
  note q = claim_batch_queue [OF assms claim]
  let ?f = "\<lambda>m. settle st now refusal (deliver m) m"
  let ?s = "(open_session d)\<lparr>se_working := d'\<rparr>"
  have run: "drain_deliveries st now kind refusal deliver (open_session d) =
      bind_h (for_h ms (deliver_message st now refusal deliver)) (\<lambda>_. bind_h commit_h (\<lambda>_. ret (length ms))) ?s"
    by (simp add: drain_deliveries_def claim_h_def bind_h_def get_db_def mod_db_def ret_def open_session_def claim)
  show ?thesis
  proof (cases "List.map_filter (\<lambda>m. poison (deliver m)) ms")
    case Nil
    have "foldl (\<lambda>d m. save_message (?f m) d) d' ms = d\<lparr>db_outbox := settled_queue ?f ms (db_outbox d)\<rparr>"
      using foldl_save_others [of ?f d' ms] foldl_settle [OF q(1), of ?f d'] q(2,3)
        settled_twice [of ?f ms "db_outbox d"]
      by (subst foldl_save_others, subst q(3)) simp
    then show ?thesis
      using for_deliver [of ms st now refusal deliver ?s] Nil
      by (simp add: run_endpoint_def run bind_h_def commit_h_def ret_def commit_def claim)
  next
    case (Cons x xs)
    obtain s' where s': "for_h ms (deliver_message st now refusal deliver) ?s = (Inl x, s')"
        "se_durable s' = d"
      using for_deliver [of ms st now refusal deliver ?s] Cons
      by (metis list.case(2) open_session_def session.select_convs(1) session.surjective session.update_convs(2) snd_conv)
    then show ?thesis using Cons
      by (simp add: run_endpoint_def run bind_h_def claim rollback_def)
  qed
qed

text \<open>C26. A drain refines a pointwise change of the queue: when no delivery raised anything but an
  unreachable neighbour, it commits the queue in which exactly the claimed messages have moved, each
  by its own answer (done, retried later, or failed for good) and nothing else of the database
  has changed; when one did, the first such exception comes out and the database is untouched.
\<close>

theorem drain_is_pointwise:
  assumes "wf_outbox d"
  shows "run_endpoint (drain_deliveries st now kind refusal deliver) d =
    (let ms = fst (claim_batch kind now (st_outbox_batch_size st) (st_outbox_visibility_timeout_seconds st) d)
     in case List.map_filter (\<lambda>m. poison (deliver m)) ms of
          [] \<Rightarrow> (Inr (length ms), d\<lparr>db_outbox :=
            settled_queue (\<lambda>m. settle st now refusal (deliver m) m) ms (db_outbox d)\<rparr>)
        | x # _ \<Rightarrow> (Inl x, d))"
  by (rule drain_pointwise [OF assms])

definition demo_queue :: db where
  "demo_queue = enqueue 1 webhook_kind [] (enqueue 0 webhook_kind [] empty_db)"

definition demo_answer :: "outbox_message \<Rightarrow> exn + bool" where
  "demo_answer m = (if om_id m = 0 then Inr True
     else Inl (ExternalServiceError (external_error (u ''webhook'') (u ''deliver_webhook'') (u ''timeout''))))"

lemma drain_is_pointwise_witness:
  "(let d' = snd (run_endpoint (drain_webhook_batch default_settings 10 demo_answer) demo_queue)
    in map om_status (db_outbox d') = [OB_DONE, OB_PENDING] \<and> map om_attempts (db_outbox d') = [1, 1])"
proof -
  have "wf_outbox demo_queue" by code_simp
  from drain_is_pointwise [OF this, of default_settings 10 webhook_kind "u ''subscriber returned non-2xx''" demo_answer]
  show ?thesis unfolding drain_webhook_batch_def by (rule ssubst) code_simp
qed

end
