(* ===== verification/Router.thy ===== *)
theory Router
  imports Intake Automation Partner Acceptance Inbound Email_Inbound Channels Retention Delivery Framing
begin

text \<open>
  The service from the outside: the HTTP routes (\<open>requests/router.py\<close>, \<open>channels/router.py\<close>,
  \<open>channels/inbound_router.py\<close>, \<open>push/router.py\<close>) behind the authentication
  (\<open>auth/dependencies.py\<close>) with the services that the dependencies build from the settings
  (\<open>requests/dependencies.py\<close>, \<open>channels/dependencies.py\<close>), and the jobs of the workers
  (\<open>tasks/actors.py\<close>). A \<open>world\<close> is everything outside the database that one call meets. The
  bodies of the calls are those that passed the schemas.
\<close>

record world =
  w_env :: env
  w_verifier :: "pystr \<Rightarrow> exn + principal"
  w_wire :: wire
  w_parseaddr :: "pystr \<Rightarrow> pystr"
  w_unseen :: "imap_message list"
  w_files :: files_client
  w_platform :: platform
  w_rehome :: rehome_one
  w_support :: kb_support
  w_provider :: llm_provider
  w_resolver :: resolver
  w_webhook :: "outbox_message \<Rightarrow> exn + bool"
  w_concierge :: "outbox_message \<Rightarrow> exn + bool"
  w_outlets :: outlets

definition w_settings :: "world \<Rightarrow> settings" where
  "w_settings w = e_settings (w_env w)"

section \<open>Authentication\<close>

definition get_current_principal :: "world \<Rightarrow> pystr option \<Rightarrow> exn + principal" where
  "get_current_principal w credentials =
     (if st_auth_jwks_url (w_settings w) = []
      then raise_problem (unauthorized (Some (u ''Authentication is not configured'')))
      else case credentials of
          None \<Rightarrow> raise_problem (unauthorized (Some (u ''Missing bearer token'')))
        | Some token \<Rightarrow> w_verifier w token)"

definition require_service_principal :: "principal \<Rightarrow> unit handler" where
  "require_service_principal p = guard_h (p_kind p = K_SERVICE) (forbidden (Some (u ''Service principal required'')))"

definition require_staff_admin :: "principal \<Rightarrow> unit handler" where
  "require_staff_admin p = guard_h (is_staff_admin p) (forbidden (Some (u ''Staff admin scope required'')))"

section \<open>The services\<close>

definition request_files :: "world \<Rightarrow> files_client option" where
  "request_files w = (if st_kb_files_api_token (w_settings w) = [] then None else Some (w_files w))"

definition require_service_order :: "world \<Rightarrow> bool" where
  "require_service_order w \<longleftrightarrow> st_platform_api_token (w_settings w) \<noteq> []"

definition enable_claims :: "world \<Rightarrow> bool" where
  "enable_claims w \<longleftrightarrow> st_kb_support_api_token (w_settings w) \<noteq> []"

definition enable_settlement :: "world \<Rightarrow> bool" where
  "enable_settlement w \<longleftrightarrow> st_rehome_one_api_token (w_settings w) \<noteq> []"

definition with_policy :: "world \<Rightarrow> (sla_policy \<Rightarrow> 'a handler) \<Rightarrow> 'a handler" where
  "with_policy w f = bind_h (lift_h (policy_from_settings (w_settings w))) f"

section \<open>The routes\<close>

datatype api_call =
    Create_request request_create "pystr option"
  | Create_from_chat from_chat_create
  | Create_from_ticket from_ticket_create
  | List_requests request_filters "pystr option" "nat option"
  | Get_request uuid
  | Transition_request uuid request_status
  | Classify_request uuid
  | Assign_request uuid assign_request
  | Dispatch_request uuid
  | Accept_request uuid
  | Dispute_request uuid pystr
  | Confirm_settlement uuid settlement_confirm
  | Cancel_request uuid pystr
  | Reschedule_request uuid datetime
  | Respond_as_partner uuid partner_response
  | Add_estimate uuid estimate_create
  | Requester_context uuid
  | List_messages uuid
  | Add_message uuid message_create
  | List_channels "pystr option"
  | Create_channel channel_create
  | Get_channel uuid
  | Update_channel uuid channel_update
  | Subscribe subscription_create
  | Unsubscribe pystr

datatype reply =
    R_request request_read
  | R_page request_page
  | R_detail request_detail
  | R_context requester_context
  | R_messages "request_message list"
  | R_message request_message
  | R_channels "channel_read list"
  | R_channel channel_read
  | R_ack pystr

definition reply_h :: "nat \<Rightarrow> ('a \<Rightarrow> reply) \<Rightarrow> 'a handler \<Rightarrow> (nat \<times> reply) handler" where
  "reply_h code f h = bind_h h (\<lambda>a. ret (code, f a))"

definition created_reply :: "(service_request \<times> bool) handler \<Rightarrow> (nat \<times> reply) handler" where
  "created_reply h = bind_h h (\<lambda>(r, created). ret (if created then 201 else 200, R_request (read_request r)))"

named_theorems route_defs \<open>the routes and the jobs, opened\<close>

definition create_request_route ::
    "world \<Rightarrow> instant \<Rightarrow> uuid \<Rightarrow> principal \<Rightarrow> request_create \<Rightarrow> pystr option \<Rightarrow> (nat \<times> reply) handler" where
  [route_defs]: "create_request_route w now new_id p body key =
     created_reply (create_from_form (w_env w) now new_id p body key)"

definition create_request_from_chat_route ::
    "world \<Rightarrow> instant \<Rightarrow> uuid \<Rightarrow> principal \<Rightarrow> from_chat_create \<Rightarrow> (nat \<times> reply) handler" where
  [route_defs]: "create_request_from_chat_route w now new_id p body =
     bind_h (require_service_principal p) (\<lambda>_. created_reply (create_from_chat (w_env w) now new_id p body))"

definition create_request_from_ticket_route ::
    "world \<Rightarrow> instant \<Rightarrow> uuid \<Rightarrow> principal \<Rightarrow> from_ticket_create \<Rightarrow> (nat \<times> reply) handler" where
  [route_defs]: "create_request_from_ticket_route w now new_id p body =
     bind_h (require_service_principal p) (\<lambda>_. created_reply (create_from_ticket (w_env w) now new_id p body))"

definition list_requests_route ::
    "principal \<Rightarrow> request_filters \<Rightarrow> pystr option \<Rightarrow> nat option \<Rightarrow> (nat \<times> reply) handler" where
  [route_defs]: "list_requests_route p f cursor limit = reply_h 200 R_page (list_requests p f cursor limit)"

definition get_request_route ::
    "world \<Rightarrow> instant \<Rightarrow> principal \<Rightarrow> uuid \<Rightarrow> (nat \<times> reply) handler" where
  [route_defs]: "get_request_route w now p i = reply_h 200 R_detail (get_detail (w_env w) now p i)"

definition transition_request_route ::
    "world \<Rightarrow> instant \<Rightarrow> principal \<Rightarrow> uuid \<Rightarrow> request_status \<Rightarrow> (nat \<times> reply) handler" where
  [route_defs]: "transition_request_route w now p i target =
     reply_h 200 R_detail (transition (w_env w) now p i target)"

definition classify_request_route ::
    "world \<Rightarrow> instant \<Rightarrow> principal \<Rightarrow> uuid \<Rightarrow> (nat \<times> reply) handler" where
  [route_defs]: "classify_request_route w now p i = reply_h 200 R_detail
     (classify (w_env w) now (w_provider w) (st_classifier_confidence_threshold (w_settings w)) p i)"

definition assign_request_route ::
    "world \<Rightarrow> instant \<Rightarrow> principal \<Rightarrow> uuid \<Rightarrow> assign_request \<Rightarrow> (nat \<times> reply) handler" where
  [route_defs]: "assign_request_route w now p i body = reply_h 200 R_detail
     (assign (w_env w) now (w_platform w) (require_service_order w) p i body)"

definition dispatch_request_route ::
    "world \<Rightarrow> instant \<Rightarrow> principal \<Rightarrow> uuid \<Rightarrow> (nat \<times> reply) handler" where
  [route_defs]: "dispatch_request_route w now p i = reply_h 200 R_detail
     (with_policy w (\<lambda>policy. dispatch (w_env w) now (w_resolver w) policy p i))"

definition accept_request_route ::
    "world \<Rightarrow> instant \<Rightarrow> principal \<Rightarrow> uuid \<Rightarrow> (nat \<times> reply) handler" where
  [route_defs]: "accept_request_route w now p i = reply_h 200 R_detail
     (accept (w_env w) now (w_rehome w) (enable_settlement w) p i)"

definition dispute_request_route ::
    "world \<Rightarrow> instant \<Rightarrow> principal \<Rightarrow> uuid \<Rightarrow> pystr \<Rightarrow> (nat \<times> reply) handler" where
  [route_defs]: "dispute_request_route w now p i reason = reply_h 200 R_detail
     (dispute (w_env w) now (w_support w) (enable_claims w) p i reason)"

definition confirm_settlement_route ::
    "world \<Rightarrow> instant \<Rightarrow> principal \<Rightarrow> uuid \<Rightarrow> settlement_confirm \<Rightarrow> (nat \<times> reply) handler" where
  [route_defs]: "confirm_settlement_route w now p i body =
     bind_h (require_service_principal p) (\<lambda>_. reply_h 200 R_detail (confirm_settlement (w_env w) now p i body))"

definition cancel_request_route ::
    "world \<Rightarrow> instant \<Rightarrow> principal \<Rightarrow> uuid \<Rightarrow> pystr \<Rightarrow> (nat \<times> reply) handler" where
  [route_defs]: "cancel_request_route w now p i reason = reply_h 200 R_detail (cancel (w_env w) now p i reason)"

definition reschedule_request_route ::
    "world \<Rightarrow> instant \<Rightarrow> principal \<Rightarrow> uuid \<Rightarrow> datetime \<Rightarrow> (nat \<times> reply) handler" where
  [route_defs]: "reschedule_request_route w now p i t = reply_h 200 R_detail (reschedule (w_env w) now p i t)"

definition partner_response_route ::
    "world \<Rightarrow> instant \<Rightarrow> uuid \<Rightarrow> principal \<Rightarrow> uuid \<Rightarrow> partner_response \<Rightarrow> (nat \<times> reply) handler" where
  [route_defs]: "partner_response_route w now new_id p i body = reply_h 200 R_detail
     (with_policy w (\<lambda>policy. respond (w_env w) now policy new_id p i body))"

definition add_estimate_route ::
    "world \<Rightarrow> instant \<Rightarrow> uuid \<Rightarrow> principal \<Rightarrow> uuid \<Rightarrow> estimate_create \<Rightarrow> (nat \<times> reply) handler" where
  [route_defs]: "add_estimate_route w now new_id p i body = reply_h 200 R_detail
     (with_policy w (\<lambda>_. post_estimate (w_env w) now new_id p i body))"

definition requester_context_route ::
    "world \<Rightarrow> principal \<Rightarrow> uuid \<Rightarrow> (nat \<times> reply) handler" where
  [route_defs]: "requester_context_route w p i = reply_h 200 R_context (get_requester_context (w_rehome w) p i)"

definition list_messages_route ::
    "world \<Rightarrow> principal \<Rightarrow> uuid \<Rightarrow> (nat \<times> reply) handler" where
  [route_defs]: "list_messages_route w p i = reply_h 200 R_messages
     (get_messages (w_env w) (request_files w) p i)"

definition add_message_route ::
    "world \<Rightarrow> instant \<Rightarrow> uuid \<Rightarrow> principal \<Rightarrow> uuid \<Rightarrow> message_create \<Rightarrow> (nat \<times> reply) handler" where
  [route_defs]: "add_message_route w now new_id p i body = reply_h 201 R_message
     (post_message (w_env w) now (request_files w) new_id p i body)"

definition list_channels_route ::
    "principal \<Rightarrow> pystr option \<Rightarrow> (nat \<times> reply) handler" where
  [route_defs]: "list_channels_route p q = bind_h (require_staff_admin p) (\<lambda>_.
     bind_h get_db (\<lambda>d. ret (200, R_channels (map read_channel (list_configs q d)))))"

definition create_channel_route ::
    "uuid \<Rightarrow> principal \<Rightarrow> channel_create \<Rightarrow> (nat \<times> reply) handler" where
  [route_defs]: "create_channel_route new_id p body =
     bind_h (require_staff_admin p) (\<lambda>_. reply_h 201 (R_channel \<circ> read_channel) (create_channel new_id body))"

definition get_channel_route ::
    "principal \<Rightarrow> uuid \<Rightarrow> (nat \<times> reply) handler" where
  [route_defs]: "get_channel_route p i =
     bind_h (require_staff_admin p) (\<lambda>_. reply_h 200 (R_channel \<circ> read_channel) (get_or_404 i))"

definition update_channel_route ::
    "principal \<Rightarrow> uuid \<Rightarrow> channel_update \<Rightarrow> (nat \<times> reply) handler" where
  [route_defs]: "update_channel_route p i body =
     bind_h (require_staff_admin p) (\<lambda>_. reply_h 200 (R_channel \<circ> read_channel) (update_channel i body))"

definition subscribe_route ::
    "instant \<Rightarrow> uuid \<Rightarrow> principal \<Rightarrow> subscription_create \<Rightarrow> (nat \<times> reply) handler" where
  [route_defs]: "subscribe_route now new_id p body = reply_h 200 R_ack (subscribe now new_id p body)"

definition unsubscribe_route ::
    "principal \<Rightarrow> pystr \<Rightarrow> (nat \<times> reply) handler" where
  [route_defs]: "unsubscribe_route p endpoint = reply_h 200 R_ack (unsubscribe p endpoint)"

fun serve_request ::
    "world \<Rightarrow> instant \<Rightarrow> uuid \<Rightarrow> principal \<Rightarrow> api_call \<Rightarrow> (nat \<times> reply) handler" where
  "serve_request w now new_id p (Create_request body key) = create_request_route w now new_id p body key"
| "serve_request w now new_id p (Create_from_chat body) = create_request_from_chat_route w now new_id p body"
| "serve_request w now new_id p (Create_from_ticket body) = create_request_from_ticket_route w now new_id p body"
| "serve_request w now new_id p (List_requests f cursor limit) = list_requests_route p f cursor limit"
| "serve_request w now new_id p (Get_request i) = get_request_route w now p i"
| "serve_request w now new_id p (Transition_request i target) = transition_request_route w now p i target"
| "serve_request w now new_id p (Classify_request i) = classify_request_route w now p i"
| "serve_request w now new_id p (Assign_request i body) = assign_request_route w now p i body"
| "serve_request w now new_id p (Dispatch_request i) = dispatch_request_route w now p i"
| "serve_request w now new_id p (Accept_request i) = accept_request_route w now p i"
| "serve_request w now new_id p (Dispute_request i reason) = dispute_request_route w now p i reason"
| "serve_request w now new_id p (Confirm_settlement i body) = confirm_settlement_route w now p i body"
| "serve_request w now new_id p (Cancel_request i reason) = cancel_request_route w now p i reason"
| "serve_request w now new_id p (Reschedule_request i t) = reschedule_request_route w now p i t"
| "serve_request w now new_id p (Respond_as_partner i body) = partner_response_route w now new_id p i body"
| "serve_request w now new_id p (Add_estimate i body) = add_estimate_route w now new_id p i body"
| "serve_request w now new_id p (Requester_context i) = requester_context_route w p i"
| "serve_request w now new_id p (List_messages i) = list_messages_route w p i"
| "serve_request w now new_id p (Add_message i body) = add_message_route w now new_id p i body"
| "serve_request w now new_id p (List_channels q) = list_channels_route p q"
| "serve_request w now new_id p (Create_channel body) = create_channel_route new_id p body"
| "serve_request w now new_id p (Get_channel i) = get_channel_route p i"
| "serve_request w now new_id p (Update_channel i body) = update_channel_route p i body"
| "serve_request w now new_id p (Subscribe body) = subscribe_route now new_id p body"
| "serve_request w now new_id p (Unsubscribe endpoint) = unsubscribe_route p endpoint"

definition serve ::
    "world \<Rightarrow> instant \<Rightarrow> uuid \<Rightarrow> pystr option \<Rightarrow> api_call \<Rightarrow> db \<Rightarrow> (exn + (nat \<times> reply)) \<times> db" where
  "serve w now new_id credentials call d = (case get_current_principal w credentials of
       Inl x \<Rightarrow> (Inl x, d)
     | Inr p \<Rightarrow> run_endpoint (serve_request w now new_id p call) d)"

text \<open>The public route of the partners' webhooks.\<close>

definition serve_inbound ::
    "world \<Rightarrow> instant \<Rightarrow> uuid \<Rightarrow> pystr \<Rightarrow> nat list \<Rightarrow> pystr \<Rightarrow> pystr \<Rightarrow> db \<Rightarrow> (exn + pystr) \<times> db" where
  "serve_inbound w now new_id token raw_body signature timestamp d =
     run_endpoint (with_policy w (\<lambda>policy.
       handle_api (w_env w) now (w_wire w) policy new_id token raw_body signature timestamp)) d"

text \<open>\<open>problem_exception_handler\<close>; any other exception is a 500 of the framework.\<close>

definition http_status :: "exn + (nat \<times> reply) \<Rightarrow> nat" where
  "http_status x = (case x of Inr (code, _) \<Rightarrow> code | Inl (Problem e) \<Rightarrow> fst (render_problem e) | Inl _ \<Rightarrow> 500)"

section \<open>Probes\<close>

definition healthz :: json where "healthz = JObj [(u ''status'', JStr (u ''ok''))]"

definition readyz :: "bool \<Rightarrow> bool \<Rightarrow> nat \<times> json" where
  "readyz database_ok redis_ok =
     (if \<not> database_ok
      then (503, JObj [(u ''status'', JStr (u ''unavailable'')), (u ''detail'', JStr (u ''database unreachable''))])
      else (200, JObj [(u ''status'', JStr (u ''ready'')),
        (u ''redis'', JStr (if redis_ok then u ''ok'' else u ''degraded''))]))"

section \<open>The workers\<close>

datatype job =
    Drain_dispatch
  | Drain_on_create
  | Drain_webhook
  | Drain_notification
  | Drain_concierge_callback
  | Scan_sla_timers
  | Drain_partner_fallback
  | Run_retention
  | Poll_email

definition make_automation_deps :: "world \<Rightarrow> sla_policy \<Rightarrow> automation_deps" where
  "make_automation_deps w policy = \<lparr>ad_provider = w_provider w,
     ad_threshold = st_classifier_confidence_threshold (w_settings w), ad_platform = w_platform w,
     ad_resolver = w_resolver w, ad_policy = policy, ad_require_service_order = require_service_order w,
     ad_autonomy = parse_autonomy (e_rt (w_env w)) (st_automation_autonomy_level (w_settings w))\<rparr>"

definition drain_dispatch_job :: "world \<Rightarrow> instant \<Rightarrow> nat handler" where
  [route_defs]: "drain_dispatch_job w now = with_policy w (drain_dispatch_batch (w_env w) now (w_resolver w))"

definition drain_on_create_job :: "world \<Rightarrow> instant \<Rightarrow> nat handler" where
  [route_defs]: "drain_on_create_job w now = with_policy w (\<lambda>policy. drain_on_create_batch (w_env w) now (make_automation_deps w policy))"

definition drain_webhooks_job :: "world \<Rightarrow> instant \<Rightarrow> nat handler" where
  [route_defs]: "drain_webhooks_job w now = drain_webhook_batch (w_settings w) now (w_webhook w)"

definition drain_notifications_job :: "world \<Rightarrow> instant \<Rightarrow> nat handler" where
  [route_defs]: "drain_notifications_job w now = drain_notification_batch (w_env w) now (w_outlets w)
     (\<lambda>n. Inr (resolve_contact (w_rehome w) (w_platform w) (w_settings w) n))"

definition drain_concierge_callbacks_job :: "world \<Rightarrow> instant \<Rightarrow> nat handler" where
  [route_defs]: "drain_concierge_callbacks_job w now = drain_concierge_callback_batch (w_settings w) now (w_concierge w)"

definition scan_sla_timers_job :: "world \<Rightarrow> instant \<Rightarrow> nat handler" where
  [route_defs]: "scan_sla_timers_job w now = with_policy w (scan_accept_timeouts (w_env w) now (w_resolver w))"

definition drain_partner_fallback_job :: "world \<Rightarrow> instant \<Rightarrow> nat handler" where
  [route_defs]: "drain_partner_fallback_job w now = with_policy w (drain_partner_fallback_batch (w_env w) now (w_resolver w))"

definition run_retention_job :: "world \<Rightarrow> instant \<Rightarrow> nat handler" where
  [route_defs]: "run_retention_job w now = anonymize_expired_raw_input (w_settings w) now"

fun session_job :: "world \<Rightarrow> instant \<Rightarrow> job \<Rightarrow> nat handler" where
  "session_job w now Drain_dispatch = drain_dispatch_job w now"
| "session_job w now Drain_on_create = drain_on_create_job w now"
| "session_job w now Drain_webhook = drain_webhooks_job w now"
| "session_job w now Drain_notification = drain_notifications_job w now"
| "session_job w now Drain_concierge_callback = drain_concierge_callbacks_job w now"
| "session_job w now Scan_sla_timers = scan_sla_timers_job w now"
| "session_job w now Drain_partner_fallback = drain_partner_fallback_job w now"
| "session_job w now Run_retention = run_retention_job w now"
| "session_job w now Poll_email = ret 0"

definition run_job :: "world \<Rightarrow> instant \<Rightarrow> job \<Rightarrow> db \<Rightarrow> (exn + nat) \<times> db" where
  "run_job w now j d =
     (if j = Poll_email then poll_email_inbound (w_env w) now (w_parseaddr w) (w_unseen w) d
      else run_endpoint (session_job w now j) d)"

section \<open>The invariant\<close>

lemma keeps_with_policy [keeps_intros]: "(\<And>policy. keeps I (f policy)) \<Longrightarrow> keeps I (with_policy w f)"
  unfolding with_policy_def by (intro keeps_intros)

lemma keeps_reply [keeps_intros]: "keeps I h \<Longrightarrow> keeps I (reply_h code f h)"
  unfolding reply_h_def by (intro keeps_intros)

lemma keeps_created [keeps_intros]: "keeps I h \<Longrightarrow> keeps I (created_reply h)"
  unfolding created_reply_def by (intro keeps_intros) (auto intro: keeps_intros split: prod.split)

lemma keeps_gates [keeps_intros]: "keeps I (require_service_principal p)" "keeps I (require_staff_admin p)"
  unfolding require_service_principal_def require_staff_admin_def by (rule keeps_guard)+

lemma keeps_serve_request [keeps_intros]: "keeps wf_db (serve_request w now new_id p call)"
  by (cases call) (simp_all add: route_defs, (intro keeps_intros)+)

lemma keeps_session_job [keeps_intros]: "keeps wf_db (session_job w now j)"
  by (cases j) (simp_all add: route_defs, (intro keeps_intros)+)

end
