(* ===== verification/Observability.thy ===== *)
theory Observability
  imports Router
begin

text \<open>
  What wraps every call of the service: the request id (\<open>observability/request_id.py\<close>,
  \<open>observability/context.py\<close>), the counters (\<open>observability/metrics.py\<close>) and the lines of the
  log (\<open>observability/logging.py\<close>). An ASGI application is a function from the context variables
  and the scope of a call to the messages it sends, in their order, and the way it ends; the bytes
  of a header are 8-bit words. The clock of the histogram and the rendering of JSON and of
  tracebacks are parameters.
\<close>

section \<open>Calls and applications\<close>

type_synonym bytes = "8 word list"

record http_scope =
  hs_type :: string
  hs_method :: "pystr option"
  hs_path :: "pystr option"
  hs_route :: "pystr option"
  hs_headers :: "(bytes \<times> bytes) list"

datatype asgi_message =
    Response_start int "(bytes \<times> bytes) list"
  | Response_body bytes
  | Other_message pystr

record context_vars =
  cv_request_id :: "pystr option"
  cv_actor_sub :: "pystr option"

type_synonym asgi_app = "context_vars \<Rightarrow> http_scope \<Rightarrow> asgi_message list \<times> (exn + unit)"

definition default_context :: context_vars where
  "default_context = \<lparr>cv_request_id = None, cv_actor_sub = None\<rparr>"

definition bind_actor_sub :: "pystr option \<Rightarrow> context_vars \<Rightarrow> context_vars" where
  "bind_actor_sub sub cv = cv\<lparr>cv_actor_sub := sub\<rparr>"

section \<open>The request id\<close>

definition request_id_header :: bytes where
  "request_id_header = map of_nat (u ''x-request-id'')"

text \<open>\<open>dict(headers)\<close>: of equal names the last one counts.\<close>

definition header_value :: "bytes \<Rightarrow> (bytes \<times> bytes) list \<Rightarrow> bytes" where
  "header_value name hs = (case map_of (rev hs) name of None \<Rightarrow> [] | Some v \<Rightarrow> v)"

text \<open>Latin 1 decodes every byte to the character of that number and encodes those characters only.\<close>

definition latin1_decode :: "bytes \<Rightarrow> pystr" where
  "latin1_decode bs = map unat bs"

definition latin1_encode :: "pystr \<Rightarrow> bytes option" where
  "latin1_encode s = (if list_all (\<lambda>c. c < 256) s then Some (map of_nat s) else None)"

definition call_request_id :: "uuid \<Rightarrow> http_scope \<Rightarrow> pystr" where
  "call_request_id fresh sc = (let incoming = py_strip (latin1_decode (header_value request_id_header (hs_headers sc)))
     in if incoming = [] then uuid_str fresh else incoming)"

fun send_with_header :: "pystr \<Rightarrow> asgi_message \<Rightarrow> asgi_message option" where
  "send_with_header i (Response_start code hs) =
     map_option (\<lambda>v. Response_start code (hs @ [(request_id_header, v)])) (latin1_encode i)"
| "send_with_header i m = Some m"

text \<open>
  The messages go out one by one; one whose header cannot be encoded raises inside the application
  and ends it.
\<close>

fun send_all :: "pystr \<Rightarrow> asgi_message list \<Rightarrow> exn + unit \<Rightarrow> asgi_message list \<times> (exn + unit)" where
  "send_all i [] out = ([], out)"
| "send_all i (m # ms) out = (case send_with_header i m of
       None \<Rightarrow> ([], Inl (ValueError (u ''latin-1'')))
     | Some m' \<Rightarrow> (let (ms', out') = send_all i ms out in (m' # ms', out')))"

definition request_id_middleware :: "uuid \<Rightarrow> asgi_app \<Rightarrow> asgi_app" where
  "request_id_middleware fresh app cv sc =
     (if hs_type sc \<noteq> ''http'' then app cv sc
      else let i = call_request_id fresh sc;
               (ms, out) = app (cv\<lparr>cv_request_id := Some i\<rparr>) sc
           in send_all i ms out)"

section \<open>Counters\<close>

record http_metrics =
  hm_requests :: "(pystr \<times> pystr \<times> pystr) list"
  hm_durations :: "((pystr \<times> pystr) \<times> rat) list"

definition endpoint_label :: "http_scope \<Rightarrow> pystr" where
  "endpoint_label sc = (case hs_route sc of
       Some path \<Rightarrow> path
     | None \<Rightarrow> (case hs_path sc of Some raw \<Rightarrow> raw | None \<Rightarrow> u ''unknown''))"

fun status_after :: "int \<Rightarrow> asgi_message \<Rightarrow> int" where
  "status_after code (Response_start c hs) = c"
| "status_after code m = code"

definition counted_status :: "asgi_message list \<Rightarrow> int" where
  "counted_status ms = foldl status_after 500 ms"

definition metrics_middleware ::
    "rat \<Rightarrow> asgi_app \<Rightarrow> context_vars \<Rightarrow> http_scope \<Rightarrow> http_metrics \<Rightarrow> (asgi_message list \<times> (exn + unit)) \<times> http_metrics" where
  "metrics_middleware elapsed app cv sc mt =
     (if hs_type sc \<noteq> ''http'' then (app cv sc, mt)
      else let (ms, out) = app cv sc;
               method = (case hs_method sc of Some m \<Rightarrow> m | None \<Rightarrow> u ''UNKNOWN'');
               endpoint = endpoint_label sc
           in ((ms, out), mt\<lparr>hm_requests := hm_requests mt @ [(method, endpoint, dec_str (counted_status ms))],
                hm_durations := hm_durations mt @ [((method, endpoint), elapsed)]\<rparr>))"

text \<open>The stack of \<open>main.py\<close>: the middleware added last runs first.\<close>

definition service_stack ::
    "uuid \<Rightarrow> rat \<Rightarrow> asgi_app \<Rightarrow> context_vars \<Rightarrow> http_scope \<Rightarrow> http_metrics \<Rightarrow> (asgi_message list \<times> (exn + unit)) \<times> http_metrics" where
  "service_stack fresh elapsed app cv sc mt =
     (request_id_middleware fresh (\<lambda>cv sc. fst (metrics_middleware elapsed app cv sc mt)) cv sc,
      snd (metrics_middleware elapsed app
        (if hs_type sc = ''http'' then cv\<lparr>cv_request_id := Some (call_request_id fresh sc)\<rparr> else cv) sc mt))"

section \<open>Lines of the log\<close>

record log_record =
  lr_created :: pystr
  lr_level :: pystr
  lr_message :: pystr
  lr_name :: pystr
  lr_exc :: "pystr option"

definition format_record :: "pyrt \<Rightarrow> context_vars \<Rightarrow> log_record \<Rightarrow> jdict" where
  "format_record rt cv r =
     [(u ''ts'', JStr (lr_created r)), (u ''level'', JStr (lr_level r)),
      (u ''event'', JStr (mask_pii rt (lr_message r))), (u ''logger'', JStr (lr_name r)),
      (u ''request_id'', opt_json (cv_request_id cv)), (u ''actor_sub'', opt_json (cv_actor_sub cv))]
     @ (case lr_exc r of None \<Rightarrow> [] | Some trace \<Rightarrow> [(u ''exc'', JStr (mask_pii rt trace))])"

definition logger_root :: pystr where "logger_root = u ''api''"

definition get_logger :: "pystr \<Rightarrow> pystr" where
  "get_logger name = (if is_prefix (logger_root @ u ''.'') name \<or> name = logger_root then name
     else logger_root @ u ''.'' @ name)"

section \<open>Tracing\<close>

lemma set_py_strip: "set (py_strip s) \<subseteq> set s"
  by (auto simp: py_strip_def strip_by_def lstrip_by_def rstrip_by_def dest!: set_dropWhileD)

lemma latin1_small: "list_all (\<lambda>c. c < 256) (latin1_decode bs)"
proof -
  have "unat b < 256" for b :: "8 word"
  proof -
    have "unat b < 2 ^ LENGTH(8)" by (rule unsigned_less)
    then show ?thesis by simp
  qed
  then show ?thesis by (simp add: latin1_decode_def list_all_iff)
qed

lemma latin1_roundtrip:
  assumes "list_all (\<lambda>c. c < 256) s"
  shows "\<exists>h. latin1_encode s = Some h \<and> latin1_decode h = s"
proof -
  have "unat (of_nat c :: 8 word) = c" if "c \<in> set s" for c
    using that assms by (simp add: list_all_iff unat_of_nat take_bit_eq_mod)
  then show ?thesis using assms by (simp add: latin1_encode_def latin1_decode_def comp_def map_idI)
qed

lemma uuid_str_chars: "list_all (\<lambda>c. c < 256) (uuid_str w)" "uuid_str w \<noteq> []"
proof -
  show "list_all (\<lambda>c. c < 256) (uuid_str w)"
    using set_uuid_str [of _ w] set_hex_fixed [of _ 32 "unat w"] by (fastforce simp: list_all_iff)
  show "uuid_str w \<noteq> []" using filter_uuid_str [of w] by (auto dest: arg_cong [of _ _ length])
qed

lemma call_request_id_chars: "list_all (\<lambda>c. c < 256) (call_request_id fresh sc)" "call_request_id fresh sc \<noteq> []"
proof -
  have "list_all (\<lambda>c. c < 256) (py_strip (latin1_decode bs))" for bs
    using latin1_small [of bs] set_py_strip [of "latin1_decode bs"] by (auto simp: list_all_iff)
  then show "list_all (\<lambda>c. c < 256) (call_request_id fresh sc)" "call_request_id fresh sc \<noteq> []"
    by (simp_all add: call_request_id_def Let_def uuid_str_chars)
qed

definition with_id :: "bytes \<Rightarrow> asgi_message \<Rightarrow> asgi_message" where
  "with_id h m = (case m of Response_start code hs \<Rightarrow> Response_start code (hs @ [(request_id_header, h)]) | _ \<Rightarrow> m)"

lemma send_all_encoded: "latin1_encode i = Some h \<Longrightarrow> send_all i ms out = (map (with_id h) ms, out)"
proof (induction ms)
  case (Cons m ms)
  then show ?case by (cases m) (simp_all add: with_id_def)
qed simp

lemma counted_with_id: "counted_status (map (with_id h) ms) = counted_status ms"
proof -
  have "foldl status_after c (map (with_id h) ms) = foldl status_after c ms" for c
  proof (induction ms arbitrary: c)
    case (Cons m ms)
    then show ?case by (cases m) (simp_all add: with_id_def)
  qed simp
  then show ?thesis by (simp add: counted_status_def)
qed

lemma get_logger_idem: "get_logger (get_logger name) = get_logger name"
  by (simp add: get_logger_def is_prefix_append)

text \<open>C36. Every call is traced: the application runs under an id that is never empty (the caller's, or a
  fresh one), what it sends goes out unchanged but for one header with exactly that id on every
  start of a response, and whether it ends well or raises the call is counted once, with the last
  status the client was sent or 500.
\<close>

theorem calls_are_traced:
  assumes "hs_type sc = ''http''"
    "app (cv\<lparr>cv_request_id := Some (call_request_id fresh sc)\<rparr>) sc = (ms, out)"
  shows "\<exists>h ms'. latin1_decode h = call_request_id fresh sc \<and> call_request_id fresh sc \<noteq> []
    \<and> ms' = map (with_id h) ms
    \<and> service_stack fresh elapsed app cv sc mt = ((ms', out), mt
        \<lparr>hm_requests := hm_requests mt @ [(case hs_method sc of Some m \<Rightarrow> m | None \<Rightarrow> u ''UNKNOWN'',
             endpoint_label sc, dec_str (counted_status ms'))],
         hm_durations := hm_durations mt @ [((case hs_method sc of Some m \<Rightarrow> m | None \<Rightarrow> u ''UNKNOWN'',
             endpoint_label sc), elapsed)]\<rparr>)"
proof -
  obtain h where h: "latin1_encode (call_request_id fresh sc) = Some h"
      "latin1_decode h = call_request_id fresh sc"
    using latin1_roundtrip [OF call_request_id_chars(1)] by blast
  show ?thesis
    by (intro exI [of _ h] exI [of _ "map (with_id h) ms"])
      (simp add: h(2) call_request_id_chars(2) service_stack_def request_id_middleware_def
        metrics_middleware_def Let_def assms send_all_encoded [OF h(1)] counted_with_id)
qed

definition demo_scope :: http_scope where
  "demo_scope = \<lparr>hs_type = ''http'', hs_method = Some (u ''GET''), hs_path = Some (u ''/requests/1''),
     hs_route = Some (u ''/requests/{id}''), hs_headers = [(request_id_header, map of_nat (u '' r1 ''))]\<rparr>"

definition demo_app :: asgi_app where
  "demo_app cv sc = ([Response_start 200 [], Response_body []], Inl TypeError)"

lemma calls_are_traced_witness:
  "hm_requests (snd (service_stack 0 1 demo_app default_context demo_scope \<lparr>hm_requests = [], hm_durations = []\<rparr>))
     = [(u ''GET'', u ''/requests/{id}'', u ''200'')]"
proof -
  have 1: "hs_type demo_scope = ''http''" by (simp add: demo_scope_def)
  have 2: "demo_app (default_context\<lparr>cv_request_id := Some (call_request_id 0 demo_scope)\<rparr>) demo_scope
      = ([Response_start 200 [], Response_body []], Inl TypeError)"
    by (simp add: demo_app_def)
  have 3: "dec_str (counted_status (map (with_id h) [Response_start 200 [], Response_body []])) = u ''200''" for h
    unfolding counted_with_id by code_simp
  show ?thesis
    using calls_are_traced [where app = demo_app and cv = default_context and fresh = 0, OF 1 2, of 1 "\<lparr>hm_requests = [], hm_durations = []\<rparr>"] 3
    by (auto simp: demo_scope_def endpoint_label_def)
qed

end
