(* ===== verification/Wiring.thy ===== *)
theory Wiring
  imports Observability Fixtures
begin

text \<open>
  What joins the parts to the outside: the metrics of the calls to neighbours (\<open>clients/metrics.py\<close>), the
  mail session behind \<open>SmtpSender\<close> (\<open>channels/adapters/email.py\<close>, \<open>notifications/channels.py\<close>),
  \<open>RedisCache\<close> (\<open>clients/cache.py\<close>), the readiness checks (\<open>observability/health.py\<close>), the choice
  of the broker (\<open>tasks/broker.py\<close>) and of the verifier (\<open>auth/dependencies.py\<close>), the fetch of the
  key set (\<open>auth/jwks.py\<close>), the set-up of the logger and the main function of the seeding script.
\<close>

section \<open>Metrics of the calls to neighbours\<close>

record client_metrics =
  cm_requests :: "(pystr \<times> pystr \<times> pystr) list"
  cm_durations :: "((pystr \<times> pystr) \<times> rat) list"

definition record_request :: "pystr \<Rightarrow> pystr \<Rightarrow> pystr \<Rightarrow> rat \<Rightarrow> client_metrics \<Rightarrow> client_metrics" where
  "record_request client operation outcome elapsed mt =
     mt\<lparr>cm_requests := cm_requests mt @ [(client, operation, outcome)],
        cm_durations := cm_durations mt @ [((client, operation), elapsed)]\<rparr>"

text \<open>\<open>ResilientHttpClient.request\<close> with what it records; \<open>elapsed\<close> is the time since its start.\<close>

definition metered_request ::
    "http_client \<Rightarrow> rat \<Rightarrow> rat \<Rightarrow> rat \<Rightarrow> (nat \<Rightarrow> http_failure + response) \<Rightarrow> pystr \<Rightarrow> breaker \<Rightarrow> client_metrics
     \<Rightarrow> ((exn + response) \<times> breaker) \<times> client_metrics" where
  "metered_request c now later elapsed remote operation b mt =
     (let (allowed, b1) = acquire now b
      in if \<not> allowed
         then ((Inl (ExternalServiceError (circuit_open_error (hc_name c) operation)), b1),
           record_request (hc_name c) operation (u ''circuit_open'') elapsed mt)
         else (case fst (retry_async (hc_retry c) retryable (\<lambda>n. checked (remote n))) of
             Inr r \<Rightarrow> ((Inr r, record_success b1), record_request (hc_name c) operation (u ''success'') elapsed mt)
           | Inl (Unexpected x) \<Rightarrow> ((Inl x, b1), mt)
           | Inl f \<Rightarrow> ((Inl (ExternalServiceError (external_error (hc_name c) operation (failure_text f))),
               record_failure later b1), record_request (hc_name c) operation (u ''error'') elapsed mt)))"

text \<open>The metrics do not change what a request does.\<close>

lemma metered_request_same:
  "fst (metered_request c now later elapsed remote operation b mt) = request_http c now later remote operation b"
  by (simp add: metered_request_def request_http_def split: prod.split sum.split http_failure.split)

definition outcome_label :: "exn + response \<Rightarrow> pystr option" where
  "outcome_label x = (case x of
       Inr _ \<Rightarrow> Some (u ''success'')
     | Inl (ExternalServiceError e) \<Rightarrow> Some (if ee_open e then u ''circuit_open'' else u ''error'')
     | Inl _ \<Rightarrow> None)"

text \<open>
  Every request is counted once, under the label of its outcome, but for those that end with an
  exception the client does not know: these leave no count (as they leave the breaker's probe open).
\<close>

lemma request_is_counted:
  assumes "\<And>n x. remote n = Inl (Unexpected x) \<Longrightarrow> \<not> is_external x"
  shows "cm_requests (snd (metered_request c now later elapsed remote operation b mt)) = cm_requests mt
    @ (case outcome_label (fst (request_http c now later remote operation b)) of
         None \<Rightarrow> [] | Some l \<Rightarrow> [(hc_name c, operation, l)])"
proof -
  have once: "\<not> is_external x" if "checked (remote n) = Inl (Unexpected x)" for n x
    using that assms by (auto simp: checked_def split: sum.splits if_splits)
  have unexpected: "\<not> is_external x"
    if "fst (retry_from p retryable (\<lambda>n. checked (remote n)) a k) = Inl (Unexpected x)" for p a k x
    using that
  proof (induction k arbitrary: a)
    case (Suc k)
    show ?case
    proof (cases "checked (remote a)")
      case (Inl f)
      then show ?thesis using Suc.prems Suc.IH [of "Suc a"] once
        by (cases "retryable f") (auto simp: Let_def retryable_def split: prod.splits)
    qed (use Suc.prems in simp)
  qed (simp add: once)
  show ?thesis
  proof (cases "fst (acquire now b)")
    case False
    then show ?thesis
      by (cases "acquire now b") (simp add: metered_request_def request_http_def record_request_def outcome_label_def
          circuit_open_error_def external_error_def)
  next
    case True
    show ?thesis
    proof (cases "fst (retry_async (hc_retry c) retryable (\<lambda>n. checked (remote n)))")
      case (Inr r)
      then show ?thesis using True
        by (cases "acquire now b") (simp add: metered_request_def request_http_def record_request_def outcome_label_def)
    next
      case (Inl f)
      then show ?thesis using True unexpected [of "hc_retry c" 1 "rp_attempts (hc_retry c) - 1"]
        by (cases "acquire now b"; cases f)
          (auto simp: metered_request_def request_http_def record_request_def outcome_label_def
            external_error_def retry_async_def is_external_def split: exn.splits)
    qed
  qed
qed

section \<open>Sending a mail\<close>

text \<open>The commands of the session and the answer of the server to each; leaving the \<open>with\<close> block says
  goodbye, and a goodbye that is not accepted is an error of its own.\<close>

datatype smtp_command = Smtp_connect pystr int | Smtp_starttls | Smtp_login pystr pystr | Smtp_message mail | Smtp_quit

fun smtp_run :: "(smtp_command \<Rightarrow> smtp_result) \<Rightarrow> smtp_command list \<Rightarrow> smtp_result \<times> smtp_command list" where
  "smtp_run server [] = (Smtp_sent, [])"
| "smtp_run server (c # cs) = (case server c of
       Smtp_sent \<Rightarrow> (let (res, done) = smtp_run server cs in (res, c # done))
     | failure \<Rightarrow> (failure, [c]))"

definition smtp_body :: "settings \<Rightarrow> mail \<Rightarrow> smtp_command list" where
  "smtp_body st m = Smtp_starttls
     # (if st_notify_smtp_user st \<noteq> [] then [Smtp_login (st_notify_smtp_user st) (st_notify_smtp_password st)] else [])
     @ [Smtp_message m]"

definition smtp_session :: "settings \<Rightarrow> (smtp_command \<Rightarrow> smtp_result) \<Rightarrow> mail \<Rightarrow> smtp_result \<times> smtp_command list" where
  "smtp_session st server m =
     (let hello = Smtp_connect (st_notify_smtp_host st) (st_notify_smtp_port st)
      in case server hello of
           Smtp_sent \<Rightarrow> (let (res, done) = smtp_run server (smtp_body st m)
             in (case server Smtp_quit of Smtp_sent \<Rightarrow> res | failure \<Rightarrow> failure, hello # done @ [Smtp_quit]))
         | failure \<Rightarrow> (failure, [hello]))"

definition default_smtp_send :: "settings \<Rightarrow> (smtp_command \<Rightarrow> smtp_result) \<Rightarrow> mail \<Rightarrow> smtp_result" where
  "default_smtp_send st server m = fst (smtp_session st server m)"

text \<open>The password goes to the server only inside TLS: a login is preceded by a \<open>STARTTLS\<close> that was
  accepted.\<close>

lemma login_after_tls:
  assumes "Smtp_login user password \<in> set (snd (smtp_session st server m))"
  shows "server Smtp_starttls = Smtp_sent
    \<and> take 2 (snd (smtp_session st server m)) = [Smtp_connect (st_notify_smtp_host st) (st_notify_smtp_port st), Smtp_starttls]"
  using assms
  by (auto simp: smtp_session_def smtp_body_def Let_def split: smtp_result.splits prod.splits if_splits)

text \<open>A mail is reported as sent only when the server took every command of the session.\<close>

lemma smtp_run_sent: "fst (smtp_run server cs) = Smtp_sent \<Longrightarrow> \<forall>c\<in>set cs. server c = Smtp_sent"
  by (induction cs) (auto simp: Let_def split: smtp_result.splits prod.splits)

lemma smtp_sent:
  assumes "default_smtp_send st server m = Smtp_sent"
  shows "server (Smtp_message m) = Smtp_sent \<and> server Smtp_starttls = Smtp_sent"
proof -
  have "fst (smtp_run server (smtp_body st m)) = Smtp_sent"
    using assms by (auto simp: default_smtp_send_def smtp_session_def Let_def split: smtp_result.splits prod.splits)
  then show ?thesis using smtp_run_sent by (fastforce simp: smtp_body_def)
qed

section \<open>Redis\<close>

text \<open>A reply is bytes or, from a decoding client, something with a \<open>str\<close>.\<close>

datatype redis_reply = Reply_bytes "nat list" | Reply_text pystr

definition redis_get :: "(pystr \<Rightarrow> redis_reply option) \<Rightarrow> pystr \<Rightarrow> exn + pystr option" where
  "redis_get server key = (case server key of
       None \<Rightarrow> Inr None
     | Some (Reply_bytes bs) \<Rightarrow> (case utf8_decode bs of
           None \<Rightarrow> Inl (ValueError (u ''invalid start byte'')) | Some s \<Rightarrow> Inr (Some s))
     | Some (Reply_text s) \<Rightarrow> Inr (Some s))"

definition redis_set :: "(pystr \<Rightarrow> pystr \<Rightarrow> int \<Rightarrow> 'r) \<Rightarrow> pystr \<Rightarrow> pystr \<Rightarrow> int \<Rightarrow> 'r" where
  "redis_set put key value ttl_seconds = put key value ttl_seconds"

datatype redis_failure = Os_error | Redis_error | Redis_raised exn

definition check_redis :: "redis_failure + bool \<Rightarrow> exn + bool" where
  "check_redis ping = (case ping of
       Inr pong \<Rightarrow> Inr pong | Inl (Redis_raised x) \<Rightarrow> Inl x | Inl _ \<Rightarrow> Inr False)"

definition check_database :: "exn + unit \<Rightarrow> exn + unit" where
  "check_database select_1 = select_1"

text \<open>The readiness probe over its checks: only the database takes the service out of the traffic.\<close>

definition ready :: "exn + unit \<Rightarrow> redis_failure + bool \<Rightarrow> exn + (nat \<times> json)" where
  "ready select_1 ping = (case check_database select_1 of
       Inl _ \<Rightarrow> Inr (readyz False False)
     | Inr _ \<Rightarrow> bindE (check_redis ping) (\<lambda>redis_ok. Inr (readyz True redis_ok)))"

lemma ready_status:
  assumes "\<And>x. ping \<noteq> Inl (Redis_raised x)"
  shows "\<exists>body. ready select_1 ping = Inr (if is_ok select_1 then 200 else 503, body)"
proof (cases select_1)
  case (Inr a)
  have "\<exists>b. check_redis ping = Inr b"
    using assms by (auto simp: check_redis_def split: sum.split redis_failure.split)
  then show ?thesis using Inr by (auto simp: ready_def check_database_def readyz_def is_ok_def)
qed (simp add: ready_def check_database_def readyz_def is_ok_def)

section \<open>Choices made from the settings\<close>

datatype broker = Stub_broker | Redis_broker pystr

definition build_broker :: "settings \<Rightarrow> broker" where
  "build_broker st = (if st_worker_broker_url st = [] then Stub_broker else Redis_broker (st_worker_broker_url st))"

record verifier_config =
  vc_jwks_url :: pystr
  vc_jwks_ttl :: int
  vc_issuer :: pystr
  vc_audience :: pystr
  vc_algorithms :: "pystr list"
  vc_leeway :: int

definition build_verifier :: "settings \<Rightarrow> verifier_config option" where
  "build_verifier st = (if st_auth_jwks_url st = [] then None
     else Some \<lparr>vc_jwks_url = st_auth_jwks_url st, vc_jwks_ttl = st_auth_jwks_cache_ttl st,
       vc_issuer = st_auth_issuer st, vc_audience = st_auth_audience st,
       vc_algorithms = st_auth_algorithms st, vc_leeway = st_auth_leeway st\<rparr>)"

lemma no_verifier_no_principal:
  "build_verifier (w_settings w) = None \<Longrightarrow>
   get_current_principal w credentials = raise_problem (unauthorized (Some (u ''Authentication is not configured'')))"
  by (simp add: build_verifier_def get_current_principal_def split: if_splits)

text \<open>\<open>raise_for_status\<close> refuses everything but a 2xx.\<close>

definition http_fetch_jwks :: "exn + response \<Rightarrow> exn + json" where
  "http_fetch_jwks answer = bindE answer (\<lambda>r.
     if 200 \<le> hr_status r \<and> hr_status r < 300 then response_json r
     else Inl (OtherError (u ''HTTPStatusError'') (u ''status '' @ dec_str (hr_status r))))"

section \<open>Logging\<close>

record logger =
  lg_handlers :: "string list"
  lg_level :: pystr
  lg_propagate :: bool

definition configure_logging :: "pystr \<Rightarrow> logger \<Rightarrow> logger" where
  "configure_logging level lg =
     lg\<lparr>lg_handlers := [''JsonFormatter''], lg_level := map (\<lambda>c. if 97 \<le> c \<and> c \<le> 122 then c - 32 else c) level,
        lg_propagate := False\<rparr>"

lemma configure_logging_once: "configure_logging l (configure_logging l' lg) = configure_logging l lg"
  by (simp add: configure_logging_def)

section \<open>Seeding\<close>

definition seed_main :: "uuid list \<Rightarrow> (nat \<times> nat \<times> nat) handler" where
  "seed_main ids =
     bind_h (seed_test_partners ids) (\<lambda>upserted.
     bind_h get_db (\<lambda>d. ret (upserted, count_test_channels d)))"

lemma seed_main_demo: "fst (run_endpoint (seed_main [0, 1, 2, 3, 4, 5, 6, 7, 8]) empty_db) = Inr (9, 5, 9)"
  by code_simp

end
