(* ===== verification/Isolation.thy ===== *)
theory Isolation
  imports Router
begin

text \<open>
  What an operation leaves alone. A property of the requests and their history that survives saving
  a row of the operation's request and appending an audit record of it is kept by every service;
  with the law for new rows, by intake and thus by every call and job. The locale proves that
  once; its interpretations give the isolation of the requests from each other and the audit
  trail that only grows.
\<close>

section \<open>The interface\<close>

locale audit_property = frame_property +
  assumes same_audit_law: "same_audit d d' \<Longrightarrow> I d \<Longrightarrow> I d'"

sublocale audit_property \<subseteq> row_property
  by unfold_locales (auto simp: outside_audit_def intro: same_audit_law)

text \<open>The drain of the message a dispatch has just enqueued.\<close>

definition drain_body :: "env \<Rightarrow> instant \<Rightarrow> resolver \<Rightarrow> sla_policy \<Rightarrow> outbox_message option \<Rightarrow> unit handler" where
  "drain_body e now rv policy found = (case found of
       None \<Rightarrow> ret ()
     | Some m \<Rightarrow> if om_processed_at m \<noteq> None then ret ()
         else bind_h (drain_dispatch_message e now rv policy m) (\<lambda>_. commit_h))"

lemma triple_end: "triple P m (\<lambda>_. Q) (\<lambda>_. Q) \<Longrightarrow> P s \<Longrightarrow> Q (snd (m s))"
  by (cases "m s"; cases "fst (m s)") (auto simp: triple_def)

lemma run_endpoint_both: "both I (snd (h (open_session d))) \<Longrightarrow> I (snd (run_endpoint h d))"
  by (auto simp: run_endpoint_def both_def rollback_def split: sum.splits prod.splits)

lemma run_endpoint_kept: "keeps I h \<Longrightarrow> I d \<Longrightarrow> I (snd (run_endpoint h d))"
  unfolding keeps_def by (rule run_endpoint_keeps)

lemma enqueued_message:
  "wf_outbox d \<Longrightarrow> get_message (length (db_outbox d)) (enqueue now k v d) = Some
     \<lparr>om_id = length (db_outbox d), om_kind = k, om_payload = v, om_status = OB_PENDING, om_attempts = 0,
      om_available_at = now, om_last_error = None, om_created_at = now, om_processed_at = None\<rparr>"
proof -
  assume "wf_outbox d"
  then have "om_id ` set (db_outbox d) = {0..<length (db_outbox d)}"
    by (metis atLeastLessThan_upt list.set_map wf_outbox_def)
  then have "row_find om_id (length (db_outbox d)) (db_outbox d) = None"
    by (simp add: row_find_None)
  then show ?thesis by (simp add: get_message_def enqueue_def row_find_app)
qed

lemma triple_both:
  "triple P m Q E \<Longrightarrow> triple P' m Q' E'
   \<Longrightarrow> triple (\<lambda>s. P s \<and> P' s) m (\<lambda>a s. Q a s \<and> Q' a s) (\<lambda>x s. E x s \<and> E' x s)"
  by (force simp: triple_def split: sum.splits prod.splits)

lemma load_visible_state: "load_visible p i s = (x, s') \<Longrightarrow> s' = s"
  by (auto simp: load_visible_def bind_h_def get_db_def problem_h_def raise_h_def ret_def split: option.splits)

lemma drain_one_body: "drain_one e now rv policy k s = drain_body e now rv policy (get_message k (se_working s)) s"
  by (simp add: drain_one_def drain_body_def bind_h_def get_db_def)

context audit_property
begin

lemma keeps_same: "(\<And>d. same_audit d (f d)) \<Longrightarrow> keeps I (mod_db f)"
  by (rule keeps_mod) (auto intro: same_audit_law)

lemma keeps_claim_any: "keeps I (claim_h kind now limit visibility)"
  unfolding claim_h_def by (intro keeps_intros keeps_same same_audit_claim)

lemma keeps_drain_any: "(\<And>m. keeps I (process m)) \<Longrightarrow> keeps I (drain_batch st now process batch)"
  unfolding drain_batch_def by (intro keeps_intros keeps_same same_audit_save)

lemma keeps_try_channels: "keeps I (try_channels rv now r cs n)"
  by (induction cs arbitrary: n)
    (auto intro!: keeps_intros keeps_outside outside_audit_attempt keeps_if_h)

lemma keeps_try_partners: "keeps I (try_partners rv now r ps n)"
proof (induction ps arbitrary: n)
  case (Cons p ps)
  then show ?case
    by (cases p) (auto intro!: keeps_intros keeps_try_channels split: prod.split option.split)
qed (simp add: keeps_ret)

lemma advances_start_accept_clock: "rows (sr_id r) \<Longrightarrow> advances I r (start_accept_clock e policy r)"
  unfolding start_accept_clock_def
  by (intro advances_option advances_simple advances_keeps [OF keeps_lift] advances_put) simp_all

lemma advances2_execute_dispatch: "rows (sr_id r) \<Longrightarrow> advances2 I r (execute_dispatch e now rv policy r)"
  unfolding execute_dispatch_def
  by (auto intro!: advances2_keeps [OF keeps_get] advances2_keeps [OF keeps_try_partners]
      advances2_of [OF advances_transition] advances2_of [OF advances_put]
      advances2_of [OF advances_start_accept_clock] advances2_simple split: option.split)

lemma keeps_drain_message:
  assumes "\<And>i. payload_request (e_rt e) (om_payload m) = Inr (Some i) \<Longrightarrow> rows i"
  shows "keeps I (drain_dispatch_message e now rv policy m)"
proof -
  have done1: "keeps I (mod_db (save_message (mark_done now m)))"
    by (intro keeps_same same_audit_save)
  have run: "keeps I (bind_h (load_for_update i) (\<lambda>found. case found of
       None \<Rightarrow> mod_db (save_message (mark_done now m))
     | Some r \<Rightarrow> bind_h (execute_dispatch e now rv policy r) (\<lambda>_. mod_db (save_message (mark_done now m)))))"
    if "rows i" for i
    using that
    by (intro keeps_load_row) (auto intro!: done1 keeps_advances2 [OF advances2_execute_dispatch])
  have "drain_dispatch_message e now rv policy m = bind_h (lift_h (payload_request (e_rt e) (om_payload m)))
      (\<lambda>i. case i of None \<Rightarrow> mod_db (save_message (mark_done now m))
        | Some i \<Rightarrow> bind_h (load_for_update i) (\<lambda>found. case found of
             None \<Rightarrow> mod_db (save_message (mark_done now m))
           | Some r \<Rightarrow> bind_h (execute_dispatch e now rv policy r) (\<lambda>_. mod_db (save_message (mark_done now m)))))"
    by (rule ext) (simp add: drain_dispatch_message_def load_payload_request_def bind_h_def lift_h_def ret_def
        split: sum.split option.split)
  then show ?thesis
    using assms run done1
    by (cases "payload_request (e_rt e) (om_payload m)")
      (auto simp: keeps_def triple_def bind_h_def lift_h_def split: option.split)
qed

section \<open>The services of one request\<close>

lemma advances_route_status: "rows (sr_id r) \<Longrightarrow> advances I r (route_status e now p r c)"
  unfolding route_status_def
  by (intro advances_bind [OF advances_if] advances_bind [OF advances_transition] advances_if
      advances_transition advances_simple) simp_all

lemma advances_assignment:
  assumes "rows (sr_id r)"
  shows "advances I r (apply_manual r partner)" "advances I r (apply_auto now pf r category area)"
    "advances I r (orchestrate_service_order pf require r category)" "advances I r (route_to_assigned e now p r)"
proof -
  show "advances I r (apply_manual r partner)" using assms
    by (simp add: apply_manual_def advances_put)
  show "advances I r (apply_auto now pf r category area)" using assms
    by (auto simp: apply_auto_def intro!: advances_put advances_simple split: option.split)
  show "advances I r (orchestrate_service_order pf require r category)" using assms
    by (auto simp: orchestrate_service_order_def intro!: advances_put advances_simple split: option.split)
  show "advances I r (route_to_assigned e now p r)" unfolding route_to_assigned_def
    by (intro advances_bind [OF advances_if] advances_transition advances_simple) (simp_all add: assms)
qed

lemma keeps_readers: "keeps I (get_detail e now p i)" "keeps I (list_requests p f c l)"
  "keeps I (get_requester_context rehome p i)" "keeps I (get_messages e files p i)"
proof -
  show "keeps I (get_detail e now p i)" "keeps I (get_requester_context rehome p i)"
    "keeps I (get_messages e files p i)"
    unfolding get_detail_def get_requester_context_def get_messages_def
    by (intro keeps_load keeps_intros)+
  show "keeps I (list_requests p f c l)"
    unfolding list_requests_def by (cases c) (auto intro!: keeps_intros)
qed

lemma keeps_put_row: "rows (sr_id r) \<Longrightarrow> keeps I (put_request r)"
  using advances_put [of r r] by (auto simp: advances_def keeps_def elim: triple_weaken)

lemma keeps_put_bind:
  "rows (sr_id r) \<Longrightarrow> (\<And>x. sr_id x = sr_id r \<Longrightarrow> keeps I (f x)) \<Longrightarrow> keeps I (bind_h (put_request r) f)"
  by (rule keeps_advances [OF advances_put [where r = r]]) simp_all

lemma keeps_services:
  assumes i: "rows i"
  shows "keeps I (transition e now p i t)" "keeps I (cancel e now p i reason)"
    "keeps I (reschedule e now p i at_dt)" "keeps I (post_message e now files new_id p i mb)"
    "keeps I (classify e now provider threshold p i)" "keeps I (assign e now pf require p i ab)"
    "keeps I (accept e now rehome on p i)" "keeps I (dispute e now support on p i reason)"
    "keeps I (confirm_settlement e now p i sb)" "keeps I (respond e now policy new_id p i pb)"
    "keeps I (post_estimate e now new_id p i eb)"
proof -
  note basics = keeps_load keeps_guard keeps_bind keeps_lift keeps_commit keeps_ret keeps_get keeps_raise
    keeps_if_h
  show "keeps I (transition e now p i t)" unfolding transition_def
    by (intro basics keeps_advances [OF advances_transition]) (simp_all add: i)
  show "keeps I (cancel e now p i reason)" unfolding cancel_def
    by (intro keeps_load keeps_bind [OF keeps_guard] keeps_if_h keeps_advances [OF advances_transition]
        keeps_bind [OF keeps_put_row] keeps_bind [OF keeps_lift] keeps_bind [OF keeps_commit] keeps_lift keeps_ret)
      (simp_all add: i)
  show "keeps I (reschedule e now p i at_dt)" unfolding reschedule_def Let_def
    by (intro keeps_load keeps_bind keeps_guard keeps_if_h keeps_put_row keeps_history keeps_outbox
        outbox_grows_if outbox_grows_emit outbox_grows_id keeps_lift keeps_commit keeps_ret) (simp_all add: i)
  show "keeps I (post_message e now files new_id p i mb)" unfolding post_message_def Let_def
    by (intro keeps_load keeps_bind keeps_guard keeps_outside outside_audit_add keeps_history
        keeps_commit keeps_ret) (simp add: i)
  show "keeps I (classify e now provider threshold p i)" unfolding classify_def
    by (intro keeps_load keeps_bind [OF keeps_guard] keeps_bind [OF keeps_lift] keeps_put_bind
        keeps_advances [OF advances_route_status] keeps_bind [OF keeps_history] keeps_bind [OF keeps_commit] keeps_ret)
      (simp_all add: i)
  show "keeps I (assign e now pf require p i ab)" unfolding assign_def
    by (intro keeps_load keeps_bind [OF keeps_guard])
      (use i in \<open>auto intro!: keeps_intros keeps_advances [OF advances_assignment(1)]
        keeps_advances [OF advances_assignment(2)] keeps_advances [OF advances_assignment(3)]
        keeps_advances [OF advances_assignment(4)] keeps_history split: option.split\<close>)
  show "keeps I (accept e now rehome on p i)" unfolding accept_def
    by (intro keeps_load keeps_bind [OF keeps_guard] keeps_advances [OF advances_transition])
      (use i in \<open>auto intro!: keeps_intros keeps_if_h keeps_put_row split: option.split\<close>)
  show "keeps I (dispute e now support on p i reason)" unfolding dispute_def
    by (intro keeps_load keeps_bind [OF keeps_guard] keeps_advances [OF advances_transition] keeps_put_bind)
      (use i in \<open>auto intro!: keeps_intros keeps_if_h keeps_put_row split: option.split\<close>)
  show "keeps I (confirm_settlement e now p i sb)" unfolding confirm_settlement_def
    by (intro keeps_load_row)
      (use i in \<open>auto intro!: keeps_intros keeps_advances [OF advances_transition] keeps_put_row\<close>)
  show "keeps I (respond e now policy new_id p i pb)" unfolding respond_def
    by (intro keeps_load keeps_bind [OF keeps_guard] keeps_advances [OF advances_partner_status] keeps_bind
        keeps_outside_option outside_audit_add keeps_lift keeps_commit keeps_ret) (simp_all add: i)
  show "keeps I (post_estimate e now new_id p i eb)" unfolding post_estimate_def
    by (intro keeps_load keeps_bind keeps_guard keeps_outside outside_audit_add keeps_commit keeps_get keeps_lift)
qed


section \<open>The dispatch of one request\<close>

lemma triple_drain_one:
  assumes "rows i"
  shows "triple (\<lambda>s. both I s \<and> (\<forall>m. get_message k (se_working s) = Some m \<longrightarrow>
        om_payload m = [(u ''request_id'', JStr (uuid_str i))])) (drain_one e now rv policy k) (\<lambda>_. both I) (\<lambda>_. both I)"
proof (rule tripleI)
  fix s assume s: "both I s \<and> (\<forall>m. get_message k (se_working s) = Some m \<longrightarrow>
      om_payload m = [(u ''request_id'', JStr (uuid_str i))])"
  have one: "keeps I (drain_dispatch_message e now rv policy m)"
    if "om_payload m = [(u ''request_id'', JStr (uuid_str i))]" for m
    by (rule keeps_drain_message) (use assms that in \<open>auto simp: payload_request_def split: if_splits\<close>)
  have "keeps I (drain_body e now rv policy (get_message k (se_working s)))"
    using s one by (auto simp: drain_body_def intro!: keeps_intros split: option.split)
  then show "case drain_one e now rv policy k s of (Inr a, s') \<Rightarrow> both I s' | (Inl x, s') \<Rightarrow> both I s'"
    using s by (simp add: drain_one_body keeps_def triple_def)
qed

lemma triple_dispatch:
  assumes "rows i"
  shows "triple (\<lambda>s. both wf_db s \<and> both I s) (dispatch e now rv policy p i) (\<lambda>_. both I) (\<lambda>_. both I)"
proof -
  let ?E = "\<lambda>_. both I"
  let ?P = "\<lambda>r s. wfc r s \<and> both I s \<and> sr_id r = i"
  have load: "triple (\<lambda>s. both wf_db s \<and> both I s) (load_visible p i) ?P ?E"
    using triple_load_visible [of p i]
    by (force simp: triple_def dest: load_visible_state split: sum.splits prod.splits)
  have guard: "triple (?P r) (guard_h b x) (\<lambda>_. ?P r) ?E" for r b x
    by (rule triple_guard) auto
  have move: "triple (?P r) (apply_transition e now p r t) ?P ?E" for r t
  proof (cases "sr_id r = i")
    case True
    have "triple (both I) (apply_transition e now p r t) (\<lambda>x s. both I s \<and> sr_id x = sr_id r) ?E"
      using advances_transition [of r e now p t] assms True by (simp add: advances_def)
    from triple_both [OF triple_transition this] show ?thesis
      by (rule triple_weaken) (auto simp: True)
  qed (simp add: triple_def)
  have enq: "triple (\<lambda>s. ?P r s \<and> d = se_working s) (mod_db (enqueue now dispatch_kind
        [(u ''request_id'', JStr (uuid_str (sr_id r)))]))
      (\<lambda>_ s. both I s \<and> (\<forall>m. get_message (length (db_outbox d)) (se_working s) = Some m \<longrightarrow>
         om_payload m = [(u ''request_id'', JStr (uuid_str i))])) ?E" for r d
    by (rule triple_mod)
      (auto simp: enqueued_message wfc_def both_def wf_db_outbox intro: outbox_law outbox_only_enqueue)
  have com: "triple (\<lambda>s. both I s \<and> (\<forall>m. get_message k (se_working s) = Some m \<longrightarrow> om_payload m = v)) commit_h
      (\<lambda>_ s. both I s \<and> (\<forall>m. get_message k (se_working s) = Some m \<longrightarrow> om_payload m = v)) ?E" for k v
    by (rule triple_commit) (auto simp: commit_def both_def)
  have last: "triple (both I) (bind_h get_db (\<lambda>d'. case get_visible p i d' of None \<Rightarrow> raise_h AssertionError
       | Some refreshed \<Rightarrow> lift_h (build_detail e now p refreshed []))) ?E ?E"
    unfolding keeps_def [symmetric] by (auto intro!: keeps_intros split: option.split)
  have get: "triple (?P r) get_db (\<lambda>d s. ?P r s \<and> d = se_working s) ?E" for r
    by (rule triple_get) simp
  show ?thesis unfolding dispatch_def
    by (rule triple_bind, rule load, rule triple_bind, rule guard, rule triple_bind, rule guard,
        rule triple_bind, rule guard, rule triple_bind, rule move, rule triple_bind, rule get, rule triple_bind, rule enq,
        rule triple_bind, rule com, rule triple_bind, rule triple_drain_one [OF assms], rule last)
qed

lemma keeps_dispatch_row:
  assumes "rows i" "wf_db d" "I d"
  shows "I (snd (run_endpoint (dispatch e now rv policy p i) d))"
proof -
  have "both wf_db (open_session d) \<and> both I (open_session d)"
    using assms by (simp add: both_def open_session_def)
  from triple_end [OF triple_dispatch [OF assms(1)] this]
  have "both I (snd (dispatch e now rv policy p i (open_session d)))" .
  then show ?thesis by (rule run_endpoint_both)
qed

end

end
