(* ===== verification/Calls.thy ===== *)
theory Calls
  imports Isolation Fixtures
begin

text \<open>
  Every call, webhook, mail, job and script as a step on the database, and what each of them keeps.
  The locale \<open>history_property\<close> adds the law of new rows to the interface of \<open>Isolation\<close>; its lemmas
  cover the whole service. The interpretations are the rows and the trails of the requests a call
  does not name, the history that is only appended to, and the requests that never disappear.
\<close>

section \<open>The request a call names\<close>

fun call_target :: "api_call \<Rightarrow> uuid option" where
  "call_target (Get_request i) = Some i"
| "call_target (Transition_request i t) = Some i"
| "call_target (Classify_request i) = Some i"
| "call_target (Assign_request i b) = Some i"
| "call_target (Dispatch_request i) = Some i"
| "call_target (Accept_request i) = Some i"
| "call_target (Dispute_request i s) = Some i"
| "call_target (Confirm_settlement i b) = Some i"
| "call_target (Cancel_request i s) = Some i"
| "call_target (Reschedule_request i t) = Some i"
| "call_target (Respond_as_partner i b) = Some i"
| "call_target (Add_estimate i b) = Some i"
| "call_target (Requester_context i) = Some i"
| "call_target (List_messages i) = Some i"
| "call_target (Add_message i b) = Some i"
| "call_target _ = None"

section \<open>The interface\<close>

locale history_property = audit_property +
  assumes add_request_law: "rows (sr_id r) \<Longrightarrow> \<not> violates_unique r d \<Longrightarrow> I d \<Longrightarrow> I (add_request r d)"
    and sequence_law: "I d \<Longrightarrow> I (d\<lparr>db_number_seq := n\<rparr>)"
begin

lemma keeps_find_any: "keeps I (find_key k)"
  unfolding find_key_def by (intro keeps_intros)

lemma keeps_flush_any: "rows (sr_id r) \<Longrightarrow> keeps I (flush_request r)"
  unfolding flush_request_def
  by (auto simp: keeps_def triple_def bind_h_def get_db_def raise_h_def mod_db_def both_def
      intro: add_request_law)

lemma keeps_announce_any: "rows (sr_id r) \<Longrightarrow> keeps I (announce_created e now p r)"
  unfolding announce_created_def
  by (intro keeps_bind keeps_history keeps_outbox outbox_grows_if outbox_grows_enqueue outbox_grows_id
      outbox_grows_emit keeps_commit known_kinds) simp

lemma keeps_intake_any: "rows new_id \<Longrightarrow> keeps I (intake e now new_id p a)"
  unfolding intake_def intake_insert_def Let_def next_number_eq snd_conv
  by (auto intro!: keeps_intros keeps_find_any keeps_flush_any keeps_announce_any
      keeps_mod [of I "\<lambda>d. d\<lparr>db_number_seq := Suc (db_number_seq d)\<rparr>"] sequence_law split: option.split)

lemma keeps_creates_any:
  "rows new_id \<Longrightarrow> keeps I (create_from_form e now new_id p body key)"
  "rows new_id \<Longrightarrow> keeps I (create_from_chat e now new_id p chat)"
  "rows new_id \<Longrightarrow> keeps I (create_from_ticket e now new_id p ticket)"
  unfolding create_from_form_def create_from_chat_def create_from_ticket_def
  by (intro keeps_bind keeps_lift keeps_intake_any; assumption)+

lemma keeps_channels_any:
  "keeps I (create_channel i b)" "keeps I (get_or_404 i)" "keeps I (update_channel i ub)"
  "keeps I (subscribe now i p sb)" "keeps I (unsubscribe p x)"
proof -
  show get: "keeps I (get_or_404 i)" for i
    unfolding get_or_404_def by (auto intro!: keeps_intros split: option.split)
  show "keeps I (create_channel i b)"
    unfolding create_channel_def commit_config_def Let_def
    by (intro keeps_intros keeps_if_h keeps_outside outside_audit_channels)
  show "keeps I (update_channel i ub)"
    unfolding update_channel_def Let_def
    by (intro keeps_bind get keeps_intros keeps_outside outside_audit_channels)
  show "keeps I (subscribe now i p sb)" "keeps I (unsubscribe p x)"
    unfolding subscribe_def unsubscribe_def Let_def
    by (auto intro!: keeps_intros keeps_outside outside_audit_channels split: prod.split)
qed

lemma keeps_call:
  assumes "rows new_id" "\<And>i. call_target call = Some i \<Longrightarrow> rows i" "\<nexists>i. call = Dispatch_request i"
  shows "keeps I (serve_request w now new_id p call)"
  using assms(2,3)
  by (cases call) (simp_all add: route_defs, (intro keeps_intros keeps_creates_any keeps_readers
      keeps_services keeps_channels_any assms(1); assumption)+)

lemma call_keeps:
  assumes "rows new_id" "\<And>i. call_target call = Some i \<Longrightarrow> rows i" "wf_db d" "I d"
  shows "I (snd (serve w now new_id credentials call d))"
proof (cases "get_current_principal w credentials")
  case (Inr p)
  have "I (snd (run_endpoint (serve_request w now new_id p call) d))"
  proof (cases "\<exists>i. call = Dispatch_request i")
    case True
    then obtain i where call: "call = Dispatch_request i" by blast
    have reply: "snd (run_endpoint (reply_h c f h) d) = snd (run_endpoint h d)" for c f and h :: "request_detail handler"
      by (simp add: reply_h_def bind_h_def ret_def run_endpoint_def split: sum.split prod.split)
    have policy: "run_endpoint (with_policy w f) d = (case policy_from_settings (w_settings w) of
        Inl x \<Rightarrow> (Inl x, d) | Inr policy \<Rightarrow> run_endpoint (f policy) d)" for f :: "sla_policy \<Rightarrow> request_detail handler"
      by (simp add: with_policy_def bind_h_def lift_h_def run_endpoint_def rollback_def open_session_def
          split: sum.split)
    show ?thesis
      using keeps_dispatch_row assms(2-4)
      by (simp add: call dispatch_request_route_def reply policy split: sum.split)
  next
    case False
    from run_endpoint_kept [OF keeps_call [OF assms(1,2) False] assms(4)] show ?thesis by simp
  qed
  then show ?thesis by (simp add: serve_def Inr)
qed (simp add: serve_def assms(4))

text \<open>With a law for every row, the jobs and the inbound routes keep the property too.\<close>

lemma keeps_payload_request:
  assumes "\<And>i. rows i" "keeps I (f None)" "\<And>r. keeps I (f (Some r))"
  shows "keeps I (bind_h (load_payload_request rt payload) f)"
proof -
  have "bind_h (load_payload_request rt payload) f = bind_h (lift_h (payload_request rt payload))
      (\<lambda>i. case i of None \<Rightarrow> f None | Some i \<Rightarrow> bind_h (load_for_update i) f)"
    by (auto simp: load_payload_request_def bind_h_def lift_h_def ret_def split: sum.splits option.splits)
  moreover have "keeps I (case z of None \<Rightarrow> f None | Some i \<Rightarrow> bind_h (load_for_update i) f)" for z
    using assms by (cases z) (auto intro: keeps_load_row)
  ultimately show ?thesis by (auto intro: keeps_intros)
qed

lemma keeps_dispatches:
  assumes all: "\<And>i. rows i"
  shows "keeps I (dispatch e now rv policy p i)" "keeps I (drain_dispatch_batch e now rv policy)"
proof -
  have "keeps I (drain_dispatch_message e now rv policy m)" for m
    by (rule keeps_drain_message [OF all])
  note message = this
  have one: "keeps I (drain_one e now rv policy k)" for k
    unfolding drain_one_def by (auto intro!: keeps_intros message split: option.split)
  have last: "keeps I (bind_h get_db (\<lambda>d'. case get_visible p i d' of None \<Rightarrow> raise_h AssertionError
       | Some refreshed \<Rightarrow> lift_h (build_detail e now p refreshed [])))"
    by (auto intro!: keeps_intros split: option.split)
  show "keeps I (dispatch e now rv policy p i)" unfolding dispatch_def
    by (intro keeps_load keeps_bind [OF keeps_guard] keeps_advances [OF advances_transition] all
        keeps_bind [OF keeps_get] keeps_bind [OF keeps_outbox] outbox_grows_enqueue known_kinds
        keeps_bind [OF keeps_commit] keeps_bind [OF one] last)
  show "keeps I (drain_dispatch_batch e now rv policy)"
    unfolding drain_dispatch_batch_def by (intro keeps_bind keeps_claim_any keeps_drain_any message)
qed

lemma keeps_on_create:
  assumes all: "\<And>i. rows i" shows "keeps I (drain_on_create_batch e now deps)"
proof -
  have "keeps I (run_on_create e now deps i)" for i
    unfolding run_on_create_def
    by (intro keeps_bind keeps_try keeps_if_h keeps_services keeps_dispatches keeps_except_status keeps_ret all)
  then show ?thesis unfolding drain_on_create_batch_def
    by (intro keeps_bind keeps_claim_any keeps_drain_any keeps_lift keeps_same same_audit_save)
qed

lemma advances2_timers:
  assumes all: "\<And>i. rows i"
  shows "advances2 I r (redispatch_to_next e now rv policy r)"
    "advances2 I r (run_accept_timeout_fallback e now rv policy r)"
proof -
  have pair: "advances2 I x (case (b, x) of (delivered, r4) \<Rightarrow> ret (g delivered, r4))" for b x and g :: "bool \<Rightarrow> pystr"
    by (simp add: advances2_simple)
  have chain: "advances2 I r0 (bind_h (put_request r0) (\<lambda>r1.
         bind_h (apply_transition e now sla_timer_principal r1 S_ASSIGNED) (\<lambda>r2.
         bind_h (apply_transition e now sla_timer_principal r2 S_DISPATCHED) (\<lambda>r3.
         bind_h (execute_dispatch e now rv policy r3) (\<lambda>(delivered, r4). ret (g delivered, r4))))))"
    for r0 and g :: "bool \<Rightarrow> pystr"
    by (rule advances2_of [OF advances_put [where r = r0]])
      (intro advances2_of [OF advances_transition] advances2_bind [OF advances2_execute_dispatch] pair refl all)+
  have same: "advances2 I r m" if "advances2 I r0 m" "sr_id r0 = sr_id r" for r r0 and m :: "(pystr \<times> service_request) handler"
    using that by (simp add: advances2_def)
  show redispatch: "advances2 I r (redispatch_to_next e now rv policy r)" for r
  proof (cases "next_partner r")
    case None
    then show ?thesis
      by (auto simp: redispatch_to_next_def intro!: advances2_keeps [OF keeps_outbox] outbox_grows_emit advances2_simple)
  next
    case (Some x)
    obtain q r0 where x: "x = (q, r0)" by (cases x)
    then have "sr_id r0 = sr_id r" using next_partner_core Some by (auto simp: same_core_def)
    then show ?thesis
      unfolding redispatch_to_next_def Some x option.case prod.case by (rule same [OF chain])
  qed
  show "advances2 I r (run_accept_timeout_fallback e now rv policy r)"
    unfolding run_accept_timeout_fallback_def
    by (auto intro!: advances2_of [OF advances_transition] redispatch advances2_simple all)
qed

lemma keeps_timers:
  assumes all: "\<And>i. rows i"
  shows "keeps I (scan_accept_timeouts e now rv policy)" "keeps I (drain_partner_fallback_batch e now rv policy)"
proof -
  have row: "keeps I (case found of None \<Rightarrow> ret 0
       | Some r \<Rightarrow>
           bind_h (lift_h (evaluate (e_rt e) policy (sr_sla r) (u ''accept_deadline'') now)) (\<lambda>state.
           if state \<noteq> SLA_BREACHED then ret 0
           else bind_h (run_accept_timeout_fallback e now rv policy r) (\<lambda>_. ret (1::nat))))" for found
    by (auto intro!: keeps_intros keeps_if_h keeps_advances2 [OF advances2_timers(2)] all split: option.split)
  have "keeps I (scan_rows e now rv policy ids)" for ids
  proof (induction ids)
    case (Cons i ids)
    show ?case unfolding scan_rows.simps by (intro keeps_load_row keeps_bind row keeps_ret Cons)
  qed (simp add: keeps_ret)
  then show "keeps I (scan_accept_timeouts e now rv policy)"
    unfolding scan_accept_timeouts_def by (auto intro!: keeps_intros)
  have "keeps I (process_partner_fallback e now rv policy m)" for m
    unfolding process_partner_fallback_def
    by (rule keeps_payload_request)
      (auto intro!: keeps_ret keeps_if_h keeps_advances2 [OF advances2_timers(1)] all)
  then show "keeps I (drain_partner_fallback_batch e now rv policy)"
    unfolding drain_partner_fallback_batch_def
    by (intro keeps_bind keeps_claim_any keeps_drain_any keeps_same same_audit_save)
qed

lemma keeps_deliveries:
  "keeps I (drain_webhook_batch st now deliver)" "keeps I (drain_concierge_callback_batch st now deliver)"
  "keeps I (drain_notification_batch e now ol resolve)"
proof -
  have "keeps I (deliver_message st now refusal deliver m)" for st refusal deliver m
    unfolding deliver_message_def by (auto intro!: keeps_intros keeps_same same_audit_save split: sum.split)
  then show "keeps I (drain_webhook_batch st now deliver)" "keeps I (drain_concierge_callback_batch st now deliver)"
    unfolding drain_webhook_batch_def drain_concierge_callback_batch_def drain_deliveries_def
    by (intro keeps_bind keeps_claim_any keeps_for keeps_commit keeps_ret; assumption)+
  have push: "keeps I (push_all send owner xs)" for send owner xs
    by (induction xs) (auto intro!: keeps_intros keeps_outside split: sum.split exn.split)
  have push1: "keeps I (deliver_push st push n)" for st push n
    unfolding deliver_push_def by (auto intro!: keeps_intros push split: option.split)
  have note1: "keeps I (deliver_notification rt st ol n to)" for rt st ol n to
    unfolding deliver_notification_def by (intro keeps_bind keeps_lift push1 keeps_ret)
  have "keeps I (drain_one_notification e now ol resolve m)" for m
    unfolding drain_one_notification_def
    by (auto intro!: keeps_intros keeps_same same_audit_save note1 split: option.split)
  then show "keeps I (drain_notification_batch e now ol resolve)"
    unfolding drain_notification_batch_def by (intro keeps_bind keeps_claim_any keeps_for keeps_commit keeps_ret)
qed

lemma keeps_retention:
  assumes all: "\<And>i. rows i" shows "keeps I (anonymize_expired_raw_input st now)"
proof -
  have "keeps I (anonymize_row now i)" for i
    unfolding anonymize_row_def
    by (intro keeps_load_row) (auto intro!: keeps_put_bind keeps_history keeps_ret all)
  then show ?thesis unfolding anonymize_expired_raw_input_def Let_def by (auto intro!: keeps_intros)
qed

lemma keeps_inbound:
  assumes all: "\<And>i. rows i"
  shows "keeps I (handle_api e now w policy new_id token raw_body signature timestamp)"
    "keeps I (handle_email e now parseaddr policy m)"
proof -
  have correlate: "keeps I (correlate ref)" for ref
    unfolding correlate_def load_for_update_def by (auto intro!: keeps_intros split: option.split)
  show "keeps I (handle_api e now w policy new_id token raw_body signature timestamp)"
    unfolding handle_api_def
    by (auto intro!: keeps_intros keeps_if_h correlate keeps_apply_envelope all split: option.split)
  have number: "keeps I (load_by_number number)" for number
    unfolding load_by_number_def load_for_update_def by (auto intro!: keeps_intros split: option.split)
  have row: "keeps I (bind_h (advance_partner_status e now p r status policy) (\<lambda>r'.
     bind_h (mod_db (add_event (x r'))) (\<lambda>_. bind_h commit_h (\<lambda>_. ret o1))))" for p r status x and o1 :: pystr
    by (intro keeps_advances [OF advances_partner_status] keeps_bind keeps_outside outside_audit_event
        keeps_commit keeps_ret all)
  show "keeps I (handle_email e now parseaddr policy m)"
    unfolding handle_email_def Let_def
    by (auto intro!: keeps_bind number keeps_get keeps_ret row split: option.split)
qed

lemma poll_keeps:
  assumes all: "\<And>i. rows i" and "I d"
  shows "I (snd (poll_email_inbound e now parseaddr unseen d))"
proof -
  have "I d \<Longrightarrow> I (snd (poll_messages e now parseaddr policy ms n d))" for policy ms n d
  proof (induction ms arbitrary: n d)
    case (Cons m ms)
    have "I (snd (run_endpoint (handle_email e now parseaddr policy m) d))"
      by (rule run_endpoint_kept [OF keeps_inbound(2) [OF all] Cons.prems])
    then show ?case using Cons.IH by (simp split: prod.split sum.split) (metis snd_conv)
  qed simp
  then show ?thesis using assms(2) by (simp add: poll_email_inbound_def Let_def split: sum.split)
qed

lemma job_keeps:
  assumes all: "\<And>i. rows i" and "I d" shows "I (snd (run_job w now j d))"
proof (cases "j = Poll_email")
  case True
  then show ?thesis by (simp add: run_job_def poll_keeps assms)
next
  case False
  have "keeps I (session_job w now j)"
    by (cases j) (simp_all add: route_defs keeps_ret keeps_deliveries keeps_retention all
        keeps_with_policy keeps_dispatches keeps_on_create keeps_timers)
  then show ?thesis using False assms(2) by (simp add: run_job_def run_endpoint_kept)
qed

lemma webhook_keeps:
  "(\<And>i. rows i) \<Longrightarrow> I d \<Longrightarrow> I (snd (serve_inbound w now new_id token raw_body signature timestamp d))"
  unfolding serve_inbound_def by (rule run_endpoint_kept [OF keeps_with_policy [OF keeps_inbound(1)]])

lemma seed_keeps: "I d \<Longrightarrow> I (snd (run_endpoint (seed_test_partners ids) d))"
proof -
  have "outside_audit (upsert_configs cs)" for cs
    by (simp add: outside_audit_def same_audit_def upsert_configs_def)
  then have "keeps I (seed_test_partners ids)"
    unfolding seed_test_partners_def by (intro keeps_bind keeps_outside keeps_commit keeps_ret)
  then show "I d \<Longrightarrow> ?thesis" by (rule run_endpoint_kept)
qed

end

section \<open>The service\<close>

text \<open>What the service does, one committed or rolled back unit after the other.\<close>

datatype event =
    Api_call "pystr option" api_call
  | Partner_webhook pystr "nat list" pystr pystr
  | Worker_job job
  | Seed_script "uuid list"

fun step :: "world \<Rightarrow> instant \<Rightarrow> uuid \<Rightarrow> event \<Rightarrow> db \<Rightarrow> db" where
  "step w now new_id (Api_call credentials call) d = snd (serve w now new_id credentials call d)"
| "step w now new_id (Partner_webhook token raw_body signature timestamp) d =
     snd (serve_inbound w now new_id token raw_body signature timestamp d)"
| "step w now new_id (Worker_job j) d = snd (run_job w now j d)"
| "step w now new_id (Seed_script ids) d = snd (run_endpoint (seed_test_partners ids) d)"

inductive reachable :: "db \<Rightarrow> bool" where
  start: "reachable empty_db"
| more: "reachable d \<Longrightarrow> reachable (step w now new_id ev d)"

inductive_cases reachable_step: "reachable d"

context history_property
begin

lemma step_keeps:
  "(\<And>i. rows i) \<Longrightarrow> wf_db d \<Longrightarrow> I d \<Longrightarrow> I (step w now new_id ev d)"
  by (cases ev) (simp_all add: call_keeps job_keeps webhook_keeps seed_keeps)

end

lemma wf_db_step_any: "wf_db d \<Longrightarrow> wf_db (step w now new_id ev d)"
proof (cases ev)
  case (Api_call credentials call)
  then show "wf_db d \<Longrightarrow> ?thesis"
    by (simp add: serve_def run_endpoint_kept keeps_serve_request split: sum.split)
next
  case (Partner_webhook token raw_body signature timestamp)
  then show "wf_db d \<Longrightarrow> ?thesis"
    by (simp add: serve_inbound_def run_endpoint_kept keeps_with_policy keeps_handle_api)
next
  case (Worker_job j)
  then show "wf_db d \<Longrightarrow> ?thesis"
    by (simp add: run_job_def wf_db_poll run_endpoint_kept keeps_session_job)
next
  case (Seed_script ids)
  then show "wf_db d \<Longrightarrow> ?thesis" by (simp add: run_endpoint_kept keeps_seed)
qed

lemma reachable_wf: "reachable d \<Longrightarrow> wf_db d"
  by (induction rule: reachable.induct) (simp_all add: wf_db_empty wf_db_step_any)

section \<open>What a step never does\<close>

lemma save_request_ids: "map sr_id (db_requests (save_request r d)) = map sr_id (db_requests d)"
  by (simp add: save_request_def)

interpretation other_request: history_property "\<lambda>d. get_request j d = Some r" "\<lambda>i. i \<noteq> j" for j r
  by unfold_locales (auto simp: get_request_def same_audit_def add_request_def row_find_app)

interpretation other_trail: history_property "\<lambda>d. history_of j d = hs" "\<lambda>i. i \<noteq> j" for j hs
  by unfold_locales (auto simp: history_of_def same_audit_def add_request_def)

interpretation appended: history_property "\<lambda>d. \<exists>hs. db_history d = old @ hs" "\<lambda>_. True" for old
  by unfold_locales (auto simp: frame_simps same_audit_def add_request_def)

interpretation stored: history_property "\<lambda>d. i \<in> sr_id ` set (db_requests d)" "\<lambda>_. True" for i
proof unfold_locales
  have "sr_id ` set (db_requests (save_request r d)) = sr_id ` set (db_requests d)" for r d
    by (metis list.set_map save_request_ids)
  then show "i \<in> sr_id ` set (db_requests d) \<Longrightarrow> i \<in> sr_id ` set (db_requests (save_request r d))" for r d
    by simp
qed (auto simp: frame_simps same_audit_def add_request_def)

end
