(* ===== verification/System.thy ===== *)
theory System
  imports Calls
begin

text \<open>
  The service as a whole: every state reachable from the empty database by calls, webhooks, mails,
  jobs and the seeding script, in any order, with any world around it. The audit trail explains
  every status, statuses move along the diagram only, and calls are isolated from each other.
\<close>

section \<open>The audit trail\<close>

lemma trail_join: "trail s (hs @ hs') t \<longleftrightarrow> (\<exists>m. trail s hs m \<and> trail m hs' t)"
  by (induction hs arbitrary: s) auto

lemma trail_unique: "trail s hs m \<Longrightarrow> trail s hs m' \<Longrightarrow> m = m'"
  by (induction hs arbitrary: s) auto

text \<open>C1. The audit trail explains every status: in every reachable state the ids, the numbers and the
  idempotency keys of the requests are unique, every audit record belongs to a stored request, and
  the recorded changes of status of a request, from first to last, are a path through the diagram
  from \<open>NEW\<close> to its current status.
\<close>

theorem trail_explains_status:
  assumes "reachable d"
  shows "distinct (map sr_id (db_requests d)) \<and> distinct (map sr_number (db_requests d))
    \<and> distinct (idempotency_keys d)
    \<and> (\<forall>h\<in>set (db_history d). rh_request_id h \<in> sr_id ` set (db_requests d))
    \<and> (\<forall>r\<in>set (db_requests d). \<exists>ts. fsm_path S_NEW ts \<and> last (S_NEW # ts) = sr_status r
         \<and> map rh_to (status_trail (sr_id r) d) = map (Some \<circ> status_value) ts)"
  using reachable_wf [OF assms] trail_path unfolding wf_db_def by blast

text \<open>C2. Nobody is paid for work that was not done: in every reachable state a request in \<open>PAID\<close> has
  audit records of its assignment, its dispatch, the partner's acceptance, the start and the end of
  the work and the requester's approval.
\<close>

theorem paid_was_delivered:
  assumes "reachable d" "r \<in> set (db_requests d)" "sr_status r = S_PAID"
    "s \<in> {S_ASSIGNED, S_DISPATCHED, S_ACCEPTED, S_IN_PROGRESS, S_DONE, S_ACCEPTED_BY_USER}"
  shows "\<exists>h\<in>set (db_history d). rh_request_id h = sr_id r \<and> rh_action h = H_STATUS_CHANGED
    \<and> rh_to h = Some (status_value s)"
proof -
  obtain ts where ts: "fsm_path S_NEW ts" "last (S_NEW # ts) = S_PAID"
    "map rh_to (status_trail (sr_id r) d) = map (Some \<circ> status_value) ts"
    using trail_path [OF wf_db_trail [OF reachable_wf [OF assms(1)] assms(2)]] assms(3) by auto
  then have "S_PAID \<in> set ts" using last_in_set [of ts] by (cases "ts = []") simp_all
  then have "s \<in> set ts" using paid_needs_delivery [OF ts(1)] assms(4) by auto
  then have "Some (status_value s) \<in> rh_to ` set (status_trail (sr_id r) d)"
    using ts(3) by (metis comp_apply image_eqI image_set)
  then show ?thesis by (auto simp: status_trail_def history_of_def)
qed

text \<open>C3. The past is not rewritten: a step of the service only appends to the audit records, no request
  disappears, and the status of a request moves along the diagram only; one that is paid, cancelled
  or rejected stays so.
\<close>

theorem past_is_kept:
  assumes "reachable d" "r \<in> set (db_requests d)"
  shows "\<exists>hs r' ts. db_history (step w now new_id ev d) = db_history d @ hs
    \<and> get_request (sr_id r) (step w now new_id ev d) = Some r'
    \<and> fsm_path (sr_status r) ts \<and> last (sr_status r # ts) = sr_status r'
    \<and> (is_terminal (sr_status r) \<longrightarrow> sr_status r' = sr_status r)"
proof -
  let ?d = "step w now new_id ev d"
  have wf: "wf_db d" "wf_db ?d"
    using reachable_wf [OF assms(1)] wf_db_step_any by blast+
  obtain hs where hs: "db_history ?d = db_history d @ hs"
    using appended.step_keeps [of d "db_history d" w now new_id ev] wf(1) by auto
  have "sr_id r \<in> sr_id ` set (db_requests ?d)"
    using stored.step_keeps [of d "sr_id r" w now new_id ev] wf(1) assms(2) by auto
  then obtain r' where r': "r' \<in> set (db_requests ?d)" "sr_id r' = sr_id r" by auto
  have "status_trail (sr_id r) ?d = status_trail (sr_id r) d
      @ filter (\<lambda>h. rh_action h = H_STATUS_CHANGED) (filter (\<lambda>h. rh_request_id h = sr_id r) hs)"
    by (simp add: status_trail_def history_of_def hs)
  then obtain m where m: "trail S_NEW (status_trail (sr_id r) d) m"
    "\<exists>hs'. trail m hs' (sr_status r')"
    using wf_db_trail [OF wf(2) r'(1)] r'(2) by (auto simp: trail_join)
  have "m = sr_status r" using trail_unique [OF m(1) wf_db_trail [OF wf(1) assms(2)]] .
  then obtain ts where ts: "fsm_path (sr_status r) ts" "last (sr_status r # ts) = sr_status r'"
    using m(2) trail_path by blast
  moreover have "get_request (sr_id r) ?d = Some r'"
    using row_find_distinct [OF wf_db_distinct [OF wf(2)] r'(1)] r'(2) by (simp add: get_request_def)
  moreover have "sr_status r' = sr_status r" if "is_terminal (sr_status r)"
    using fsm_path_terminal [OF that ts(1)] ts(2) by simp
  ultimately show ?thesis using hs by blast
qed

section \<open>Isolation\<close>

text \<open>C4. Calls are isolated: a call, by whomever and with whatever answer, leaves every request it does
  not name as it is, its row and its audit trail, whatever the world around it answers.
\<close>

theorem calls_are_isolated:
  assumes "reachable d" "get_request j d = Some r" "call_target call \<noteq> Some j" "new_id \<noteq> j"
  shows "get_request j (step w now new_id (Api_call credentials call) d) = Some r
    \<and> history_of j (step w now new_id (Api_call credentials call) d) = history_of j d"
  using other_request.call_keeps [of new_id j call d r w now credentials]
    other_trail.call_keeps [of new_id j call d "history_of j d" w now credentials]
    reachable_wf [OF assms(1)] assms(2-4) by auto

section \<open>Driving a request\<close>

lemma get_visible_iff:
  "distinct (map sr_id (db_requests d)) \<Longrightarrow>
   get_visible p i d = Some r \<longleftrightarrow> get_request i d = Some r \<and> visible p r"
proof
  assume d: "distinct (map sr_id (db_requests d))" and r: "get_request i d = Some r \<and> visible p r"
  then have "r \<in> set (db_requests d)" "sr_id r = i" using get_request_Some by blast+
  with r obtain r' where r': "get_visible p i d = Some r'"
    using get_visible_None [of p i d] by (cases "get_visible p i d") auto
  then show "get_visible p i d = Some r" using get_visible_request [OF d r'] r by simp
qed (use get_visible_request get_visible_Some in blast)

lemma visible_cong:
  "sr_access_level r' = sr_access_level r \<Longrightarrow> sr_partner_id r' = sr_partner_id r
   \<Longrightarrow> sr_requester_id r' = sr_requester_id r \<Longrightarrow> visible p r' = visible p r"
  by (cases "is_agent p"; cases "p_on_behalf_of p") (simp_all add: visible_def ownership_condition_def)

lemma after_transition_frame [simp]:
  "sr_sla (after_transition now r t) = sr_sla r" "visible p (after_transition now r t) = visible p r"
proof -
  show "sr_sla (after_transition now r t) = sr_sla r" by (cases t) (simp_all add: after_transition_def)
  show "visible p (after_transition now r t) = visible p r"
    by (rule visible_cong; cases t) (simp_all add: after_transition_def)
qed

lemma build_detail_ok:
  "policy_from_settings (e_settings e) = Inr policy \<Longrightarrow> sr_sla r = None \<Longrightarrow> \<exists>x. build_detail e now p r es = Inr x"
  by (simp add: build_detail_def sla_view_def Let_def)

lemma transition_step:
  assumes "get_current_principal w credentials = Inr p" "can_drive_lifecycle p"
    "get_visible p i d = Some r" "can_transition (sr_status r) t"
    "policy_from_settings (w_settings w) = Inr policy" "sr_sla r = None"
  shows "get_request i (step w now new_id (Api_call credentials (Transition_request i t)) d)
    = Some (after_transition now r t)"
proof -
  let ?r = "after_transition now r t" and ?e = "w_env w"
  let ?d = "add_history (status_history p (sr_id r) (sr_status r) t now) (save_request ?r d)"
  have i: "sr_id r = i" "r \<in> set (db_requests d)" using get_visible_Some [OF assms(3)] by simp_all
  obtain x where x: "build_detail ?e now p ?r [] = Inr x"
    using build_detail_ok [of ?e policy ?r now p "[]"] assms(5,6) by (auto simp: w_settings_def)
  have "step w now new_id (Api_call credentials (Transition_request i t)) d = emit_transition ?e now ?r t ?d"
    using assms(1-4)
    by (simp add: serve_def route_defs reply_h_def transition_def load_visible_def bind_h_def get_db_def
        ret_def guard_h_def lift_h_def commit_h_def commit_def run_endpoint_def open_session_def
        apply_transition_run x)
  moreover have "get_request i (emit_transition ?e now ?r t ?d) = get_request i ?d"
    by (rule outbox_grows_row [OF outbox_grows_transition])
  moreover have "get_request i ?d = Some ?r"
    using i by (auto simp: frame_simps get_save_request)
  ultimately show ?thesis by simp
qed

lemma drive_path:
  assumes "wf_db d" "get_request i d = Some r" "visible p r" "sr_sla r = None"
    "get_current_principal w credentials = Inr p" "can_drive_lifecycle p"
    "policy_from_settings (w_settings w) = Inr policy" "fsm_path (sr_status r) ts"
  shows "\<exists>r'. get_request i (fold (\<lambda>t. step w now new_id (Api_call credentials (Transition_request i t))) ts d)
      = Some r' \<and> sr_status r' = last (sr_status r # ts)"
  using assms(1-4,8)
proof (induction ts arbitrary: d r)
  case (Cons t ts)
  let ?d = "step w now new_id (Api_call credentials (Transition_request i t)) d"
  have "get_visible p i d = Some r"
    using get_visible_iff [OF wf_db_distinct [OF Cons.prems(1)]] Cons.prems(2,3) by simp
  then have "get_request i ?d = Some (after_transition now r t)"
    using Cons.prems(4,5) by (intro transition_step [OF assms(5,6) _ _ assms(7)]) simp_all
  then show ?case
    using Cons.IH [OF wf_db_step_any [OF Cons.prems(1)], where r = "after_transition now r t"] Cons.prems(3-5)
    by (simp del: step.simps)
qed simp


section \<open>A run of the service\<close>

definition demo_world :: "principal \<Rightarrow> world" where
  "demo_world p = \<lparr>w_env = demo_env\<lparr>e_settings := default_settings\<lparr>st_auth_jwks_url := u ''jwks''\<rparr>\<rparr>,
     w_verifier = (\<lambda>_. Inr p), w_wire = demo_wire, w_parseaddr = (\<lambda>a. a), w_unseen = [],
     w_files = \<lparr>fc_get_metadata = (\<lambda>_. None), fc_get_download_url = (\<lambda>_. None)\<rparr>,
     w_platform = fixture_platform,
     w_rehome = \<lparr>rh1_trigger_settlement = (\<lambda>_ _ _. None), rh1_get_requester_context = (\<lambda>_ _ _. None)\<rparr>,
     w_support = \<lparr>ks_create_compensation_claim = (\<lambda>_ _ _ _. None)\<rparr>, w_provider = null_llm,
     w_resolver = http_resolver demo_rt default_settings (demo_answering None) (\<lambda>_. Smtp_sent),
     w_webhook = (\<lambda>_. Inr True), w_concierge = (\<lambda>_. Inr True),
     w_outlets = \<lparr>ol_sms = (\<lambda>_ _. Inl TypeError), ol_smtp = (\<lambda>_. Smtp_sent), ol_push = (\<lambda>_ _. Push_sent)\<rparr>\<rparr>"

definition demo_created :: db where
  "demo_created = step (demo_world demo_requester) 0 10 (Api_call (Some []) (Create_request
     \<lparr>rc_raw_input = u ''fix it'', rc_requester_id = None, rc_booking_id = None, rc_premises_id = None,
       rc_source_ref = None\<rparr> None)) empty_db"

lemma demo_created_row:
  "map (\<lambda>r. (sr_id r, sr_status r, sr_access_level r, sr_sla r)) (db_requests demo_created)
     = [(10, S_NEW, L_LOGGED, None)]"
  by code_simp

lemma demo_created_reachable: "reachable demo_created"
  unfolding demo_created_def by (intro reachable.more reachable.start)

definition demo_work :: "request_status list" where
  "demo_work = [S_CLASSIFYING, S_CLASSIFIED, S_MATCHING, S_ASSIGNED, S_DISPATCHED, S_ACCEPTED,
     S_IN_PROGRESS, S_DONE, S_ACCEPTED_BY_USER, S_PAID]"

definition demo_paid :: db where
  "demo_paid = fold (\<lambda>t. step (demo_world demo_operator) 0 11 (Api_call (Some []) (Transition_request 10 t)))
     demo_work demo_created"

lemma demo_paid_reachable: "reachable demo_paid"
proof -
  have "reachable (fold (\<lambda>t. step w now i (f t)) ts d)" if "reachable d" for w now i ts d and f :: "request_status \<Rightarrow> event"
    using that by (induction ts arbitrary: d) (simp_all add: reachable.more del: step.simps)
  then show ?thesis unfolding demo_paid_def by (simp add: demo_created_reachable)
qed

lemma demo_created_facts:
  obtains r policy where "get_request 10 demo_created = Some r" "sr_id r = 10" "sr_status r = S_NEW"
    "sr_sla r = None" "visible demo_operator r"
    "get_current_principal (demo_world demo_operator) (Some []) = Inr demo_operator"
    "can_drive_lifecycle demo_operator" "policy_from_settings (w_settings (demo_world demo_operator)) = Inr policy"
    "fsm_path (sr_status r) demo_work"
proof -
  obtain r where r: "get_request 10 demo_created = Some r" "sr_id r = 10" "sr_status r = S_NEW"
      "sr_access_level r = L_LOGGED" "sr_sla r = None"
    using demo_created_row by (auto simp: get_request_def row_find_def)
  moreover have "visible demo_operator r" using r(4) by (simp add: visible_def) code_simp
  moreover have "get_current_principal (demo_world demo_operator) (Some []) = Inr demo_operator"
    by code_simp
  moreover have "can_drive_lifecycle demo_operator" by code_simp
  moreover have "is_ok (policy_from_settings (w_settings (demo_world demo_operator)))" by code_simp
  then obtain policy where "policy_from_settings (w_settings (demo_world demo_operator)) = Inr policy"
    by (auto simp: is_ok_def split: sum.splits)
  moreover have "fsm_path (sr_status r) demo_work" by (simp add: r(3) demo_work_def)
  ultimately show thesis using that by blast
qed


lemma demo_paid_row: obtains r where "get_request 10 demo_paid = Some r" "sr_id r = 10"
  "r \<in> set (db_requests demo_paid)" "sr_status r = S_PAID"
proof -
  obtain r policy where r: "get_request 10 demo_created = Some r" "sr_id r = 10" "sr_status r = S_NEW"
    and rest: "sr_sla r = None" "visible demo_operator r"
    "get_current_principal (demo_world demo_operator) (Some []) = Inr demo_operator"
    "can_drive_lifecycle demo_operator" "policy_from_settings (w_settings (demo_world demo_operator)) = Inr policy"
    "fsm_path (sr_status r) demo_work" by (rule demo_created_facts)
  obtain r' where "get_request 10 demo_paid = Some r'" "sr_status r' = S_PAID"
    using drive_path [OF reachable_wf [OF demo_created_reachable] r(1) rest(2,1,3-6)]
    unfolding demo_paid_def demo_work_def by auto
  with that show thesis using get_request_Some by blast
qed

lemma trail_explains_status_witness: "distinct (map sr_number (db_requests demo_paid))"
  using trail_explains_status [OF demo_paid_reachable] by blast

lemma paid_was_delivered_witness:
  "\<exists>h\<in>set (db_history demo_paid). rh_request_id h = 10 \<and> rh_to h = Some (status_value S_DONE)"
proof -
  obtain r where "r \<in> set (db_requests demo_paid)" "sr_status r = S_PAID" "sr_id r = 10" by (rule demo_paid_row)
  then show ?thesis using paid_was_delivered [OF demo_paid_reachable, of r S_DONE] by auto
qed

lemma past_is_kept_witness:
  "\<exists>r. get_request 10 (step (demo_world demo_operator) 5 12 (Api_call (Some []) (Cancel_request 10 [])) demo_paid) = Some r
     \<and> sr_status r = S_PAID"
proof -
  obtain r where r: "r \<in> set (db_requests demo_paid)" "sr_status r = S_PAID" "sr_id r = 10" by (rule demo_paid_row)
  then have "is_terminal (sr_status r)" by simp
  then show ?thesis
    using past_is_kept [OF demo_paid_reachable r(1), of "demo_world demo_operator" 5 12
        "Api_call (Some []) (Cancel_request 10 [])"] r(2,3) by auto
qed

lemma calls_are_isolated_witness:
  "get_request 10 (step (demo_world demo_operator) 5 12 (Api_call (Some []) (Cancel_request 11 [])) demo_paid)
     = get_request 10 demo_paid"
proof -
  obtain r where r: "get_request 10 demo_paid = Some r" by (rule demo_paid_row)
  then show ?thesis
    using calls_are_isolated [OF demo_paid_reachable r, of "Cancel_request 11 []" 12 "demo_world demo_operator" 5]
    by simp
qed

end
