(* ===== verification/Gates.thy ===== *)
theory Gates
  imports System
begin

text \<open>
  Who may call what, and what a refused or failed call leaves behind: the gates of the routes and
  services, the invisibility of foreign requests, the type of every answer, and the atomicity of
  the calls that fail.
\<close>

section \<open>Refusals\<close>

fun may_call :: "principal \<Rightarrow> api_call \<Rightarrow> bool" where
  "may_call p (Create_from_chat b) = (p_kind p = K_SERVICE)"
| "may_call p (Create_from_ticket b) = (p_kind p = K_SERVICE)"
| "may_call p (Transition_request i t) = can_drive_lifecycle p"
| "may_call p (Classify_request i) = can_drive_lifecycle p"
| "may_call p (Assign_request i b) = can_drive_lifecycle p"
| "may_call p (Dispatch_request i) = can_drive_lifecycle p"
| "may_call p (Accept_request i) = can_user_action p"
| "may_call p (Dispute_request i s) = can_user_action p"
| "may_call p (Confirm_settlement i b) = (p_kind p = K_SERVICE)"
| "may_call p (Cancel_request i s) = can_cancel p"
| "may_call p (Reschedule_request i t) = can_reschedule p"
| "may_call p (Respond_as_partner i b) = is_partner p"
| "may_call p (Add_estimate i b) = is_partner p"
| "may_call p (Requester_context i) = (is_operator p \<or> is_agent p)"
| "may_call p (Add_message i b) = (\<not> mc_is_internal b \<or> can_view_internal p)"
| "may_call p (List_channels q) = is_staff_admin p"
| "may_call p (Create_channel b) = is_staff_admin p"
| "may_call p (Get_channel i) = is_staff_admin p"
| "may_call p (Update_channel i b) = is_staff_admin p"
| "may_call p _ = True"

lemma load_invisible:
  "get_visible p i d = None \<Longrightarrow>
   run_endpoint (reply_h c f (bind_h (load_visible p i) g)) d = (Inl (Problem (not_found None)), d)"
  by (simp add: load_visible_def reply_h_def bind_h_def get_db_def problem_h_def raise_h_def
      run_endpoint_def rollback_def open_session_def)

lemma load_denied:
  "run_endpoint (reply_h c f (bind_h (load_visible p i) (\<lambda>r. bind_h (guard_h False pb) (g r)))) d
   = (Inl (Problem (if get_visible p i d = None then not_found None else pb)), d)"
  by (simp add: load_visible_def reply_h_def bind_h_def get_db_def problem_h_def raise_h_def guard_h_def
      ret_def run_endpoint_def rollback_def open_session_def split: option.split)

lemma gate_denied: "run_endpoint (bind_h (guard_h False pb) g) d = (Inl (Problem pb), d)"
  by (simp add: guard_h_def bind_h_def problem_h_def raise_h_def run_endpoint_def rollback_def open_session_def)

lemma with_policy_ok:
  "policy_from_settings (w_settings w) = Inr policy \<Longrightarrow> with_policy w f = f policy"
  by (rule ext) (simp add: with_policy_def bind_h_def lift_h_def)

lemmas refusal_defs = get_detail_def transition_def classify_def assign_def dispatch_def accept_def
  dispute_def cancel_def reschedule_def respond_def post_estimate_def get_requester_context_def
  get_messages_def post_message_def require_service_principal_def require_staff_admin_def

lemma http_status_problems [simp]:
  "http_status (Inl (Problem (forbidden x))) = 403" "http_status (Inl (Problem (not_found x))) = 404"
  "http_status (Inl (Problem (unauthorized x))) = 401"
  by (simp_all add: http_status_def render_problem_def forbidden_def not_found_def unauthorized_def)



section \<open>Answers\<close>

text \<open>The shape of an answer: its code and its schema; a card is the card of the request named.\<close>

definition detail_of :: "uuid option \<Rightarrow> reply \<Rightarrow> bool" where
  "detail_of target y = (case y of R_detail x \<Rightarrow> target = Some (rr_id x) | _ \<Rightarrow> False)"

fun answers :: "api_call \<Rightarrow> nat \<Rightarrow> reply \<Rightarrow> bool" where
  "answers (Create_request b k) c y = (c \<in> {200, 201} \<and> (case y of R_request r \<Rightarrow> True | _ \<Rightarrow> False))"
| "answers (Create_from_chat b) c y = (c \<in> {200, 201} \<and> (case y of R_request r \<Rightarrow> True | _ \<Rightarrow> False))"
| "answers (Create_from_ticket b) c y = (c \<in> {200, 201} \<and> (case y of R_request r \<Rightarrow> True | _ \<Rightarrow> False))"
| "answers (List_requests f x l) c y = (c = 200 \<and> (case y of R_page pg \<Rightarrow> length (pg_items pg) \<le> 100 | _ \<Rightarrow> False))"
| "answers (Requester_context i) c y = (c = 200 \<and> (case y of R_context x \<Rightarrow> True | _ \<Rightarrow> False))"
| "answers (List_messages i) c y = (c = 200 \<and>
     (case y of R_messages ms \<Rightarrow> list_all (\<lambda>m. rm_request_id m = i) ms | _ \<Rightarrow> False))"
| "answers (Add_message i b) c y = (c = 201 \<and> (case y of R_message m \<Rightarrow> rm_request_id m = i | _ \<Rightarrow> False))"
| "answers (List_channels q) c y = (c = 200 \<and> (case y of R_channels cs \<Rightarrow> True | _ \<Rightarrow> False))"
| "answers (Create_channel b) c y = (c = 201 \<and> (case y of R_channel x \<Rightarrow> True | _ \<Rightarrow> False))"
| "answers (Get_channel i) c y = (c = 200 \<and> (case y of R_channel x \<Rightarrow> True | _ \<Rightarrow> False))"
| "answers (Update_channel i b) c y = (c = 200 \<and> (case y of R_channel x \<Rightarrow> True | _ \<Rightarrow> False))"
| "answers (Subscribe b) c y = (c = 200 \<and> (case y of R_ack x \<Rightarrow> True | _ \<Rightarrow> False))"
| "answers (Unsubscribe x) c y = (c = 200 \<and> (case y of R_ack x \<Rightarrow> True | _ \<Rightarrow> False))"
| "answers call c y = (c = 200 \<and> detail_of (call_target call) y)"

definition yields :: "('a \<Rightarrow> bool) \<Rightarrow> 'a handler \<Rightarrow> bool" where
  "yields Q h \<longleftrightarrow> (\<forall>s a s'. h s = (Inr a, s') \<longrightarrow> Q a)"

named_theorems yields_intros \<open>what a handler returns\<close>

lemma yields_end [yields_intros]:
  "Q a \<Longrightarrow> yields Q (ret a)" "yields Q (raise_h x)" "yields Q (problem_h pb)"
  "(\<And>a. z = Inr a \<Longrightarrow> Q a) \<Longrightarrow> yields Q (lift_h z)"
  by (auto simp: yields_def ret_def raise_h_def problem_h_def lift_h_def)

lemma yields_bind: "(\<And>a. yields Q (f a)) \<Longrightarrow> yields Q (bind_h m f)"
  unfolding yields_def by (blast dest: bind_h_ok)

lemma yields_if [yields_intros]: "(b \<Longrightarrow> yields Q f) \<Longrightarrow> (\<not> b \<Longrightarrow> yields Q g) \<Longrightarrow> yields Q (if b then f else g)"
  by simp

lemma yields_then: "yields R m \<Longrightarrow> (\<And>a. R a \<Longrightarrow> yields Q (f a)) \<Longrightarrow> yields Q (bind_h m f)"
  unfolding yields_def by (blast dest: bind_h_ok)

lemma yields_serve:
  "yields (\<lambda>(c, y). Q c y) (serve_request w now new_id p call) \<Longrightarrow>
   serve w now new_id credentials call d = (Inr (c, y), d') \<Longrightarrow> get_current_principal w credentials = Inr p \<Longrightarrow> Q c y"
  by (auto simp: serve_def yields_def dest!: run_endpoint_ok)

lemma yields_reply: "yields (\<lambda>a. Q c (f a)) h \<Longrightarrow> yields (\<lambda>(c, y). Q c y) (reply_h c f h)"
  unfolding reply_h_def by (rule yields_then, assumption) (rule yields_end, simp)

lemma yields_load: "yields (\<lambda>r. sr_id r = i) (load_visible p i)"
  by (auto simp: yields_def load_visible_def bind_h_def get_db_def ret_def problem_h_def raise_h_def
      dest: get_visible_Some split: option.splits)

lemma yields_load_row: "yields (\<lambda>z. \<forall>r. z = Some r \<longrightarrow> sr_id r = i) (load_for_update i)"
  by (auto simp: yields_def load_for_update_def bind_h_def get_db_def ret_def dest: get_request_Some)

interpretation row_id: audit_property "\<lambda>_. True" "\<lambda>_. True"
  by unfold_locales

lemma yields_advances: "advances (\<lambda>_. True) r m \<Longrightarrow> yields (\<lambda>x. sr_id x = sr_id r) m"
  by (auto simp: advances_def yields_def triple_def both_def split: sum.splits prod.splits)

lemma build_detail_id: "build_detail e now p r es = Inr x \<Longrightarrow> rr_id x = sr_id r"
  by (auto simp: build_detail_def Let_def bindE_Inr_iff)

lemma yields_detail:
  "sr_id r = i \<Longrightarrow> yields (\<lambda>x. rr_id x = i) (lift_h (build_detail e now p r es))"
  "sr_id r = i \<Longrightarrow> yields (\<lambda>x. rr_id x = i)
     (bind_h (lift_h (build_detail e now p r es)) (\<lambda>detail. bind_h commit_h (\<lambda>_. ret detail)))"
proof -
  show one: "sr_id r = i \<Longrightarrow> yields (\<lambda>x. rr_id x = i) (lift_h (build_detail e now p r es))"
    by (rule yields_end) (simp add: build_detail_id)
  show "sr_id r = i \<Longrightarrow> yields (\<lambda>x. rr_id x = i)
     (bind_h (lift_h (build_detail e now p r es)) (\<lambda>detail. bind_h commit_h (\<lambda>_. ret detail)))"
    by (rule yields_then [OF one]) (auto intro: yields_bind yields_end)
qed

lemma yields_moves:
  assumes "advances (\<lambda>_. True) r m" "\<And>x. sr_id x = sr_id r \<Longrightarrow> yields Q (f x)"
  shows "yields Q (bind_h m f)"
  using assms(2) by (rule yields_then [OF yields_advances [OF assms(1)]])

lemmas id_steps = yields_moves [OF row_id.advances_transition] yields_moves [OF row_id.advances_put]
  yields_moves [OF row_id.advances_route_status] yields_moves [OF row_id.advances_assignment(1)]
  yields_moves [OF row_id.advances_assignment(2)] yields_moves [OF row_id.advances_assignment(3)]
  yields_moves [OF row_id.advances_assignment(4)] yields_moves [OF row_id.advances_partner_status]

lemma yields_put_id:
  "(\<And>x. sr_id x = sr_id r \<Longrightarrow> yields Q (f x)) \<Longrightarrow> yields Q (bind_h (put_request r) f)"
  by (rule yields_moves [OF row_id.advances_put [where r = r]]) simp_all

lemma yields_cards:
  "yields (\<lambda>x. rr_id x = i) (get_detail e now p i)"
  "yields (\<lambda>x. rr_id x = i) (transition e now p i t)"
  "yields (\<lambda>x. rr_id x = i) (cancel e now p i reason)"
  "yields (\<lambda>x. rr_id x = i) (reschedule e now p i t')"
  "yields (\<lambda>x. rr_id x = i) (respond e now policy new_id p i pb)"
  "yields (\<lambda>x. rr_id x = i) (post_estimate e now new_id p i eb)"
  "yields (\<lambda>x. rr_id x = i) (dispatch e now rv policy p i)"
proof -
  show "yields (\<lambda>x. rr_id x = i) (get_detail e now p i)" unfolding get_detail_def
    by (intro yields_then [OF yields_load] yields_bind yields_detail)
  show "yields (\<lambda>x. rr_id x = i) (transition e now p i t)" unfolding transition_def
    by (intro yields_then [OF yields_load] yields_bind [of _ _ "guard_h _ _"] id_steps(1) yields_detail) simp_all
  show "yields (\<lambda>x. rr_id x = i) (cancel e now p i reason)" unfolding cancel_def
    by (intro yields_then [OF yields_load] yields_bind [of _ _ "guard_h _ _"] yields_if id_steps(1)
        yields_put_id yields_detail) simp_all
  show "yields (\<lambda>x. rr_id x = i) (reschedule e now p i t')" unfolding reschedule_def Let_def
    by (intro yields_then [OF yields_load] yields_bind [of _ _ "guard_h _ _"] yields_bind [of _ _ "mod_db _"]
        yields_if yields_put_id yields_detail) simp_all
  show "yields (\<lambda>x. rr_id x = i) (respond e now policy new_id p i pb)" unfolding respond_def
    by (intro yields_then [OF yields_load] yields_bind [of _ _ "guard_h _ _"] id_steps(8)
        yields_bind [of _ _ "case _ of None \<Rightarrow> _ | Some x \<Rightarrow> _ x"] yields_detail) simp_all
  show "yields (\<lambda>x. rr_id x = i) (post_estimate e now new_id p i eb)" unfolding post_estimate_def
    by (intro yields_then [OF yields_load] yields_bind yields_detail)
  have last: "yields (\<lambda>x. rr_id x = i) (case get_visible p i d' of None \<Rightarrow> raise_h AssertionError
       | Some refreshed \<Rightarrow> lift_h (build_detail e now p refreshed []))" for d'
    by (cases "get_visible p i d'") (auto intro: yields_end yields_detail dest: get_visible_Some)
  show "yields (\<lambda>x. rr_id x = i) (dispatch e now rv policy p i)" unfolding dispatch_def
    by (intro yields_bind last)
qed

lemma yields_cards2:
  "yields (\<lambda>x. rr_id x = i) (classify e now provider threshold p i)"
  "yields (\<lambda>x. rr_id x = i) (assign e now pf require p i ab)"
  "yields (\<lambda>x. rr_id x = i) (accept e now rehome on p i)"
  "yields (\<lambda>x. rr_id x = i) (dispute e now support on p i reason)"
  "yields (\<lambda>x. rr_id x = i) (confirm_settlement e now p i sb)"
proof -
  note start = yields_then [OF yields_load] yields_bind [of _ _ "guard_h _ _"]
  show "yields (\<lambda>x. rr_id x = i) (classify e now provider threshold p i)" unfolding classify_def
    by (intro start yields_bind [of _ _ "mod_db _"] yields_bind [of _ _ "lift_h (engine_classify _ _ _)"]
        yields_put_id id_steps(3) yields_detail) simp_all
  show "yields (\<lambda>x. rr_id x = i) (assign e now pf require p i ab)" unfolding assign_def
    by (intro start) (auto intro!: yields_end id_steps(4-7) yields_bind [of _ _ "mod_db _"] yields_detail
        split: option.split)
  have put: "advances (\<lambda>_. True) r (if b then (case z of None \<Rightarrow> ret r | Some x \<Rightarrow> put_request (g x)) else ret r)"
    if "\<And>x. sr_id (g x) = sr_id r" for b z g and r :: service_request
    using that by (auto intro!: advances_simple row_id.advances_put split: option.split)
  show "yields (\<lambda>x. rr_id x = i) (accept e now rehome on p i)" unfolding accept_def
    by (intro start id_steps(1) yields_moves [OF put] yields_detail) simp_all
  show "yields (\<lambda>x. rr_id x = i) (dispute e now support on p i reason)" unfolding dispute_def
    by (intro start id_steps(1) yields_put_id yields_moves [OF put] yields_detail) simp_all
  show "yields (\<lambda>x. rr_id x = i) (confirm_settlement e now p i sb)" unfolding confirm_settlement_def
    by (rule yields_then [OF yields_load_row])
      (auto intro!: yields_end id_steps(1) yields_put_id yields_detail split: option.split)
qed

lemma yields_lists:
  "yields (\<lambda>y. length (pg_items y) \<le> 100) (list_requests p f c l)"
  "yields (list_all (\<lambda>m. rm_request_id m = i)) (get_messages e files p i)"
  "yields (\<lambda>m. rm_request_id m = i) (post_message e now files new_id p i mb)"
proof -
  have "length (pg_items (page_of (page_limit l) rows)) \<le> 100" for rows
    by (simp add: page_of_def Let_def page_limit_def max_page_limit_def)
  then show "yields (\<lambda>y. length (pg_items y) \<le> 100) (list_requests p f c l)"
    unfolding list_requests_def by (intro yields_bind yields_end)
  have "list_all (\<lambda>m. rm_request_id m = i) (map (read_message rt files j) (list_messages i b d))" for rt j b d
    by (auto simp: list_all_iff read_message_def list_messages_def)
  then show "yields (list_all (\<lambda>m. rm_request_id m = i)) (get_messages e files p i)"
    unfolding get_messages_def
    by (intro yields_then [OF yields_load]) (auto intro!: yields_bind yields_end)
  show "yields (\<lambda>m. rm_request_id m = i) (post_message e now files new_id p i mb)"
    unfolding post_message_def Let_def
    by (intro yields_then [OF yields_load] yields_bind) (simp add: yields_end read_message_def)
qed

lemma yields_created: "yields (\<lambda>(c, y). (c = 200 \<or> c = 201) \<and> (case y of R_request r \<Rightarrow> True | _ \<Rightarrow> False)) (created_reply h)"
  unfolding created_reply_def by (intro yields_bind) (auto intro: yields_end split: prod.split)

text \<open>C9. Every answer has its type: a call that succeeds is answered with the code and the schema of its
  route, a card is the card of the request the call names, a page has at most 100 requests, and the
  messages are those of the request.
\<close>

theorem replies_are_typed:
  assumes "serve w now new_id credentials call d = (Inr (c, y), d')"
  shows "answers call c y"
proof -
  obtain p where p: "get_current_principal w credentials = Inr p"
    using assms by (auto simp: serve_def split: sum.splits)
  have policy: "yields Q (with_policy w f)" if "\<And>policy. yields Q (f policy)" for Q and f :: "sla_policy \<Rightarrow> 'z handler"
    unfolding with_policy_def by (intro yields_bind that)
  have card: "yields (\<lambda>a. detail_of (Some i) (R_detail a)) h" if "yields (\<lambda>x. rr_id x = i) h" for i h
    using that by (simp add: detail_of_def eq_commute)
  have gate: "yields Q (bind_h (require_service_principal p) f)" "yields Q (bind_h (require_staff_admin p) f)"
    if "yields Q (f ())" for Q and f :: "unit \<Rightarrow> 'z handler"
    using that by (simp_all add: yields_bind)
  have any: "yields (\<lambda>x. True) h" for h :: "'z handler" by (simp add: yields_def)
  have "yields (\<lambda>(c, y). answers call c y) (serve_request w now new_id p call)"
    by (cases call) (simp_all add: route_defs yields_created yields_reply gate card policy yields_cards
        yields_cards2 yields_lists any yields_bind yields_end)
  from yields_serve [OF this assms p] show ?thesis .
qed

section \<open>Failures\<close>

text \<open>Handlers that never commit, and handlers that leave the database alone when they fail.\<close>

definition calm :: "'a handler \<Rightarrow> bool" where
  "calm h \<longleftrightarrow> (\<forall>s. se_durable (snd (h s)) = se_durable s)"

definition atomic :: "'a handler \<Rightarrow> bool" where
  "atomic h \<longleftrightarrow> (\<forall>s x s'. h s = (Inl x, s') \<longrightarrow> se_durable s' = se_durable s)"

named_theorems calm_intros \<open>handlers that fail without a trace\<close>

lemma calm_steps [calm_intros]:
  "calm (ret a)" "calm (raise_h x)" "calm (problem_h pb)" "calm (lift_h z)" "calm (guard_h b pb)"
  "calm get_db" "calm (mod_db f)" "calm rollback_h"
  by (simp_all add: calm_def ret_def raise_h_def problem_h_def lift_h_def guard_h_def get_db_def mod_db_def
      rollback_h_def rollback_def)

lemma calm_bind [calm_intros]:
  assumes "calm m" "\<And>a. calm (f a)" shows "calm (bind_h m f)"
  using assms by (auto simp: calm_def bind_h_def split: sum.split prod.split) (metis snd_conv)+

lemma calm_if [calm_intros]: "calm f \<Longrightarrow> calm g \<Longrightarrow> calm (if b then f else g)"
  by simp

lemma calm_option [calm_intros]: "calm f \<Longrightarrow> (\<And>x. calm (g x)) \<Longrightarrow> calm (case z of None \<Rightarrow> f | Some x \<Rightarrow> g x)"
  by (cases z) simp_all

lemma atomic_calm: "calm h \<Longrightarrow> atomic h"
  unfolding calm_def atomic_def by (metis snd_conv)

lemma atomic_bind [calm_intros]: "calm m \<Longrightarrow> (\<And>a. atomic (f a)) \<Longrightarrow> atomic (bind_h m f)"
  unfolding atomic_def calm_def bind_h_def
  by (auto split: sum.splits prod.splits) (metis snd_conv)+

lemma atomic_commit [calm_intros]: "atomic commit_h" "atomic (bind_h commit_h (\<lambda>_. ret a))"
  by (auto simp: atomic_def commit_h_def bind_h_def ret_def)

lemma atomic_if [calm_intros]: "atomic f \<Longrightarrow> atomic g \<Longrightarrow> atomic (if b then f else g)"
  by simp

lemma atomic_option [calm_intros]:
  "atomic f \<Longrightarrow> (\<And>x. atomic (g x)) \<Longrightarrow> atomic (case z of None \<Rightarrow> f | Some x \<Rightarrow> g x)"
  by (cases z) simp_all

lemma atomic_ret: "atomic m \<Longrightarrow> atomic (bind_h m (\<lambda>a. ret (f a)))"
  by (auto simp: atomic_def bind_h_def ret_def split: sum.splits prod.splits)

lemma atomic_try: "atomic m \<Longrightarrow> (\<And>x. atomic (h x)) \<Longrightarrow> atomic (try_h m h)"
  by (auto simp: atomic_def try_h_def split: sum.splits prod.splits)

lemma calm_parts [calm_intros]:
  "calm (load_visible p i)" "calm (load_for_update i)" "calm (put_request r)"
  "calm (apply_transition e now p r t)" "calm (find_key k)" "calm (flush_request r)"
  unfolding load_visible_def load_for_update_def put_request_def apply_transition_def find_key_def flush_request_def
  by (intro calm_intros)+

lemma calm_composed [calm_intros]:
  "calm (advance_partner_status e now p r s policy)" "calm (route_status e now p r c)"
  "calm (apply_manual r partner)" "calm (apply_auto now pf r category area)"
  "calm (orchestrate_service_order pf require r category)" "calm (route_to_assigned e now p r)"
  unfolding advance_partner_status_def start_perform_clock_def route_status_def apply_manual_def
    apply_auto_def orchestrate_service_order_def route_to_assigned_def
  by (intro calm_intros)+

lemma calm_try [calm_intros]: "calm m \<Longrightarrow> (\<And>x. calm (h x)) \<Longrightarrow> calm (try_h m h)"
  by (auto simp: calm_def try_h_def split: sum.split prod.split) (metis snd_conv)+

lemma calm_reads [calm_intros]:
  "calm (get_detail e now p i)" "calm (list_requests p f c l)" "calm (get_requester_context rehome p i)"
  "calm (get_messages e files p i)" "calm (get_or_404 i)"
  unfolding get_detail_def list_requests_def get_requester_context_def get_messages_def get_or_404_def
  by (intro calm_intros)+

lemma atomic_services [calm_intros]:
  "atomic (transition e now p i t)" "atomic (cancel e now p i reason)" "atomic (reschedule e now p i t')"
  "atomic (classify e now provider threshold p i)" "atomic (assign e now pf require p i ab)"
  "atomic (accept e now rehome on p i)" "atomic (dispute e now support on p i reason)"
  "atomic (confirm_settlement e now p i sb)" "atomic (respond e now policy new_id p i pb)"
  unfolding transition_def cancel_def reschedule_def Let_def classify_def assign_def accept_def dispute_def
    confirm_settlement_def respond_def
  by (intro calm_intros atomic_calm [of "lift_h _"] atomic_calm [of "problem_h _"])+

lemma atomic_intake [calm_intros]: "atomic (intake e now new_id p a)"
proof -
  have "atomic (bind_h (announce_created e now p r) (\<lambda>_. ret (r, True)))" for r
    unfolding announce_created_def by (intro atomic_ret calm_intros)
  note announced = this
  show ?thesis unfolding intake_def intake_insert_def Let_def
    by (intro announced calm_intros atomic_calm [of "ret _"])
qed

lemma atomic_rest [calm_intros]:
  "atomic (create_from_form e now new_id p body key)" "atomic (create_from_chat e now new_id p chat)"
  "atomic (create_from_ticket e now new_id p ticket)" "atomic (post_message e now files new_id p i mb)"
  "atomic (create_channel new_id cb)" "atomic (update_channel i ub)"
  "atomic (subscribe now new_id p sb)" "atomic (unsubscribe p x)"
proof -
  show "atomic (create_from_form e now new_id p body key)" "atomic (create_from_chat e now new_id p chat)"
    "atomic (create_from_ticket e now new_id p ticket)"
    unfolding create_from_form_def create_from_chat_def create_from_ticket_def by (intro calm_intros)+
  show "atomic (post_message e now files new_id p i mb)" "atomic (update_channel i ub)" "atomic (unsubscribe p x)"
    unfolding post_message_def update_channel_def unsubscribe_def Let_def by (intro calm_intros)+
  show "atomic (subscribe now new_id p sb)"
    unfolding subscribe_def Let_def by (cases "push_owner p") (simp, intro calm_intros)
  show "atomic (create_channel new_id cb)"
    unfolding create_channel_def commit_config_def Let_def
    by (intro atomic_ret atomic_try calm_intros atomic_calm [of "raise_h _"] atomic_calm [of "problem_h _"])
qed


section \<open>Instances\<close>

definition demo_done :: db where
  "demo_done = demo_db [demo_request 10 1 S_DONE] []"

lemma demo_policy_ok: "\<exists>policy. policy_from_settings (w_settings (demo_world p)) = Inr policy"
proof -
  have "is_ok (policy_from_settings (w_settings (demo_world demo_operator)))" by code_simp
  moreover have "w_settings (demo_world p) = w_settings (demo_world demo_operator)"
    by (simp add: w_settings_def demo_world_def)
  ultimately show ?thesis by (auto simp: is_ok_def split: sum.splits)
qed

lemma demo_principal: "get_current_principal (demo_world p) (Some []) = Inr p"
  by (simp add: get_current_principal_def w_settings_def demo_world_def u_def)


definition demo_stranger :: principal where
  "demo_stranger = demo_requester\<lparr>p_user_id := 9\<rparr>"


lemma replies_are_typed_witness:
  "detail_of (Some 10) (snd (projr (fst (serve (demo_world demo_requester) 0 1 (Some []) (Get_request 10) demo_done))))"
proof -
  let ?run = "serve (demo_world demo_requester) 0 1 (Some []) (Get_request 10) demo_done"
  have "is_ok (fst ?run)" by code_simp
  then obtain z where z: "fst ?run = Inr z" by (auto simp: is_ok_def split: sum.splits)
  obtain c y where cy: "z = (c, y)" by (cases z)
  have "?run = (Inr (c, y), snd ?run)" using z cy by (metis prod.collapse)
  from replies_are_typed [OF this] show ?thesis by (simp add: z cy)
qed


end
