(* ===== verification/Pages.thy ===== *)
theory Pages
  imports Requests Demo
begin

text \<open>
  Reading a list page by page: following the cursors from the first page gives every visible request
  that matches the filters exactly once, in the order of the list.
\<close>

definition all_rows :: "principal \<Rightarrow> request_filters \<Rightarrow> db \<Rightarrow> service_request list" where
  "all_rows p f d = rev (sort_key page_key (filter (\<lambda>r. visible p r \<and> filter_match f r) (db_requests d)))"

text \<open>What a client does that reads on while there is a next cursor; at most \<open>k\<close> pages.\<close>

fun read_pages ::
    "nat \<Rightarrow> principal \<Rightarrow> request_filters \<Rightarrow> nat option \<Rightarrow> pystr option \<Rightarrow> db \<Rightarrow> request_read list" where
  "read_pages 0 p f limit cursor d = []"
| "read_pages (Suc k) p f limit cursor d = (case fst (run_endpoint (list_requests p f cursor limit) d) of
       Inl _ \<Rightarrow> []
     | Inr page \<Rightarrow> pg_items page @ (case pg_next_cursor page of
         None \<Rightarrow> [] | Some c \<Rightarrow> read_pages k p f limit (Some c) d))"

section \<open>The order of the list\<close>

lemma page_key_inject: "page_key a = page_key b \<Longrightarrow> sr_id a = sr_id b"
  by (simp add: page_key_def word_uint_eq_iff)

lemma all_rows_desc:
  assumes "distinct (map sr_id (db_requests d))"
  shows "sorted_wrt (\<lambda>a b. page_key b < page_key a) (all_rows p f d)"
proof -
  let ?xs = "filter (\<lambda>r. visible p r \<and> filter_match f r) (db_requests d)"
  let ?ys = "sort_key page_key ?xs"
  have ids: "distinct ?xs" "inj_on sr_id (set (db_requests d))"
    using assms by (simp_all add: distinct_map)
  have "inj_on page_key (set ?xs)"
  proof (rule inj_onI)
    fix a b assume "a \<in> set ?xs" "b \<in> set ?xs" "page_key a = page_key b"
    then show "a = b" using inj_onD [OF ids(2) page_key_inject] by simp
  qed
  then have "distinct (map page_key ?ys)" using ids(1) by (simp add: distinct_map)
  moreover have "sorted (map page_key ?ys)" by simp
  ultimately have "sorted_wrt (<) (map page_key ?ys)" unfolding strict_sorted_iff by (rule conjI [rotated])
  then have "sorted_wrt (\<lambda>a b. page_key a < page_key b) ?ys" by (simp only: sorted_wrt_map)
  then show ?thesis by (simp only: all_rows_def sorted_wrt_rev)
qed

lemma after_cursor_key: "after_cursor (Some (sr_created_at x, sr_id x)) r \<longleftrightarrow> page_key r < page_key x"
  by (auto simp: after_cursor_def page_key_def word_less_def)

lemma list_visible_rows:
  "list_visible p f c n d = take (n + 1) (filter (after_cursor c) (all_rows p f d))"
proof -
  have "filter (after_cursor c) (all_rows p f d) = rev (filter (after_cursor c)
      (sort_key page_key (filter (\<lambda>r. visible p r \<and> filter_match f r) (db_requests d))))"
    by (simp add: all_rows_def rev_filter)
  then show ?thesis
    by (simp add: list_visible_def filter_sort conj_commute conj_left_commute)
qed

lemma rows_after:
  assumes "sorted_wrt (\<lambda>a b. page_key b < page_key a) (ys @ zs)" "ys \<noteq> []"
  shows "filter (after_cursor (Some (sr_created_at (last ys), sr_id (last ys)))) (ys @ zs) = zs"
proof -
  have "\<not> page_key y < page_key (last ys)" if "y \<in> set ys" for y
  proof -
    from split_list_last [OF that] obtain a b where ab: "ys = a @ y # b" by blast
    show ?thesis
    proof (cases b rule: rev_cases)
      case (snoc b' z)
      then have "page_key z < page_key y" using assms(1) by (simp add: ab sorted_wrt_append)
      then show ?thesis by (simp add: ab snoc)
    qed (simp add: ab)
  qed
  moreover have "page_key z < page_key (last ys)" if "z \<in> set zs" for z
    using assms that by (auto simp: sorted_wrt_append)
  ultimately show ?thesis by (simp add: after_cursor_key filter_empty_conv)
qed

section \<open>Reading on\<close>

lemma list_requests_run:
  assumes "\<And>c. cursor = Some c \<Longrightarrow> c \<noteq> [] \<and> decode_cursor c = Inr (utc t, i)"
  shows "fst (run_endpoint (list_requests p f cursor limit) d) = Inr (page_of (page_limit limit)
     (list_visible p f (if cursor = None then None else Some (t, i)) (page_limit limit) d))"
  using assms
  by (cases cursor) (simp_all add: list_requests_def bind_h_def ret_def get_db_def lift_h_def bind_cursor_def host_instant_def
      run_endpoint_def open_session_def dt_instant_def utc_def)

lemma encode_nonempty: "encode_cursor t i \<noteq> []"
proof -
  have "b64_encode (x # xs) \<noteq> []" for x xs by (cases xs; cases "tl xs") simp_all
  then show ?thesis by (cases "iso_utc t") (simp_all add: encode_cursor_def)
qed

lemma read_pages_rest:
  assumes "distinct (map sr_id (db_requests d))"
    "\<forall>r\<in>set (db_requests d). 0 \<le> sr_created_at r \<and> sr_created_at r < max_days * us_per_day"
    "all_rows p f d = ys @ zs" "length zs < k"
    "cursor = (if ys = [] then None else Some (encode_cursor (sr_created_at (last ys)) (sr_id (last ys))))"
  shows "read_pages k p f limit cursor d = map read_request zs"
  using assms(3-5)
proof (induction k arbitrary: ys zs cursor)
  case (Suc k)
  let ?n = "page_limit limit"
  have n: "0 < ?n" by (simp add: page_limit_def default_page_limit_def max_page_limit_def split: option.split)
  have row: "r \<in> set (db_requests d)" if "r \<in> set ys \<union> set zs" for r
    using that Suc.prems(1) by (metis (no_types, lifting) UnE Un_iff all_rows_def filter_is_subset set_append
        set_rev set_sort subset_code(1))
  have desc: "sorted_wrt (\<lambda>a b. page_key b < page_key a) (ys @ zs)"
    using all_rows_desc [OF assms(1), of p f] Suc.prems(1) by simp
  have rest: "list_visible p f (if cursor = None then None else Some (sr_created_at (last ys), sr_id (last ys))) ?n d
      = take (?n + 1) zs"
  proof (cases "ys = []")
    case True
    then show ?thesis using Suc.prems(1,3) by (simp add: list_visible_rows after_cursor_def)
  next
    case False
    then show ?thesis using rows_after [OF desc False] Suc.prems(1,3) by (simp add: list_visible_rows)
  qed
  have decoded: "c \<noteq> [] \<and> decode_cursor c = Inr (utc (sr_created_at (last ys)), sr_id (last ys))"
    if "cursor = Some c" for c
  proof -
    have "ys \<noteq> []" "c = encode_cursor (sr_created_at (last ys)) (sr_id (last ys))"
      using that Suc.prems(3) by (auto split: if_splits)
    moreover from this have "last ys \<in> set (db_requests d)" by (intro row) simp
    ultimately show ?thesis using assms(2) by (simp add: encode_nonempty cursor_decodes)
  qed
  let ?page = "page_of ?n (take (?n + 1) zs)"
  have run: "fst (run_endpoint (list_requests p f cursor limit) d) = Inr ?page"
    using list_requests_run [where p = p and f = f and limit = limit and d = d, OF decoded] rest by simp
  show ?case
  proof (cases "?n < length zs")
    case False
    then show ?thesis using run by (simp add: page_of_def Let_def)
  next
    case True
    let ?ys = "ys @ take ?n zs"
    have "zs \<noteq> []" using True by auto
    then have last: "last ?ys = last (take ?n zs)" "?ys \<noteq> []" using n by simp_all
    have "read_pages k p f limit (Some (encode_cursor (sr_created_at (last ?ys)) (sr_id (last ?ys)))) d
        = map read_request (drop ?n zs)"
      by (rule Suc.IH [where ys = ?ys]) (use Suc.prems n True last in simp_all)
    moreover have "pg_next_cursor ?page = Some (encode_cursor (sr_created_at (last ?ys)) (sr_id (last ?ys)))"
      using True last \<open>zs \<noteq> []\<close> n by (simp add: page_of_def Let_def min_def)
    moreover have "pg_items ?page = map read_request (take ?n zs)"
      by (simp add: page_of_def Let_def min_def)
    ultimately show ?thesis using run
      by simp (metis append_take_drop_id map_append)
  qed
qed simp

text \<open>C10. Paging loses and repeats nothing: a client that follows the cursors gets, page after page and
  whatever the page size, exactly the visible requests that match its filters, each once and newest
  first; one page more than there are rows is always enough to reach the end.
\<close>

theorem pages_are_complete:
  assumes "distinct (map sr_id (db_requests d))"
    "\<forall>r\<in>set (db_requests d). 0 \<le> sr_created_at r \<and> sr_created_at r < max_days * us_per_day"
    "length (db_requests d) < k"
  shows "read_pages k p f limit None d = map read_request (all_rows p f d)
    \<and> set (all_rows p f d) = {r \<in> set (db_requests d). visible p r \<and> filter_match f r}
    \<and> sorted_wrt (\<lambda>a b. page_key b < page_key a) (all_rows p f d)"
proof -
  have "length (all_rows p f d) < k"
    using le_less_trans [OF length_filter_le assms(3)] by (simp add: all_rows_def)
  then have "read_pages k p f limit None d = map read_request (all_rows p f d)"
    by (intro read_pages_rest [OF assms(1,2), of p f "[]"]) simp_all
  then show ?thesis using all_rows_desc [OF assms(1)] by (simp add: all_rows_def)
qed

definition demo_two :: db where
  "demo_two = demo_db [demo_request 10 1 S_DONE, demo_request 11 2 S_NEW] []"

definition no_filters :: request_filters where
  "no_filters = \<lparr>rf_status = None, rf_category = None, rf_partner_id = None, rf_created_from = None,
     rf_created_to = None\<rparr>"

lemma pages_are_complete_witness:
  "map rr_id (read_pages 3 demo_operator no_filters (Some 1) None demo_two) = [11, 10]"
proof -
  have "read_pages 3 demo_operator no_filters (Some 1) None demo_two
      = map read_request (all_rows demo_operator no_filters demo_two)"
    using pages_are_complete [of demo_two 3 demo_operator no_filters "Some 1"]
    by (simp add: demo_two_def demo_db_def demo_request_def max_days_def us_units)
  moreover have "map sr_id (all_rows demo_operator no_filters demo_two) = [11, 10]" by code_simp
  moreover have "rr_id \<circ> read_request = sr_id" by (simp add: fun_eq_iff read_request_def)
  ultimately show ?thesis by simp
qed

end
