(* ===== verification/Walk.thy ===== *)
theory Walk
  imports Demo Timers
begin

text \<open>
  What a dispatch does, as a whole: the channels of the partner and then of the fallback partners
  form one plan, attempts are numbered along it, and the walk ends with the first that succeeds.
\<close>

section \<open>The plan\<close>

definition channel_plan :: "pystr option list \<Rightarrow> db \<Rightarrow> (pystr \<times> channel_config) list" where
  "channel_plan ps d = concat (map (\<lambda>q. map (Pair q) (active_channels_for q d)) (List.map_filter id ps))"

definition attempt_of :: "instant \<Rightarrow> service_request \<Rightarrow> channel_config \<Rightarrow> nat \<Rightarrow> delivery_result \<Rightarrow> dispatch_attempt" where
  "attempt_of now r c n res = \<lparr>da_request_id = sr_id r, da_channel_type = pc_channel_type c,
     da_attempt_no = n, da_status = dr_outcome res, da_provider_response = Some (dr_provider_response res),
     da_idempotency_key = attempt_key (sr_id r) n, da_outbox_ref = None, da_ts = now\<rparr>"

fun run_plan ::
    "resolver \<Rightarrow> instant \<Rightarrow> service_request \<Rightarrow> (pystr \<times> channel_config) list \<Rightarrow> nat
     \<Rightarrow> exn + (dispatch_attempt list \<times> (pystr \<times> channel_config) option)" where
  "run_plan rv now r [] n = Inr ([], None)"
| "run_plan rv now r ((q, c) # plan) n =
     bindE (attempt_delivery rv r c (Suc n)) (\<lambda>res.
       let a = attempt_of now r c (Suc n) res in
       if is_success (dr_outcome res) then Inr ([a], Some (q, c))
       else bindE (run_plan rv now r plan (Suc n)) (\<lambda>(as, found). Inr (a # as, found)))"

definition add_attempts :: "dispatch_attempt list \<Rightarrow> session \<Rightarrow> session" where
  "add_attempts as s = s\<lparr>se_working := (se_working s)\<lparr>db_attempts := db_attempts (se_working s) @ as\<rparr>\<rparr>"

lemma add_attempts_simps [simp]:
  "add_attempts [] s = s" "add_attempts bs (add_attempts as s) = add_attempts (as @ bs) s"
  "se_durable (add_attempts as s) = se_durable s"
  "db_requests (se_working (add_attempts as s)) = db_requests (se_working s)"
  "db_attempts (se_working (add_attempts as s)) = db_attempts (se_working s) @ as"
  by (simp_all add: add_attempts_def)

lemma active_channels_attempts [simp]:
  "active_channels_for q (se_working (add_attempts as s)) = active_channels_for q (se_working s)"
  by (simp add: active_channels_for_def add_attempts_def)

lemma channel_plan_attempts [simp]:
  "channel_plan ps (se_working (add_attempts as s)) = channel_plan ps (se_working s)"
  by (simp add: channel_plan_def)

lemma run_plan_append:
  "run_plan rv now r (xs @ ys) n = bindE (run_plan rv now r xs n) (\<lambda>(as, found).
     if found \<noteq> None then Inr (as, found)
     else bindE (run_plan rv now r ys (n + length xs)) (\<lambda>(bs, found). Inr (as @ bs, found)))"
proof (induction xs arbitrary: n)
  case Nil
  then show ?case by (cases "run_plan rv now r ys n") auto
next
  case (Cons x xs)
  then show ?case
    by (cases x; cases "attempt_delivery rv r (snd x) (Suc n)"; cases "run_plan rv now r xs (Suc n)";
        cases "run_plan rv now r ys (Suc (n + length xs))") (auto simp: Let_def)
qed

lemma try_channels_plan:
  "run_plan rv now r (map (Pair q) cs) n = Inr (as, found) \<Longrightarrow>
   try_channels rv now r cs n s = (Inr (n + length as, map_option snd found), add_attempts as s)
   \<and> (found = None \<longrightarrow> length as = length cs) \<and> (\<forall>x. found = Some x \<longrightarrow> fst x = q)"
proof (induction cs arbitrary: n as s)
  case (Cons c cs)
  obtain res where res: "attempt_delivery rv r c (Suc n) = Inr res"
    using Cons.prems by (cases "attempt_delivery rv r c (Suc n)") auto
  let ?a = "attempt_of now r c (Suc n) res"
  have step: "try_channels rv now r (c # cs) n s =
      (if is_success (dr_outcome res) then (Inr (Suc n, Some c), add_attempts [?a] s)
       else try_channels rv now r cs (Suc n) (add_attempts [?a] s))"
    by (simp add: bind_h_def lift_h_def res mod_db_def ret_def add_attempts_def add_attempt_def attempt_of_def)
  show ?case
  proof (cases "is_success (dr_outcome res)")
    case True
    then show ?thesis using Cons.prems step by (auto simp: res Let_def)
  next
    case False
    then obtain bs where bs: "run_plan rv now r (map (Pair q) cs) (Suc n) = Inr (bs, found)" "as = ?a # bs"
      using Cons.prems by (cases "run_plan rv now r (map (Pair q) cs) (Suc n)") (auto simp: res Let_def)
    then show ?thesis using Cons.IH [OF bs(1)] step False by simp
  qed
qed (simp add: ret_def)

lemma try_partners_plan:
  "run_plan rv now r (channel_plan ps (se_working s)) n = Inr (as, found) \<Longrightarrow>
   try_partners rv now r ps n s = (Inr found, add_attempts as s)"
proof (induction ps arbitrary: n as s)
  case (Cons p ps)
  show ?case
  proof (cases p)
    case None
    then show ?thesis using Cons by (simp add: channel_plan_def map_filter_simps)
  next
    case (Some q)
    let ?cs = "active_channels_for q (se_working s)"
    have plan: "channel_plan (p # ps) (se_working s) = map (Pair q) ?cs @ channel_plan ps (se_working s)"
      by (simp add: channel_plan_def Some map_filter_simps)
    then obtain bs z where bs: "run_plan rv now r (map (Pair q) ?cs) n = Inr (bs, z)"
      using Cons.prems by (auto simp: run_plan_append bindE_Inr_iff)
    note walk = try_channels_plan [OF bs, of s]
    show ?thesis
    proof (cases z)
      case None
      then obtain cs where "run_plan rv now r (channel_plan ps (se_working s)) (n + length ?cs) = Inr (cs, found)"
          "as = bs @ cs"
        using Cons.prems bs by (auto simp: plan run_plan_append bindE_Inr_iff)
      then show ?thesis
        using Cons.IH [of "add_attempts bs s" "n + length ?cs" cs] walk None
        by (simp add: Some bind_h_def get_db_def)
    next
      case (Some x)
      then have "as = bs" "found = Some x"
        using Cons.prems bs by (auto simp: plan run_plan_append bindE_Inr_iff)
      then show ?thesis
        using walk Some \<open>p = Some q\<close> by (cases x) (simp add: bind_h_def get_db_def ret_def)
    qed
  qed
qed (simp add: channel_plan_def map_filter_simps ret_def)

section \<open>First success\<close>

lemma run_plan_total:
  "\<forall>(q, c)\<in>set plan. \<forall>k. is_ok (attempt_delivery rv r c k) \<Longrightarrow> \<exists>as found. run_plan rv now r plan n = Inr (as, found)"
proof (induction plan arbitrary: n)
  case (Cons x plan)
  obtain q c where x: "x = (q, c)" by (cases x)
  then obtain res where res: "attempt_delivery rv r c (Suc n) = Inr res"
    using Cons.prems by (fastforce simp: is_ok_def split: sum.splits)
  obtain bs z where "run_plan rv now r plan (Suc n) = Inr (bs, z)" using Cons by fastforce
  then show ?case by (simp add: x res Let_def)
qed simp

lemma run_plan_shape:
  assumes "run_plan rv now r plan n = Inr (as, found)"
  shows "map da_attempt_no as = [Suc n..<Suc n + length as]
    \<and> map da_channel_type as = map (pc_channel_type \<circ> snd) (take (length as) plan)
    \<and> (\<forall>a\<in>set (butlast as). \<not> is_success (da_status a))
    \<and> (case found of
         None \<Rightarrow> length as = length plan \<and> (\<forall>a\<in>set as. \<not> is_success (da_status a))
       | Some x \<Rightarrow> as \<noteq> [] \<and> length as \<le> length plan \<and> is_success (da_status (last as)) \<and> x = plan ! (length as - 1))"
  using assms
proof (induction plan arbitrary: n as)
  case (Cons x plan)
  obtain q c where x: "x = (q, c)" by (cases x)
  obtain res where res: "attempt_delivery rv r c (Suc n) = Inr res"
    using Cons.prems x by (cases "attempt_delivery rv r c (Suc n)") auto
  show ?case
  proof (cases "is_success (dr_outcome res)")
    case True
    then show ?thesis using Cons.prems by (auto simp: x res Let_def attempt_of_def)
  next
    case False
    then obtain bs where bs: "run_plan rv now r plan (Suc n) = Inr (bs, found)"
        "as = attempt_of now r c (Suc n) res # bs"
      using Cons.prems by (cases "run_plan rv now r plan (Suc n)") (auto simp: x res Let_def)
    have "[Suc n..<Suc n + length as] = Suc n # [Suc (Suc n)..<Suc (Suc n) + length bs]"
      by (simp add: bs(2) upt_conv_Cons del: upt_Suc)
    then have "map da_attempt_no as = [Suc n..<Suc n + length as]"
      using Cons.IH [OF bs(1)] by (simp add: bs(2) attempt_of_def)
    moreover note Cons.IH [OF bs(1), THEN conjunct2] False
    ultimately show ?thesis
      by (intro conjI; cases bs) (auto simp: bs(2) x attempt_of_def split: option.splits)
  qed
qed simp

text \<open>C17. A dispatch is the walk of its plan to the first success: with deliveries that answer, the
  channels of the partner and then of each fallback partner, by priority, are tried one by one and
  nothing behind the first success is; every attempt is recorded, numbered on from the last one,
  and the partner and channel returned are those of the success.
\<close>

theorem dispatch_is_first_success:
  assumes "\<forall>(q, c)\<in>set (channel_plan ps (se_working s)). \<forall>k. is_ok (attempt_delivery rv r c k)"
  shows "\<exists>as found. try_partners rv now r ps n s = (Inr found, add_attempts as s)
    \<and> map da_attempt_no as = [Suc n..<Suc n + length as]
    \<and> map da_channel_type as = map (pc_channel_type \<circ> snd) (take (length as) (channel_plan ps (se_working s)))
    \<and> (\<forall>a\<in>set (butlast as). \<not> is_success (da_status a))
    \<and> (case found of
         None \<Rightarrow> length as = length (channel_plan ps (se_working s)) \<and> (\<forall>a\<in>set as. \<not> is_success (da_status a))
       | Some x \<Rightarrow> as \<noteq> [] \<and> length as \<le> length (channel_plan ps (se_working s))
           \<and> is_success (da_status (last as)) \<and> x = channel_plan ps (se_working s) ! (length as - 1))"
proof -
  obtain as found where run: "run_plan rv now r (channel_plan ps (se_working s)) n = Inr (as, found)"
    using run_plan_total [OF assms] by blast
  from try_partners_plan [OF run] run_plan_shape [OF run] show ?thesis by blast
qed

section \<open>What the partners get to see\<close>

lemma attempt_raw_input: "attempt_delivery rv (r\<lparr>sr_raw_input := x\<rparr>) c n = attempt_delivery rv r c n"
proof -
  have "build_payload (r\<lparr>sr_raw_input := x\<rparr>) n = build_payload r n"
    by (cases "sr_category r") (simp_all add: build_payload_def)
  then show ?thesis by (simp add: attempt_delivery_def)
qed

lemma try_channels_raw_input: "try_channels rv now (r\<lparr>sr_raw_input := x\<rparr>) cs n = try_channels rv now r cs n"
  by (induction cs arbitrary: n) (simp_all add: attempt_raw_input cong: if_cong)

text \<open>C19. What a requester wrote stays with those who may see it: partners are sent the masked text only
  (a dispatch does the same, message for message and record for record, whatever the raw text is),
  and the card of a subject that may not see the raw text does not depend on it.
\<close>

theorem raw_input_is_private:
  assumes "\<not> can_see_raw_input p r"
  shows "try_partners rv now (r\<lparr>sr_raw_input := x\<rparr>) ps n = try_partners rv now r ps n
    \<and> build_detail e now p (r\<lparr>sr_raw_input := x\<rparr>) es = build_detail e now p r es"
proof
  show "try_partners rv now (r\<lparr>sr_raw_input := x\<rparr>) ps n = try_partners rv now r ps n"
  proof (induction ps arbitrary: n)
    case (Cons q ps)
    then show ?case by (cases q) (simp_all add: try_channels_raw_input cong: option.case_cong)
  qed simp
  have "can_see_raw_input p (r\<lparr>sr_raw_input := x\<rparr>) = can_see_raw_input p r"
    by (cases "is_agent p"; cases "p_on_behalf_of p") (simp_all add: can_see_raw_input_def)
  then show "build_detail e now p (r\<lparr>sr_raw_input := x\<rparr>) es = build_detail e now p r es"
    using assms by (simp add: build_detail_def Let_def)
qed

lemma raw_input_is_private_witness:
  "build_detail demo_env 0 demo_partner ((demo_request 10 1 S_DONE)\<lparr>sr_raw_input := u ''other''\<rparr>) []
     = build_detail demo_env 0 demo_partner (demo_request 10 1 S_DONE) []"
proof -
  have "\<not> can_see_raw_input demo_partner (demo_request 10 1 S_DONE)" by code_simp
  from raw_input_is_private [OF this] show ?thesis by blast
qed

section \<open>A request cancelled in the meantime\<close>


section \<open>Instances\<close>

definition demo_resolver :: resolver where
  "demo_resolver c payload = Inr \<lparr>dr_outcome = (if pc_collaborator_id c = u ''p1'' then DO_FAILED else DO_SENT),
     dr_provider_response = [], dr_external_ref = None\<rparr>"

definition demo_late :: service_request where
  "demo_late = (demo_request 10 1 S_CANCELLED)\<lparr>sr_dispatched_at := Some demo_friday\<rparr>"

definition demo_waiting :: session where
  "demo_waiting = open_session (demo_db [demo_late] [demo_channel 5 ''p1'' CT_API, demo_channel 6 ''p2'' CT_EMAIL])"

lemma demo_plan:
  "channel_plan [Some (u ''p1''), Some (u ''p2'')] (se_working demo_waiting)
     = [(u ''p1'', demo_channel 5 ''p1'' CT_API), (u ''p2'', demo_channel 6 ''p2'' CT_EMAIL)]"
  by code_simp

lemma dispatch_is_first_success_witness:
  "map da_attempt_no (db_attempts (se_working (snd (try_partners demo_resolver 0 demo_late
     [Some (u ''p1''), Some (u ''p2'')] 3 demo_waiting)))) = [4, 5]"
proof -
  let ?ps = "[Some (u ''p1''), Some (u ''p2'')]"
  have "is_ok (attempt_delivery demo_resolver demo_late c k)" for c k
  proof -
    have "\<exists>x. build_payload demo_late k = Inr x"
      by (simp add: build_payload_def demo_late_def demo_request_def)
    then show ?thesis by (auto simp: attempt_delivery_def demo_resolver_def is_ok_def)
  qed
  then have "\<forall>(q, c)\<in>set (channel_plan ?ps (se_working demo_waiting)). \<forall>k. is_ok (attempt_delivery demo_resolver demo_late c k)"
    by auto
  from dispatch_is_first_success [OF this, of 0 3] obtain as found where
    run: "try_partners demo_resolver 0 demo_late ?ps 3 demo_waiting = (Inr found, add_attempts as demo_waiting)"
    and nos: "map da_attempt_no as = [Suc 3..<Suc 3 + length as]"
    and found: "case found of None \<Rightarrow> True | Some x \<Rightarrow> as \<noteq> [] \<and> length as \<le> 2
      \<and> x = channel_plan ?ps (se_working demo_waiting) ! (length as - 1)"
    by (auto simp: demo_plan split: option.splits)
  have "map_option fst (projr (fst (try_partners demo_resolver 0 demo_late ?ps 3 demo_waiting))) = Some (u ''p2'')"
    by code_simp
  then have "map_option fst found = Some (u ''p2'')" unfolding run by simp
  then obtain x where "found = Some x" "fst x = u ''p2''" by auto
  moreover have "u ''p1'' \<noteq> u ''p2''" by (simp add: u_def)
  ultimately have "length as = 2"
    using found unfolding demo_plan by (cases as; cases "tl as") auto
  moreover have "db_attempts (se_working demo_waiting) = []" by code_simp
  ultimately show ?thesis unfolding run by (simp add: nos upt_rec)
qed

definition demo_order :: outbox_message where
  "demo_order = \<lparr>om_id = 0, om_kind = dispatch_kind, om_payload = [(u ''request_id'', JStr (uuid_str 10))],
     om_status = OB_PROCESSING, om_attempts = 1, om_available_at = 0, om_last_error = None, om_created_at = 0,
     om_processed_at = None\<rparr>"


end
