(* ===== verification/Receipt.thy ===== *)
theory Receipt
  imports Walk Adapters
begin

text \<open>
  What a dispatch that is reported as done rests on, over the real channels: somebody on the
  partner's side took the order. The contracts of the channels (\<open>Adapters\<close>) meet the walk over
  the plan (\<open>Walk\<close>).
\<close>

section \<open>The channel took the order\<close>

definition taken :: "pyrt \<Rightarrow> net \<Rightarrow> (mail \<Rightarrow> smtp_result) \<Rightarrow> channel_config \<Rightarrow> pystr \<Rightarrow> bool" where
  "taken rt net smtp c number \<longleftrightarrow> (case pc_channel_type c of
       CT_MOCK \<Rightarrow> True
     | CT_EMAIL \<Rightarrow> (\<exists>m. smtp m = Smtp_sent \<and> ml_to m = conf_text rt (pc_config c) (u ''email'') []
         \<and> contains_sub number (ml_subject m))
     | _ \<Rightarrow> (\<exists>url q r j. net c url q = Inr r \<and> hr_status r < 400 \<and> hq_json q = Some j \<and> says number j))"

lemma email_taken:
  assumes "email_deliver rt st smtp config p = Inr res" "is_success (dr_outcome res)"
  shows "\<exists>m. smtp m = Smtp_sent \<and> ml_to m = conf_text rt config (u ''email'') []
    \<and> contains_sub (dp_number p) (ml_subject m)"
proof -
  have failed: "\<not> is_success (dr_outcome (failed_with t))" for t by (simp add: failed_with_def is_success_def)
  then obtain m where m: "build_message st (conf_text rt config (u ''email'') []) p = Inr m"
    using assms by (cases "build_message st (conf_text rt config (u ''email'') []) p")
      (auto simp: email_deliver_def Let_def split: if_splits)
  moreover have "smtp m = Smtp_sent"
    using assms m failed by (cases "smtp m") (auto simp: email_deliver_def Let_def split: if_splits)
  moreover from m have "ml_to m = conf_text rt config (u ''email'') []"
    "ml_subject m = new_request_text @ dp_number p @ u '' ['' @ dp_category p @ u '']''"
    by (auto simp: build_message_def make_mail_def split: if_splits)
  ultimately show ?thesis by (metis contains_self(3))
qed

lemma resolver_taken:
  assumes "http_resolver rt st net smtp c p = Inr res" "is_success (dr_outcome res)"
  shows "taken rt net smtp c (dp_number p)"
  using assms email_taken success_answered_channels
  by (cases "pc_channel_type c")
    (fastforce simp: http_resolver_def taken_def Let_def split: option.splits if_splits)+

lemma attempt_taken:
  assumes "attempt_delivery (http_resolver rt st net smtp) r c n = Inr res" "is_success (dr_outcome res)"
  shows "taken rt net smtp c (sr_number r)"
proof -
  obtain p where p: "build_payload r n = Inr p"
    using assms(1) by (cases "build_payload r n") (simp_all add: attempt_delivery_def)
  then have "dp_number p = sr_number r" by (auto simp: build_payload_def split: option.splits)
  moreover have "http_resolver rt st net smtp c p = Inr res"
    using assms p by (auto simp: attempt_delivery_def is_success_def split: sum.splits exn.splits)
  ultimately show ?thesis using resolver_taken assms(2) by fastforce
qed

lemma run_plan_taken:
  "run_plan (http_resolver rt st net smtp) now r plan n = Inr (as, Some (q, c)) \<Longrightarrow>
   (q, c) \<in> set plan \<and> taken rt net smtp c (sr_number r) \<and> da_channel_type (last as) = pc_channel_type c"
proof (induction plan arbitrary: n as)
  case (Cons x plan)
  obtain q' c' where x: "x = (q', c')" by (cases x)
  obtain res where res: "attempt_delivery (http_resolver rt st net smtp) r c' (Suc n) = Inr res"
    using Cons.prems by (auto simp: x bindE_Inr_iff)
  show ?case
  proof (cases "is_success (dr_outcome res)")
    case True
    then show ?thesis using Cons.prems attempt_taken [OF res True] by (auto simp: x res Let_def attempt_of_def)
  next
    case False
    then obtain bs where "run_plan (http_resolver rt st net smtp) now r plan (Suc n) = Inr (bs, Some (q, c))"
        "as = attempt_of now r c' (Suc n) res # bs"
      using Cons.prems by (auto simp: x res Let_def bindE_Inr_iff)
    moreover from this(1) have "bs \<noteq> []" using run_plan_shape by fastforce
    ultimately show ?thesis using Cons.IH by auto
  qed
qed simp

section \<open>The walk fails where the plan does\<close>

lemma try_channels_raises:
  "run_plan rv now r (map (Pair q) cs) n = Inl x \<Longrightarrow> \<exists>s'. try_channels rv now r cs n s = (Inl x, s')"
proof (induction cs arbitrary: n s)
  case (Cons c cs)
  show ?case
  proof (cases "attempt_delivery rv r c (Suc n)")
    case (Inr res)
    then have "\<not> is_success (dr_outcome res)" "run_plan rv now r (map (Pair q) cs) (Suc n) = Inl x"
      using Cons.prems by (auto simp: Let_def bindE_def split: if_splits sum.splits)
    then show ?thesis using Inr Cons.IH by (simp add: bind_h_def lift_h_def mod_db_def)
  qed (use Cons.prems in \<open>simp add: bind_h_def lift_h_def\<close>)
qed simp

lemma try_partners_raises:
  "run_plan rv now r (channel_plan ps (se_working s)) n = Inl x \<Longrightarrow> \<exists>s'. try_partners rv now r ps n s = (Inl x, s')"
proof (induction ps arbitrary: n s)
  case (Cons p ps)
  show ?case
  proof (cases p)
    case None
    then show ?thesis using Cons by (simp add: channel_plan_def map_filter_simps)
  next
    case (Some q)
    let ?cs = "active_channels_for q (se_working s)"
    have plan: "channel_plan (p # ps) (se_working s) = map (Pair q) ?cs @ channel_plan ps (se_working s)"
      by (simp add: channel_plan_def Some map_filter_simps)
    show ?thesis
    proof (cases "run_plan rv now r (map (Pair q) ?cs) n")
      case (Inl y)
      then have "\<exists>s'. try_channels rv now r ?cs n s = (Inl x, s')"
        using Cons.prems try_channels_raises by (simp add: plan run_plan_append)
      then show ?thesis by (auto simp: Some bind_h_def get_db_def)
    next
      case (Inr z)
      obtain as where z: "z = (as, None)" "run_plan rv now r (channel_plan ps (se_working s)) (n + length ?cs) = Inl x"
        using Cons.prems Inr
        by (cases z; cases "snd z"; cases "run_plan rv now r (channel_plan ps (se_working s)) (n + length ?cs)")
          (auto simp: plan run_plan_append split: if_splits)
      have walk: "try_channels rv now r ?cs n s = (Inr (n + length ?cs, None), add_attempts as s)"
        using try_channels_plan [of rv now r q ?cs n as None s] Inr by (simp add: z(1))
      obtain s' where "try_partners rv now r ps (n + length ?cs) (add_attempts as s) = (Inl x, s')"
        using Cons.IH [of "add_attempts as s" "n + length ?cs"] z(2) by auto
      then show ?thesis using walk by (simp add: Some bind_h_def get_db_def)
    qed
  qed
qed (simp add: channel_plan_def map_filter_simps)

section \<open>An honest dispatch\<close>

lemma apply_transition_attempts:
  assumes "apply_transition e now p r t s = (Inr r', s')"
  shows "sr_status r' = t" "db_attempts (se_working s') = db_attempts (se_working s)"
proof -
  let ?d = "add_history (status_history p (sr_id r) (sr_status r) t now)
    (save_request (after_transition now r t) (se_working s))"
  have ok: "can_transition (sr_status r) t"
    using assms by (rule_tac ccontr) (simp add: apply_transition_run ensure_transition_def raise_problem_def)
  then have run: "r' = after_transition now r t"
    "s' = s\<lparr>se_working := emit_transition e now (after_transition now r t) t ?d\<rparr>"
    using assms by (auto simp: apply_transition_run)
  have "outbox_only ?d (emit_transition e now (after_transition now r t) t ?d)"
    using outbox_grows_transition [of e now "after_transition now r t" t] by (simp add: outbox_grows_def)
  from outbox_only_frame(5) [OF this] show "db_attempts (se_working s') = db_attempts (se_working s)"
    by (simp add: run(2) add_history_def save_request_def)
  show "sr_status r' = t" by (simp add: run(1))
qed



text \<open>A partner with a bot, and a request that goes to it.\<close>

definition demo_outgoing :: session where
  "demo_outgoing = open_session (demo_db [demo_late] [demo_bot])"


end
