(* ===== verification/Upkeep.thy ===== *)
theory Upkeep
  imports System
begin

text \<open>
  What the service promises over time: events reach a subscriber that takes them, raw texts are
  anonymised when they expire and nothing else is touched, and an intake with a key happens once.
\<close>

section \<open>A queue that is worked off\<close>

text \<open>
  What a worker needs of its queue to be sure that everything gets through: a round brings nothing
  in, takes a batch of what waits, and what it takes is finished and stays so.
\<close>

locale drained_queue =
  fixes good :: "'q \<Rightarrow> bool" and waiting :: "'q \<Rightarrow> 'm list" and is_finished :: "'q \<Rightarrow> 'i \<Rightarrow> bool"
    and ident :: "'m \<Rightarrow> 'i" and due :: "'m \<Rightarrow> instant" and batch :: nat and round :: "instant \<Rightarrow> 'q \<Rightarrow> 'q"
  assumes stays_good: "good q \<Longrightarrow> \<forall>m\<in>set (waiting q). due m \<le> now \<Longrightarrow> good (round now q)"
    and nothing_new: "good q \<Longrightarrow> \<forall>m\<in>set (waiting q). due m \<le> now \<Longrightarrow>
      set (waiting (round now q)) \<subseteq> set (waiting q)"
    and takes_batch: "good q \<Longrightarrow> \<forall>m\<in>set (waiting q). due m \<le> now \<Longrightarrow>
      length (waiting (round now q)) \<le> length (waiting q) - batch"
    and stays_finished: "good q \<Longrightarrow> \<forall>m\<in>set (waiting q). due m \<le> now \<Longrightarrow>
      is_finished q i \<Longrightarrow> is_finished (round now q) i"
    and moves_on: "good q \<Longrightarrow> \<forall>m\<in>set (waiting q). due m \<le> now \<Longrightarrow> m \<in> set (waiting q) \<Longrightarrow>
      m \<in> set (waiting (round now q)) \<or> is_finished (round now q) (ident m)"
begin

lemma worked_off:
  assumes "good q" "\<forall>m\<in>set (waiting q). due m \<le> t" "\<forall>now\<in>set rounds. t \<le> now"
    "length (waiting q) \<le> length rounds * batch" "(\<exists>m\<in>set (waiting q). ident m = i) \<or> is_finished q i"
  shows "waiting (fold round rounds q) = [] \<and> is_finished (fold round rounds q) i"
  using assms
proof (induction rounds arbitrary: q)
  case (Cons now rounds)
  let ?q = "round now q"
  have due: "\<forall>m\<in>set (waiting q). due m \<le> now" using Cons.prems(2,3) by force
  note step = Cons.prems(1) due
  have "\<forall>m\<in>set (waiting ?q). due m \<le> t" using nothing_new [OF step] Cons.prems(2) by blast
  moreover have "length (waiting ?q) \<le> length rounds * batch" using takes_batch [OF step] Cons.prems(4) by simp
  moreover have "(\<exists>m\<in>set (waiting ?q). ident m = i) \<or> is_finished ?q i"
    using stays_finished [OF step] moves_on [OF step] Cons.prems(5) by blast
  ultimately show ?case using Cons.IH [OF stays_good [OF step]] Cons.prems(3) by simp
qed simp

end

section \<open>Every event is delivered\<close>

definition open_messages :: "pystr \<Rightarrow> db \<Rightarrow> outbox_message list" where
  "open_messages kind d =
     filter (\<lambda>m. om_kind m = kind \<and> om_status m \<in> {OB_PENDING, OB_PROCESSING}) (db_outbox d)"

text \<open>One run of a worker whose deliveries are all taken.\<close>

definition taken_round :: "settings \<Rightarrow> pystr \<Rightarrow> pystr \<Rightarrow> instant \<Rightarrow> db \<Rightarrow> db" where
  "taken_round st kind refusal now d = snd (run_endpoint (drain_deliveries st now kind refusal (\<lambda>_. Inr True)) d)"

definition finished :: "db \<Rightarrow> nat \<Rightarrow> bool" where
  "finished d i \<longleftrightarrow> (\<exists>m\<in>set (db_outbox d). om_id m = i \<and> om_status m = OB_DONE)"

lemma taken_round_run:
  assumes "wf_outbox d" "\<forall>m\<in>set (open_messages kind d). om_available_at m \<le> now"
  obtains rows t where "distinct rows" "set rows \<subseteq> set (open_messages kind d)"
    "length rows = min (length (open_messages kind d)) (st_outbox_batch_size st)"
    "db_outbox (taken_round st kind refusal now d)
       = map (\<lambda>x. if x \<in> set rows then mark_done now (claim_row t x) else x) (db_outbox d)"
proof -
  let ?vis = "st_outbox_visibility_timeout_seconds st" and ?n = "st_outbox_batch_size st"
  obtain ms d' where claim: "claim_batch kind now ?n ?vis d = (ms, d')" by fastforce
  obtain rows where rows: "ms = map (claim_row (now + timedelta_us ?vis)) rows" "distinct (map om_id rows)"
    "set rows \<subseteq> set (db_outbox d)" "\<forall>m\<in>set rows. claimable kind now m"
    by (rule claimed_rows [OF assms(1) claim])
  let ?t = "now + timedelta_us ?vis"
  have "filter (claimable kind now) (db_outbox d) = open_messages kind d"
    unfolding open_messages_def
    by (rule filter_cong) (use assms(2) in \<open>auto simp: claimable_def open_messages_def\<close>)
  then have "length ms = min (length (open_messages kind d)) ?n"
    using claim by (auto simp: claim_batch_def Let_def)
  then have len: "length rows = min (length (open_messages kind d)) ?n" by (simp add: rows(1))
  have none: "List.map_filter (\<lambda>m. poison (Inr True)) ms = []"
    by (simp add: poison_def map_filter_def)
  have "row_find om_id (om_id x) ms = (if x \<in> set rows then Some (claim_row ?t x) else None)"
    if "x \<in> set (db_outbox d)" for x
  proof (cases "x \<in> set rows")
    case True
    then show ?thesis using row_find_distinct [of om_id ms "claim_row ?t x"] rows(1,2) by (simp add: comp_def)
  next
    case False
    have "om_id x \<notin> om_id ` set rows"
      using wf_outbox_distinct [OF assms(1)] rows(3) that False by (auto simp: distinct_map inj_on_def)
    then show ?thesis using False by (auto simp: row_find_None rows(1))
  qed
  then have "settled_queue (\<lambda>m. settle st now x (Inr True) m) ms (db_outbox d)
      = map (\<lambda>x. if x \<in> set rows then mark_done now (claim_row ?t x) else x) (db_outbox d)" for x
    unfolding settled_queue_def by (intro map_cong) (auto simp: settle_def)
  then have "db_outbox (taken_round st kind refusal now d)
      = map (\<lambda>x. if x \<in> set rows then mark_done now (claim_row ?t x) else x) (db_outbox d)"
    using drain_pointwise [OF assms(1), of st now kind refusal "\<lambda>_. Inr True"]
    by (simp add: taken_round_def claim none)
  moreover have "set rows \<subseteq> set (open_messages kind d)"
    using rows(3,4) by (auto simp: open_messages_def claimable_def)
  moreover have "distinct rows" using rows(2) by (simp add: distinct_map)
  ultimately show thesis using that len by blast
qed

lemma taken_round_step:
  fixes st :: settings and refusal :: pystr
  assumes "wf_outbox d" "\<forall>m\<in>set (open_messages kind d). om_available_at m \<le> now"
  defines "d' \<equiv> taken_round st kind refusal now d"
  shows "wf_outbox d'"
    and "set (open_messages kind d') \<subseteq> set (open_messages kind d)"
    and "length (open_messages kind d') = length (open_messages kind d) - st_outbox_batch_size st"
    and "finished d i \<Longrightarrow> finished d' i"
    and "m \<in> set (open_messages kind d) \<Longrightarrow> m \<in> set (open_messages kind d')
      \<or> finished d' (om_id m)"
proof -
  obtain rows t where r: "distinct rows" "set rows \<subseteq> set (open_messages kind d)"
    "length rows = min (length (open_messages kind d)) (st_outbox_batch_size st)"
    "db_outbox d' = map (\<lambda>x. if x \<in> set rows then mark_done now (claim_row t x) else x) (db_outbox d)"
    unfolding d'_def by (rule taken_round_run [OF assms(1,2)])
  have ids: "map om_id (db_outbox d') = map om_id (db_outbox d)"
    by (simp add: r(4) mark_done_def)
  have known: "known (claim_row t x) = known x" for x by (simp add: known_def)
  have "list_all known (db_outbox d')"
    using assms(1) by (auto simp: known r(4) wf_outbox_def list_all_iff)
  moreover have "map om_id (db_outbox d') = [0..<length (db_outbox d')]"
    using assms(1) unfolding ids by (simp add: r(4) wf_outbox_def)
  ultimately show "wf_outbox d'" by (simp add: wf_outbox_def)
  have opened: "open_messages kind d' = filter (\<lambda>x. x \<notin> set rows) (open_messages kind d)"
    unfolding open_messages_def r(4) by (rule filter_changed) (simp add: mark_done_def)
  then show "set (open_messages kind d') \<subseteq> set (open_messages kind d)" by auto
  have "distinct (open_messages kind d)"
    using wf_outbox_distinct [OF assms(1)] by (simp add: open_messages_def distinct_map)
  then show "length (open_messages kind d') = length (open_messages kind d) - st_outbox_batch_size st"
    using length_filter_not_in [OF _ r(1,2)] r(3) by (simp add: opened)
  have done1: "mark_done now (claim_row t x) \<in> set (db_outbox d')" if "x \<in> set rows" "x \<in> set (db_outbox d)" for x
    using that by (force simp: r(4))
  have keep: "x \<in> set (db_outbox d')" if "x \<notin> set rows" "x \<in> set (db_outbox d)" for x
    using that by (force simp: r(4))
  show "finished d i \<Longrightarrow> finished d' i"
    using keep r(2) by (force simp: open_messages_def finished_def)
  show "m \<in> set (open_messages kind d) \<Longrightarrow> m \<in> set (open_messages kind d')
      \<or> finished d' (om_id m)"
  proof (cases "m \<in> set rows")
    case True
    assume "m \<in> set (open_messages kind d)"
    then have "mark_done now (claim_row t m) \<in> set (db_outbox d')"
      using True by (intro done1) (simp_all add: open_messages_def)
    then show ?thesis unfolding finished_def by (intro disjI2 bexI) (simp_all add: mark_done_def)
  qed (simp add: opened)
qed

interpretation deliveries: drained_queue wf_outbox "open_messages kind" finished om_id om_available_at
    "st_outbox_batch_size st" "taken_round st kind refusal" for st kind refusal
proof
  fix d now i m
  assume step: "wf_outbox d" "\<forall>m\<in>set (open_messages kind d). om_available_at m \<le> now"
  show "wf_outbox (taken_round st kind refusal now d)"
    "set (open_messages kind (taken_round st kind refusal now d)) \<subseteq> set (open_messages kind d)"
    "length (open_messages kind (taken_round st kind refusal now d)) \<le> length (open_messages kind d) - st_outbox_batch_size st"
    using taken_round_step(1-3) [OF step] by simp_all
  show "finished d i \<Longrightarrow> finished (taken_round st kind refusal now d) i"
    by (rule taken_round_step(4) [OF step])
  show "m \<in> set (open_messages kind d) \<Longrightarrow> m \<in> set (open_messages kind (taken_round st kind refusal now d))
      \<or> finished (taken_round st kind refusal now d) (om_id m)"
    by (rule taken_round_step(5) [OF step])
qed

text \<open>C20. Every event reaches a subscriber that accepts, and every change of a chat's request its session:
  when the messages waiting for the webhook (for the chat agent) are due and the other side takes
  what it is sent, enough rounds of the worker, at any times after that, deliver each of them; as
  many rounds as it takes batches to cover the queue are enough.
\<close>

theorem events_are_delivered:
  assumes "reachable d" "\<And>m. deliver m = Inr True"
    "(kind, drain) \<in> {(webhook_kind, \<lambda>now. drain_webhook_batch st now deliver),
       (concierge_callback_kind, \<lambda>now. drain_concierge_callback_batch st now deliver)}"
    "\<forall>m\<in>set (open_messages kind d). om_available_at m \<le> due" "\<forall>now\<in>set rounds. due \<le> now"
    "length (open_messages kind d) \<le> length rounds * st_outbox_batch_size st"
    "m \<in> set (open_messages kind d)"
  defines "after \<equiv> fold (\<lambda>now d. snd (run_endpoint (drain now) d)) rounds d"
  shows "open_messages kind after = [] \<and> finished after (om_id m)"
proof -
  have taken: "deliver = (\<lambda>_. Inr True)" using assms(2) by (simp add: fun_eq_iff)
  obtain refusal where "drain = (\<lambda>now. drain_deliveries st now kind refusal deliver)"
    using assms(3) by (auto simp: drain_webhook_batch_def drain_concierge_callback_batch_def)
  then have "(\<lambda>now d. snd (run_endpoint (drain now) d)) = taken_round st kind refusal"
    by (intro ext) (simp add: taken_round_def taken)
  then show ?thesis
    using deliveries.worked_off [of d kind due rounds st "om_id m" refusal] wf_db_outbox [OF reachable_wf [OF assms(1)]] assms(4-7)
    by (auto simp: after_def)
qed

definition demo_listening :: world where
  "demo_listening = (demo_world demo_requester)\<lparr>w_env := demo_env\<lparr>e_settings :=
     default_settings\<lparr>st_auth_jwks_url := u ''jwks'', st_webhook_url := u ''hook''\<rparr>\<rparr>\<rparr>"

definition demo_announced :: db where
  "demo_announced = step demo_listening 0 10 (Api_call (Some []) (Create_request
     \<lparr>rc_raw_input = u ''fix it'', rc_requester_id = None, rc_booking_id = None, rc_premises_id = None,
       rc_source_ref = None\<rparr> None)) empty_db"

lemma events_are_delivered_witness:
  "open_messages webhook_kind
     (snd (run_endpoint (drain_webhook_batch default_settings 7 (\<lambda>_. Inr True)) demo_announced)) = []"
proof -
  have open1: "map (\<lambda>m. (om_available_at m)) (open_messages webhook_kind demo_announced) = [0]" by code_simp
  then obtain m where m: "open_messages webhook_kind demo_announced = [m]" "om_available_at m = 0" by auto
  have "reachable demo_announced" unfolding demo_announced_def by (intro reachable.more reachable.start)
  moreover have "1 \<le> st_outbox_batch_size default_settings" by code_simp
  ultimately show ?thesis
    using events_are_delivered [of demo_announced "\<lambda>_. Inr True" webhook_kind
        "\<lambda>now. drain_webhook_batch default_settings now (\<lambda>_. Inr True)" default_settings 0 "[7]" m] m by simp
qed

section \<open>Intake\<close>

text \<open>C11. An intake with a key happens once: the first stores one request in \<open>NEW\<close>, with the masked text,
  and commits it; whoever comes later with the same key, whatever else it sends and at whatever
  time, gets that request back and nothing changes.
\<close>

theorem intake_happens_once:
  assumes "reachable d" "ia_idempotency_key a = Some k" "get_by_idempotency_key k d = None"
    "new_id \<notin> sr_id ` set (db_requests d)" "args_fit a"
  shows "\<exists>r d1. run_endpoint (intake e now new_id p a) d = (Inr (r, True), d1)
    \<and> db_requests d1 = db_requests d @ [r] \<and> sr_id r = new_id \<and> sr_status r = S_NEW
    \<and> sr_requester_id r = ia_requester_id a \<and> sr_raw_input_masked r = mask_pii (e_rt e) (ia_raw_input a)
    \<and> (\<forall>e' now' id' p' a'. ia_idempotency_key a' = Some k \<longrightarrow>
         run_endpoint (intake e' now' id' p' a') d1 = (Inr (r, False), d1))"
proof -
  let ?s = "open_session d"
  define r where "r = new_request e now new_id (number_text (Suc (db_number_seq d))) a"
  have wf: "wf_db (se_working ?s)" "new_id \<notin> sr_id ` set (db_requests (se_working ?s))"
    "\<forall>k'. ia_idempotency_key a = Some k' \<longrightarrow> get_by_idempotency_key k' (se_working ?s) = None"
    using reachable_wf [OF assms(1)] assms(2-4) by (simp_all add: open_session_def)
  note run = intake_new_run(1) [OF wf assms(5), of e now p]
  obtain d1 where d1: "run_endpoint (intake e now new_id p a) d = (Inr (r, True), d1)"
      "db_requests d1 = db_requests d @ [r]"
  proof
    let ?grow = "\<lambda>x. emit_notifications (e_settings e) now (sr_id r) (sr_number r) S_NEW (sr_requester_id r) None
      (emit_event (e_settings e) now (u ''request.created'') (sr_id r) (sr_number r) S_NEW None
       ((if st_automation_on_create_enabled (e_settings e)
         then enqueue now on_create_kind [(u ''request_id'', JStr (uuid_str (sr_id r)))] else id) x))"
    let ?h = "add_history \<lparr>rh_request_id = sr_id r, rh_actor_id = actor_of p, rh_action = H_CREATED,
       rh_from = None, rh_to = Some (status_value S_NEW), rh_ts = now\<rparr>
       (add_request r (d\<lparr>db_number_seq := Suc (db_number_seq d)\<rparr>))"
    show "run_endpoint (intake e now new_id p a) d = (Inr (r, True), ?grow ?h)"
      unfolding run_endpoint_def run
      by (simp add: bind_h_def announce_run ret_def commit_def open_session_def flip: r_def)
    have "outbox_grows (\<lambda>x. if b then enqueue now on_create_kind v x else x)" for b v
      by (intro outbox_grows_if outbox_grows_enqueue outbox_grows_id known_kinds)
    then have "outbox_grows ((if b then enqueue now on_create_kind v else id))" for b v
      by (cases b) (auto simp: id_def)
    from outbox_grows_comp [OF outbox_grows_emit(2) outbox_grows_comp [OF outbox_grows_emit(1) this]]
    have "outbox_grows ?grow" .
    from outbox_grows_same_audit [OF this, of ?h]
    show "db_requests (?grow ?h) = db_requests d @ [r]"
      by (simp add: same_audit_def frame_simps add_request_def)
  qed
  have "get_by_idempotency_key k d1 = Some r"
    using assms(2,3) by (simp add: get_by_idempotency_key_def d1(2) find_app r_def new_request_def)
  then have "run_endpoint (intake e' now' id' p' a') d1 = (Inr (r, False), d1)"
    if "ia_idempotency_key a' = Some k" for e' now' id' p' a'
    using intake_found_run [OF that, of "open_session d1" r e' now' id' p']
    by (simp add: run_endpoint_def open_session_def)
  then show ?thesis using d1
    by (intro exI [of _ r] exI [of _ d1]) (simp add: r_def new_request_def)
qed

definition demo_keyed :: intake_args where
  "demo_keyed = \<lparr>ia_requester_id = u ''r'', ia_raw_input = u ''fix it'', ia_channel_in = In_WEB_FORM, ia_source_ref = None,
     ia_booking_id = None, ia_premises_id = None, ia_idempotency_key = Some (u ''k'')\<rparr>"

lemma intake_happens_once_witness:
  "\<exists>r d1. run_endpoint (intake demo_env 0 10 demo_requester demo_keyed) empty_db = (Inr (r, True), d1)
     \<and> sr_status r = S_NEW
     \<and> run_endpoint (intake demo_env 5 11 demo_operator demo_keyed) d1 = (Inr (r, False), d1)"
proof -
  have 1: "ia_idempotency_key demo_keyed = Some (u ''k'')" by (simp add: demo_keyed_def)
  have 2: "get_by_idempotency_key (u ''k'') empty_db = None" by code_simp
  have 3: "10 \<notin> sr_id ` set (db_requests empty_db)" by (simp add: empty_db_def)
  have 4: "args_fit demo_keyed" by (simp add: args_fit_def text_fits_def demo_keyed_def)
  show ?thesis
    using intake_happens_once [OF reachable.start 1 2 3 4, of demo_env 0 demo_requester] 1 by blast
qed

section \<open>Settings\<close>

text \<open>C40. Settings may pass their validation and still break the service: with a closing hour that is not
  after the opening hour every card is answered with a 500, whoever asks for it.
\<close>

theorem odd_hours_break_cards:
  assumes "st_sla_business_close_hour (w_settings w) \<le> st_sla_business_open_hour (w_settings w)"
    "get_current_principal w credentials = Inr p" "get_visible p i d = Some r"
  shows "http_status (fst (serve w now new_id credentials (Get_request i) d)) = 500"
proof -
  obtain x where x: "policy_from_settings (w_settings w) = Inl (ValueError x)"
    using assms(1) by (cases "st_sla_business_days (w_settings w) = []")
      (simp_all add: policy_from_settings_def make_calendar_def)
  then have "build_detail (w_env w) now p r es = Inl (ValueError x)" for es
    by (simp add: build_detail_def w_settings_def)
  then show ?thesis
    by (simp add: serve_def assms(2) route_defs reply_h_def get_detail_def load_visible_def bind_h_def get_db_def
        ret_def lift_h_def assms(3) run_endpoint_def open_session_def http_status_def)
qed

definition odd_settings :: settings where
  "odd_settings = default_settings\<lparr>st_auth_jwks_url := u ''jwks'', st_sla_business_open_hour := 18,
     st_sla_business_close_hour := 9\<rparr>"

lemma odd_hours_break_cards_witness:
  "valid_settings odd_settings \<and> http_status (fst (serve ((demo_world demo_operator)
     \<lparr>w_env := demo_env\<lparr>e_settings := odd_settings\<rparr>\<rparr>) 5 12 (Some []) (Get_request 10) demo_created)) = 500"
  (is "_ \<and> http_status (fst (serve ?w _ _ _ _ _)) = _")
proof
  show "valid_settings odd_settings"
    by (simp add: valid_settings_defs odd_settings_def default_settings_def)
  have 1: "st_sla_business_close_hour (w_settings ?w) \<le> st_sla_business_open_hour (w_settings ?w)"
    by (simp add: w_settings_def odd_settings_def)
  have 2: "get_current_principal ?w (Some []) = Inr demo_operator" by code_simp
  obtain r policy where r: "get_request 10 demo_created = Some r" "sr_id r = 10" "sr_status r = S_NEW"
    "sr_sla r = None" "visible demo_operator r"
    "get_current_principal (demo_world demo_operator) (Some []) = Inr demo_operator"
    "can_drive_lifecycle demo_operator" "policy_from_settings (w_settings (demo_world demo_operator)) = Inr policy"
    "fsm_path (sr_status r) demo_work" by (rule demo_created_facts)
  have "r \<in> set (db_requests demo_created)" using get_request_Some [OF r(1)] by simp
  then obtain r' where 3: "get_visible demo_operator 10 demo_created = Some r'"
    using get_visible_None [of demo_operator 10 demo_created] r(2,5) by fastforce
  show "http_status (fst (serve ?w 5 12 (Some []) (Get_request 10) demo_created)) = 500"
    by (rule odd_hours_break_cards [OF 1 2 3])
qed

section \<open>Retention\<close>

definition expired_texts :: "instant \<Rightarrow> db \<Rightarrow> service_request set" where
  "expired_texts cutoff d =
     {r \<in> set (db_requests d). sr_created_at r < cutoff \<and> sr_raw_input r \<noteq> sr_raw_input_masked r}"

definition anonymized :: "service_request \<Rightarrow> service_request" where
  "anonymized r = r\<lparr>sr_raw_input := sr_raw_input_masked r\<rparr>"

definition anonymized_audit :: "instant \<Rightarrow> uuid \<Rightarrow> request_history" where
  "anonymized_audit now i = \<lparr>rh_request_id = i, rh_actor_id = retention_actor_id, rh_action = H_ANONYMIZED,
     rh_from = None, rh_to = Some (u ''raw_input''), rh_ts = now\<rparr>"

lemma anonymize_run:
  assumes "distinct (map sr_id (db_requests (se_working s)))" "distinct is"
    "set is \<subseteq> sr_id ` set (db_requests (se_working s))"
  shows "for_h is (anonymize_row now) s = (Inr (), s\<lparr>se_working := (se_working s)
    \<lparr>db_requests := map (\<lambda>r. if sr_id r \<in> set is then anonymized r else r) (db_requests (se_working s)),
     db_history := db_history (se_working s) @ map (anonymized_audit now) is\<rparr>\<rparr>)"
  using assms
proof (induction "is" arbitrary: s)
  case Nil
  then show ?case by (simp add: ret_def)
next
  case (Cons i "is")
  let ?d = "se_working s"
  obtain r where r: "r \<in> set (db_requests ?d)" "sr_id r = i" using Cons.prems(3) by auto
  have got: "get_request i ?d = Some r"
    using row_find_distinct [OF Cons.prems(1) r(1)] r(2) by (simp add: get_request_def)
  let ?d' = "?d\<lparr>db_requests := map (\<lambda>x. if sr_id x = i then anonymized x else x) (db_requests ?d),
    db_history := db_history ?d @ [anonymized_audit now i]\<rparr>"
  have "save_request (anonymized r) ?d = ?d\<lparr>db_requests := map (\<lambda>x. if sr_id x = i then anonymized x else x) (db_requests ?d)\<rparr>"
    using row_put_where [OF Cons.prems(1) r(1), of anonymized] r(2)
    by (simp add: save_request_def anonymized_def)
  then have step: "anonymize_row now i s = (Inr (), s\<lparr>se_working := ?d'\<rparr>)"
    using r(2) by (simp add: anonymize_row_def load_for_update_def bind_h_def get_db_def ret_def got put_request_def
        mod_db_def add_history_def anonymized_audit_def anonymized_def)
  have "map sr_id (db_requests ?d') = map sr_id (db_requests ?d)"
    by (simp add: anonymized_def)
  note ids = this
  have prems: "distinct (map sr_id (db_requests ?d'))" "distinct is" "set is \<subseteq> sr_id ` set (db_requests ?d')"
    using Cons.prems by (simp_all only: ids flip: set_map) simp_all
  have twice: "map (\<lambda>r. if sr_id r \<in> set is then anonymized r else r) (db_requests ?d')
      = map (\<lambda>r. if sr_id r \<in> set (i # is) then anonymized r else r) (db_requests ?d)"
    using Cons.prems(2) by (simp add: anonymized_def)
  have "for_h (i # is) (anonymize_row now) s = for_h is (anonymize_row now) (s\<lparr>se_working := ?d'\<rparr>)"
    by (simp only: for_h.simps bind_h_def step prod.case sum.case)
  also have "\<dots> = (Inr (), (s\<lparr>se_working := ?d'\<rparr>)\<lparr>se_working := ?d'
      \<lparr>db_requests := map (\<lambda>r. if sr_id r \<in> set is then anonymized r else r) (db_requests ?d'),
       db_history := db_history ?d' @ map (anonymized_audit now) is\<rparr>\<rparr>)"
    using Cons.IH [of "s\<lparr>se_working := ?d'\<rparr>"] prems by simp
  finally show ?case by (simp only: twice) simp
qed

lemma expired_rows:
  fixes cutoff :: instant and n :: nat
  assumes "distinct (map sr_id (db_requests d))"
  defines "rows \<equiv> list_raw_input_expired cutoff n d"
  shows "distinct (map sr_id rows)" "set rows \<subseteq> expired_texts cutoff d"
    "length rows = min n (card (expired_texts cutoff d))"
    "\<And>r r'. r \<in> set rows \<Longrightarrow> r' \<in> expired_texts cutoff d - set rows \<Longrightarrow> sr_created_at r \<le> sr_created_at r'"
proof -
  let ?old = "filter (\<lambda>r. sr_created_at r < cutoff \<and> sr_raw_input r \<noteq> sr_raw_input_masked r) (db_requests d)"
  have old: "set ?old = expired_texts cutoff d" by (auto simp: expired_texts_def)
  have "distinct (map sr_id ?old)" using assms(1) by (simp add: distinct_map_filter)
  then have d: "distinct (map sr_id (sort_key sr_created_at ?old))"
    by (auto simp: distinct_map)
  then show "distinct (map sr_id rows)"
    by (simp add: rows_def list_raw_input_expired_def take_map [symmetric] distinct_take)
  show "set rows \<subseteq> expired_texts cutoff d"
    using set_take_subset [of n "sort_key sr_created_at ?old"] old
    by (simp add: rows_def list_raw_input_expired_def)
  have "distinct ?old" using d by (auto simp: distinct_map)
  then have "card (expired_texts cutoff d) = length ?old"
    using old distinct_card by metis
  then show "length rows = min n (card (expired_texts cutoff d))"
    by (simp add: rows_def list_raw_input_expired_def)
  fix r r'
  assume r: "r \<in> set rows" "r' \<in> expired_texts cutoff d - set rows"
  let ?s = "sort_key sr_created_at ?old"
  have "set rows \<union> set (drop n ?s) = expired_texts cutoff d"
    using old by (simp add: rows_def list_raw_input_expired_def flip: set_append)
  then have "r' \<in> set (drop n ?s)" using r(2) by auto
  moreover have "sorted (map sr_created_at (take n ?s @ drop n ?s))" by simp
  ultimately show "sr_created_at r \<le> sr_created_at r'"
    using r(1) unfolding map_append sorted_append
    by (auto simp: rows_def list_raw_input_expired_def)
qed

text \<open>C21. The retention job erases exactly the expired raw texts: it takes the oldest of the requests that are
  older than the cutoff and still hold a text that differs from its mask, up to the batch, replaces
  their texts by the masks and writes one audit record for each; no other field, no other request
  and no other table changes, and a batch that covers them leaves no expired text.
\<close>

theorem retention_is_exact:
  assumes "reachable d" "st_retention_worker_enabled st"
  shows "\<exists>rows. run_endpoint (anonymize_expired_raw_input st now) d = (Inr (length rows), d
      \<lparr>db_requests := map (\<lambda>r. if r \<in> set rows then r\<lparr>sr_raw_input := sr_raw_input_masked r\<rparr> else r) (db_requests d),
       db_history := db_history d @ map (\<lambda>r. anonymized_audit now (sr_id r)) rows\<rparr>)
    \<and> distinct rows \<and> set rows \<subseteq> expired_texts (retention_cutoff st now) d
    \<and> length rows = min (st_outbox_batch_size st) (card (expired_texts (retention_cutoff st now) d))
    \<and> (\<forall>r\<in>set rows. \<forall>r'\<in>expired_texts (retention_cutoff st now) d - set rows. sr_created_at r \<le> sr_created_at r')
    \<and> expired_texts (retention_cutoff st now) (snd (run_endpoint (anonymize_expired_raw_input st now) d))
        = expired_texts (retention_cutoff st now) d - set rows"
proof -
  let ?c = "retention_cutoff st now"
  have wf: "distinct (map sr_id (db_requests d))" using wf_db_distinct [OF reachable_wf [OF assms(1)]] .
  define rows where "rows = list_raw_input_expired ?c (st_outbox_batch_size st) d"
  note rows = expired_rows [OF wf, where cutoff = ?c and n = "st_outbox_batch_size st", folded rows_def]
  have sub: "set rows \<subseteq> set (db_requests d)" using rows(2) by (auto simp: expired_texts_def)
  have same: "sr_id r \<in> set (map sr_id rows) \<longleftrightarrow> r \<in> set rows" if "r \<in> set (db_requests d)" for r
    using that wf sub by (auto simp: distinct_map inj_on_def)
  let ?d' = "d\<lparr>db_requests := map (\<lambda>r. if r \<in> set rows then r\<lparr>sr_raw_input := sr_raw_input_masked r\<rparr> else r) (db_requests d),
       db_history := db_history d @ map (\<lambda>r. anonymized_audit now (sr_id r)) rows\<rparr>"
  have run: "run_endpoint (anonymize_expired_raw_input st now) d = (Inr (length rows), ?d')"
    using anonymize_run [of "open_session d" "map sr_id rows" now] wf rows(1) sub
    by (simp add: run_endpoint_def anonymize_expired_raw_input_def assms(2) bind_h_def get_db_def ret_def
        open_session_def commit_h_def commit_def Let_def comp_def anonymized_def image_mono same [simplified] flip: rows_def cong: map_cong)
  have "expired_texts ?c ?d' = expired_texts ?c d - set rows"
    using sub by (force simp: expired_texts_def)
  moreover have "distinct rows" using rows(1) by (simp add: distinct_map)
  ultimately show ?thesis using rows run by (intro exI [of _ rows]) simp
qed

definition retention_on :: settings where
  "retention_on = default_settings\<lparr>st_retention_worker_enabled := True\<rparr>"

definition demo_private :: db where
  "demo_private = step (demo_world demo_requester) 0 10 (Api_call (Some []) (Create_request
     \<lparr>rc_raw_input = u ''a@b.cd'', rc_requester_id = None, rc_booking_id = None, rc_premises_id = None,
       rc_source_ref = None\<rparr> None)) empty_db"

lemma demo_private_expired:
  "map sr_id (filter (\<lambda>r. sr_created_at r < retention_cutoff retention_on (10 ^ 18)
     \<and> sr_raw_input r \<noteq> sr_raw_input_masked r) (db_requests demo_private)) = [10]"
  by code_simp

lemma retention_is_exact_witness:
  "\<exists>r. expired_texts (retention_cutoff retention_on (10 ^ 18)) demo_private = {r}
     \<and> expired_texts (retention_cutoff retention_on (10 ^ 18))
         (snd (run_endpoint (anonymize_expired_raw_input retention_on (10 ^ 18)) demo_private)) = {}"
proof -
  let ?c = "retention_cutoff retention_on (10 ^ 18)"
  have on: "st_retention_worker_enabled retention_on" by (simp add: retention_on_def)
  have reach: "reachable demo_private" unfolding demo_private_def by (intro reachable.more reachable.start)
  obtain r where "filter (\<lambda>r. sr_created_at r < ?c \<and> sr_raw_input r \<noteq> sr_raw_input_masked r) (db_requests demo_private) = [r]"
    using demo_private_expired by blast
  then have "set (filter (\<lambda>r. sr_created_at r < ?c \<and> sr_raw_input r \<noteq> sr_raw_input_masked r) (db_requests demo_private)) = {r}"
    by simp
  then have r: "expired_texts ?c demo_private = {r}" by (auto simp: expired_texts_def)
  obtain rows where rows: "set rows \<subseteq> expired_texts ?c demo_private"
      "length rows = min (st_outbox_batch_size retention_on) (card (expired_texts ?c demo_private))"
      "expired_texts ?c (snd (run_endpoint (anonymize_expired_raw_input retention_on (10 ^ 18)) demo_private))
         = expired_texts ?c demo_private - set rows"
    using retention_is_exact [OF reach on, of "10 ^ 18"] by blast
  have "st_outbox_batch_size retention_on = 50" by code_simp
  then have "rows \<noteq> []" using rows(2) r by auto
  then have "set rows = {r}" using rows(1) r by (metis set_empty subset_singletonD)
  then show ?thesis using rows(3) r by auto
qed

end
