(* ===== verification/Workers.thy ===== *)
theory Workers
  imports Upkeep
begin

text \<open>
  The actors of \<open>tasks/actors.py\<close>, one per job, and the kinds of messages they drain. The
  scheduler has to trigger every one of them; what is shown is that together they take every kind
  of message the service writes.
\<close>

section \<open>The actors\<close>

type_synonym actor = "world \<Rightarrow> instant \<Rightarrow> db \<Rightarrow> (exn + nat) \<times> db"

named_theorems actor_defs \<open>the actors, opened\<close>

definition drain_outbox_dispatch :: actor where
  [actor_defs]: "drain_outbox_dispatch w now d = run_job w now Drain_dispatch d"

definition drain_outbox_on_create :: actor where
  [actor_defs]: "drain_outbox_on_create w now d = run_job w now Drain_on_create d"

definition drain_outbox_webhook :: actor where
  [actor_defs]: "drain_outbox_webhook w now d = run_job w now Drain_webhook d"

definition drain_outbox_notification :: actor where
  [actor_defs]: "drain_outbox_notification w now d = run_job w now Drain_notification d"

definition drain_outbox_concierge_callback :: actor where
  [actor_defs]: "drain_outbox_concierge_callback w now d = run_job w now Drain_concierge_callback d"

definition scan_sla_timers :: actor where
  [actor_defs]: "scan_sla_timers w now d = run_job w now Scan_sla_timers d"

definition drain_outbox_partner_fallback :: actor where
  [actor_defs]: "drain_outbox_partner_fallback w now d = run_job w now Drain_partner_fallback d"

definition run_retention :: actor where
  [actor_defs]: "run_retention w now d = run_job w now Run_retention d"

definition poll_email_actor :: actor where
  [actor_defs]: "poll_email_actor w now d = run_job w now Poll_email d"

definition actors :: "(string \<times> actor) list" where
  "actors = [(''drain_outbox_dispatch'', drain_outbox_dispatch), (''drain_outbox_on_create'', drain_outbox_on_create),
     (''drain_outbox_webhook'', drain_outbox_webhook), (''drain_outbox_notification'', drain_outbox_notification),
     (''drain_outbox_concierge_callback'', drain_outbox_concierge_callback), (''scan_sla_timers'', scan_sla_timers),
     (''drain_outbox_partner_fallback'', drain_outbox_partner_fallback), (''run_retention'', run_retention),
     (''poll_email_inbound'', poll_email_actor)]"

section \<open>Every kind has its actor\<close>

text \<open>An actor that drains a kind: it claims the messages of that kind that are due, as many as a batch holds,
  runs a step on each of them in turn, commits and answers how many there were.\<close>

definition drain :: "settings \<Rightarrow> pystr \<Rightarrow> rat \<Rightarrow> (instant \<Rightarrow> outbox_message \<Rightarrow> unit handler) \<Rightarrow> instant \<Rightarrow> nat handler" where
  "drain st kind vis work now =
     bind_h (claim_h kind now (st_outbox_batch_size st) vis) (\<lambda>batch.
     bind_h (for_h batch (work now)) (\<lambda>_.
     bind_h commit_h (\<lambda>_. ret (length batch))))"

definition drains :: "settings \<Rightarrow> pystr \<Rightarrow> rat \<Rightarrow> (instant \<Rightarrow> outbox_message \<Rightarrow> unit handler) \<Rightarrow> (instant \<Rightarrow> db \<Rightarrow> (exn + nat) \<times> db) \<Rightarrow> bool" where
  "drains st kind vis work run \<longleftrightarrow> (\<forall>now d. run now d = run_endpoint (drain st kind vis work now) d)"

lemma drainsI:
  "(\<And>now. session_job w now j = drain (w_settings w) kind vis work now) \<Longrightarrow> j \<noteq> Poll_email \<Longrightarrow>
   drains (w_settings w) kind vis work (\<lambda>now d. run_job w now j d)"
  by (simp add: drains_def run_job_def)

lemma actor_claims:
  assumes "policy_from_settings (w_settings w) = Inr policy" "kind \<in> set outbox_kinds"
  shows "\<exists>a\<in>set actors. \<exists>vis work. drains (w_settings w) kind vis work (snd a w)"
proof -
  let ?st = "w_settings w"
  have e: "e_settings (w_env w) = ?st" by (simp add: w_settings_def)
  have at: "\<exists>a\<in>set actors. \<exists>vis work. drains ?st kind vis work (snd a w)"
    if "(name, run) \<in> set actors" "\<And>now d. run w now d = run_job w now j d" "j \<noteq> Poll_email"
      "\<And>now. session_job w now j = drain ?st kind vis work now"
    for name run j vis work
    proof (intro bexI exI)
    show "drains ?st kind vis work (snd (name, run) w)"
      using drainsI [OF that(4,3)] that(2) by (simp add: drains_def)
  qed (rule that(1))
  have policy: "with_policy w f = f policy" for f :: "sla_policy \<Rightarrow> nat handler"
    using assms(1) by (auto simp: with_policy_def bind_h_def lift_h_def fun_eq_iff)
  from assms(2) consider "kind = dispatch_kind" | "kind = automation_kind" | "kind = webhook_kind"
    | "kind = notification_kind" | "kind = concierge_callback_kind" | "kind = partner_fallback_kind"
    by (auto simp: outbox_kinds_def dispatch_kind_def automation_kind_def webhook_kind_def notification_kind_def
        concierge_callback_kind_def partner_fallback_kind_def)
  then show ?thesis
  proof cases
    case 1
    show ?thesis by (rule at [of "''drain_outbox_dispatch''" drain_outbox_dispatch Drain_dispatch])
        (simp_all add: 1 actors_def actor_defs route_defs policy drain_def drain_batch_def [abs_def] drain_dispatch_batch_def e)
  next
    case 2
    show ?thesis by (rule at [of "''drain_outbox_on_create''" drain_outbox_on_create Drain_on_create])
        (simp_all add: 2 actors_def actor_defs route_defs policy drain_def drain_batch_def [abs_def] drain_on_create_batch_def e)
  next
    case 3
    show ?thesis by (rule at [of "''drain_outbox_webhook''" drain_outbox_webhook Drain_webhook])
        (simp_all add: 3 actors_def actor_defs route_defs drain_webhook_batch_def drain_def drain_deliveries_def)
  next
    case 4
    show ?thesis by (rule at [of "''drain_outbox_notification''" drain_outbox_notification Drain_notification])
        (simp_all add: 4 actors_def actor_defs route_defs drain_def drain_notification_batch_def e)
  next
    case 5
    show ?thesis by (rule at [of "''drain_outbox_concierge_callback''" drain_outbox_concierge_callback Drain_concierge_callback])
        (simp_all add: 5 actors_def actor_defs route_defs drain_concierge_callback_batch_def drain_def drain_deliveries_def)
  next
    case 6
    show ?thesis by (rule at [of "''drain_outbox_partner_fallback''" drain_outbox_partner_fallback Drain_partner_fallback])
        (simp_all add: 6 actors_def actor_defs route_defs policy drain_def drain_batch_def [abs_def] drain_partner_fallback_batch_def e)
  qed
qed

text \<open>No message is forgotten: whatever the service has written to the outbox in a reachable state is of a
  kind that an actor claims, and when it is due and the batch holds those that are, a run of that
  actor claims it.
\<close>

theorem every_message_has_a_worker:
  assumes "reachable d" "m \<in> set (db_outbox d)" "policy_from_settings (w_settings w) = Inr policy"
  shows "\<exists>a\<in>set actors. \<exists>vis work. drains (w_settings w) (om_kind m) vis work (snd a w)
    \<and> (\<forall>now. claimable (om_kind m) now m
         \<and> length (filter (claimable (om_kind m) now) (db_outbox d)) \<le> st_outbox_batch_size (w_settings w)
       \<longrightarrow> claim_row (now + timedelta_us vis) m
             \<in> set (fst (claim_batch (om_kind m) now (st_outbox_batch_size (w_settings w)) vis d)))"
proof -
  have "known m" using wf_outbox_known [OF wf_db_outbox [OF reachable_wf [OF assms(1)]] assms(2)] .
  then obtain a vis work where "a \<in> set actors" "drains (w_settings w) (om_kind m) vis work (snd a w)"
    using actor_claims [OF assms(3)] unfolding known_def by blast
  moreover have "claim_row (now + timedelta_us vis) m
        \<in> set (fst (claim_batch (om_kind m) now n vis d))"
    if "claimable (om_kind m) now m" "length (filter (claimable (om_kind m) now) (db_outbox d)) \<le> n" for now n
    using that assms(2) by (simp add: claim_batch_def Let_def)
  ultimately show ?thesis by blast
qed

lemma every_message_has_a_worker_witness:
  "\<exists>m\<in>set (db_outbox demo_announced). \<exists>a\<in>set actors.
     \<exists>vis work. drains (w_settings demo_listening) (om_kind m) vis work (snd a demo_listening)"
proof -
  have "map om_kind (db_outbox demo_announced) = [webhook_kind]" by code_simp
  then obtain m where m: "m \<in> set (db_outbox demo_announced)" by fastforce
  have "reachable demo_announced" unfolding demo_announced_def by (intro reachable.more reachable.start)
  moreover have "is_ok (policy_from_settings (w_settings demo_listening))" by code_simp
  then obtain policy where "policy_from_settings (w_settings demo_listening) = Inr policy"
    by (auto simp: is_ok_def split: sum.splits)
  ultimately show ?thesis
    using every_message_has_a_worker [OF _ m, of demo_listening] m by blast
qed

end
