(* ===== verification/Bodies.thy ===== *)
theory Bodies
  imports Router
begin

text \<open>
  What the routes read from a request (\<open>requests/schemas.py\<close>, \<open>channels/schemas.py\<close>,
  \<open>push/schemas.py\<close>, \<open>get_list_filters\<close> of \<open>requests/dependencies.py\<close>): for every schema the decoder
  with its required and optional fields, lengths and ranges, and for every body the limits it
  satisfies. A decoder accepts what the limits allow and nothing else. How the validation library
  converts a JSON value to an integer, a truth value, a decimal or a time, and a text to a UUID is a
  parameter (\<open>pydantic\<close>).
\<close>

record pydantic =
  pd_int :: "json \<Rightarrow> int option"
  pd_bool :: "json \<Rightarrow> bool option"
  pd_decimal :: "json \<Rightarrow> rat option"
  pd_datetime :: "json \<Rightarrow> datetime option"
  pd_uuid :: "pystr \<Rightarrow> uuid option"

named_theorems body_defs \<open>decoders, encoders and limits of the bodies\<close>

section \<open>Fields\<close>

definition field :: "(json option \<Rightarrow> 'a option) \<Rightarrow> jdict \<Rightarrow> string \<Rightarrow> ('a \<Rightarrow> 'b option) \<Rightarrow> 'b option" where
  "field f d k g = Option.bind (f (dict_get d (u k))) g"

definition opt_str :: "nat \<Rightarrow> json option \<Rightarrow> pystr option option" where
  "opt_str hi = opt_field (\<lambda>j. str_field 0 hi (Some j))"

definition required :: "(json \<Rightarrow> 'a option) \<Rightarrow> json option \<Rightarrow> 'a option" where
  "required f j = Option.bind j f"

definition defaulted :: "'a \<Rightarrow> (json \<Rightarrow> 'a option) \<Rightarrow> json option \<Rightarrow> 'a option" where
  "defaulted x f j = (case j of None \<Rightarrow> Some x | Some v \<Rightarrow> f v)"

definition enum_field :: "(pystr \<Rightarrow> 'a option) \<Rightarrow> json \<Rightarrow> 'a option" where
  "enum_field of_value j = (case j of JStr s \<Rightarrow> of_value s | _ \<Rightarrow> None)"

definition dict_field :: "json \<Rightarrow> jdict option" where
  "dict_field j = (case j of JObj d \<Rightarrow> Some d | _ \<Rightarrow> None)"

definition dicts_field :: "json \<Rightarrow> json option" where
  "dicts_field j = (case j of
       JArr js \<Rightarrow> if list_all (\<lambda>x. dict_field x \<noteq> None) js then Some j else None | _ \<Rightarrow> None)"

definition bounded_by :: "('a::linorder) option \<Rightarrow> 'a option \<Rightarrow> ('j \<Rightarrow> 'a option) \<Rightarrow> 'j \<Rightarrow> 'a option" where
  "bounded_by lo hi f j = Option.bind (f j) (\<lambda>x.
     if (case lo of None \<Rightarrow> True | Some l \<Rightarrow> l \<le> x) \<and> (case hi of None \<Rightarrow> True | Some h \<Rightarrow> x \<le> h)
     then Some x else None)"

definition list_field :: "(json \<Rightarrow> 'a option) \<Rightarrow> json \<Rightarrow> 'a list option" where
  "list_field f j = (case j of JArr js \<Rightarrow> those (map f js) | _ \<Rightarrow> None)"

text \<open>A body is an object; \<open>extra="forbid"\<close> refuses a key that no field has.\<close>

definition body_of :: "string list \<Rightarrow> (jdict \<Rightarrow> 'b option) \<Rightarrow> json \<Rightarrow> 'b option" where
  "body_of keys f j = (case j of
       JObj d \<Rightarrow> if fst ` set d \<subseteq> u ` set keys then f d else None | _ \<Rightarrow> None)"

definition open_body :: "(jdict \<Rightarrow> 'b option) \<Rightarrow> json \<Rightarrow> 'b option" where
  "open_body f j = Option.bind (dict_field j) f"

section \<open>The ways in\<close>

definition max_raw_input :: nat where "max_raw_input = 20000"

definition max_message :: nat where "max_message = 20000"

definition decode_request_create :: "json \<Rightarrow> request_create option" where
  [body_defs]: "decode_request_create = body_of
       [''raw_input'', ''requester_id'', ''booking_id'', ''premises_id'', ''source_ref''] (\<lambda>d.
     field (str_field 1 max_raw_input) d ''raw_input'' (\<lambda>raw.
     field (opt_str 255) d ''requester_id'' (\<lambda>requester.
     field (opt_str 255) d ''booking_id'' (\<lambda>booking.
     field (opt_str 255) d ''premises_id'' (\<lambda>premises.
     field (opt_field dict_field) d ''source_ref'' (\<lambda>source.
       Some \<lparr>rc_raw_input = raw, rc_requester_id = requester, rc_booking_id = booking,
         rc_premises_id = premises, rc_source_ref = source\<rparr>))))))"

definition decode_from_chat :: "json \<Rightarrow> from_chat_create option" where
  [body_defs]: "decode_from_chat = body_of
       [''chat_session_id'', ''requester_id'', ''raw_input'', ''transcript'', ''booking_id'', ''premises_id''] (\<lambda>d.
     field (str_field 1 255) d ''chat_session_id'' (\<lambda>session.
     field (str_field 1 255) d ''requester_id'' (\<lambda>requester.
     field (str_field 1 max_raw_input) d ''raw_input'' (\<lambda>raw.
     field (opt_field dicts_field) d ''transcript'' (\<lambda>transcript.
     field (opt_str 255) d ''booking_id'' (\<lambda>booking.
     field (opt_str 255) d ''premises_id'' (\<lambda>premises.
       Some \<lparr>fc_chat_session_id = session, fc_requester_id = requester, fc_raw_input = raw,
         fc_transcript = transcript, fc_booking_id = booking, fc_premises_id = premises\<rparr>)))))))"

definition decode_from_ticket :: "json \<Rightarrow> from_ticket_create option" where
  [body_defs]: "decode_from_ticket = body_of
       [''ticket_id'', ''requester_id'', ''raw_input'', ''booking_id'', ''premises_id''] (\<lambda>d.
     field (str_field 1 255) d ''ticket_id'' (\<lambda>ticket.
     field (str_field 1 255) d ''requester_id'' (\<lambda>requester.
     field (str_field 1 max_raw_input) d ''raw_input'' (\<lambda>raw.
     field (opt_str 255) d ''booking_id'' (\<lambda>booking.
     field (opt_str 255) d ''premises_id'' (\<lambda>premises.
       Some \<lparr>ft_ticket_id = ticket, ft_requester_id = requester, ft_raw_input = raw,
         ft_booking_id = booking, ft_premises_id = premises\<rparr>))))))"

section \<open>The bodies of the lifecycle\<close>

definition decode_estimate :: "pydantic \<Rightarrow> json \<Rightarrow> estimate_create option" where
  [body_defs]: "decode_estimate y = body_of [''kind'', ''amount_rub'', ''eta_text'', ''comment''] (\<lambda>d.
     field (defaulted E_FINAL (enum_field estimate_kind_of_value)) d ''kind'' (\<lambda>kind.
     field (opt_field (bounded_by (Some 0) (Some max_amount_rub) (pd_decimal y))) d ''amount_rub'' (\<lambda>amount.
     field (opt_str 255) d ''eta_text'' (\<lambda>eta.
     field (opt_str max_message) d ''comment'' (\<lambda>comment.
       (let b = \<lparr>ec_kind = kind, ec_amount_rub = amount, ec_eta_text = eta, ec_comment = comment\<rparr>
        in if estimate_not_empty b then Some b else None))))))"

definition decode_attachment :: "json \<Rightarrow> attachment_ref option" where
  [body_defs]: "decode_attachment = body_of [''file_id'', ''filename'', ''content_type''] (\<lambda>d.
     field (str_field 1 255) d ''file_id'' (\<lambda>file.
     field (opt_str 255) d ''filename'' (\<lambda>name.
     field (opt_str 128) d ''content_type'' (\<lambda>type.
       Some \<lparr>ar_file_id = file, ar_filename = name, ar_content_type = type\<rparr>))))"

definition decode_message :: "pydantic \<Rightarrow> json \<Rightarrow> message_create option" where
  [body_defs]: "decode_message y = body_of [''text'', ''is_internal'', ''attachments''] (\<lambda>d.
     field (str_field 1 max_message) d ''text'' (\<lambda>text.
     field (defaulted False (pd_bool y)) d ''is_internal'' (\<lambda>internal.
     field (defaulted [] (list_field decode_attachment)) d ''attachments'' (\<lambda>attachments.
       Some \<lparr>mc_text = text, mc_is_internal = internal, mc_attachments = attachments\<rparr>))))"

definition decode_transition :: "json \<Rightarrow> request_status option" where
  [body_defs]: "decode_transition = body_of [''target''] (\<lambda>d.
     field (required (enum_field status_of_value)) d ''target'' Some)"

text \<open>\<open>CancelRequest\<close> and \<open>DisputeRequest\<close> have the same field.\<close>

definition decode_reason :: "json \<Rightarrow> pystr option" where
  [body_defs]: "decode_reason = body_of [''reason''] (\<lambda>d. field (str_field 1 max_message) d ''reason'' Some)"

definition decode_reschedule :: "pydantic \<Rightarrow> json \<Rightarrow> datetime option" where
  [body_defs]: "decode_reschedule y = body_of [''scheduled_at''] (\<lambda>d.
     field (required (pd_datetime y)) d ''scheduled_at'' Some)"

definition decode_settlement :: "json \<Rightarrow> settlement_confirm option" where
  [body_defs]: "decode_settlement = body_of [''amount_ref'', ''escrow_ref''] (\<lambda>d.
     field (opt_str 255) d ''amount_ref'' (\<lambda>amount.
     field (opt_str 255) d ''escrow_ref'' (\<lambda>escrow.
       Some \<lparr>sf_amount_ref = amount, sf_escrow_ref = escrow\<rparr>)))"

definition decode_partner_response :: "json \<Rightarrow> partner_response option" where
  [body_defs]: "decode_partner_response = body_of [''status'', ''message''] (\<lambda>d.
     field (str_field 1 64) d ''status'' (\<lambda>status.
     field (opt_str max_message) d ''message'' (\<lambda>message.
       Some \<lparr>pr_status = status, pr_message = message\<rparr>)))"

definition decode_assign :: "json \<Rightarrow> assign_request option" where
  [body_defs]: "decode_assign = body_of [''partner_id'', ''service_area''] (\<lambda>d.
     field (opt_str 255) d ''partner_id'' (\<lambda>partner.
     field (opt_str 255) d ''service_area'' (\<lambda>area.
       Some \<lparr>ag_partner_id = partner, ag_service_area = area\<rparr>)))"

section \<open>Channels and subscriptions\<close>

definition channel_type_members :: "channel_type list" where
  "channel_type_members = [CT_API, CT_CRM, CT_TELEGRAM, CT_MAX, CT_EMAIL, CT_MOCK]"

definition channel_type_of_value :: "pystr \<Rightarrow> channel_type option" where
  "channel_type_of_value t = find (\<lambda>m. channel_type_value m = t) channel_type_members"

definition decode_channel_create :: "pydantic \<Rightarrow> json \<Rightarrow> channel_create option" where
  [body_defs]: "decode_channel_create y = body_of
       [''collaborator_id'', ''channel_type'', ''priority'', ''config'', ''inbound_token'', ''is_active''] (\<lambda>d.
     field (str_field 1 255) d ''collaborator_id'' (\<lambda>collaborator.
     field (required (enum_field channel_type_of_value)) d ''channel_type'' (\<lambda>type.
     field (defaulted 100 (bounded_by (Some 0) None (pd_int y))) d ''priority'' (\<lambda>priority.
     field (defaulted [] dict_field) d ''config'' (\<lambda>config.
     field (opt_str 255) d ''inbound_token'' (\<lambda>token.
     field (defaulted True (pd_bool y)) d ''is_active'' (\<lambda>active.
       Some \<lparr>cc_collaborator_id = collaborator, cc_channel_type = type, cc_priority = priority,
         cc_config = config, cc_inbound_token = token, cc_is_active = active\<rparr>)))))))"

definition decode_channel_update :: "pydantic \<Rightarrow> json \<Rightarrow> channel_update option" where
  [body_defs]: "decode_channel_update y = body_of [''priority'', ''config'', ''inbound_token'', ''is_active''] (\<lambda>d.
     field (opt_field (bounded_by (Some 0) None (pd_int y))) d ''priority'' (\<lambda>priority.
     field (opt_field dict_field) d ''config'' (\<lambda>config.
     field (opt_str 255) d ''inbound_token'' (\<lambda>token.
     field (opt_field (pd_bool y)) d ''is_active'' (\<lambda>active.
       Some \<lparr>cu_priority = priority, cu_config = config, cu_inbound_token = token, cu_is_active = active\<rparr>)))))"

definition decode_subscription :: "json \<Rightarrow> subscription_create option" where
  [body_defs]: "decode_subscription = open_body (\<lambda>d.
     field (str_field 1 2048) d ''endpoint'' (\<lambda>endpoint.
     field (required dict_field) d ''keys'' (\<lambda>keys.
     field (str_field 1 512) keys ''p256dh'' (\<lambda>p256dh.
     field (str_field 1 512) keys ''auth'' (\<lambda>auth.
       Some \<lparr>sb_endpoint = endpoint, sb_p256dh = p256dh, sb_auth = auth\<rparr>)))))"

section \<open>The query of the list\<close>

definition query_get :: "(pystr \<times> pystr) list \<Rightarrow> string \<Rightarrow> json option" where
  "query_get q k = map_option JStr (map_of (rev q) (u k))"

definition query_instant :: "pydantic \<Rightarrow> json \<Rightarrow> instant option" where
  "query_instant y j = map_option host_instant (pd_datetime y j)"

definition decode_filters :: "pydantic \<Rightarrow> (pystr \<times> pystr) list \<Rightarrow> request_filters option" where
  [body_defs]: "decode_filters y q =
     Option.bind (opt_field (enum_field status_of_value) (query_get q ''status'')) (\<lambda>status.
     Option.bind (opt_field (enum_field category_of_value) (query_get q ''category'')) (\<lambda>category.
     Option.bind (opt_str 255 (query_get q ''partner_id'')) (\<lambda>partner.
     Option.bind (opt_field (query_instant y) (query_get q ''created_from'')) (\<lambda>since.
     Option.bind (opt_field (query_instant y) (query_get q ''created_to'')) (\<lambda>until.
       Some \<lparr>rf_status = status, rf_category = category, rf_partner_id = partner,
         rf_created_from = since, rf_created_to = until\<rparr>)))))"

end
