(* ===== verification/Body_Limits.thy ===== *)
theory Body_Limits
  imports Bodies
begin

text \<open>
  The limits of every body and the JSON a client sends for it: a body that was decoded is within its
  limits (\<open>decode_x_sound\<close>), and the JSON of a body within its limits is decoded to that body
  (\<open>decode_x_of\<close>). \<open>pydantic_laws\<close> says what is used of the validation library: it reads the JSON
  form of an integer, a truth value, an amount in kopecks and a time, and the text of a UUID.
\<close>

section \<open>What is used of the validation library\<close>

definition kopecks :: "rat \<Rightarrow> bool" where
  "kopecks q \<longleftrightarrow> (\<exists>n::int. 0 \<le> n \<and> n \<le> 999999999999 \<and> q = of_int n / 100)"

text \<open>A time of the calendar with an offset in whole minutes, the form of RFC 3339.\<close>

definition plain_time :: "datetime \<Rightarrow> bool" where
  "plain_time t \<longleftrightarrow> dt_valid t \<and> (case dt_off t of None \<Rightarrow> True | Some off \<Rightarrow> off mod 60000000 = 0)"

definition pydantic_laws :: "pydantic \<Rightarrow> bool" where
  "pydantic_laws y \<longleftrightarrow> (\<forall>i. pd_int y (JInt i) = Some i) \<and> (\<forall>b. pd_bool y (JBool b) = Some b)
     \<and> (\<forall>q. kopecks q \<longrightarrow> pd_decimal y (JNum q) = Some q)
     \<and> (\<forall>t. plain_time t \<longrightarrow> pd_datetime y (JStr (isoformat t)) = Some t)
     \<and> (\<forall>i. pd_uuid y (uuid_str i) = Some i)
     \<and> (\<forall>n. 1 \<le> n \<and> n \<le> 100 \<longrightarrow> pd_int y (JStr (dec_str n)) = Some n)"

section \<open>Limits\<close>

definition text_in :: "nat \<Rightarrow> nat \<Rightarrow> pystr \<Rightarrow> bool" where
  "text_in lo hi s \<longleftrightarrow> lo \<le> length s \<and> length s \<le> hi"

definition opt_in :: "nat \<Rightarrow> pystr option \<Rightarrow> bool" where
  "opt_in hi x \<longleftrightarrow> length (or_empty x) \<le> hi"

definition valid_request_create :: "request_create \<Rightarrow> bool" where
  [body_defs]: "valid_request_create b \<longleftrightarrow> text_in 1 max_raw_input (rc_raw_input b) \<and> opt_in 255 (rc_requester_id b)
     \<and> opt_in 255 (rc_booking_id b) \<and> opt_in 255 (rc_premises_id b)"

definition valid_from_chat :: "from_chat_create \<Rightarrow> bool" where
  [body_defs]: "valid_from_chat b \<longleftrightarrow> text_in 1 255 (fc_chat_session_id b) \<and> text_in 1 255 (fc_requester_id b)
     \<and> text_in 1 max_raw_input (fc_raw_input b)
     \<and> (case fc_transcript b of None \<Rightarrow> True | Some t \<Rightarrow> dicts_field t = Some t)
     \<and> opt_in 255 (fc_booking_id b) \<and> opt_in 255 (fc_premises_id b)"

definition valid_from_ticket :: "from_ticket_create \<Rightarrow> bool" where
  [body_defs]: "valid_from_ticket b \<longleftrightarrow> text_in 1 255 (ft_ticket_id b) \<and> text_in 1 255 (ft_requester_id b)
     \<and> text_in 1 max_raw_input (ft_raw_input b) \<and> opt_in 255 (ft_booking_id b) \<and> opt_in 255 (ft_premises_id b)"

definition valid_estimate :: "estimate_create \<Rightarrow> bool" where
  [body_defs]: "valid_estimate b \<longleftrightarrow> (case ec_amount_rub b of None \<Rightarrow> True | Some q \<Rightarrow> 0 \<le> q \<and> q \<le> max_amount_rub)
     \<and> opt_in 255 (ec_eta_text b) \<and> opt_in max_message (ec_comment b) \<and> estimate_not_empty b"

definition valid_attachment :: "attachment_ref \<Rightarrow> bool" where
  [body_defs]: "valid_attachment b \<longleftrightarrow> text_in 1 255 (ar_file_id b) \<and> opt_in 255 (ar_filename b)
     \<and> opt_in 128 (ar_content_type b)"

definition valid_message :: "message_create \<Rightarrow> bool" where
  [body_defs]: "valid_message b \<longleftrightarrow> text_in 1 max_message (mc_text b) \<and> list_all valid_attachment (mc_attachments b)"

definition valid_settlement :: "settlement_confirm \<Rightarrow> bool" where
  [body_defs]: "valid_settlement b \<longleftrightarrow> opt_in 255 (sf_amount_ref b) \<and> opt_in 255 (sf_escrow_ref b)"

definition valid_partner_response :: "partner_response \<Rightarrow> bool" where
  [body_defs]: "valid_partner_response b \<longleftrightarrow> text_in 1 64 (pr_status b) \<and> opt_in max_message (pr_message b)"

definition valid_assign :: "assign_request \<Rightarrow> bool" where
  [body_defs]: "valid_assign b \<longleftrightarrow> opt_in 255 (ag_partner_id b) \<and> opt_in 255 (ag_service_area b)"

definition valid_channel_create :: "channel_create \<Rightarrow> bool" where
  [body_defs]: "valid_channel_create b \<longleftrightarrow> text_in 1 255 (cc_collaborator_id b) \<and> 0 \<le> cc_priority b
     \<and> opt_in 255 (cc_inbound_token b)"

definition valid_channel_update :: "channel_update \<Rightarrow> bool" where
  [body_defs]: "valid_channel_update b \<longleftrightarrow> (case cu_priority b of None \<Rightarrow> True | Some n \<Rightarrow> 0 \<le> n)
     \<and> opt_in 255 (cu_inbound_token b)"

definition valid_subscription :: "subscription_create \<Rightarrow> bool" where
  [body_defs]: "valid_subscription b \<longleftrightarrow> text_in 1 2048 (sb_endpoint b) \<and> text_in 1 512 (sb_p256dh b)
     \<and> text_in 1 512 (sb_auth b)"

definition valid_filters :: "request_filters \<Rightarrow> bool" where
  [body_defs]: "valid_filters f \<longleftrightarrow> opt_in 255 (rf_partner_id f)"

section \<open>What a client sends\<close>

definition opt_enc :: "('a \<Rightarrow> json) \<Rightarrow> 'a option \<Rightarrow> json" where
  "opt_enc f x = (case x of None \<Rightarrow> JNull | Some v \<Rightarrow> f v)"

definition obj :: "(string \<times> json) list \<Rightarrow> json" where
  "obj kvs = JObj (map (\<lambda>(k, v). (u k, v)) kvs)"

definition encode_request_create :: "request_create \<Rightarrow> json" where
  [body_defs]: "encode_request_create b = obj [(''raw_input'', JStr (rc_raw_input b)),
     (''requester_id'', opt_json (rc_requester_id b)), (''booking_id'', opt_json (rc_booking_id b)),
     (''premises_id'', opt_json (rc_premises_id b)), (''source_ref'', opt_enc JObj (rc_source_ref b))]"

definition encode_from_chat :: "from_chat_create \<Rightarrow> json" where
  [body_defs]: "encode_from_chat b = obj [(''chat_session_id'', JStr (fc_chat_session_id b)),
     (''requester_id'', JStr (fc_requester_id b)), (''raw_input'', JStr (fc_raw_input b)),
     (''transcript'', opt_enc id (fc_transcript b)), (''booking_id'', opt_json (fc_booking_id b)),
     (''premises_id'', opt_json (fc_premises_id b))]"

definition encode_from_ticket :: "from_ticket_create \<Rightarrow> json" where
  [body_defs]: "encode_from_ticket b = obj [(''ticket_id'', JStr (ft_ticket_id b)),
     (''requester_id'', JStr (ft_requester_id b)), (''raw_input'', JStr (ft_raw_input b)),
     (''booking_id'', opt_json (ft_booking_id b)), (''premises_id'', opt_json (ft_premises_id b))]"

definition encode_estimate :: "estimate_create \<Rightarrow> json" where
  [body_defs]: "encode_estimate b = obj [(''kind'', JStr (estimate_kind_value (ec_kind b))),
     (''amount_rub'', opt_enc JNum (ec_amount_rub b)), (''eta_text'', opt_json (ec_eta_text b)),
     (''comment'', opt_json (ec_comment b))]"

definition encode_message :: "message_create \<Rightarrow> json" where
  [body_defs]: "encode_message b = obj [(''text'', JStr (mc_text b)), (''is_internal'', JBool (mc_is_internal b)),
     (''attachments'', JArr (map (JObj \<circ> dump_attachment) (mc_attachments b)))]"

definition encode_settlement :: "settlement_confirm \<Rightarrow> json" where
  [body_defs]: "encode_settlement b = obj [(''amount_ref'', opt_json (sf_amount_ref b)),
     (''escrow_ref'', opt_json (sf_escrow_ref b))]"

definition encode_partner_response :: "partner_response \<Rightarrow> json" where
  [body_defs]: "encode_partner_response b = obj [(''status'', JStr (pr_status b)), (''message'', opt_json (pr_message b))]"

definition encode_assign :: "assign_request \<Rightarrow> json" where
  [body_defs]: "encode_assign b = obj [(''partner_id'', opt_json (ag_partner_id b)),
     (''service_area'', opt_json (ag_service_area b))]"

definition encode_channel_create :: "channel_create \<Rightarrow> json" where
  [body_defs]: "encode_channel_create b = obj [(''collaborator_id'', JStr (cc_collaborator_id b)),
     (''channel_type'', JStr (channel_type_value (cc_channel_type b))), (''priority'', JInt (cc_priority b)),
     (''config'', JObj (cc_config b)), (''inbound_token'', opt_json (cc_inbound_token b)),
     (''is_active'', JBool (cc_is_active b))]"

definition encode_channel_update :: "channel_update \<Rightarrow> json" where
  [body_defs]: "encode_channel_update b = obj [(''priority'', opt_enc JInt (cu_priority b)),
     (''config'', opt_enc JObj (cu_config b)), (''inbound_token'', opt_json (cu_inbound_token b)),
     (''is_active'', opt_enc JBool (cu_is_active b))]"

definition encode_subscription :: "subscription_create \<Rightarrow> json" where
  [body_defs]: "encode_subscription b = obj [(''endpoint'', JStr (sb_endpoint b)),
     (''keys'', obj [(''p256dh'', JStr (sb_p256dh b)), (''auth'', JStr (sb_auth b))])]"

section \<open>Fields\<close>

lemma field_Some_iff: "field f d k g = Some b \<longleftrightarrow> (\<exists>a. f (dict_get d (u k)) = Some a \<and> g a = Some b)"
  by (simp add: field_def bind_eq_Some_conv)

lemma str_field_iff: "str_field lo hi j = Some s \<longleftrightarrow> j = Some (JStr s) \<and> text_in lo hi s"
  by (auto simp: str_field_def text_in_def split: option.splits json.splits if_splits)

lemma opt_field_iff:
  "opt_field f j = Some x \<longleftrightarrow> (x = None \<and> (j = None \<or> j = Some JNull)) \<or> (\<exists>v. j = Some v \<and> v \<noteq> JNull \<and> (\<exists>a. f v = Some a \<and> x = Some a))"
  by (auto simp: opt_field_def split: option.splits json.splits)

lemma opt_str_sound: "opt_str hi j = Some x \<Longrightarrow> opt_in hi x"
  by (auto simp: opt_str_def opt_field_iff str_field_iff text_in_def opt_in_def)

lemma opt_str_iff:
  "opt_str hi j = Some x \<longleftrightarrow> opt_in hi x \<and> (x = None \<and> (j = None \<or> j = Some JNull) \<or> (\<exists>s. j = Some (JStr s) \<and> x = Some s))"
  by (auto simp: opt_str_def opt_field_iff str_field_iff text_in_def opt_in_def)

lemma bounded_by_iff:
  "bounded_by lo hi f j = Some x \<longleftrightarrow> f j = Some x \<and> (case lo of None \<Rightarrow> True | Some l \<Rightarrow> l \<le> x) \<and> (case hi of None \<Rightarrow> True | Some h \<Rightarrow> x \<le> h)"
  by (auto simp: bounded_by_def bind_eq_Some_conv)

lemma field_of [simp]:
  "str_field lo hi (Some (JStr s)) = (if text_in lo hi s then Some s else None)"
  "opt_str hi (Some (opt_json x)) = (if opt_in hi x then Some x else None)"
  "required f (Some v) = f v" "defaulted x0 f (Some v) = f v"
  "enum_field of_value (JStr t) = of_value t" "dict_field (JObj d) = Some d"
  by (auto simp: str_field_def text_in_def opt_str_def opt_field_def opt_in_def required_def
      defaulted_def enum_field_def dict_field_def opt_json_def split: option.splits)

lemma opt_field_of:
  "(\<And>v. x = Some v \<Longrightarrow> enc v \<noteq> JNull) \<Longrightarrow>
   opt_field f (Some (opt_enc enc x)) = (case x of None \<Rightarrow> Some None | Some v \<Rightarrow> map_option Some (f (enc v)))"
  by (auto simp: opt_field_def opt_enc_def split: option.splits json.splits)

lemma body_of_obj [simp]:
  "body_of keys f (obj kvs) = (if fst ` set kvs \<subseteq> set keys then f (map (\<lambda>(k, v). (u k, v)) kvs) else None)"
proof -
  have "fst ` set (map (\<lambda>(k, v). (u k, v)) kvs) = u ` fst ` set kvs" by force
  moreover have "u ` A \<subseteq> u ` B \<longleftrightarrow> A \<subseteq> B" for A B by (auto simp: inj_image_subset_iff inj_def)
  ultimately show ?thesis by (simp add: body_of_def obj_def)
qed

lemma those_all: "list_all P xs \<Longrightarrow> (\<And>x. P x \<Longrightarrow> f (g x) = Some x) \<Longrightarrow> those (map f (map g xs)) = Some xs"
  by (induction xs) simp_all

lemma those_sound: "those (map f js) = Some xs \<Longrightarrow> (\<And>j x. f j = Some x \<Longrightarrow> P x) \<Longrightarrow> list_all P xs"
  by (induction js arbitrary: xs) (auto split: option.splits)

lemma channel_type_of_value_value [simp]: "channel_type_of_value (channel_type_value m) = Some m"
  by (cases m) (simp_all add: channel_type_of_value_def channel_type_members_def)

section \<open>A decoded body is within its limits\<close>

lemma body_of_Some: "body_of keys f j = Some b \<Longrightarrow> \<exists>d. f d = Some b"
  by (auto simp: body_of_def split: json.splits if_splits)

lemma dicts_field_sound: "dicts_field v = Some t \<Longrightarrow> dicts_field t = Some t"
  by (cases v) (auto simp: dicts_field_def split: if_splits)

lemma opt_dicts_sound:
  "opt_field dicts_field j = Some x \<Longrightarrow> case x of None \<Rightarrow> True | Some t \<Rightarrow> dicts_field t = Some t"
  by (auto simp: opt_field_iff dest: dicts_field_sound)

lemma opt_bounded_sound:
  "opt_field (bounded_by (Some lo) hi f) j = Some x \<Longrightarrow>
   case x of None \<Rightarrow> True | Some q \<Rightarrow> lo \<le> q \<and> (case hi of None \<Rightarrow> True | Some h \<Rightarrow> q \<le> h)"
  by (auto simp: opt_field_iff bounded_by_iff)

lemma decode_sound:
  "decode_request_create j = Some rc \<Longrightarrow> valid_request_create rc"
  "decode_from_chat j = Some fc \<Longrightarrow> valid_from_chat fc"
  "decode_from_ticket j = Some ft \<Longrightarrow> valid_from_ticket ft"
  "decode_attachment j = Some ar \<Longrightarrow> valid_attachment ar"
  "decode_settlement j = Some sf \<Longrightarrow> valid_settlement sf"
  "decode_partner_response j = Some pr \<Longrightarrow> valid_partner_response pr"
  "decode_assign j = Some ag \<Longrightarrow> valid_assign ag"
  "decode_reason j = Some t \<Longrightarrow> text_in 1 max_message t"
  unfolding body_defs
  by (drule body_of_Some; auto simp: field_Some_iff str_field_iff dest: opt_str_sound opt_dicts_sound)+

lemma attachments_sound: "those (map decode_attachment js) = Some xs \<Longrightarrow> list_all valid_attachment xs"
  using those_sound [of decode_attachment js xs valid_attachment] decode_sound(4) by blast

lemma attachments_field_sound:
  "defaulted [] (list_field decode_attachment) j = Some xs \<Longrightarrow> list_all valid_attachment xs"
  using attachments_sound by (auto simp: defaulted_def list_field_def split: option.splits json.splits)

lemma decode_message_sound: "decode_message y j = Some mc \<Longrightarrow> valid_message mc"
  unfolding decode_message_def valid_message_def
  by (drule body_of_Some) (clarsimp simp: field_Some_iff str_field_iff attachments_field_sound)

lemma decode_sound_typed:
  "decode_estimate y j = Some ec \<Longrightarrow> valid_estimate ec"
  "decode_channel_create y j = Some cc \<Longrightarrow> valid_channel_create cc"
  "decode_channel_update y j = Some cu \<Longrightarrow> valid_channel_update cu"
  unfolding body_defs
  by (drule body_of_Some; auto simp: field_Some_iff str_field_iff opt_str_iff Let_def defaulted_def bounded_by_iff
      dest: opt_bounded_sound split: if_splits option.splits)+

lemma decode_sound_open:
  "decode_subscription j = Some sb \<Longrightarrow> valid_subscription sb"
  "decode_filters y q = Some f \<Longrightarrow> valid_filters f"
  by (auto simp: body_defs open_body_def bind_eq_Some_conv field_Some_iff str_field_iff dest: opt_str_sound)

section \<open>The JSON of a body within its limits is decoded to it\<close>

lemma decode_of:
  "decode_request_create (encode_request_create rc) = (if valid_request_create rc then Some rc else None)"
  "decode_from_ticket (encode_from_ticket ft) = (if valid_from_ticket ft then Some ft else None)"
  "decode_settlement (encode_settlement sf) = (if valid_settlement sf then Some sf else None)"
  "decode_partner_response (encode_partner_response pr) = (if valid_partner_response pr then Some pr else None)"
  "decode_assign (encode_assign ag) = (if valid_assign ag then Some ag else None)"
  "decode_transition (obj [(''target'', JStr (status_value st))]) = Some st"
  "decode_reason (obj [(''reason'', JStr t)]) = (if text_in 1 max_message t then Some t else None)"
  by (auto simp: body_defs field_def opt_field_of split: option.split)

lemma dump_attachment_obj: "JObj (dump_attachment a) = obj [(''file_id'', JStr (ar_file_id a)),
    (''filename'', opt_json (ar_filename a)), (''content_type'', opt_json (ar_content_type a))]"
  by (simp add: dump_attachment_def obj_def)

lemma decode_attachment_of: "valid_attachment a \<Longrightarrow> decode_attachment (JObj (dump_attachment a)) = Some a"
  by (auto simp: dump_attachment_obj body_defs field_def split: option.split)

lemma decode_chat_of: "valid_from_chat fc \<Longrightarrow> decode_from_chat (encode_from_chat fc) = Some fc"
proof -
  assume v: "valid_from_chat fc"
  then have "opt_field dicts_field (Some (opt_enc id (fc_transcript fc))) = Some (fc_transcript fc)"
    by (subst opt_field_of) (auto simp: valid_from_chat_def dicts_field_def split: option.splits json.splits)
  with v show ?thesis by (simp add: body_defs field_def)
qed

lemma decode_subscription_of: "valid_subscription sb \<Longrightarrow> decode_subscription (encode_subscription sb) = Some sb"
  by (simp add: body_defs open_body_def field_def obj_def)

lemma reads [simp]:
  "pydantic_laws y \<Longrightarrow> pd_int y (JInt i) = Some i" "pydantic_laws y \<Longrightarrow> pd_bool y (JBool b) = Some b"
  "pydantic_laws y \<Longrightarrow> kopecks q \<Longrightarrow> pd_decimal y (JNum q) = Some q"
  "pydantic_laws y \<Longrightarrow> plain_time t \<Longrightarrow> pd_datetime y (JStr (isoformat t)) = Some t" "pydantic_laws y \<Longrightarrow> pd_uuid y (uuid_str n) = Some n"
  by (simp_all add: pydantic_laws_def)

lemma reads_limit: "pydantic_laws y \<Longrightarrow> 1 \<le> n \<Longrightarrow> n \<le> 100 \<Longrightarrow> pd_int y (JStr (dec_str n)) = Some n"
  unfolding pydantic_laws_def by blast

lemma decode_estimate_of:
  "pydantic_laws y \<Longrightarrow> valid_estimate ec \<Longrightarrow> (case ec_amount_rub ec of None \<Rightarrow> True | Some q \<Rightarrow> kopecks q)
   \<Longrightarrow> decode_estimate y (encode_estimate ec) = Some ec"
  by (auto simp: body_defs field_def opt_field_of bounded_by_def Let_def estimate_not_empty_def split: option.splits)

lemma decode_message_of: "pydantic_laws y \<Longrightarrow> valid_message mc \<Longrightarrow> decode_message y (encode_message mc) = Some mc"
  using those_all [of valid_attachment "mc_attachments mc" decode_attachment "JObj \<circ> dump_attachment"] decode_attachment_of
  by (simp add: decode_message_def encode_message_def valid_message_def field_def list_field_def)

lemma decode_reschedule_of: "pydantic_laws y \<Longrightarrow> plain_time t \<Longrightarrow> decode_reschedule y (obj [(''scheduled_at'', JStr (isoformat t))]) = Some t"
  by (simp add: decode_reschedule_def field_def)

lemma decode_channel_of:
  "pydantic_laws y \<Longrightarrow> valid_channel_create cc \<Longrightarrow> decode_channel_create y (encode_channel_create cc) = Some cc"
  "pydantic_laws y \<Longrightarrow> valid_channel_update cu \<Longrightarrow> decode_channel_update y (encode_channel_update cu) = Some cu"
  by (auto simp: body_defs field_def opt_field_of bounded_by_def split: option.splits)

end
