(* ===== verification/Routes.thy ===== *)
theory Routes
  imports Body_Limits
begin

text \<open>
  The table of routes (\<open>requests/router.py\<close>, \<open>channels/router.py\<close>, \<open>channels/inbound_router.py\<close>,
  \<open>push/router.py\<close>, mounted by \<open>main.py\<close>) and the way of a request through it: a path is matched
  against the templates in the order of their registration, the dependencies of the route run before
  what they do not need is validated, and the decoded call goes to its route. The pages the framework
  adds on its own (the schema and its viewers) are not in the table.
\<close>

section \<open>Templates\<close>

datatype seg = Lit string | Param

text \<open>
  A parameter takes a segment that is not empty; the expression the framework builds of a template
  ends with \<open>$\<close>, which also stands before a line break at the end.
\<close>

fun match_path :: "seg list \<Rightarrow> pystr list \<Rightarrow> pystr list option" where
  "match_path [] ss = (if ss = [] then Some [] else None)"
| "match_path (t # ts) [] = None"
| "match_path (Lit l # ts) (s # ss) = (if s = u l \<or> (ss = [] \<and> s = u l @ [10]) then match_path ts ss else None)"
| "match_path (Param # ts) (s # ss) = (if s = [] then None else map_option ((#) s) (match_path ts ss))"

text \<open>A path is cut at the slashes: \<open>/a/b\<close> has the segments \<open>a\<close> and \<open>b\<close>.\<close>

fun cut_slashes :: "pystr \<Rightarrow> pystr \<Rightarrow> pystr list" where
  "cut_slashes acc [] = [rev acc]"
| "cut_slashes acc (c # cs) = (if c = 47 then rev acc # cut_slashes [] cs else cut_slashes (c # acc) cs)"

definition path_segments :: "pystr \<Rightarrow> pystr list option" where
  "path_segments p = (case p of c # cs \<Rightarrow> if c = 47 then Some (cut_slashes [] cs) else None | [] \<Rightarrow> None)"

section \<open>The table\<close>

datatype endpoint =
    Ep_create_request | Ep_create_from_chat | Ep_create_from_ticket | Ep_list_requests | Ep_get_request
  | Ep_transition | Ep_classify | Ep_assign | Ep_dispatch | Ep_accept | Ep_dispute | Ep_settlement
  | Ep_cancel | Ep_reschedule | Ep_partner_response | Ep_estimate | Ep_requester_context
  | Ep_list_messages | Ep_add_message
  | Ep_list_channels | Ep_create_channel | Ep_get_channel | Ep_update_channel
  | Ep_inbound
  | Ep_subscribe | Ep_unsubscribe
  | Ep_healthz | Ep_readyz | Ep_metrics

record route =
  ro_method :: string
  ro_path :: "seg list"
  ro_endpoint :: endpoint

definition route :: "string \<Rightarrow> seg list \<Rightarrow> endpoint \<Rightarrow> route" where
  "route m p ep = \<lparr>ro_method = m, ro_path = p, ro_endpoint = ep\<rparr>"

definition include_router :: "seg list \<Rightarrow> route list \<Rightarrow> route list" where
  "include_router prefix rs = map (\<lambda>r. r\<lparr>ro_path := prefix @ ro_path r\<rparr>) rs"

definition requests_router :: "route list" where
  "requests_router = include_router [Lit ''requests'']
     [route ''POST'' [] Ep_create_request,
      route ''POST'' [Lit ''from-chat''] Ep_create_from_chat,
      route ''POST'' [Lit ''from-ticket''] Ep_create_from_ticket,
      route ''GET'' [] Ep_list_requests,
      route ''GET'' [Param] Ep_get_request,
      route ''POST'' [Param, Lit ''transition''] Ep_transition,
      route ''POST'' [Param, Lit ''classify''] Ep_classify,
      route ''POST'' [Param, Lit ''assign''] Ep_assign,
      route ''POST'' [Param, Lit ''dispatch''] Ep_dispatch,
      route ''POST'' [Param, Lit ''accept''] Ep_accept,
      route ''POST'' [Param, Lit ''dispute''] Ep_dispute,
      route ''POST'' [Param, Lit ''settlement''] Ep_settlement,
      route ''POST'' [Param, Lit ''cancel''] Ep_cancel,
      route ''POST'' [Param, Lit ''reschedule''] Ep_reschedule,
      route ''POST'' [Param, Lit ''partner-response''] Ep_partner_response,
      route ''POST'' [Param, Lit ''estimate''] Ep_estimate,
      route ''GET'' [Param, Lit ''requester-context''] Ep_requester_context,
      route ''GET'' [Param, Lit ''messages''] Ep_list_messages,
      route ''POST'' [Param, Lit ''messages''] Ep_add_message]"

definition channels_router :: "route list" where
  "channels_router = include_router [Lit ''channels'']
     [route ''GET'' [] Ep_list_channels,
      route ''POST'' [] Ep_create_channel,
      route ''GET'' [Param] Ep_get_channel,
      route ''PATCH'' [Param] Ep_update_channel]"

definition inbound_router :: "route list" where
  "inbound_router = include_router [Lit ''inbound''] [route ''POST'' [Lit ''api'', Param] Ep_inbound]"

definition push_router :: "route list" where
  "push_router =
     [route ''POST'' [Lit ''push'', Lit ''subscriptions''] Ep_subscribe,
      route ''DELETE'' [Lit ''push'', Lit ''subscriptions''] Ep_unsubscribe]"

definition api_prefix :: "seg list" where
  "api_prefix = [Lit ''api'', Lit ''v1'', Lit ''partners'']"

definition app_routes :: "route list" where
  "app_routes = include_router api_prefix requests_router @ include_router api_prefix channels_router
     @ include_router api_prefix inbound_router @ include_router api_prefix push_router
     @ [route ''GET'' [Lit ''healthz''] Ep_healthz, route ''GET'' [Lit ''readyz''] Ep_readyz,
        route ''GET'' [Lit ''metrics''] Ep_metrics]"

section \<open>Matching\<close>

definition params_of :: "pystr \<Rightarrow> route \<Rightarrow> pystr list option" where
  "params_of path r = Option.bind (path_segments path) (match_path (ro_path r))"

definition serves :: "pystr \<Rightarrow> pystr \<Rightarrow> route \<Rightarrow> bool" where
  "serves m path r \<longleftrightarrow> u (ro_method r) = m \<and> params_of path r \<noteq> None"

datatype routing = Routed endpoint "pystr list" | Wrong_method | Redirect pystr | Not_routed

text \<open>A path with slashes too many at its end is redirected to the one without them.\<close>

definition find_route :: "route list \<Rightarrow> pystr \<Rightarrow> pystr \<Rightarrow> routing" where
  "find_route rs m path = (case find (serves m path) rs of
       Some r \<Rightarrow> Routed (ro_endpoint r) (the (params_of path r))
     | None \<Rightarrow>
         if \<exists>r\<in>set rs. params_of path r \<noteq> None then Wrong_method
         else (let short = rstrip_by (\<lambda>c. c = 47) path
               in if short \<noteq> path \<and> (\<exists>r\<in>set rs. params_of short r \<noteq> None) then Redirect short else Not_routed))"

section \<open>No two routes serve the same request\<close>

definition differ :: "string \<Rightarrow> string \<Rightarrow> bool" where
  "differ a b \<longleftrightarrow> u a \<noteq> u b \<and> u a \<noteq> u b @ [10] \<and> u b \<noteq> u a @ [10]"

fun apart :: "seg list \<Rightarrow> seg list \<Rightarrow> bool" where
  "apart [] [] = False"
| "apart [] (t # ts) = True"
| "apart (t # ts) [] = True"
| "apart (Lit a # ts) (Lit b # ts') = (differ a b \<or> apart ts ts')"
| "apart (Lit a # ts) (Param # ts') = apart ts ts'"
| "apart (Param # ts) (t # ts') = apart ts ts'"

lemma match_path_Cons:
  "match_path (t # ts) ss = Some ps \<Longrightarrow> \<exists>s ss' ps'. ss = s # ss' \<and> match_path ts ss' = Some ps'"
  by (cases t; cases ss) (auto split: if_splits)

lemma match_path_Lit:
  "match_path (Lit l # ts) (s # ss) = Some ps \<Longrightarrow> s = u l \<or> s = u l @ [10]"
  by (auto split: if_splits)

lemma apart_paths: "apart ts ts' \<Longrightarrow> match_path ts ss = Some ps \<Longrightarrow> match_path ts' ss \<noteq> Some ps'"
proof (induction ts ts' arbitrary: ss ps ps' rule: apart.induct)
  case (4 a ts b ts')
  show ?case
  proof
    assume r: "match_path (Lit b # ts') ss = Some ps'"
    obtain s rest q q' where ss: "ss = s # rest" and q: "match_path ts rest = Some q" "match_path ts' rest = Some q'"
      using match_path_Cons [OF 4(3)] match_path_Cons [OF r] by auto
    then have "\<not> apart ts ts'" using 4(1) [OF _ q(1), of q'] by blast
    then have "differ a b" using 4(2) by simp
    moreover have "s = u a \<or> s = u a @ [10]" "s = u b \<or> s = u b @ [10]"
      using match_path_Lit 4(3) r unfolding ss by blast+
    ultimately show False by (auto simp: differ_def)
  qed
next
  case (5 a ts ts')
  then show ?case using match_path_Cons [of "Lit a" ts ss ps] match_path_Cons [of Param ts' ss ps'] by auto
next
  case (6 ts t ts')
  then show ?case using match_path_Cons [of Param ts ss ps] match_path_Cons [of t ts' ss ps'] by auto
qed (auto split: if_splits)

definition exclusive :: "route \<Rightarrow> route \<Rightarrow> bool" where
  "exclusive r r' \<longleftrightarrow> ro_method r \<noteq> ro_method r' \<or> apart (ro_path r) (ro_path r')"

lemma exclusive_serves: "exclusive r r' \<Longrightarrow> serves m p r \<Longrightarrow> \<not> serves m p r'"
  using apart_paths by (auto simp: exclusive_def serves_def params_of_def bind_eq_Some_conv)

lemma app_routes_exclusive: "sorted_wrt exclusive app_routes"
  by code_simp

lemma exclusive_filter:
  "sorted_wrt exclusive rs \<Longrightarrow> length (filter (serves m p) rs) \<le> 1"
proof (induction rs)
  case (Cons r rs)
  then have "\<forall>r'\<in>set rs. exclusive r r'" "length (filter (serves m p) rs) \<le> 1" by simp_all
  moreover have "filter (serves m p) rs = []" if "serves m p r"
    using calculation(1) exclusive_serves that by (auto simp: filter_empty_conv)
  ultimately show ?case by auto
qed simp

lemma find_exclusive:
  assumes "sorted_wrt exclusive rs" "r \<in> set rs" "serves m p r"
  shows "find (serves m p) rs = Some r"
  using assms
proof (induction rs)
  case (Cons x rs)
  then show ?case using exclusive_serves [of x r m p] by (cases "x = r") auto
qed simp

section \<open>The path of a route\<close>

fun fill :: "seg list \<Rightarrow> pystr list \<Rightarrow> pystr list" where
  "fill [] ps = []"
| "fill (Lit l # ts) ps = u l # fill ts ps"
| "fill (Param # ts) ps = hd ps # fill ts (tl ps)"

fun holes :: "seg list \<Rightarrow> nat" where
  "holes [] = 0"
| "holes (Lit l # ts) = holes ts"
| "holes (Param # ts) = Suc (holes ts)"

definition path_text :: "pystr list \<Rightarrow> pystr" where
  "path_text ss = concat (map ((#) 47) ss)"

definition slash_free :: "pystr \<Rightarrow> bool" where
  "slash_free s \<longleftrightarrow> 47 \<notin> set s"

lemma match_fill: "length ps = holes ts \<Longrightarrow> [] \<notin> set ps \<Longrightarrow> match_path ts (fill ts ps) = Some ps"
  by (induction ts ps rule: fill.induct) (auto simp: length_Suc_conv)

lemma fill_slash_free:
  "length ps = holes ts \<Longrightarrow> list_all slash_free ps \<Longrightarrow> \<forall>l. Lit l \<in> set ts \<longrightarrow> slash_free (u l)
   \<Longrightarrow> list_all slash_free (fill ts ps)"
  by (induction ts ps rule: fill.induct) (auto simp: length_Suc_conv)

lemma cut_slashes_app: "slash_free s \<Longrightarrow> cut_slashes acc (s @ 47 # r) = (rev acc @ s) # cut_slashes [] r"
  by (induction s arbitrary: acc) (auto simp: slash_free_def)

lemma cut_slashes_last: "slash_free s \<Longrightarrow> cut_slashes acc s = [rev acc @ s]"
  by (induction s arbitrary: acc) (auto simp: slash_free_def)

lemma cut_path: "list_all slash_free (s # ss) \<Longrightarrow> cut_slashes [] (s @ path_text ss) = s # ss"
proof (induction ss arbitrary: s)
  case Nil
  then show ?case by (simp add: path_text_def cut_slashes_last)
next
  case (Cons s' ss)
  then have "cut_slashes [] (s @ 47 # (s' @ path_text ss)) = s # s' # ss" by (simp add: cut_slashes_app)
  then show ?case by (simp add: path_text_def)
qed

lemma path_segments_text: "list_all slash_free ss \<Longrightarrow> ss \<noteq> [] \<Longrightarrow> path_segments (path_text ss) = Some ss"
  by (cases ss) (simp_all add: cut_path path_segments_def, simp add: path_text_def path_segments_def cut_path [unfolded path_text_def])

text \<open>No literal of a template has a slash, and no template is empty.\<close>

definition plain_template :: "route \<Rightarrow> bool" where
  "plain_template r \<longleftrightarrow> ro_path r \<noteq> [] \<and> list_all (\<lambda>t. case t of Lit l \<Rightarrow> slash_free (u l) | Param \<Rightarrow> True) (ro_path r)"

lemma app_routes_plain: "list_all plain_template app_routes"
  by code_simp

lemma find_route_of:
  assumes "r \<in> set app_routes" "length ps = holes (ro_path r)" "[] \<notin> set ps" "list_all slash_free ps"
  shows "find_route app_routes (u (ro_method r)) (path_text (fill (ro_path r) ps)) = Routed (ro_endpoint r) ps"
proof -
  have "plain_template r" using app_routes_plain assms(1) by (simp add: list_all_iff)
  then have "\<forall>l. Lit l \<in> set (ro_path r) \<longrightarrow> slash_free (u l)" "ro_path r \<noteq> []"
    by (auto simp: plain_template_def list_all_iff split: seg.splits)
  with fill_slash_free [OF assms(2,4)] have "list_all slash_free (fill (ro_path r) ps)" "ro_path r \<noteq> []" by simp_all
  moreover from this have "fill (ro_path r) ps \<noteq> []" by (cases "ro_path r"; cases "hd (ro_path r)") auto
  ultimately have p: "params_of (path_text (fill (ro_path r) ps)) r = Some ps"
    using match_fill assms(2,3) by (simp add: params_of_def path_segments_text)
  then have "serves (u (ro_method r)) (path_text (fill (ro_path r) ps)) r" by (simp add: serves_def)
  from find_exclusive [OF app_routes_exclusive assms(1) this] show ?thesis by (simp add: find_route_def p)
qed

end
