(* ===== verification/Endpoints.thy ===== *)
theory Endpoints
  imports Routes
begin

text \<open>
  A request from its bytes to its answer: the route of its path, the call that the route's signature
  makes of path, query, headers and body, and the order in which the framework refuses. A body that
  is not JSON is refused first, then the dependencies of the route are asked (who calls, what the
  caller must be, whether a service can be built), and only then a value that does not fit the
  signature is a 422.
\<close>

section \<open>Requests\<close>

text \<open>\<open>rq_json\<close>: the content type makes the framework read the body as JSON.\<close>

record http_request =
  rq_method :: pystr
  rq_path :: pystr
  rq_query :: "(pystr \<times> pystr) list"
  rq_credentials :: "pystr option"
  rq_idempotency_key :: "pystr option"
  rq_signature :: "pystr option"
  rq_timestamp :: "pystr option"
  rq_json :: bool
  rq_body :: "nat list"

datatype content = No_body | Malformed | Opaque | Value json

definition content_of :: "wire \<Rightarrow> http_request \<Rightarrow> content" where
  "content_of wr q = (if rq_body q = [] then No_body else if \<not> rq_json q then Opaque
     else case wr_loads wr (rq_body q) of None \<Rightarrow> Malformed | Some j \<Rightarrow> Value j)"

section \<open>The call\<close>

definition json_body :: "(json \<Rightarrow> 'a option) \<Rightarrow> content \<Rightarrow> ('a \<Rightarrow> api_call) \<Rightarrow> api_call option" where
  "json_body f c k = (case c of Value j \<Rightarrow> map_option k (f j) | _ \<Rightarrow> None)"

definition with_id :: "pydantic \<Rightarrow> pystr list \<Rightarrow> (uuid \<Rightarrow> api_call option) \<Rightarrow> api_call option" where
  "with_id y ps f = (case ps of [s] \<Rightarrow> Option.bind (pd_uuid y s) f | _ \<Rightarrow> None)"

definition text_query :: "http_request \<Rightarrow> string \<Rightarrow> pystr option" where
  "text_query q k = map_of (rev (rq_query q)) (u k)"

definition limit_query :: "pydantic \<Rightarrow> http_request \<Rightarrow> nat option option" where
  "limit_query y q = map_option (map_option nat)
     (opt_field (bounded_by (Some 1) (Some 100) (pd_int y)) (query_get (rq_query q) ''limit''))"

fun decode_call :: "pydantic \<Rightarrow> endpoint \<Rightarrow> pystr list \<Rightarrow> http_request \<Rightarrow> content \<Rightarrow> api_call option" where
  "decode_call y Ep_create_request ps q c = json_body decode_request_create c (\<lambda>b. Create_request b (rq_idempotency_key q))"
| "decode_call y Ep_create_from_chat ps q c = json_body decode_from_chat c Create_from_chat"
| "decode_call y Ep_create_from_ticket ps q c = json_body decode_from_ticket c Create_from_ticket"
| "decode_call y Ep_list_requests ps q c = Option.bind (decode_filters y (rq_query q)) (\<lambda>f.
     map_option (List_requests f (text_query q ''cursor'')) (limit_query y q))"
| "decode_call y Ep_get_request ps q c = with_id y ps (\<lambda>i. Some (Get_request i))"
| "decode_call y Ep_transition ps q c = with_id y ps (\<lambda>i. json_body decode_transition c (Transition_request i))"
| "decode_call y Ep_classify ps q c = with_id y ps (\<lambda>i. Some (Classify_request i))"
| "decode_call y Ep_assign ps q c = with_id y ps (\<lambda>i. json_body decode_assign c (Assign_request i))"
| "decode_call y Ep_dispatch ps q c = with_id y ps (\<lambda>i. Some (Dispatch_request i))"
| "decode_call y Ep_accept ps q c = with_id y ps (\<lambda>i. Some (Accept_request i))"
| "decode_call y Ep_dispute ps q c = with_id y ps (\<lambda>i. json_body decode_reason c (Dispute_request i))"
| "decode_call y Ep_settlement ps q c = with_id y ps (\<lambda>i. json_body decode_settlement c (Confirm_settlement i))"
| "decode_call y Ep_cancel ps q c = with_id y ps (\<lambda>i. json_body decode_reason c (Cancel_request i))"
| "decode_call y Ep_reschedule ps q c = with_id y ps (\<lambda>i. json_body (decode_reschedule y) c (Reschedule_request i))"
| "decode_call y Ep_partner_response ps q c = with_id y ps (\<lambda>i. json_body decode_partner_response c (Respond_as_partner i))"
| "decode_call y Ep_estimate ps q c = with_id y ps (\<lambda>i. json_body (decode_estimate y) c (Add_estimate i))"
| "decode_call y Ep_requester_context ps q c = with_id y ps (\<lambda>i. Some (Requester_context i))"
| "decode_call y Ep_list_messages ps q c = with_id y ps (\<lambda>i. Some (List_messages i))"
| "decode_call y Ep_add_message ps q c = with_id y ps (\<lambda>i. json_body (decode_message y) c (Add_message i))"
| "decode_call y Ep_list_channels ps q c = Some (List_channels (text_query q ''collaborator_id''))"
| "decode_call y Ep_create_channel ps q c = json_body (decode_channel_create y) c Create_channel"
| "decode_call y Ep_get_channel ps q c = with_id y ps (\<lambda>i. Some (Get_channel i))"
| "decode_call y Ep_update_channel ps q c = with_id y ps (\<lambda>i. json_body (decode_channel_update y) c (Update_channel i))"
| "decode_call y Ep_subscribe ps q c = json_body decode_subscription c Subscribe"
| "decode_call y Ep_unsubscribe ps q c = map_option Unsubscribe (text_query q ''endpoint'')"
| "decode_call y ep ps q c = None"

text \<open>The routes with a body parameter; the others do not read the body at all.\<close>

fun takes_body :: "endpoint \<Rightarrow> bool" where
  "takes_body ep = (ep \<in> {Ep_create_request, Ep_create_from_chat, Ep_create_from_ticket, Ep_transition,
     Ep_assign, Ep_dispute, Ep_settlement, Ep_cancel, Ep_reschedule, Ep_partner_response, Ep_estimate,
     Ep_add_message, Ep_create_channel, Ep_update_channel, Ep_subscribe})"

section \<open>Dependencies\<close>

text \<open>
  What a route asks for besides the principal: the role, and the services whose factory builds a
  policy from the settings, which raises when they are wrong.
\<close>

definition dependencies :: "world \<Rightarrow> endpoint \<Rightarrow> principal \<Rightarrow> unit handler" where
  "dependencies w ep p =
     (if ep \<in> {Ep_create_from_chat, Ep_create_from_ticket, Ep_settlement} then require_service_principal p
      else if ep \<in> {Ep_list_channels, Ep_create_channel, Ep_get_channel, Ep_update_channel} then require_staff_admin p
      else if ep \<in> {Ep_dispatch, Ep_partner_response, Ep_estimate} then with_policy w (\<lambda>_. ret ())
      else ret ())"

section \<open>Answers\<close>

datatype answer =
    Reply "exn + (nat \<times> reply)"
  | Inbound_reply "exn + pystr"
  | Health json
  | Readiness "nat \<times> json"
  | Metrics_page
  | Invalid
  | Method_not_allowed
  | Moved pystr
  | No_such_path

definition problem_status :: "exn \<Rightarrow> nat" where
  "problem_status x = (case x of Problem e \<Rightarrow> fst (render_problem e) | _ \<Rightarrow> 500)"

fun answer_status :: "answer \<Rightarrow> nat" where
  "answer_status (Reply x) = http_status x"
| "answer_status (Inbound_reply (Inl x)) = problem_status x"
| "answer_status (Inbound_reply (Inr _)) = 200"
| "answer_status (Health _) = 200"
| "answer_status (Readiness x) = fst x"
| "answer_status Metrics_page = 200"
| "answer_status Invalid = 422"
| "answer_status Method_not_allowed = 405"
| "answer_status (Moved _) = 307"
| "answer_status No_such_path = 404"

definition answer_call :: "world \<Rightarrow> instant \<Rightarrow> uuid \<Rightarrow> http_request \<Rightarrow> api_call \<Rightarrow> db \<Rightarrow> answer \<times> db" where
  "answer_call w now new_id q call d =
     (case serve w now new_id (rq_credentials q) call d of (x, d') \<Rightarrow> (Reply x, d'))"

definition refuse :: "world \<Rightarrow> endpoint \<Rightarrow> http_request \<Rightarrow> db \<Rightarrow> answer \<times> db" where
  "refuse w ep q d = (case get_current_principal w (rq_credentials q) of
       Inl x \<Rightarrow> (Reply (Inl x), d)
     | Inr p \<Rightarrow> (case run_endpoint (dependencies w ep p) d of
         (Inl x, d') \<Rightarrow> (Reply (Inl x), d') | (Inr _, d') \<Rightarrow> (Invalid, d')))"

definition answer_inbound :: "world \<Rightarrow> instant \<Rightarrow> uuid \<Rightarrow> pystr list \<Rightarrow> http_request \<Rightarrow> db \<Rightarrow> answer \<times> db" where
  "answer_inbound w now new_id ps q d = (case (ps, rq_signature q, rq_timestamp q) of
       ([token], Some signature, Some timestamp) \<Rightarrow>
         (case serve_inbound w now new_id token (rq_body q) signature timestamp d of (x, d') \<Rightarrow> (Inbound_reply x, d'))
     | _ \<Rightarrow> (case run_endpoint (with_policy w (\<lambda>_. ret ())) d of
         (Inl x, d') \<Rightarrow> (Inbound_reply (Inl x), d') | (Inr _, d') \<Rightarrow> (Invalid, d')))"

definition answer_endpoint ::
    "world \<Rightarrow> instant \<Rightarrow> uuid \<Rightarrow> pydantic \<Rightarrow> bool \<times> bool \<Rightarrow> endpoint \<Rightarrow> pystr list \<Rightarrow> http_request \<Rightarrow> db \<Rightarrow> answer \<times> db" where
  "answer_endpoint w now new_id y up ep ps q d = (case ep of
       Ep_healthz \<Rightarrow> (Health healthz, d)
     | Ep_readyz \<Rightarrow> (Readiness (readyz (fst up) (snd up)), d)
     | Ep_metrics \<Rightarrow> (Metrics_page, d)
     | Ep_inbound \<Rightarrow> answer_inbound w now new_id ps q d
     | _ \<Rightarrow> (let c = content_of (w_wire w) q in
         if takes_body ep \<and> c = Malformed then (Invalid, d)
         else case decode_call y ep ps q c of
             None \<Rightarrow> refuse w ep q d
           | Some call \<Rightarrow> answer_call w now new_id q call d))"

text \<open>\<open>up\<close>: whether the database and Redis answer the probes.\<close>

definition serve_http ::
    "world \<Rightarrow> instant \<Rightarrow> uuid \<Rightarrow> pydantic \<Rightarrow> bool \<times> bool \<Rightarrow> http_request \<Rightarrow> db \<Rightarrow> answer \<times> db" where
  "serve_http w now new_id y up q d = (case find_route app_routes (rq_method q) (rq_path q) of
       Routed ep ps \<Rightarrow> answer_endpoint w now new_id y up ep ps q d
     | Wrong_method \<Rightarrow> (Method_not_allowed, d)
     | Redirect path \<Rightarrow> (Moved path, d)
     | Not_routed \<Rightarrow> (No_such_path, d))"

end
