(* ===== verification/Addresses.thy ===== *)
theory Addresses
  imports Endpoints
begin

text \<open>
  What reaches the services over HTTP and how to reach them. \<open>valid_call\<close> are the limits of a call,
  \<open>request_of\<close> the request a client sends for it: method and path from the table, the values in path,
  query and body. Every call that is decoded is within its limits, every request that is refused
  leaves the database alone, and the request of a call within its limits is answered as the call.
\<close>

section \<open>Limits of a call\<close>

fun valid_call :: "api_call \<Rightarrow> bool" where
  "valid_call (Create_request b key) = valid_request_create b"
| "valid_call (Create_from_chat b) = valid_from_chat b"
| "valid_call (Create_from_ticket b) = valid_from_ticket b"
| "valid_call (List_requests f cursor limit) =
     (valid_filters f \<and> (case limit of None \<Rightarrow> True | Some n \<Rightarrow> 1 \<le> n \<and> n \<le> 100))"
| "valid_call (Assign_request i b) = valid_assign b"
| "valid_call (Dispute_request i t) = text_in 1 max_message t"
| "valid_call (Confirm_settlement i b) = valid_settlement b"
| "valid_call (Cancel_request i t) = text_in 1 max_message t"
| "valid_call (Respond_as_partner i b) = valid_partner_response b"
| "valid_call (Add_estimate i b) = valid_estimate b"
| "valid_call (Add_message i b) = valid_message b"
| "valid_call (Create_channel b) = valid_channel_create b"
| "valid_call (Update_channel i b) = valid_channel_update b"
| "valid_call (Subscribe b) = valid_subscription b"
| "valid_call call = True"

lemma json_body_iff: "json_body f c k = Some call \<longleftrightarrow> (\<exists>j b. c = Value j \<and> f j = Some b \<and> call = k b)"
  by (auto simp: json_body_def split: content.splits)

lemma with_id_iff: "with_id y ps f = Some call \<longleftrightarrow> (\<exists>s i. ps = [s] \<and> pd_uuid y s = Some i \<and> f i = Some call)"
  by (auto simp: with_id_def bind_eq_Some_conv split: list.splits)

lemma limit_query_iff: "limit_query y q = Some limit \<Longrightarrow> case limit of None \<Rightarrow> True | Some n \<Rightarrow> 1 \<le> n \<and> n \<le> 100"
  by (auto simp: limit_query_def dest!: opt_bounded_sound split: option.splits)

lemma decode_call_sound: "decode_call y ep ps q c = Some call \<Longrightarrow> valid_call call"
  by (cases ep) (auto simp: json_body_iff with_id_iff bind_eq_Some_conv
      dest: decode_sound decode_sound_typed decode_sound_open decode_message_sound limit_query_iff)

section \<open>The request of a call\<close>

fun call_endpoint :: "api_call \<Rightarrow> endpoint" where
  "call_endpoint (Create_request b key) = Ep_create_request"
| "call_endpoint (Create_from_chat b) = Ep_create_from_chat"
| "call_endpoint (Create_from_ticket b) = Ep_create_from_ticket"
| "call_endpoint (List_requests f cursor limit) = Ep_list_requests"
| "call_endpoint (Get_request i) = Ep_get_request"
| "call_endpoint (Transition_request i t) = Ep_transition"
| "call_endpoint (Classify_request i) = Ep_classify"
| "call_endpoint (Assign_request i b) = Ep_assign"
| "call_endpoint (Dispatch_request i) = Ep_dispatch"
| "call_endpoint (Accept_request i) = Ep_accept"
| "call_endpoint (Dispute_request i t) = Ep_dispute"
| "call_endpoint (Confirm_settlement i b) = Ep_settlement"
| "call_endpoint (Cancel_request i t) = Ep_cancel"
| "call_endpoint (Reschedule_request i t) = Ep_reschedule"
| "call_endpoint (Respond_as_partner i b) = Ep_partner_response"
| "call_endpoint (Add_estimate i b) = Ep_estimate"
| "call_endpoint (Requester_context i) = Ep_requester_context"
| "call_endpoint (List_messages i) = Ep_list_messages"
| "call_endpoint (Add_message i b) = Ep_add_message"
| "call_endpoint (List_channels c) = Ep_list_channels"
| "call_endpoint (Create_channel b) = Ep_create_channel"
| "call_endpoint (Get_channel i) = Ep_get_channel"
| "call_endpoint (Update_channel i b) = Ep_update_channel"
| "call_endpoint (Subscribe b) = Ep_subscribe"
| "call_endpoint (Unsubscribe e) = Ep_unsubscribe"

fun call_ids :: "api_call \<Rightarrow> uuid list" where
  "call_ids (Get_request i) = [i]"
| "call_ids (Transition_request i t) = [i]"
| "call_ids (Classify_request i) = [i]"
| "call_ids (Assign_request i b) = [i]"
| "call_ids (Dispatch_request i) = [i]"
| "call_ids (Accept_request i) = [i]"
| "call_ids (Dispute_request i t) = [i]"
| "call_ids (Confirm_settlement i b) = [i]"
| "call_ids (Cancel_request i t) = [i]"
| "call_ids (Reschedule_request i t) = [i]"
| "call_ids (Respond_as_partner i b) = [i]"
| "call_ids (Add_estimate i b) = [i]"
| "call_ids (Requester_context i) = [i]"
| "call_ids (List_messages i) = [i]"
| "call_ids (Add_message i b) = [i]"
| "call_ids (Get_channel i) = [i]"
| "call_ids (Update_channel i b) = [i]"
| "call_ids call = []"

fun call_json :: "api_call \<Rightarrow> json option" where
  "call_json (Create_request b key) = Some (encode_request_create b)"
| "call_json (Create_from_chat b) = Some (encode_from_chat b)"
| "call_json (Create_from_ticket b) = Some (encode_from_ticket b)"
| "call_json (Transition_request i t) = Some (obj [(''target'', JStr (status_value t))])"
| "call_json (Assign_request i b) = Some (encode_assign b)"
| "call_json (Dispute_request i t) = Some (obj [(''reason'', JStr t)])"
| "call_json (Confirm_settlement i b) = Some (encode_settlement b)"
| "call_json (Cancel_request i t) = Some (obj [(''reason'', JStr t)])"
| "call_json (Reschedule_request i t) = Some (obj [(''scheduled_at'', JStr (isoformat t))])"
| "call_json (Respond_as_partner i b) = Some (encode_partner_response b)"
| "call_json (Add_estimate i b) = Some (encode_estimate b)"
| "call_json (Add_message i b) = Some (encode_message b)"
| "call_json (Create_channel b) = Some (encode_channel_create b)"
| "call_json (Update_channel i b) = Some (encode_channel_update b)"
| "call_json (Subscribe b) = Some (encode_subscription b)"
| "call_json call = None"

definition opt_pair :: "string \<Rightarrow> pystr option \<Rightarrow> (pystr \<times> pystr) list" where
  "opt_pair k x = (case x of None \<Rightarrow> [] | Some s \<Rightarrow> [(u k, s)])"

fun call_query :: "api_call \<Rightarrow> (pystr \<times> pystr) list" where
  "call_query (List_requests f cursor limit) =
     opt_pair ''status'' (map_option status_value (rf_status f))
     @ opt_pair ''category'' (map_option category_value (rf_category f))
     @ opt_pair ''partner_id'' (rf_partner_id f)
     @ opt_pair ''created_from'' (map_option iso_utc (rf_created_from f))
     @ opt_pair ''created_to'' (map_option iso_utc (rf_created_to f))
     @ opt_pair ''cursor'' cursor
     @ opt_pair ''limit'' (map_option (\<lambda>n. dec_str (int n)) limit)"
| "call_query (List_channels c) = opt_pair ''collaborator_id'' c"
| "call_query (Unsubscribe e) = opt_pair ''endpoint'' (Some e)"
| "call_query call = []"

text \<open>The values of a call that have a form the framework reads back: amounts in kopecks, plain times.\<close>

fun plain_call :: "api_call \<Rightarrow> bool" where
  "plain_call (Add_estimate i b) = (case ec_amount_rub b of None \<Rightarrow> True | Some q \<Rightarrow> kopecks q)"
| "plain_call (Reschedule_request i t) = plain_time t"
| "plain_call (List_requests f cursor limit) =
     ((case rf_created_from f of None \<Rightarrow> True | Some t \<Rightarrow> dt_valid (utc t))
      \<and> (case rf_created_to f of None \<Rightarrow> True | Some t \<Rightarrow> dt_valid (utc t)))"
| "plain_call call = True"

lemma pair_lookup:
  "map_of (rev (opt_pair k x @ q)) k' = (case map_of (rev q) k' of None \<Rightarrow> if k' = u k then x else None | Some v \<Rightarrow> Some v)"
  "map_of (rev (opt_pair k x)) k' = (if k' = u k then x else None)"
  by (auto simp: opt_pair_def map_add_def split: option.splits)

lemma case_self: "(case x of None \<Rightarrow> None | Some v \<Rightarrow> Some v) = x"
  by (cases x) simp_all

lemma list_lookup:
  fixes f cursor limit
  defines "q \<equiv> call_query (List_requests f cursor limit)"
  shows "map_of (rev q) (u ''status'') = map_option status_value (rf_status f)"
    "map_of (rev q) (u ''category'') = map_option category_value (rf_category f)"
    "map_of (rev q) (u ''partner_id'') = rf_partner_id f"
    "map_of (rev q) (u ''created_from'') = map_option iso_utc (rf_created_from f)"
    "map_of (rev q) (u ''created_to'') = map_option iso_utc (rf_created_to f)"
    "map_of (rev q) (u ''cursor'') = cursor"
    "map_of (rev q) (u ''limit'') = map_option (\<lambda>n. dec_str (int n)) limit"
  unfolding q_def by (simp_all add: pair_lookup case_self del: rev_append case_map_option)

lemma opt_query:
  "opt_field f (map_option JStr x) = (case x of None \<Rightarrow> Some None | Some s \<Rightarrow> map_option Some (f (JStr s)))"
  "opt_str hi (map_option JStr x) = (if opt_in hi x then Some x else None)"
  by (auto simp: opt_field_def opt_str_def opt_in_def str_field_def split: option.splits)

lemma decode_filters_of:
  assumes "pydantic_laws y" "valid_filters f" "plain_call (List_requests f cursor limit)"
  shows "decode_filters y (call_query (List_requests f cursor limit)) = Some f"
proof -
  have "query_instant y (JStr (iso_utc t)) = Some t" if "dt_valid (utc t)" for t
    using assms(1) that by (simp add: query_instant_def iso_utc_def plain_time_def utc_def dt_instant_def host_instant_def)
  then have "opt_field (query_instant y) (map_option JStr (map_option iso_utc z)) = Some z"
    if "case z of None \<Rightarrow> True | Some t \<Rightarrow> dt_valid (utc t)" for z
    using that by (cases z) (simp_all add: opt_field_def)
  moreover have "opt_field (enum_field status_of_value) (map_option JStr (map_option status_value z)) = Some z" for z
    by (cases z) (simp_all add: opt_field_def)
  moreover have "opt_field (enum_field category_of_value) (map_option JStr (map_option category_value z)) = Some z" for z
    by (cases z) (simp_all add: opt_field_def)
  ultimately show ?thesis
    using assms(2,3) by (simp add: decode_filters_def query_get_def list_lookup opt_query(2) valid_filters_def
        del: call_query.simps option.map_comp)
qed

lemma limit_query_of:
  assumes "pydantic_laws y" "case limit of None \<Rightarrow> True | Some n \<Rightarrow> 1 \<le> n \<and> n \<le> 100"
    "rq_query q = call_query (List_requests f cursor limit)"
  shows "limit_query y q = Some limit"
proof -
  have "query_get (rq_query q) ''limit'' = map_option JStr (map_option (\<lambda>n. dec_str (int n)) limit)"
    unfolding query_get_def assms(3) list_lookup(7) ..
  moreover have "bounded_by (Some 1) (Some 100) (pd_int y) (JStr (dec_str (int n))) = Some (int n)" if "limit = Some n" for n
    using reads_limit [OF assms(1), of "int n"] assms(2) that by (simp add: bounded_by_def)
  ultimately show ?thesis by (cases limit) (simp_all add: limit_query_def opt_field_def)
qed

fun call_key :: "api_call \<Rightarrow> pystr option" where
  "call_key (Create_request b key) = key"
| "call_key call = None"

definition route_of :: "endpoint \<Rightarrow> route" where
  "route_of ep = the (find (\<lambda>r. ro_endpoint r = ep) app_routes)"

definition request_of :: "api_call \<Rightarrow> pystr option \<Rightarrow> nat list \<Rightarrow> http_request" where
  "request_of call credentials body = \<lparr>rq_method = u (ro_method (route_of (call_endpoint call))),
     rq_path = path_text (fill (ro_path (route_of (call_endpoint call))) (map uuid_str (call_ids call))),
     rq_query = call_query call, rq_credentials = credentials, rq_idempotency_key = call_key call,
     rq_signature = None, rq_timestamp = None, rq_json = True, rq_body = body\<rparr>"

text \<open>The body is the JSON of the call, however it is written; a call without one has any body.\<close>

definition carries :: "world \<Rightarrow> nat list \<Rightarrow> api_call \<Rightarrow> bool" where
  "carries w body call \<longleftrightarrow> (case call_json call of None \<Rightarrow> True
     | Some j \<Rightarrow> body \<noteq> [] \<and> wr_loads (w_wire w) body = Some j)"

lemma uuid_segment: "slash_free (uuid_str i)" "uuid_str i \<noteq> []"
proof -
  have "c \<noteq> 47" if "c \<in> set (uuid_str i)" for c
    using set_uuid_str [OF that] set_hex_fixed [of c 32 "unat i"] by auto
  then show "slash_free (uuid_str i)" by (auto simp: slash_free_def)
  show "uuid_str i \<noteq> []" by (simp add: uuid_str_def Let_def)
qed

lemma route_of_call: "route_of (call_endpoint call) \<in> set app_routes
    \<and> ro_endpoint (route_of (call_endpoint call)) = call_endpoint call
    \<and> holes (ro_path (route_of (call_endpoint call))) = length (call_ids call)"
  by (cases call) (simp_all add: route_of_def app_routes_def include_router_def requests_router_def
      channels_router_def inbound_router_def push_router_def api_prefix_def route_def)

lemma find_route_call:
  "find_route app_routes (rq_method (request_of call credentials body)) (rq_path (request_of call credentials body))
   = Routed (call_endpoint call) (map uuid_str (call_ids call))"
proof -
  have "[] \<notin> set (map uuid_str (call_ids call))" by (metis (no_types, lifting) ex_map_conv uuid_segment(2))
  moreover have "list_all slash_free (map uuid_str (call_ids call))" by (simp add: list_all_iff uuid_segment)
  ultimately show ?thesis
    using route_of_call [of call] find_route_of [of "route_of (call_endpoint call)" "map uuid_str (call_ids call)"]
    by (simp add: request_of_def)
qed

lemma decode_call_of:
  assumes "pydantic_laws y" "valid_call call" "plain_call call" "\<forall>j. call_json call = Some j \<longrightarrow> c = Value j"
  shows "decode_call y (call_endpoint call) (map uuid_str (call_ids call)) (request_of call credentials body) c = Some call"
proof (cases call)
  case (List_requests f cursor limit)
  have q: "rq_query (request_of call credentials body) = call_query (List_requests f cursor limit)"
    by (simp add: request_of_def List_requests)
  have "decode_filters y (call_query (List_requests f cursor limit)) = Some f"
    using decode_filters_of [OF assms(1)] assms(2,3) unfolding List_requests by simp
  moreover have "limit_query y (request_of call credentials body) = Some limit"
    using limit_query_of [OF assms(1) _ q] assms(2) unfolding List_requests by simp
  moreover have "text_query (request_of call credentials body) ''cursor'' = cursor"
    unfolding text_query_def q list_lookup(6) ..
  ultimately show ?thesis by (simp add: List_requests q [unfolded List_requests] del: call_query.simps)
qed (use assms in \<open>simp_all add: json_body_def with_id_def decode_of decode_chat_of decode_subscription_of decode_estimate_of
      decode_message_of decode_reschedule_of decode_channel_of text_query_def request_of_def pair_lookup(2)\<close>)

section \<open>The answers\<close>

lemma content_of_call:
  "carries w body call \<Longrightarrow> call_json call = Some j \<Longrightarrow> content_of (w_wire w) (request_of call credentials body) = Value j"
  by (simp add: content_of_def carries_def request_of_def)

lemma takes_body_json: "takes_body (call_endpoint call) \<Longrightarrow> \<exists>j. call_json call = Some j"
  by (cases call) simp_all

lemma call_endpoint_api: "call_endpoint call \<notin> {Ep_healthz, Ep_readyz, Ep_metrics, Ep_inbound}"
  by (cases call) simp_all

lemma answer_endpoint_api:
  "ep \<notin> {Ep_healthz, Ep_readyz, Ep_metrics, Ep_inbound} \<Longrightarrow> answer_endpoint w now new_id y up ep ps q d =
     (let c = content_of (w_wire w) q in
      if takes_body ep \<and> c = Malformed then (Invalid, d)
      else case decode_call y ep ps q c of None \<Rightarrow> refuse w ep q d | Some call \<Rightarrow> answer_call w now new_id q call d)"
  unfolding answer_endpoint_def by (cases ep) simp_all

lemma serve_request_of:
  assumes "pydantic_laws y" "valid_call call" "plain_call call" "carries w body call"
  shows "serve_http w now new_id y up (request_of call credentials body) d =
    (case serve w now new_id credentials call d of (x, d') \<Rightarrow> (Reply x, d'))"
proof -
  let ?q = "request_of call credentials body" let ?c = "content_of (w_wire w) ?q"
  have c: "\<forall>j. call_json call = Some j \<longrightarrow> ?c = Value j"
    using content_of_call [OF assms(4)] by (intro allI impI)
  have ok: "\<not> (takes_body (call_endpoint call) \<and> ?c = Malformed)"
  proof
    assume m: "takes_body (call_endpoint call) \<and> ?c = Malformed"
    then obtain j where "call_json call = Some j" using takes_body_json by blast
    with c m show False by simp
  qed
  have "answer_endpoint w now new_id y up (call_endpoint call) (map uuid_str (call_ids call)) ?q d = answer_call w now new_id ?q call d"
    unfolding answer_endpoint_api [OF call_endpoint_api] Let_def decode_call_of [OF assms(1-3) c] if_not_P [OF ok] option.case ..
  moreover have "rq_credentials ?q = credentials" by (simp add: request_of_def)
  ultimately show ?thesis
    unfolding serve_http_def find_route_call routing.case answer_call_def by simp
qed

lemma refuse_frame: "snd (refuse w ep q d) = d"
  by (auto simp: refuse_def dependencies_def with_policy_def require_service_principal_def require_staff_admin_def
      run_endpoint_def open_session_def rollback_def guard_h_def lift_h_def bind_h_def ret_def problem_h_def raise_h_def
      split: sum.split prod.split)

end
