(* ===== verification/Gateway.thy ===== *)
theory Gateway
  imports Addresses Gates
begin

text \<open>
  The service as its clients see it: no two routes compete for a request, only calls within their
  limits reach a service, every such call has a request, and what the limits let through that the
  database does not hold.
\<close>

section \<open>Routing\<close>

lemma find_filter: "find P xs = (case filter P xs of [] \<Rightarrow> None | x # _ \<Rightarrow> Some x)"
  by (induction xs) simp_all

lemma mset_short: "mset xs = mset ys \<Longrightarrow> length ys \<le> 1 \<Longrightarrow> xs = ys"
  by (cases ys) (auto dest: mset_eq_length simp: length_Suc_conv)



section \<open>Only valid calls\<close>

text \<open>C13. Only valid calls reach a service: if a request changed the database then it was a message of a
  partner to the inbound route, or it was decoded to a call within the limits of its schema, and
  the answer and the new state are those of that call.
\<close>

theorem only_valid_calls:
  assumes "serve_http w now new_id y up q d = (a, d')" "d' \<noteq> d"
  shows "(\<exists>call x. valid_call call \<and> serve w now new_id (rq_credentials q) call d = (x, d') \<and> a = Reply x)
    \<or> (\<exists>token signature timestamp x. serve_inbound w now new_id token (rq_body q) signature timestamp d = (x, d')
        \<and> a = Inbound_reply x)"
proof -
  obtain ep ps where r: "find_route app_routes (rq_method q) (rq_path q) = Routed ep ps"
      "answer_endpoint w now new_id y up ep ps q d = (a, d')"
    using assms by (auto simp: serve_http_def split: routing.splits)
  show ?thesis
  proof (cases "ep \<in> {Ep_healthz, Ep_readyz, Ep_metrics, Ep_inbound}")
    case True
    then have "answer_inbound w now new_id ps q d = (a, d')" using r(2) assms(2) by (auto simp: answer_endpoint_def)
    moreover have "snd (run_endpoint (with_policy w (\<lambda>_. ret ())) d) = d"
      by (auto simp: with_policy_def run_endpoint_def open_session_def rollback_def lift_h_def bind_h_def ret_def
          raise_h_def split: sum.split)
    ultimately show ?thesis using assms(2)
      by (auto simp: answer_inbound_def split: list.splits option.splits prod.splits sum.splits)
  next
    case False
    let ?c = "content_of (w_wire w) q"
    have "refuse w ep q d \<noteq> (a, d')" using refuse_frame [of w ep q d] assms(2) by auto
    then obtain call where "decode_call y ep ps q ?c = Some call" "answer_call w now new_id q call d = (a, d')"
      using r(2) assms(2) by (auto simp: answer_endpoint_api [OF False] Let_def split: if_splits option.splits)
    then show ?thesis using decode_call_sound by (fastforce simp: answer_call_def split: prod.splits)
  qed
qed

section \<open>Every call has a request\<close>

text \<open>C14. Every call has a request: the request a client builds of a call within its limits, the ids in
  the path, the filters in the query, the rest in a JSON body, is routed, decoded and answered as
  that call, provided the framework reads its own forms of numbers, times and UUIDs.
\<close>

theorem calls_round_trip:
  assumes "pydantic_laws y" "valid_call call" "plain_call call" "carries w body call"
  shows "serve_http w now new_id y up (request_of call credentials body) d =
    (Reply (fst (serve w now new_id credentials call d)), snd (serve w now new_id credentials call d))"
  using serve_request_of [OF assms] by (simp add: case_prod_beta)

section \<open>Identifiers that do not fit\<close>

lemma unseen_long_key:
  "\<forall>r\<in>set (db_requests d). text_fits (sr_idempotency_key r) \<Longrightarrow> \<not> text_fits (Some k)
   \<Longrightarrow> get_by_idempotency_key k d = None"
  by (auto simp: get_by_idempotency_key_def find_None_iff)

lemma intake_too_long:
  assumes "\<forall>r\<in>set (db_requests d). text_fits (sr_idempotency_key r)"
    "ia_idempotency_key a = Some k" "\<not> text_fits (Some k)"
  shows "run_endpoint (intake e now new_id p a) d = (Inl column_error, d)"
proof -
  have "\<not> args_fit a" using assms(2,3) by (simp add: args_fit_def)
  then show ?thesis
    using unseen_long_key [OF assms(1,3)] assms(2)
    by (simp add: run_endpoint_def intake_long_run open_session_def rollback_def)
qed

text \<open>C16. A chat whose id has more than 250 characters has no request: the schema allows 255, the key it
  is stored under has five characters more than its column holds, and the service that sends it is
  answered with a 500, however often it tries.
\<close>

theorem long_session_id_fails:
  assumes "get_current_principal w credentials = Inr p" "p_kind p = K_SERVICE"
    "valid_from_chat b" "250 < length (fc_chat_session_id b)"
    "\<forall>r\<in>set (db_requests d). text_fits (sr_idempotency_key r)"
    "pydantic_laws y" "carries w body (Create_from_chat b)"
  shows "serve_http w now new_id y up (request_of (Create_from_chat b) credentials body) d = (Reply (Inl column_error), d)
    \<and> answer_status (Reply (Inl column_error)) = 500"
proof -
  have "\<not> text_fits (Some (u ''chat:'' @ fc_chat_session_id b))" using assms(4) by (simp add: text_fits_def)
  from intake_too_long [OF assms(5) _ this]
  have "run_endpoint (create_from_chat (w_env w) now new_id p b) d = (Inl column_error, d)"
    by (simp add: create_from_chat_def)
  then have "serve w now new_id credentials (Create_from_chat b) d = (Inl column_error, d)"
    using assms(1,2)
    by (auto simp: serve_def route_defs require_service_principal_def guard_h_def created_reply_def run_endpoint_def
        bind_h_def ret_def split: sum.splits prod.splits)
  then show ?thesis
    using serve_request_of [OF assms(6), of "Create_from_chat b"] assms(3,7) by (simp add: column_error_def http_status_def)
qed

section \<open>Instances\<close>

text \<open>A library that reads the plain forms.\<close>

definition demo_pydantic :: pydantic where
  "demo_pydantic = \<lparr>pd_int = (\<lambda>j. case j of JInt i \<Rightarrow> Some i | JStr s \<Rightarrow> Some (int (undec 0 s)) | _ \<Rightarrow> None),
     pd_bool = (\<lambda>j. case j of JBool b \<Rightarrow> Some b | _ \<Rightarrow> None),
     pd_decimal = (\<lambda>j. case j of JNum q \<Rightarrow> Some q | JInt i \<Rightarrow> Some (of_int i) | _ \<Rightarrow> None),
     pd_datetime = (\<lambda>j. case j of JStr s \<Rightarrow> fromisoformat s | _ \<Rightarrow> None),
     pd_uuid = uuid_parse\<rparr>"

lemma demo_pydantic_laws: "pydantic_laws demo_pydantic"
proof -
  have "int (undec 0 (dec_str n)) = n" if "1 \<le> n \<and> n \<le> 100" for n
    using that by (simp add: dec_str_def undec_dec_digits)
  moreover have "fromisoformat (isoformat t) = Some t" if "plain_time t" for t
    using that by (simp add: plain_time_def fromisoformat_isoformat)
  ultimately show ?thesis
    unfolding pydantic_laws_def demo_pydantic_def pydantic.simps json.case uuid_parse_str by blast
qed

text \<open>A world whose parser of JSON reads one body.\<close>

definition demo_reading :: "principal \<Rightarrow> api_call \<Rightarrow> world" where
  "demo_reading p call = (demo_world p)\<lparr>w_wire := demo_wire\<lparr>wr_loads := (\<lambda>_. call_json call)\<rparr>\<rparr>"

lemma demo_reading_carries: "carries (demo_reading p call) [1] call"
  by (simp add: carries_def demo_reading_def split: option.split)

lemma demo_reading_principal: "get_current_principal (demo_reading p call) (Some []) = Inr p"
  by (simp add: get_current_principal_def w_settings_def demo_reading_def demo_world_def u_def)

definition demo_form :: api_call where
  "demo_form = Create_request \<lparr>rc_raw_input = u ''fix it'', rc_requester_id = None, rc_booking_id = None,
     rc_premises_id = None, rc_source_ref = None\<rparr> None"

lemma calls_round_trip_witness:
  "answer_status (fst (serve_http (demo_reading demo_requester demo_form) 0 10 demo_pydantic (True, True)
     (request_of demo_form (Some []) [1]) empty_db)) = 201"
proof -
  have "valid_call demo_form" "plain_call demo_form" by (simp_all add: demo_form_def valid_request_create_def
    text_in_def opt_in_def max_raw_input_def)
  moreover have "http_status (fst (serve (demo_reading demo_requester demo_form) 0 10 (Some []) demo_form empty_db)) = 201"
    by code_simp
  ultimately show ?thesis
    using calls_round_trip [OF demo_pydantic_laws _ _ demo_reading_carries] by simp
qed

lemma only_valid_calls_witness:
  "\<exists>call x d'. valid_call call \<and> serve (demo_reading demo_requester demo_form) 0 10 (Some []) call empty_db = (x, d')
     \<and> d' \<noteq> empty_db"
proof -
  let ?w = "demo_reading demo_requester demo_form" and ?q = "request_of demo_form (Some []) [1]"
  obtain a d' where run: "serve_http ?w 0 10 demo_pydantic (True, True) ?q empty_db = (a, d')" by force
  have "db_requests (snd (serve_http ?w 0 10 demo_pydantic (True, True) ?q empty_db)) \<noteq> []" by code_simp
  then have ne: "d' \<noteq> empty_db" using run by (auto simp: empty_db_def)
  have "case a of Reply x \<Rightarrow> True | _ \<Rightarrow> False"
  proof -
    have "case fst (serve_http ?w 0 10 demo_pydantic (True, True) ?q empty_db) of Reply x \<Rightarrow> True | _ \<Rightarrow> False" by code_simp
    with run show ?thesis by simp
  qed
  then show ?thesis using only_valid_calls [OF run ne] ne by (auto simp: request_of_def)
qed

definition demo_service :: principal where
  "demo_service = demo_operator\<lparr>p_kind := K_SERVICE\<rparr>"

definition demo_long_chat :: from_chat_create where
  "demo_long_chat = \<lparr>fc_chat_session_id = replicate 251 97, fc_requester_id = u ''r'', fc_raw_input = u ''fix it'',
     fc_transcript = None, fc_booking_id = None, fc_premises_id = None\<rparr>"

lemma long_session_id_fails_witness:
  "snd (serve_http (demo_reading demo_service (Create_from_chat demo_long_chat)) 0 10 demo_pydantic (True, True)
     (request_of (Create_from_chat demo_long_chat) (Some []) [1]) empty_db) = empty_db"
proof -
  have "valid_from_chat demo_long_chat" "250 < length (fc_chat_session_id demo_long_chat)"
    by (simp_all add: demo_long_chat_def valid_from_chat_def text_in_def opt_in_def max_raw_input_def)
  moreover have "p_kind demo_service = K_SERVICE" by (simp add: demo_service_def)
  moreover have "\<forall>r\<in>set (db_requests empty_db). text_fits (sr_idempotency_key r)" by (simp add: empty_db_def)
  ultimately show ?thesis
    using long_session_id_fails [OF demo_reading_principal _ _ _ _ demo_pydantic_laws demo_reading_carries] by simp
qed

end
