(* ===== verification/Races.thy ===== *)
theory Races
  imports Gates
begin

text \<open>
  What happens between a lookup and the insert it guards. A second session may commit in between;
  the unique indexes decide then. \<open>intake_insert\<close> and \<open>apply_envelope\<close> are what is left of a call
  after its lookup found nothing, and are run here on the database the other session left.
\<close>

section \<open>A nonce taken meanwhile\<close>

lemma calm_flush_inbound [calm_intros]: "calm (flush_inbound c v)"
  by (simp add: calm_def flush_inbound_run)

lemma seen_before_flush:
  "triple (both (\<lambda>d. db_events d = es)) (case ev_status v of None \<Rightarrow> ret r
     | Some s \<Rightarrow> advance_partner_status e now channel_principal r s policy)
     (\<lambda>_. both (\<lambda>d. db_events d = es)) (\<lambda>_ _. True)"
proof (cases "ev_status v")
  case (Some s)
  show ?thesis unfolding Some option.case
    by (rule triple_weaken [OF events_frame.advances_partner_status [OF TrueI, where es = es, unfolded advances_def]]) auto
qed (simp add: triple_ret)

text \<open>The flush refuses: the nonce is taken, or the amount is beyond its column.\<close>

lemma refused_envelope:
  assumes "is_seen (pc_id c) (ev_nonce v) d \<or> \<not> amount_fits (ev_estimate_amount v)"
  shows "\<exists>x. run_endpoint (apply_envelope e now policy new_id c r v) d = (Inl x, d)"
proof -
  define E where "E = db_events d"
  let ?I = "both (\<lambda>d. db_events d = E)"
  have keep: "triple ?I (if b then mod_db (add_estimate x) else ret ()) (\<lambda>_. ?I) (\<lambda>_ _. True)"
    "triple ?I (case z of None \<Rightarrow> ret () | Some t \<Rightarrow> mod_db (add_message (m t))) (\<lambda>_. ?I) (\<lambda>_ _. True)" for b x z m
    by (cases b; cases z; auto simp: both_def frame_simps intro!: triple_mod triple_ret)+
  have stop: "triple ?I (bind_h (flush_inbound c v) f) (\<lambda>_ _. False) (\<lambda>_ _. True)" for f :: "unit \<Rightarrow> unit handler"
    using assms by (auto simp: triple_def bind_h_def flush_inbound_run both_def E_def is_seen_def)
  have "triple ?I (apply_envelope e now policy new_id c r v) (\<lambda>_ _. False) (\<lambda>_ _. True)"
    unfolding apply_envelope_def
    by (rule triple_bind [OF seen_before_flush], rule triple_bind [OF keep(1)], rule triple_bind [OF keep(2)], rule stop)
  moreover have "?I (open_session d)" by (simp add: both_def open_session_def E_def)
  ultimately obtain x s where run: "apply_envelope e now policy new_id c r v (open_session d) = (Inl x, s)"
    by (cases "apply_envelope e now policy new_id c r v (open_session d)"; cases "fst (apply_envelope e now policy new_id c r v (open_session d))")
      (auto simp: triple_def)
  have "atomic (apply_envelope e now policy new_id c r v)"
    unfolding apply_envelope_def by (intro calm_intros atomic_commit(1) atomic_bind [OF calm_steps(7)])
  with run show ?thesis by (auto simp: atomic_def run_endpoint_def open_session_def rollback_def)
qed

section \<open>Races\<close>

text \<open>C15. A race is decided like a sequence: an intake whose lookup ran before another session committed
  the same key ends as if it had come after it, with that session's request and nothing stored; a
  webhook whose nonce another delivery took after it was looked up is refused and leaves no trace,
  and so is one with an estimate its column cannot hold, which the envelope lets through.
\<close>

theorem races_are_decided:
  assumes "args_fit a"
  shows "run_endpoint (intake_insert e now new_id p a) d = run_endpoint (intake e now new_id p a) d
    \<and> (is_seen (pc_id c) (ev_nonce v) d \<or> \<not> amount_fits (ev_estimate_amount v) \<longrightarrow>
         (\<exists>x. run_endpoint (apply_envelope e now policy new_id c r v) d = (Inl x, d)))"
proof -
  have "run_endpoint (intake_insert e now new_id p a) d = run_endpoint (intake e now new_id p a) d"
  proof (cases "case ia_idempotency_key a of None \<Rightarrow> None | Some k \<Rightarrow> get_by_idempotency_key k d")
    case None
    then show ?thesis by (simp add: intake_def find_key_def bind_h_def get_db_def ret_def run_endpoint_def open_session_def)
  next
    case (Some x)
    then obtain k where k: "ia_idempotency_key a = Some k" "get_by_idempotency_key k d = Some x"
      by (auto split: option.splits)
    then show ?thesis
      using intake_lost_run [OF k assms] intake_found_run [OF k(1), of "open_session d" x e now new_id p]
      by (simp add: run_endpoint_def open_session_def)
  qed
  then show ?thesis using refused_envelope by blast
qed

definition demo_taken :: db where
  "demo_taken = (demo_db [(demo_request 10 1 S_NEW)\<lparr>sr_idempotency_key := Some (u ''k'')\<rparr>] [demo_channel 5 ''p1'' CT_API])
     \<lparr>db_events := [\<lparr>ie_channel_config_id = 5, ie_nonce = u ''n1'', ie_request_id = Some 10, ie_received_at = 0\<rparr>]\<rparr>"

definition demo_late_intake :: intake_args where
  "demo_late_intake = \<lparr>ia_requester_id = u ''r'', ia_raw_input = u ''fix it'', ia_channel_in = In_WEB_FORM,
     ia_source_ref = None, ia_booking_id = None, ia_premises_id = None, ia_idempotency_key = Some (u ''k'')\<rparr>"

definition demo_copy :: envelope where
  "demo_copy = \<lparr>ev_request_ref = uuid_str 10, ev_status = None, ev_nonce = u ''n1'', ev_message = Some (u ''late''),
     ev_estimate_amount = None, ev_estimate_note = None\<rparr>"

lemma races_are_decided_witness:
  "(\<exists>r. sr_id r = 10 \<and> run_endpoint (intake_insert demo_env 5 11 demo_operator demo_late_intake) demo_taken = (Inr (r, False), demo_taken))
   \<and> (\<exists>x. run_endpoint (apply_envelope demo_env 5 demo_policy 11 (demo_channel 5 ''p1'' CT_API) (demo_request 10 1 S_NEW) demo_copy)
        demo_taken = (Inl x, demo_taken))"
proof -
  have fit: "args_fit demo_late_intake" by (simp add: args_fit_def text_fits_def demo_late_intake_def)
  have seen: "is_seen (pc_id (demo_channel 5 ''p1'' CT_API)) (ev_nonce demo_copy) demo_taken"
    by (simp add: is_seen_def demo_taken_def demo_channel_def demo_copy_def)
  obtain r where "get_by_idempotency_key (u ''k'') demo_taken = Some r" "sr_id r = 10"
    by (simp add: get_by_idempotency_key_def demo_taken_def demo_db_def demo_request_def)
  then have "\<exists>r. sr_id r = 10 \<and> run_endpoint (intake demo_env 5 11 demo_operator demo_late_intake) demo_taken = (Inr (r, False), demo_taken)"
    using intake_found_run [of demo_late_intake "u ''k''" "open_session demo_taken" r demo_env 5 11 demo_operator]
    by (auto simp: run_endpoint_def open_session_def demo_late_intake_def)
  then show ?thesis
    using races_are_decided [OF fit, of demo_env 5 11 demo_operator demo_taken "demo_channel 5 ''p1'' CT_API" demo_copy
        demo_policy "demo_request 10 1 S_NEW"] seen by auto
qed

end
