(* ===== verification/Poison.thy ===== *)
theory Poison
  imports Gates
begin

text \<open>
  A message whose handling raises something the drain does not catch: the batch it is in is rolled
  back as a whole, the message keeps its place in the queue and is in every later batch too.
\<close>

section \<open>Batches grow with time\<close>

lemma sorted_split:
  "sorted (map f xs) \<Longrightarrow> xs = filter (\<lambda>x. f x \<le> t) xs @ filter (\<lambda>x. \<not> f x \<le> (t::'b::linorder)) xs"
proof (induction xs)
  case (Cons x xs)
  show ?case
  proof (cases "f x \<le> t")
    case False
    then have "\<forall>y\<in>set xs. \<not> f y \<le> t" using Cons.prems by auto
    then show ?thesis using False by simp
  qed (use Cons in simp)
qed simp

lemma next_batch_later:
  assumes "now \<le> now'"
  shows "\<exists>rest. sort_key om_available_at (filter (claimable kind now') xs)
    = sort_key om_available_at (filter (claimable kind now) xs) @ rest"
proof -
  let ?S = "sort_key om_available_at (filter (claimable kind now') xs)"
  have "filter (\<lambda>m. om_available_at m \<le> now) (filter (claimable kind now') xs) = filter (claimable kind now) xs"
    using assms by (auto simp: claimable_def intro!: filter_cong)
  then have "filter (\<lambda>m. om_available_at m \<le> now) ?S = sort_key om_available_at (filter (claimable kind now) xs)"
    by (simp only: filter_sort)
  then show ?thesis using sorted_split [of om_available_at ?S now] by (metis sorted_sort_key)
qed

lemma claimed_later:
  assumes "m \<in> set (take limit (sort_key om_available_at (filter (claimable kind now) (db_outbox d))))" "now \<le> now'"
  shows "\<exists>c\<in>set (fst (claim_batch kind now' limit visibility d)). om_payload c = om_payload m"
proof -
  have "m \<in> set (take limit (sort_key om_available_at (filter (claimable kind now') (db_outbox d))))"
    using assms(1) next_batch_later [OF assms(2), of kind "db_outbox d"] by auto
  then show ?thesis by (force simp: claim_batch_def Let_def claim_row_def)
qed

section \<open>A drain that raises\<close>

lemma for_h_raises:
  assumes "c \<in> set cs" "\<And>s. \<exists>x s'. f c s = (Inl x, s')"
  shows "\<exists>x s'. for_h cs f s = (Inl x, s')"
  using assms(1)
proof (induction cs arbitrary: s)
  case (Cons c' cs)
  show ?case
  proof (cases "fst (f c' s)")
    case (Inl x)
    then show ?thesis by (cases "f c' s") (simp add: bind_h_def)
  next
    case (Inr a)
    then have "c \<in> set cs" using Cons.prems assms(2) [of s] by (cases "c' = c") auto
    from Cons.IH [OF this, of "snd (f c' s)"] Inr show ?thesis by (cases "f c' s") (simp add: bind_h_def)
  qed
qed simp

lemma calm_for [calm_intros]: "(\<And>x. calm (f x)) \<Longrightarrow> calm (for_h xs f)"
  by (induction xs) (simp_all add: calm_intros)

lemma calm_push: "calm (push_all send owner xs)"
  by (induction xs) (auto intro!: calm_intros split: sum.split exn.split)

lemma calm_notification [calm_intros]: "calm (drain_one_notification e now ol resolve m)"
  unfolding drain_one_notification_def deliver_notification_def deliver_push_def
  by (intro calm_intros calm_push)

lemma drain_raises:
  assumes "c \<in> set (fst (claim_batch notification_kind now (st_outbox_batch_size (e_settings e))
      (st_outbox_visibility_timeout_seconds (e_settings e)) d))"
    "\<And>s. \<exists>x s'. drain_one_notification e now ol resolve c s = (Inl x, s')"
  shows "\<exists>x. run_endpoint (drain_notification_batch e now ol resolve) d = (Inl x, d)"
proof -
  let ?f = "drain_one_notification e now ol resolve"
  define batch where "batch = fst (claim_batch notification_kind now (st_outbox_batch_size (e_settings e))
      (st_outbox_visibility_timeout_seconds (e_settings e)) d)"
  define s where "s = (open_session d)\<lparr>se_working := snd (claim_batch notification_kind now (st_outbox_batch_size (e_settings e))
      (st_outbox_visibility_timeout_seconds (e_settings e)) d)\<rparr>"
  obtain x s' where run: "for_h batch ?f s = (Inl x, s')"
    using for_h_raises [of c batch ?f s] assms by (auto simp: batch_def)
  have "calm (for_h batch ?f)" by (intro calm_intros)
  then have "se_durable s' = d" using run by (auto simp: calm_def s_def open_session_def dest: spec [of _ s])
  moreover have "drain_notification_batch e now ol resolve (open_session d) = (Inl x, s')"
    using run by (simp add: drain_notification_batch_def claim_h_def bind_h_def get_db_def mod_db_def ret_def
        open_session_def batch_def s_def)
  ultimately show ?thesis by (simp add: run_endpoint_def rollback_def)
qed


definition demo_mailing :: env where
  "demo_mailing = demo_env\<lparr>e_settings := default_settings\<lparr>st_notify_smtp_host := u ''mail'',
     st_notify_email_from := u ''desk'', st_sms_ru_api_id := []\<rparr>\<rparr>"

definition demo_notices :: db where
  "demo_notices = enqueue 1 notification_kind
     [(u ''request_id'', JStr (uuid_str 10)), (u ''number'', JStr (u ''REQ-1'')), (u ''audience'', JStr (audience_value N_USER)),
      (u ''summary'', JStr (u ''done'')), (u ''requester_id'', JStr (u ''r''))] (enqueue 0 notification_kind [] empty_db)"


end
