(* ===== verification/Spec2Isabelle.thy ===== *)
theory Spec2Isabelle
  imports Schema Fixtures Yandex Imap Wiring Gates Pages Receipt Workers Gateway Races Poison
begin

text \<open>
  kb-partners takes service requests of tenants, classifies them, finds a partner, sends the request
  to the partner over one of his channels, follows his answers and settles the work. This library
  models the domain core of its backend (\<open>src/backend/src/api\<close>, \<open>src/backend/alembic\<close>); paths below
  are relative to the former.

  \<^bold>\<open>How the program works and where its parts are.\<close> Every way in ends in one function on the database:
  an HTTP request (\<open>serve_http\<close>, which finds the route, decodes the call and runs \<open>serve\<close> or, for a
  signed webhook of a partner, \<open>serve_inbound\<close>), a mail
  (\<open>poll_email_inbound\<close>), a worker (\<open>run_job\<close>) and the seeding script. \<open>Calls\<close> and \<open>System\<close> make
  them the steps of one relation, \<open>reachable\<close>: the states after any sequence of them, in any order,
  each in a world of its own choosing (settings, tokens, answers of neighbours and of the network).
  Every change of a status goes through \<open>apply_transition\<close>, which asks the diagram, writes the audit
  record and puts events and notifications into the outbox in the same transaction; workers empty
  the outbox later.

  \<^item> Vocabulary: \<open>Prelude\<close> (Python strings as lists of code points, JSON, bytes, dicts), \<open>Uuid\<close>,
    \<open>Datetime\<close> (the part of \<open>datetime\<close> in use), \<open>Pii\<close> (the part of \<open>re\<close> in use and
    \<open>observability/pii_mask.py\<close>), \<open>Errors\<close> (\<open>errors.py\<close>, exceptions as values of a sum), \<open>Enums\<close>
    (\<open>requests/enums.py\<close>), \<open>Config\<close> (\<open>config.py\<close>), \<open>Principal\<close> (\<open>auth/\<close>).
  \<^item> State: \<open>Store\<close> has one record per ORM class and the database \<open>db\<close> as one list per table, in the
    order of the inserts; \<open>Handler\<close> is the session: a state-and-exception monad over a durable and a
    working copy, in which a failure keeps the changes made before it until \<open>rollback\<close>, as SQLAlchemy
    does. \<open>Access\<close> holds visibility and queries (\<open>requests/access.py\<close>, \<open>requests/repository.py\<close>),
    \<open>Outbox\<close> the transactional outbox, \<open>Schema\<close> the tables of the models as data and the DDL of
    \<open>alembic/versions\<close>.
  \<^item> Lifecycle: \<open>Fsm\<close> (\<open>requests/fsm.py\<close>), \<open>Sla\<close> (\<open>sla/\<close>: business calendar, deadlines, pauses), \<open>Emit\<close>
    (\<open>webhooks/emitter.py\<close>, \<open>notifications/\<close>, \<open>agent/callback.py\<close>), \<open>Lifecycle\<close> (\<open>apply_transition\<close> and
    what surrounds it), \<open>Intake\<close>, \<open>Requests\<close>, \<open>Classification\<close>, \<open>Assignment\<close> (the services of
    \<open>requests/service.py\<close>), \<open>Pagination\<close>, \<open>Partner\<close> (\<open>requests/partner.py\<close>), \<open>Acceptance\<close>
    (\<open>requests/acceptance.py\<close>, \<open>requests/context.py\<close>), \<open>Classifier\<close> and \<open>Yandex\<close> (\<open>classifier/\<close>),
    \<open>Matching\<close> (\<open>matching/engine.py\<close>).
  \<^item> Partners: \<open>Dispatch\<close> (\<open>channels/dispatch.py\<close>), \<open>Adapters\<close> (\<open>channels/adapters\<close>,
    \<open>channels/resolver.py\<close>), \<open>Inbound\<close> (\<open>channels/inbound.py\<close>), \<open>Email_Inbound\<close> and \<open>Imap\<close>
    (\<open>channels/email_inbound.py\<close>), \<open>Channels\<close> (their administration), \<open>Timers\<close> and \<open>Automation\<close>
    (\<open>automation/\<close>).
  \<^item> Neighbours: \<open>Resilience\<close> (\<open>clients/base.py\<close>, breaker, retry, cache), \<open>Neighbours\<close> (one client per
    neighbour of \<open>clients/\<close>), \<open>Fixtures\<close> (test partners and their seeding), \<open>Delivery\<close> (webhooks, concierge,
    SMS, mail and push out of the outbox; \<open>push/\<close>), \<open>Retention\<close>, \<open>Router\<close> (one definition per route
    and per worker), \<open>Workers\<close> (\<open>tasks/actors.py\<close>), \<open>Observability\<close> (request ids, metrics, log lines),
    \<open>Wiring\<close> (mail sessions, metrics of the calls, Redis, readiness, choices made from the settings).

  \<^item> The door: \<open>Routes\<close> (the table of \<open>requests/router.py\<close>, \<open>channels/router.py\<close>,
    \<open>channels/inbound_router.py\<close> and \<open>push/router.py\<close> as \<open>main.py\<close> mounts it, and how a path is matched),
    \<open>Bodies\<close> (a decoder per schema of \<open>requests/schemas.py\<close>, \<open>channels/schemas.py\<close>, \<open>push/schemas.py\<close>),
    \<open>Body_Limits\<close> (the limits of the bodies and their JSON), \<open>Endpoints\<close> (a request from its bytes to
    its answer), \<open>Addresses\<close> (the request of a call).

  \<^bold>\<open>Conventions.\<close> Names are those of the source, with a suffix where HOL has the name. An operation
  takes the environment \<open>env\<close> (settings, regular expression tables of the runtime, time zone
  database), one \<open>now\<close>, the fresh id of the row it may insert and the subject. Exceptions are \<open>exn\<close>:
  \<open>ProblemException\<close> with its status, errors of neighbours, and the Python exceptions a branch can
  raise. Floats are rationals, times are microseconds since the epoch, a missing value is \<open>None\<close>. JSON
  the code passes on without a conversion keeps its JSON type.

  \<^bold>\<open>What is proved.\<close> Each theory has the lemmas of its component; the properties stand next to the
  definitions they are about, or in the theories that put the parts together:

  \<^item> \<open>Invariant\<close>: \<open>wf_db\<close> (ids, numbers and keys of idempotency unique, every status explained by its
    trail, the messages of the outbox numbered and of a kind a worker knows) and, with the Hoare rules of \<open>Handler\<close>, that every building
    block keeps it (\<open>keeps_intros\<close>).
  \<^item> \<open>Framing\<close>, \<open>Isolation\<close>, \<open>Calls\<close>: the locales \<open>frame_property\<close>, \<open>row_property\<close>, \<open>audit_property\<close>
    and \<open>history_property\<close>: what an operation may touch, proved once for every service and interpreted
    for other requests, other trails, the other tables and the growing history.
  \<^item> \<open>System\<close>: the trail explains every status, only delivered work is paid, the past is kept, calls are
    isolated. \<open>Gates\<close>: who may call what, invisibility, the type of every reply, atomicity of failed
    calls, and that an operator can drive a request along the diagram. \<open>Walk\<close>: a dispatch is the first
    success along the plan. \<open>Pages\<close>: the cursors enumerate the list. \<open>Upkeep\<close>: delivery, retention
    and intake over time. \<open>Workers\<close>: every kind of message has its actor. \<open>Gateway\<close>: routes do not
    compete, only calls within their limits reach a service, every such call has a request that is
    answered as the call. \<open>Races\<close>: what a lookup misses, the unique index decides. \<open>Poison\<close>: a
    message that raises blocks its queue.
  \<^item> \<open>Resilience\<close>: the locale \<open>read_cache\<close>, interpreted on the cache in memory and used by the clients
    of \<open>Neighbours\<close>; reachable states of the breaker; the retry loop against its specification.
  \<^item> \<open>Adapters\<close>: the locale \<open>http_channel\<close>, the contract of a channel that delivers over HTTP, interpreted
    on the five that do; \<open>Receipt\<close> joins it with the walk: a dispatch reported as done was taken.
    \<open>Classifier\<close>: the locale \<open>bounded_provider\<close>, interpreted on the configured language model.
    \<open>Upkeep\<close>: the locale \<open>drained_queue\<close>, interpreted on the queues of the deliveries.
  \<^item> \<open>Schema\<close>: running the migrations builds the tables the models declare, and undoing them restores
    what was there. \<open>Imap\<close>: the fetch as a function of the server's answers. \<open>Observability\<close>: the
    middleware leaves the answers alone.

  Some properties state what the code does where a reader would expect otherwise; they are marked as
  errors in their text (a cancelled request is still delivered, business hours the calendar refuses,
  encoded mails, a confidence that is not a number, an address with a line break, ids the schema
  allows and the column does not).

  \<^bold>\<open>Bounds and fuel.\<close> The walk over the days of the calendar is bounded as in the code
  (\<open>_MAX_DAYS\<close>, five years of days); the bound is shown to be enough for 261 business windows of work
  with one real weekday in the calendar. The retry loop ends after the attempts of its policy; the
  path through the revisions has the number of scripts as fuel, the reading of the list page by page
  a number of pages. The substitution of a pattern has a measure, the rest of the text; everything
  else is structural recursion. Integers of Python are unbounded in the
  source, so they are \<open>int\<close> or \<open>nat\<close>; UUIDs are 128-bit words and bytes 8-bit words.

  \<^bold>\<open>Parameters.\<close> What is not under \<open>src\<close> is an argument: the JWT library and the key endpoint, HTTP
  exchanges (a function from a request to an answer or an error), SMTP, the IMAP server and the
  parser of MIME, the time zone database, the tables of \<open>re\<close> and \<open>str.lower\<close> beyond ASCII, the parser
  of JSON and the conversions of the validation library (\<open>pydantic\<close>), hashes and HMAC, the ASGI
  application under the middleware.

  \<^bold>\<open>Not modelled.\<close> The front end (\<open>src/frontend\<close>, generated types and pages in another language);
  constructors and dependency providers that only store their arguments; protocol classes;
  the reading of the environment and the engine of the database; the pages the framework adds to the
  table of routes; row locks, sequence gaps, \<open>updated_at\<close> and foreign keys in the state, and the widths of
  columns other than those a new request and the estimate of a webhook fill (they are in \<open>Schema\<close> as
  declarations); the interleaving of two sessions inside one operation other than between a lookup and
  the insert it guards (\<open>Races\<close>): an operation is one step, and concurrency is the order of steps.
\<close>

end
